(* ===== verification/CM_Prelude.thy ===== *)
theory CM_Prelude
  imports Main "HOL-Library.Word"
begin

text \<open>
  Shared vocabulary of the development: the fixed-width integer types of the C++ sources, the
  faults a C++ statement can run into, \<open>std::find_if\<close> as a search that returns a position
  (\<open>None\<close> stands for \<open>end()\<close>), in-place modification of a vector element, zero-terminated
  character arrays, and the generic lemmas on them that the component theories use.
\<close>

section \<open>Collections of rules\<close>

named_theorems cm_defs \<open>definitions of the straight-line operations, for unfolding\<close>
named_theorems cm_frame \<open>state components that an operation leaves alone\<close>

section \<open>Types of the sources\<close>

type_synonym byte = "8 word"
type_synonym port = "16 word"
type_synonym process_index = "32 word"
type_synonym bytes = string
type_synonym path = string

text \<open>
  What a statement can do besides completing: dereference a null pointer, dereference the
  \<open>end()\<close> iterator, or throw one of the exceptions of maidsafe's common library.
\<close>

datatype common_error =
    invalid_parameter | invalid_string_size | uninitialised | invalid_signature | parsing_error

datatype fault = NullDereference | EndDereference | Exception common_error

text \<open>Sequencing of statements that can run into a fault.\<close>

definition and_then :: "fault + 'a \<Rightarrow> ('a \<Rightarrow> fault + 'b) \<Rightarrow> fault + 'b" where
  "and_then r f = (case r of Inl e \<Rightarrow> Inl e | Inr x \<Rightarrow> f x)"

lemma and_then_simps [simp]:
  "and_then (Inl e) f = Inl e"
  "and_then (Inr x) f = f x"
  by (simp_all add: and_then_def)

lemma and_then_Inr: "and_then r f = Inr y \<longleftrightarrow> (\<exists>x. r = Inr x \<and> f x = Inr y)"
  by (simp add: and_then_def split: sum.split)

section \<open>Searching and updating vectors\<close>

fun find_if :: "('a \<Rightarrow> bool) \<Rightarrow> 'a list \<Rightarrow> nat option" where
  "find_if P [] = None"
| "find_if P (x # xs) = (if P x then Some 0 else map_option Suc (find_if P xs))"

definition modify_at :: "nat \<Rightarrow> ('a \<Rightarrow> 'a) \<Rightarrow> 'a list \<Rightarrow> 'a list" where
  "modify_at i f xs = (if i < length xs then xs[i := f (xs ! i)] else xs)"

text \<open>\<open>std::string(const char*)\<close>: the characters up to the first NUL.\<close>

definition c_str :: "string \<Rightarrow> string" where
  "c_str s = takeWhile (\<lambda>c. c \<noteq> CHR 0x00) s"

text \<open>\<open>memcpy(dst, src, n)\<close> for the whole of \<open>src\<close>, into an array that is at least as long.\<close>

definition mem_copy :: "'a list \<Rightarrow> 'a list \<Rightarrow> 'a list" where
  "mem_copy dst src = src @ drop (length src) dst"

section \<open>Lemmas on them\<close>

lemma find_if_None: "find_if P xs = None \<longleftrightarrow> (\<forall>x \<in> set xs. \<not> P x)"
  by (induction xs) auto

lemma find_if_SomeD:
  "find_if P xs = Some i \<Longrightarrow> i < length xs \<and> P (xs ! i) \<and> (\<forall>j < i. \<not> P (xs ! j))"
proof (induction xs arbitrary: i)
  case (Cons x xs)
  then show ?case
    by (auto split: if_splits simp: less_Suc_eq_0_disj)
qed simp

lemma find_if_length: "find_if P xs = Some i \<Longrightarrow> i < length xs"
  by (simp add: find_if_SomeD)

lemma find_if_holds: "find_if P xs = Some i \<Longrightarrow> P (xs ! i)"
  by (simp add: find_if_SomeD)

lemma find_if_mem: "find_if P xs = Some i \<Longrightarrow> xs ! i \<in> set xs"
  by (simp add: find_if_length)

lemma find_if_ex: "x \<in> set xs \<Longrightarrow> P x \<Longrightarrow> \<exists>i. find_if P xs = Some i"
  using find_if_None [of P xs] by (cases "find_if P xs") auto

lemma find_if_append:
  "find_if P (xs @ ys) =
     (case find_if P xs of Some i \<Rightarrow> Some i
      | None \<Rightarrow> map_option (\<lambda>i. length xs + i) (find_if P ys))"
proof (induction xs)
  case Nil
  show ?case by (simp add: option.map_ident_strong)
next
  case (Cons x xs)
  then show ?case
    by (cases "find_if P xs"; cases "find_if P ys") simp_all
qed

lemma find_if_distinct:
  assumes "distinct (map f xs)" and "i < length xs"
  shows "find_if (\<lambda>x. f x = f (xs ! i)) xs = Some i"
  using assms
proof (induction xs arbitrary: i)
  case (Cons x xs)
  show ?case
  proof (cases i)
    case 0
    then show ?thesis by simp
  next
    case (Suc j)
    with Cons.prems have "f x \<noteq> f (xs ! j)" by auto
    with Suc Cons show ?thesis by simp
  qed
qed simp

lemma length_modify_at [simp]: "length (modify_at i f xs) = length xs"
  by (simp add: modify_at_def)

lemma nth_modify_at:
  "j < length xs \<Longrightarrow> modify_at i f xs ! j = (if i = j then f (xs ! j) else xs ! j)"
  by (auto simp: modify_at_def nth_list_update)

lemma map_modify_at [simp]: "(\<And>x. g (f x) = g x) \<Longrightarrow> map g (modify_at i f xs) = map g xs"
  by (rule nth_equalityI) (auto simp: nth_modify_at)

lemma in_set_modify_at:
  "y \<in> set (modify_at i f xs) \<Longrightarrow> y \<in> set xs \<or> (i < length xs \<and> y = f (xs ! i))"
  by (auto simp: modify_at_def dest: set_update_subset_insert [THEN subsetD] split: if_splits)

lemma find_if_modify_at [simp]:
  "(\<And>x. P (f x) = P x) \<Longrightarrow> find_if P (modify_at i f xs) = find_if P xs"
proof (induction xs arbitrary: i)
  case (Cons x xs)
  show ?case
  proof (cases i)
    case 0
    with Cons.prems show ?thesis by (simp add: modify_at_def)
  next
    case (Suc j)
    have "modify_at i f (x # xs) = x # modify_at j f xs"
      using Suc by (simp add: modify_at_def)
    with Cons show ?thesis by simp
  qed
qed (simp add: modify_at_def)

lemma c_str_no_nul: "CHR 0x00 \<notin> set s \<Longrightarrow> c_str s = s"
  by (auto simp: c_str_def takeWhile_eq_all_conv)

lemma c_str_append: "CHR 0x00 \<notin> set s \<Longrightarrow> c_str (s @ t) = s @ c_str t"
  unfolding c_str_def by (rule takeWhile_append2) auto

lemma c_str_append_nul: "CHR 0x00 \<notin> set s \<Longrightarrow> c_str (s @ CHR 0x00 # t) = s"
  by (simp add: c_str_append) (simp add: c_str_def)

lemma length_mem_copy [simp]:
  "length src \<le> length dst \<Longrightarrow> length (mem_copy dst src) = length dst"
  by (simp add: mem_copy_def)

end
