(* ===== verification/Messages.thy ===== *)
theory Messages
  imports CM_Prelude
begin

text \<open>
  The messages of \<open>controller_messages.proto\<close> and \<open>vault_info.proto\<close>, the enumeration
  \<open>MessageType\<close> of \<open>client_manager.h\<close>, and \<open>WrapMessage\<close> / \<open>UnwrapMessage\<close> of \<open>utils.cc\<close>.

  The classes that the protocol buffer compiler generates are not part of the repository: their
  \<open>SerializeAsString\<close> and \<open>ParseFromString\<close> are the parameter \<open>protobuf\<close>.  A record of a message
  holds what the accessors of the class return.  \<open>ParseFromString\<close> returns its success flag together
  with the content of the message object afterwards, because some callers go on after a failure.
\<close>

section \<open>Message types\<close>

datatype MessageType =
    kClientRegistrationRequest
  | kClientRegistrationResponse
  | kStartVaultRequest
  | kStartVaultResponse
  | kStopVaultRequest
  | kStopVaultResponse
  | kVaultIdentityRequest
  | kVaultIdentityResponse
  | kVaultJoinedNetwork
  | kVaultJoinedNetworkAck
  | kVaultJoinConfirmation
  | kVaultJoinConfirmationAck
  | kVaultShutdownRequest
  | kVaultShutdownResponse
  | kVaultShutdownResponseAck
  | kSendEndpointToClientManagerRequest
  | kSendEndpointToClientManagerResponse
  | kUpdateIntervalRequest
  | kUpdateIntervalResponse
  | kNewVersionAvailable
  | kNewVersionAvailableAck
  | kBootstrapRequest
  | kBootstrapResponse
  | UnnamedType int \<comment> \<open>a value of the underlying type that no enumerator has\<close>

definition enumerators :: "MessageType list" where
  "enumerators =
     [kClientRegistrationRequest, kClientRegistrationResponse, kStartVaultRequest,
      kStartVaultResponse, kStopVaultRequest, kStopVaultResponse, kVaultIdentityRequest,
      kVaultIdentityResponse, kVaultJoinedNetwork, kVaultJoinedNetworkAck,
      kVaultJoinConfirmation, kVaultJoinConfirmationAck, kVaultShutdownRequest,
      kVaultShutdownResponse, kVaultShutdownResponseAck, kSendEndpointToClientManagerRequest,
      kSendEndpointToClientManagerResponse, kUpdateIntervalRequest, kUpdateIntervalResponse,
      kNewVersionAvailable, kNewVersionAvailableAck, kBootstrapRequest, kBootstrapResponse]"

text \<open>\<open>static_cast<MessageType>(n)\<close> and \<open>static_cast<int>(type)\<close>; the first enumerator is 1.\<close>

definition MessageType_of_int :: "int \<Rightarrow> MessageType" where
  "MessageType_of_int n =
     (if 1 \<le> n \<and> n \<le> 23 then enumerators ! nat (n - 1) else UnnamedType n)"

fun int_of_MessageType :: "MessageType \<Rightarrow> int" where
  "int_of_MessageType (UnnamedType n) = n"
| "int_of_MessageType t =
     (case find_if (\<lambda>u. u = t) enumerators of Some i \<Rightarrow> int i + 1 | None \<Rightarrow> 0)"

definition is_enumerator :: "MessageType \<Rightarrow> bool" where
  "is_enumerator t \<longleftrightarrow> t \<in> set enumerators"

section \<open>Messages\<close>

record WrapperMessage =
  wm_type :: int
  wm_payload :: bytes
  wm_message_signature :: "bytes option"

record ClientRegistrationRequest =
  crq_listening_port :: "32 word"
  crq_version :: int

record ClientRegistrationResponse =
  crs_bootstrap_endpoint_ip :: "bytes list"
  crs_bootstrap_endpoint_port :: "32 word list"
  crs_path_to_new_installer :: "bytes option"

record StartVaultRequest =
  svq_account_name :: bytes
  svq_pmid :: bytes
  svq_token :: bytes
  svq_token_signature :: bytes
  svq_credential_change :: bool
  svq_client_port :: "32 word"
  svq_chunkstore_path :: "bytes option"
  svq_identity_index :: "int option"

record StartVaultResponse =
  svs_result :: bool

record VaultIdentityRequest =
  viq_process_index :: "32 word"
  viq_listening_port :: "32 word"
  viq_version :: int

record VaultIdentityResponse =
  vis_pmid :: bytes
  vis_chunkstore_path :: bytes
  vis_bootstrap_endpoint_ip :: "bytes list"
  vis_bootstrap_endpoint_port :: "32 word list"

record VaultJoinedNetwork =
  vjn_process_index :: "32 word"
  vjn_joined :: bool

record VaultJoinedNetworkAck =
  vja_ack :: bool

record VaultJoinConfirmation =
  vjc_identity :: bytes
  vjc_joined :: bool

record VaultJoinConfirmationAck =
  vjca_ack :: bool

record SendEndpointToClientManagerRequest =
  seq_bootstrap_endpoint_ip :: bytes
  seq_bootstrap_endpoint_port :: "32 word"

record SendEndpointToClientManagerResponse =
  ses_result :: bool

record StopVaultRequest =
  spq_data :: bytes
  spq_signature :: bytes
  spq_identity :: bytes

record StopVaultResponse =
  sps_result :: bool

record VaultShutdownRequest =
  vsq_process_index :: "32 word"
  vsq_data :: bytes
  vsq_signature :: bytes

text \<open>No code sends or reads the next two.\<close>

record VaultShutdownResponse =
  vss_shutdown :: bool
  vss_process_index :: "32 word"

record VaultShutdownResponseAck =
  vsa_ack :: bool

record UpdateIntervalRequest =
  uiq_new_update_interval :: "32 word option"

record UpdateIntervalResponse =
  uis_update_interval :: "32 word"

record NewVersionAvailable =
  nva_new_version_filepath :: bytes

record NewVersionAvailableAck =
  nvk_new_version_filepath :: bytes

record BootstrapRequest =
  btq_message_id :: "32 word"

record BootstrapResponse =
  bts_bootstrap_endpoint_ip :: "bytes list"
  bts_bootstrap_endpoint_port :: "32 word list"

record Endpoint =
  ep_ip :: bytes
  ep_port :: int

record Bootstrap =
  bootstrap_contacts :: "Endpoint list"

record VaultInfoPb =
  vip_pmid :: bytes
  vip_chunkstore_path :: bytes
  vip_requested_to_run :: bool
  vip_version :: int

text \<open>
  The code serialises configurations in which required fields are not set, so this record shows
  which of them are.
\<close>

record ClientManagerConfig =
  cfg_update_interval :: "32 word option"
  cfg_bootstrap_endpoints :: "Bootstrap option"
  cfg_vault_info :: "VaultInfoPb list"
  cfg_vault_permissions :: "bytes option"

definition empty_config :: ClientManagerConfig where
  "empty_config = \<lparr>cfg_update_interval = None, cfg_bootstrap_endpoints = None,
     cfg_vault_info = [], cfg_vault_permissions = None\<rparr>"

definition empty_bootstrap :: Bootstrap where
  "empty_bootstrap = \<lparr>bootstrap_contacts = []\<rparr>"

text \<open>\<open>IsInitialized\<close>: all required fields are set.\<close>

definition config_initialised :: "ClientManagerConfig \<Rightarrow> bool" where
  "config_initialised c \<longleftrightarrow> cfg_update_interval c \<noteq> None \<and> cfg_bootstrap_endpoints c \<noteq> None"

section \<open>The generated classes as a parameter\<close>

record 'm codec =
  SerializeAsString :: "'m \<Rightarrow> bytes"
  ParseFromString :: "bytes \<Rightarrow> bool \<times> 'm"

record protobuf =
  pb_Wrapper :: "WrapperMessage codec"
  pb_ClientRegistrationRequest :: "ClientRegistrationRequest codec"
  pb_ClientRegistrationResponse :: "ClientRegistrationResponse codec"
  pb_StartVaultRequest :: "StartVaultRequest codec"
  pb_StartVaultResponse :: "StartVaultResponse codec"
  pb_VaultIdentityRequest :: "VaultIdentityRequest codec"
  pb_VaultIdentityResponse :: "VaultIdentityResponse codec"
  pb_VaultJoinedNetwork :: "VaultJoinedNetwork codec"
  pb_VaultJoinedNetworkAck :: "VaultJoinedNetworkAck codec"
  pb_VaultJoinConfirmation :: "VaultJoinConfirmation codec"
  pb_VaultJoinConfirmationAck :: "VaultJoinConfirmationAck codec"
  pb_SendEndpointRequest :: "SendEndpointToClientManagerRequest codec"
  pb_SendEndpointResponse :: "SendEndpointToClientManagerResponse codec"
  pb_StopVaultRequest :: "StopVaultRequest codec"
  pb_StopVaultResponse :: "StopVaultResponse codec"
  pb_VaultShutdownRequest :: "VaultShutdownRequest codec"
  pb_UpdateIntervalRequest :: "UpdateIntervalRequest codec"
  pb_UpdateIntervalResponse :: "UpdateIntervalResponse codec"
  pb_NewVersionAvailable :: "NewVersionAvailable codec"
  pb_NewVersionAvailableAck :: "NewVersionAvailableAck codec"
  pb_BootstrapRequest :: "BootstrapRequest codec"
  pb_BootstrapResponse :: "BootstrapResponse codec"
  pb_Bootstrap :: "Bootstrap codec"
  pb_Config :: "ClientManagerConfig codec"

text \<open>
  What the protocol buffer documentation promises: a message parses from its serialisation, and the
  parse succeeds exactly when all required fields are set.
\<close>

definition codec_ok :: "'m codec \<Rightarrow> bool" where
  "codec_ok c \<longleftrightarrow> (\<forall>m. ParseFromString c (SerializeAsString c m) = (True, m))"

definition config_codec_ok :: "ClientManagerConfig codec \<Rightarrow> bool" where
  "config_codec_ok c \<longleftrightarrow>
     (\<forall>m. ParseFromString c (SerializeAsString c m) = (config_initialised m, m)
        \<and> (config_initialised m \<longrightarrow> SerializeAsString c m \<noteq> []))"

definition protobuf_ok :: "protobuf \<Rightarrow> bool" where
  "protobuf_ok pb \<longleftrightarrow>
     codec_ok (pb_Wrapper pb) \<and>
     codec_ok (pb_ClientRegistrationRequest pb) \<and>
     codec_ok (pb_ClientRegistrationResponse pb) \<and>
     codec_ok (pb_StartVaultRequest pb) \<and>
     codec_ok (pb_StartVaultResponse pb) \<and>
     codec_ok (pb_VaultIdentityRequest pb) \<and>
     codec_ok (pb_VaultIdentityResponse pb) \<and>
     codec_ok (pb_VaultJoinedNetwork pb) \<and>
     codec_ok (pb_VaultJoinedNetworkAck pb) \<and>
     codec_ok (pb_VaultJoinConfirmation pb) \<and>
     codec_ok (pb_VaultJoinConfirmationAck pb) \<and>
     codec_ok (pb_SendEndpointRequest pb) \<and>
     codec_ok (pb_SendEndpointResponse pb) \<and>
     codec_ok (pb_StopVaultRequest pb) \<and>
     codec_ok (pb_StopVaultResponse pb) \<and>
     codec_ok (pb_VaultShutdownRequest pb) \<and>
     codec_ok (pb_UpdateIntervalRequest pb) \<and>
     codec_ok (pb_UpdateIntervalResponse pb) \<and>
     codec_ok (pb_NewVersionAvailable pb) \<and>
     codec_ok (pb_NewVersionAvailableAck pb) \<and>
     codec_ok (pb_BootstrapRequest pb) \<and>
     codec_ok (pb_BootstrapResponse pb) \<and>
     codec_ok (pb_Bootstrap pb) \<and>
     config_codec_ok (pb_Config pb)"

section \<open>Wrapping\<close>

definition WrapMessage :: "protobuf \<Rightarrow> MessageType \<Rightarrow> bytes \<Rightarrow> bytes" where
  "WrapMessage pb message_type payload =
     SerializeAsString (pb_Wrapper pb)
       \<lparr>wm_type = int_of_MessageType message_type, wm_payload = payload,
        wm_message_signature = None\<rparr>"

text \<open>Success flag, message type and payload; the last two are reset on failure.\<close>

definition UnwrapMessage :: "protobuf \<Rightarrow> bytes \<Rightarrow> bool \<times> MessageType \<times> bytes" where
  "UnwrapMessage pb wrapped_message =
     (case ParseFromString (pb_Wrapper pb) wrapped_message of
        (True, wrapper) \<Rightarrow> (True, MessageType_of_int (wm_type wrapper), wm_payload wrapper)
      | (False, _) \<Rightarrow> (False, MessageType_of_int 0, []))"

section \<open>Lemmas\<close>

lemma codec_ok_parse [simp]:
  "codec_ok c \<Longrightarrow> ParseFromString c (SerializeAsString c m) = (True, m)"
  by (simp add: codec_ok_def)

lemma config_codec_ok_parse [simp]:
  "config_codec_ok c \<Longrightarrow> ParseFromString c (SerializeAsString c m) = (config_initialised m, m)"
  by (simp add: config_codec_ok_def)

lemma protobuf_okD [simp]:
  assumes "protobuf_ok pb"
  shows "codec_ok (pb_Wrapper pb)" "codec_ok (pb_ClientRegistrationRequest pb)"
    "codec_ok (pb_ClientRegistrationResponse pb)" "codec_ok (pb_StartVaultRequest pb)"
    "codec_ok (pb_StartVaultResponse pb)" "codec_ok (pb_VaultIdentityRequest pb)"
    "codec_ok (pb_VaultIdentityResponse pb)" "codec_ok (pb_VaultJoinedNetwork pb)"
    "codec_ok (pb_VaultJoinedNetworkAck pb)" "codec_ok (pb_VaultJoinConfirmation pb)"
    "codec_ok (pb_VaultJoinConfirmationAck pb)" "codec_ok (pb_SendEndpointRequest pb)"
    "codec_ok (pb_SendEndpointResponse pb)" "codec_ok (pb_StopVaultRequest pb)"
    "codec_ok (pb_StopVaultResponse pb)" "codec_ok (pb_VaultShutdownRequest pb)"
    "codec_ok (pb_UpdateIntervalRequest pb)" "codec_ok (pb_UpdateIntervalResponse pb)"
    "codec_ok (pb_NewVersionAvailable pb)" "codec_ok (pb_NewVersionAvailableAck pb)"
    "codec_ok (pb_BootstrapRequest pb)" "codec_ok (pb_BootstrapResponse pb)"
    "codec_ok (pb_Bootstrap pb)" "config_codec_ok (pb_Config pb)"
  using assms by (simp_all add: protobuf_ok_def)

lemma MessageType_of_int_inverse [simp]:
  "is_enumerator t \<Longrightarrow> MessageType_of_int (int_of_MessageType t) = t"
  by (cases t) (simp_all add: is_enumerator_def enumerators_def MessageType_of_int_def)

lemma int_of_enumerator: "i < 23 \<Longrightarrow> int_of_MessageType (enumerators ! i) = int i + 1"
proof -
  assume "i < 23"
  then have i: "i < length enumerators" by (simp add: enumerators_def)
  have "distinct (map (\<lambda>t. t) enumerators)" by (simp add: enumerators_def)
  then have "find_if (\<lambda>u. u = enumerators ! i) enumerators = Some i"
    using i by (rule find_if_distinct)
  moreover have "enumerators ! i \<noteq> UnnamedType n" for n
    using nth_mem [OF i] by (auto simp: enumerators_def)
  ultimately show ?thesis by (cases "enumerators ! i") auto
qed

lemma int_of_MessageType_inverse [simp]: "int_of_MessageType (MessageType_of_int n) = n"
proof (cases "1 \<le> n \<and> n \<le> 23")
  case True
  then have "nat (n - 1) < 23" by linarith
  with True show ?thesis by (simp add: MessageType_of_int_def int_of_enumerator)
qed (auto simp: MessageType_of_int_def)

lemma UnwrapMessage_WrapMessage [simp]:
  "protobuf_ok pb \<Longrightarrow> is_enumerator t \<Longrightarrow>
     UnwrapMessage pb (WrapMessage pb t payload) = (True, t, payload)"
  by (simp add: UnwrapMessage_def WrapMessage_def)

lemma is_enumerator_simps [simp]:
  "is_enumerator kClientRegistrationRequest" "is_enumerator kClientRegistrationResponse"
  "is_enumerator kStartVaultRequest" "is_enumerator kStartVaultResponse"
  "is_enumerator kStopVaultRequest" "is_enumerator kStopVaultResponse"
  "is_enumerator kVaultIdentityRequest" "is_enumerator kVaultIdentityResponse"
  "is_enumerator kVaultJoinedNetwork" "is_enumerator kVaultJoinedNetworkAck"
  "is_enumerator kVaultJoinConfirmation" "is_enumerator kVaultJoinConfirmationAck"
  "is_enumerator kVaultShutdownRequest" "is_enumerator kSendEndpointToClientManagerRequest"
  "is_enumerator kSendEndpointToClientManagerResponse" "is_enumerator kUpdateIntervalRequest"
  "is_enumerator kUpdateIntervalResponse" "is_enumerator kNewVersionAvailable"
  "is_enumerator kNewVersionAvailableAck" "is_enumerator kBootstrapRequest"
  "is_enumerator kBootstrapResponse"
  by (simp_all add: is_enumerator_def enumerators_def)

end
