(* ===== verification/Environment.thy ===== *)
theory Environment
  imports Messages
begin

text \<open>
  The code that the repository calls and does not contain, as one record of parameters.  The type
  variable \<open>'w\<close> is the state of the world outside the program (files, sockets, the random number
  generator, the download server), \<open>'p\<close> is the type \<open>passport::Pmid\<close>.  Nothing is assumed about the
  parameters here; the laws that a theorem needs are its hypotheses, written with the predicates of
  the second section.
\<close>

section \<open>Parameters\<close>

datatype peer_reply =
    Reply bytes \<comment> \<open>the message that arrives on the connection before the wait ends\<close>
  | SendFailed \<comment> \<open>the asynchronous write reports an error\<close>
  | NoReply \<comment> \<open>the wait times out\<close>

record ('w, 'p) env =
  pb :: protobuf
    \<comment> \<open>maidsafe/common: constants, versions, checked string types\<close>
  kLivePort :: port
  kInvalidVersion :: int
  kApplicationVersion :: string
  VersionToInt :: "string \<Rightarrow> int"
  valid_NonEmptyString :: "bytes \<Rightarrow> bool"
  valid_Identity :: "bytes \<Rightarrow> bool"
  RandomAlphaNumericString :: "nat \<Rightarrow> 'w \<Rightarrow> string \<times> 'w"
  RandomString :: "nat \<Rightarrow> 'w \<Rightarrow> string \<times> 'w"
  RandomUint32 :: "'w \<Rightarrow> 32 word \<times> 'w"
  GetAppInstallDir :: path
  GetSystemAppSupportDir :: path
    \<comment> \<open>maidsafe/passport and asymm\<close>
  pmid_name :: "'p \<Rightarrow> bytes"
  SerialisePmid :: "'p \<Rightarrow> bytes"
  ParsePmid :: "bytes \<Rightarrow> 'p option"
  CheckSignature :: "bytes \<Rightarrow> bytes \<Rightarrow> 'p \<Rightarrow> bool"
  Sign :: "bytes \<Rightarrow> 'p \<Rightarrow> bytes"
    \<comment> \<open>files: \<open>ReadFile\<close> / \<open>WriteFile\<close> of common, and boost::filesystem; a query returns its result
       and whether the error code is set\<close>
  ReadFile :: "path \<Rightarrow> 'w \<Rightarrow> bytes option"
  WriteFile :: "path \<Rightarrow> bytes \<Rightarrow> 'w \<Rightarrow> bool \<times> 'w"
  fs_exists :: "path \<Rightarrow> 'w \<Rightarrow> bool \<times> bool"
  fs_is_regular_file :: "path \<Rightarrow> 'w \<Rightarrow> bool \<times> bool"
  fs_is_symlink :: "path \<Rightarrow> 'w \<Rightarrow> bool \<times> bool"
  fs_create_directories :: "path \<Rightarrow> 'w \<Rightarrow> (bool \<times> bool) \<times> 'w"
  fs_rename :: "path \<Rightarrow> path \<Rightarrow> 'w \<Rightarrow> 'w"
  path_join :: "path \<Rightarrow> path \<Rightarrow> path"
  parent_path :: "path \<Rightarrow> path"
  path_stem :: "path \<Rightarrow> string"
  path_extension :: "path \<Rightarrow> string"
    \<comment> \<open>\<open>DownloadManager\<close> (its sources are not in the repository)\<close>
  GetBootstrapInfo :: "'w \<Rightarrow> bytes \<times> 'w"
  Update :: "'w \<Rightarrow> (int \<times> path list) \<times> 'w"
  latest_remote_version :: "'w \<Rightarrow> string"
  latest_local_version :: "'w \<Rightarrow> string"
    \<comment> \<open>TCP on the loopback interface; an operation returns whether its error code is set\<close>
  tcp_connect :: "port \<Rightarrow> 'w \<Rightarrow> bool \<times> 'w"
  tcp_open :: "'w \<Rightarrow> bool \<times> 'w"
  tcp_set_reuse :: "'w \<Rightarrow> bool \<times> 'w"
  tcp_bind :: "port \<Rightarrow> 'w \<Rightarrow> (bool \<times> port) \<times> 'w" \<comment> \<open>port 0: the system chooses the port\<close>
  tcp_listen :: "'w \<Rightarrow> bool \<times> 'w"
  await_reply :: "port \<Rightarrow> bytes \<Rightarrow> 'w \<Rightarrow> peer_reply \<times> 'w"
  address_from_string :: "string \<Rightarrow> string option" \<comment> \<open>\<open>None\<close>: the parse throws\<close>

section \<open>Laws that theorems refer to\<close>

text \<open>A pmid parses from its serialisation, which is not empty.\<close>

definition passport_ok :: "('w, 'p) env \<Rightarrow> bool" where
  "passport_ok env \<longleftrightarrow>
     (\<forall>p. ParsePmid env (SerialisePmid env p) = Some p
        \<and> valid_NonEmptyString env (SerialisePmid env p))"

text \<open>A file that was written successfully reads back; writing one file leaves the others alone.\<close>

definition files_ok :: "('w, 'p) env \<Rightarrow> bool" where
  "files_ok env \<longleftrightarrow>
     (\<forall>f c w w'. WriteFile env f c w = (True, w') \<longrightarrow>
        ReadFile env f w' = Some c \<and> (\<forall>g. g \<noteq> f \<longrightarrow> ReadFile env g w' = ReadFile env g w))"

text \<open>Connecting to a port changes no file.\<close>

definition network_ok :: "('w, 'p) env \<Rightarrow> bool" where
  "network_ok env \<longleftrightarrow> (\<forall>prt f w. ReadFile env f (snd (tcp_connect env prt w)) = ReadFile env f w)"

lemma passport_okD [simp]:
  "passport_ok env \<Longrightarrow> ParsePmid env (SerialisePmid env p) = Some p"
  "passport_ok env \<Longrightarrow> valid_NonEmptyString env (SerialisePmid env p)"
  by (simp_all add: passport_ok_def)

lemma files_okD:
  "files_ok env \<Longrightarrow> WriteFile env f c w = (True, w') \<Longrightarrow> ReadFile env f w' = Some c"
  by (simp add: files_ok_def)

end
