(* ===== verification/Vmid.thy ===== *)
theory Vmid
  imports CM_Prelude
begin

text \<open>
  The \<open>--vmid\<close> argument of the vault executable (\<open>utils.cc\<close>): \<open>GenerateVmidParameter\<close> prints
  the process index and the client manager's port, \<open>ParseVmidParameter\<close> reads them back in the
  vault.  The parts of the C++ standard library they use (\<open>std::to_string\<close>, \<open>std::stoul\<close>,
  \<open>std::stoi\<close>, with their exceptions) are modelled here; \<open>unsigned long\<close> has 64 bits and \<open>int\<close>
  has 32.
\<close>

section \<open>Numbers and strings in the standard library\<close>

definition digit_char :: "nat \<Rightarrow> char" where
  "digit_char d = char_of (48 + d)"

fun to_string :: "nat \<Rightarrow> string" where
  "to_string n =
     (if n < 10 then [digit_char n] else to_string (n div 10) @ [digit_char (n mod 10)])"

declare to_string.simps [simp del]

definition isspace :: "char \<Rightarrow> bool" where
  "isspace c \<longleftrightarrow> c = CHR '' '' \<or> (9 \<le> (of_char c :: nat) \<and> (of_char c :: nat) \<le> 13)"

definition isdigit :: "char \<Rightarrow> bool" where
  "isdigit c \<longleftrightarrow> 48 \<le> (of_char c :: nat) \<and> (of_char c :: nat) \<le> 57"

definition decimal_value :: "string \<Rightarrow> nat" where
  "decimal_value s = foldl (\<lambda>a c. 10 * a + (of_char c - 48)) 0 s"

text \<open>
  The common part of \<open>strtoul\<close> and \<open>strtol\<close> in base 10: skip white space, read an optional sign
  and the longest run of digits; \<open>None\<close> if there is no digit.  Whatever follows the digits is
  ignored.
\<close>

definition strto :: "string \<Rightarrow> (bool \<times> nat) option" where
  "strto s =
     (let t = dropWhile isspace s;
          neg = (t \<noteq> [] \<and> hd t = CHR ''-'');
          u = (if t \<noteq> [] \<and> (hd t = CHR ''-'' \<or> hd t = CHR ''+'') then tl t else t);
          ds = takeWhile isdigit u
      in if ds = [] then None else Some (neg, decimal_value ds))"

text \<open>Both exceptions derive from \<open>std::logic_error\<close>.\<close>

datatype logic_error = invalid_argument | out_of_range

definition stoul :: "string \<Rightarrow> logic_error + 64 word" where
  "stoul s =
     (case strto s of
        None \<Rightarrow> Inl invalid_argument
      | Some (neg, v) \<Rightarrow>
          if 2 ^ 64 \<le> v then Inl out_of_range
          else Inr (if neg then - of_nat v else of_nat v))"

definition stoi :: "string \<Rightarrow> logic_error + int" where
  "stoi s =
     (case strto s of
        None \<Rightarrow> Inl invalid_argument
      | Some (neg, v) \<Rightarrow>
          let r = (if neg then - int v else int v)
          in if r < - (2 ^ 31) \<or> 2 ^ 31 \<le> r then Inl out_of_range else Inr r)"

section \<open>The functions of utils.cc\<close>

definition kSeparator :: char where
  "kSeparator = CHR ''_''"

definition GenerateVmidParameter :: "process_index \<Rightarrow> port \<Rightarrow> string" where
  "GenerateVmidParameter index client_manager_port =
     to_string (unat index) @ [kSeparator] @ to_string (unat client_manager_port)"

text \<open>
  \<open>ParseVmidParameter\<close> throws \<open>invalid_parameter\<close> or returns; in both cases its two reference
  parameters are written, and the scope guard \<open>strong_guarantee\<close> resets them to 0 when it throws.
  The result is the error, if any, with the final values of the two references.  The port range
  test of the release build only writes a log line, so it does not appear.
\<close>

definition ParseVmidParameter ::
  "string \<Rightarrow> common_error option \<times> process_index \<times> port" where
  "ParseVmidParameter identifier =
     (let failed = (Some invalid_parameter, 0, 0)
      in case find_if (\<lambda>c. c = kSeparator) identifier of
           None \<Rightarrow> failed
         | Some separator_position \<Rightarrow>
             (case stoul (take separator_position identifier) of
                Inl _ \<Rightarrow> failed
              | Inr index \<Rightarrow>
                  (case stoi (drop (separator_position + 1) identifier) of
                     Inl _ \<Rightarrow> failed
                   | Inr p \<Rightarrow>
                       let process_index = ucast index; client_manager_port = word_of_int p
                       in if process_index = 0 then failed
                          else (None, process_index, client_manager_port))))"

section \<open>Printing and reading decimal numbers\<close>

lemma of_char_digit_char [simp]: "d < 10 \<Longrightarrow> of_char (digit_char d) = 48 + d"
  by (simp add: digit_char_def)

lemma to_string_nonempty [simp]: "to_string n \<noteq> []"
  by (subst to_string.simps) simp

lemma isdigit_to_string: "c \<in> set (to_string n) \<Longrightarrow> isdigit c"
proof (induction n rule: to_string.induct)
  case (1 n)
  show ?case
  proof (cases "n < 10")
    case True
    with "1.prems" show ?thesis by (simp add: to_string.simps [of n] isdigit_def)
  next
    case False
    with "1" show ?thesis by (auto simp: to_string.simps [of n] isdigit_def)
  qed
qed

lemma decimal_value_to_string [simp]: "decimal_value (to_string n) = n"
proof (induction n rule: to_string.induct)
  case (1 n)
  then show ?case
    by (cases "n < 10") (simp_all add: to_string.simps [of n] decimal_value_def)
qed

lemma isdigit_not_space: "isdigit c \<Longrightarrow> \<not> isspace c"
  by (auto simp: isdigit_def isspace_def)

lemma isdigit_not_sign: "isdigit c \<Longrightarrow> c \<noteq> CHR ''-'' \<and> c \<noteq> CHR ''+'' \<and> c \<noteq> kSeparator"
  by (auto simp: isdigit_def kSeparator_def)

lemma strto_to_string [simp]: "strto (to_string n) = Some (False, n)"
proof -
  have hd_digit: "isdigit (hd (to_string n))"
    by (rule isdigit_to_string [of _ n]) simp
  then have "dropWhile isspace (to_string n) = to_string n"
    by (cases "to_string n") (auto dest: isdigit_not_space)
  moreover have tw: "takeWhile isdigit (to_string n) = to_string n"
    by (auto dest: isdigit_to_string)
  ultimately show ?thesis
    using isdigit_not_sign [OF hd_digit] by (simp add: strto_def Let_def tw)
qed

lemma stoul_to_string: "n < 2 ^ 64 \<Longrightarrow> stoul (to_string n) = Inr (of_nat n)"
  by (simp add: stoul_def)

lemma stoi_to_string: "n < 2 ^ 31 \<Longrightarrow> stoi (to_string n) = Inr (int n)"
proof -
  assume "n < 2 ^ 31"
  then have "int n < 2 ^ 31" by simp
  then show ?thesis by (simp add: stoi_def)
qed

lemma find_separator:
  "find_if (\<lambda>c. c = kSeparator) (to_string n @ kSeparator # s) = Some (length (to_string n))"
proof -
  have "find_if (\<lambda>c. c = kSeparator) (to_string n) = None"
    by (auto simp: find_if_None dest!: isdigit_to_string isdigit_not_sign)
  then show ?thesis by (simp add: find_if_append)
qed

lemma ucast_64_32 [simp]: "ucast (ucast (x :: 32 word) :: 64 word) = x"
  by (rule ucast_up_ucast_id) (simp add: is_up)

lemma vmid_roundtrip:
  assumes "index \<noteq> 0"
  shows "ParseVmidParameter (GenerateVmidParameter index p) = (None, index, p)"
proof -
  have "unat index < 2 ^ 64"
    using unsigned_less [of index, where ?'a = nat] by simp
  moreover have "unat p < 2 ^ 31"
    using unsigned_less [of p, where ?'a = nat] by simp
  ultimately show ?thesis
    using assms
    by (simp add: ParseVmidParameter_def GenerateVmidParameter_def find_separator
        stoul_to_string stoi_to_string)
qed

section \<open>Properties\<close>

text \<open>
  C24: the vault reads back from its \<open>--vmid\<close> argument exactly the process index and the port that
  the process manager printed there, for every non-zero index and every port.
\<close>

theorem ParseVmid_GenerateVmid:
  "index \<noteq> 0 \<Longrightarrow> ParseVmidParameter (GenerateVmidParameter index p) = (None, index, p)"
  by (rule vmid_roundtrip)

theorem ParseVmid_GenerateVmid_witness:
  "(7 :: process_index) \<noteq> 0 \<and>
   ParseVmidParameter (GenerateVmidParameter 7 5483) = (None, 7, 5483)"
  using ParseVmid_GenerateVmid [of 7 5483] by simp

text \<open>
  The strong guarantee of \<open>ParseVmidParameter\<close>: either it succeeds with a non-zero index, or it
  throws \<open>invalid_parameter\<close> and both reference parameters are 0.
\<close>

theorem ParseVmid_strong_guarantee:
  "(\<exists>index p. ParseVmidParameter s = (None, index, p) \<and> index \<noteq> 0) \<or>
   ParseVmidParameter s = (Some invalid_parameter, 0, 0)"
  by (simp add: ParseVmidParameter_def Let_def split: option.split sum.split)

end
