(* ===== verification/Process_Manager.thy ===== *)
theory Process_Manager
  imports Environment Vmid
begin

text \<open>
  \<open>process_manager.h\<close> and \<open>process_manager.cc\<close>: the table of child processes.  The operations here
  are the ones that run inside the critical section of \<open>mutex_\<close>; the threads that \<open>StartProcess\<close>
  creates (\<open>RunProcess\<close>) and the destructor, whose interleavings matter, are in the theory
  \<open>Process_Threads\<close>.  A \<open>boost::thread\<close> handle is \<open>None\<close> when it is not joinable and otherwise the
  identity of the thread.  The record carries, beside the members of the class, the live
  activations of \<open>RunProcess\<close>, the children that were launched and the process ids that were sent
  a kill signal.
\<close>

section \<open>Process\<close>

record Process =
  args :: "string list"
  name :: string

definition new_Process :: Process where
  "new_Process = \<lparr>args = [], name = []\<rparr>"

definition AddArgument :: "string \<Rightarrow> Process \<Rightarrow> Process" where
  "AddArgument argument p = p\<lparr>args := args p @ [argument]\<rparr>"

text \<open>Each query of the file system returns its answer and whether the error code is set.\<close>

definition SetExecutablePath ::
  "('w, 'p) env \<Rightarrow> path \<Rightarrow> 'w \<Rightarrow> Process \<Rightarrow> bool \<times> Process" where
  "SetExecutablePath env executable_path w p =
     (let (exists, ec) = fs_exists env executable_path w
      in if \<not> exists \<or> ec then (False, p)
         else let (regular, ec) = fs_is_regular_file env executable_path w
           in if \<not> regular \<or> ec then (False, p)
              else let (symlink, ec) = fs_is_symlink env executable_path w
                in if symlink \<or> ec then (False, p)
                   else (True, AddArgument executable_path (p\<lparr>name := executable_path\<rparr>)))"

section \<open>State\<close>

datatype ProcessStatus = kRunning | kStopped | kCrashed | kError

record ProcessInfo =
  process :: Process
  thread :: "nat option"
  index :: process_index
  info_port :: port
  restart_count :: int
  is_done :: bool
  status :: ProcessStatus
  child :: int

definition new_ProcessInfo :: ProcessInfo where
  "new_ProcessInfo = \<lparr>process = new_Process, thread = None, index = 0, info_port = 0,
     restart_count = 0, is_done = False, status = kStopped, child = 0\<rparr>"

text \<open>
  Where an activation of \<open>RunProcess\<close> stands between two atomic steps; the flag is its parameter
  \<open>logging\<close>.
\<close>

datatype run_pc =
    Entered bool bool \<comment> \<open>called with \<open>restart\<close> and \<open>logging\<close>\<close>
  | Launching string "string list" bool \<comment> \<open>name and arguments copied\<close>
  | Executing string "string list" bool \<comment> \<open>status set to running\<close>
  | Waiting bool \<comment> \<open>in \<open>wait_for_exit\<close>\<close>
  | Exited bool \<comment> \<open>the child has exited\<close>
  | Deciding bool \<comment> \<open>status set to stopped\<close>

record activation =
  act_thread :: nat
  act_index :: process_index
  act_pc :: run_pc

record ProcessManager =
  processes :: "ProcessInfo list"
  current_max_id :: process_index
  activations :: "activation list"
  next_thread :: nat
  terminating :: "nat option" \<comment> \<open>\<open>TerminateAll\<close> holds \<open>mutex_\<close> and is at this position\<close>
  executed :: "(process_index \<times> string \<times> string list) list"
  killed :: "int list"

definition new_ProcessManager :: ProcessManager where
  "new_ProcessManager = \<lparr>processes = [], current_max_id = 0, activations = [], next_thread = 0,
     terminating = None, executed = [], killed = []\<rparr>"

definition kInvalidIndex :: process_index where
  "kInvalidIndex = - 1"

section \<open>Operations\<close>

definition AddProcess :: "Process \<Rightarrow> port \<Rightarrow> ProcessManager \<Rightarrow> process_index \<times> ProcessManager" where
  "AddProcess p prt pm =
     (if name p = [] then (kInvalidIndex, pm)
      else
        let i = current_max_id pm + 1;
            p' = AddArgument (GenerateVmidParameter i prt) (AddArgument ''--vmid'' p);
            info = new_ProcessInfo\<lparr>index := i, is_done := False, status := kStopped,
                     restart_count := 0, info_port := prt, process := p'\<rparr>
        in (i, pm\<lparr>current_max_id := i, processes := processes pm @ [info]\<rparr>))"

definition NumberOfProcesses :: "ProcessManager \<Rightarrow> nat" where
  "NumberOfProcesses pm = length (processes pm)"

definition NumberOfLiveProcesses :: "ProcessManager \<Rightarrow> nat" where
  "NumberOfLiveProcesses pm =
     length (filter (\<lambda>info. \<not> is_done info \<and> thread info \<noteq> None) (processes pm))"

definition NumberOfSleepingProcesses :: "ProcessManager \<Rightarrow> nat" where
  "NumberOfSleepingProcesses pm = length (filter (\<lambda>info. \<not> is_done info) (processes pm))"

definition FindProcess :: "process_index \<Rightarrow> ProcessManager \<Rightarrow> nat option" where
  "FindProcess i pm = find_if (\<lambda>info. index info = i) (processes pm)"

text \<open>\<open>(*itr).field = value\<close> for the entry that \<open>FindProcess\<close> returns; nothing at \<open>end()\<close>.\<close>

definition at_process ::
  "process_index \<Rightarrow> (ProcessInfo \<Rightarrow> ProcessInfo) \<Rightarrow> ProcessManager \<Rightarrow> ProcessManager" where
  "at_process i f pm =
     (case FindProcess i pm of
        None \<Rightarrow> pm
      | Some itr \<Rightarrow> pm\<lparr>processes := modify_at itr f (processes pm)\<rparr>)"

definition StartProcess :: "process_index \<Rightarrow> ProcessManager \<Rightarrow> ProcessManager" where
  "StartProcess i pm =
     (case FindProcess i pm of
        None \<Rightarrow> pm
      | Some itr \<Rightarrow>
          let t = next_thread pm
          in pm\<lparr>processes := modify_at itr
                  (\<lambda>info. info\<lparr>is_done := False, restart_count := 0, thread := Some t\<rparr>)
                  (processes pm),
                next_thread := t + 1,
                activations := activations pm @
                  [\<lparr>act_thread = t, act_index = i, act_pc = Entered False False\<rparr>]\<rparr>)"

definition LetProcessDie :: "process_index \<Rightarrow> ProcessManager \<Rightarrow> ProcessManager" where
  "LetProcessDie i pm = at_process i (\<lambda>info. info\<lparr>is_done := True\<rparr>) pm"

definition LetAllProcessesDie :: "ProcessManager \<Rightarrow> ProcessManager" where
  "LetAllProcessesDie pm = pm\<lparr>processes := map (\<lambda>info. info\<lparr>is_done := True\<rparr>) (processes pm)\<rparr>"

text \<open>\<open>bp::terminate\<close> sends the kill signal to the process id stored in \<open>child\<close>.\<close>

definition KillProcess :: "process_index \<Rightarrow> ProcessManager \<Rightarrow> ProcessManager" where
  "KillProcess i pm =
     (case FindProcess i pm of
        None \<Rightarrow> pm
      | Some itr \<Rightarrow>
          pm\<lparr>processes := modify_at itr (\<lambda>info. info\<lparr>is_done := True\<rparr>) (processes pm),
             killed := killed pm @ [child (processes pm ! itr)]\<rparr>)"

definition StopProcess :: "process_index \<Rightarrow> ProcessManager \<Rightarrow> ProcessManager" where
  "StopProcess i pm = at_process i (\<lambda>info. info\<lparr>is_done := True\<rparr>) pm"

definition RestartProcess :: "process_index \<Rightarrow> ProcessManager \<Rightarrow> ProcessManager" where
  "RestartProcess i pm = at_process i (\<lambda>info. info\<lparr>is_done := False\<rparr>) pm"

definition GetProcessStatus :: "process_index \<Rightarrow> ProcessManager \<Rightarrow> ProcessStatus" where
  "GetProcessStatus i pm =
     (case FindProcess i pm of None \<Rightarrow> kError | Some itr \<Rightarrow> status (processes pm ! itr))"

definition SetProcessStatus ::
  "process_index \<Rightarrow> ProcessStatus \<Rightarrow> ProcessManager \<Rightarrow> bool \<times> ProcessManager" where
  "SetProcessStatus i st pm =
     (FindProcess i pm \<noteq> None, at_process i (\<lambda>info. info\<lparr>status := st\<rparr>) pm)"

text \<open>
  \<open>WaitForProcessToStop\<close> releases \<open>mutex_\<close> for up to five seconds; \<open>during\<close> is what the other
  threads do to the process manager in that time.  It kills the process when the status is still
  running at the end.
\<close>

definition WaitForProcessToStop ::
  "(ProcessManager \<Rightarrow> ProcessManager) \<Rightarrow> process_index \<Rightarrow> ProcessManager \<Rightarrow> bool \<times> ProcessManager"
where
  "WaitForProcessToStop during i pm =
     (case FindProcess i pm of
        None \<Rightarrow> (False, pm)
      | Some itr \<Rightarrow>
          if status (processes pm ! itr) \<noteq> kRunning then (True, pm)
          else let pm' = during pm
            in if GetProcessStatus i pm' \<noteq> kRunning then (True, pm')
               else (True, KillProcess i pm'))"

text \<open>
  One round of the loop in \<open>WaitForProcesses\<close>: the scan stops at the first process that is not
  done, or takes the handle of the first joinable thread in order to join it.
\<close>

datatype scan = AllDone | NotDone | JoinThread nat

fun scan_processes :: "ProcessInfo list \<Rightarrow> scan \<times> ProcessInfo list" where
  "scan_processes [] = (AllDone, [])"
| "scan_processes (info # infos) =
     (if \<not> is_done info then (NotDone, info # infos)
      else case thread info of
             Some t \<Rightarrow> (JoinThread t, info\<lparr>thread := None\<rparr> # infos)
           | None \<Rightarrow> (let (r, infos') = scan_processes infos in (r, info # infos')))"

definition WaitForProcesses_round :: "ProcessManager \<Rightarrow> scan \<times> ProcessManager" where
  "WaitForProcesses_round pm =
     (let (r, infos) = scan_processes (processes pm) in (r, pm\<lparr>processes := infos\<rparr>))"

section \<open>Looking up an entry\<close>

text \<open>
  The abstract view of the table: a partial map from process indices to entries.  Every operation is
  an update of this map.
\<close>

definition info_of :: "ProcessManager \<Rightarrow> process_index \<Rightarrow> ProcessInfo option" where
  "info_of pm i = map_option (\<lambda>itr. processes pm ! itr) (FindProcess i pm)"

definition known :: "ProcessManager \<Rightarrow> process_index set" where
  "known pm = index ` set (processes pm)"

text \<open>The index counter has not reached the reserved value \<open>kInvalidIndex\<close> yet.\<close>

definition has_room :: "ProcessManager \<Rightarrow> bool" where
  "has_room pm \<longleftrightarrow> unat (current_max_id pm) + 2 < 2 ^ 32"

text \<open>
  The invariant of the table: indices are unique, non-zero and at most the counter; restart counts
  stay between 0 and 5; \<open>kCrashed\<close> and \<open>kError\<close> are never stored; \<open>child\<close> keeps its initial value.
\<close>

definition entry_ok :: "ProcessInfo \<Rightarrow> bool" where
  "entry_ok info \<longleftrightarrow>
     0 \<le> restart_count info \<and> restart_count info \<le> 5 \<and> status info \<in> {kRunning, kStopped} \<and>
     child info = 0 \<and> name (process info) \<noteq> []"

definition pm_inv :: "ProcessManager \<Rightarrow> bool" where
  "pm_inv pm \<longleftrightarrow>
     distinct (map index (processes pm)) \<and>
     (\<forall>info \<in> set (processes pm). index info \<noteq> 0 \<and> index info \<le> current_max_id pm \<and> entry_ok info)"

lemma FindProcess_None: "FindProcess i pm = None \<longleftrightarrow> i \<notin> known pm"
  by (auto simp: FindProcess_def known_def find_if_None)

lemma FindProcess_SomeD:
  "FindProcess i pm = Some itr \<Longrightarrow> itr < length (processes pm) \<and> index (processes pm ! itr) = i"
  unfolding FindProcess_def using find_if_SomeD by fast

lemma FindProcess_known: "FindProcess i pm = Some itr \<Longrightarrow> i \<in> known pm"
  using FindProcess_None [of i pm] by auto

lemma info_of_None: "info_of pm i = None \<longleftrightarrow> i \<notin> known pm"
  by (simp add: info_of_def FindProcess_None)

lemma dom_info_of: "dom (info_of pm) = known pm"
  by (simp only: dom_def info_of_None) simp

lemma info_of_SomeD:
  "info_of pm i = Some info \<Longrightarrow> info \<in> set (processes pm) \<and> index info = i"
  by (auto simp: info_of_def dest: FindProcess_SomeD)

lemma info_of_eqI:
  "pm_inv pm \<Longrightarrow> info \<in> set (processes pm) \<Longrightarrow> info_of pm (index info) = Some info"
  by (auto simp: info_of_def FindProcess_def pm_inv_def in_set_conv_nth find_if_distinct)

lemma GetProcessStatus_info_of:
  "GetProcessStatus i pm = (case info_of pm i of None \<Rightarrow> kError | Some info \<Rightarrow> status info)"
  by (simp add: GetProcessStatus_def info_of_def split: option.split)

lemma nth_processes_info_of:
  "FindProcess i pm = Some itr \<Longrightarrow> info_of pm i = Some (processes pm ! itr)"
  by (simp add: info_of_def)

subsection \<open>Updating one entry\<close>

lemma FindProcess_modify [simp]:
  "(\<And>info. index (f info) = index info) \<Longrightarrow>
     FindProcess i (pm\<lparr>processes := modify_at itr f (processes pm)\<rparr>) = FindProcess i pm"
  by (simp add: FindProcess_def)

lemma info_of_modify:
  assumes "\<And>info. index (f info) = index info" and "FindProcess i pm = Some itr"
  shows "info_of (pm\<lparr>processes := modify_at itr f (processes pm)\<rparr>) =
           (info_of pm)(i := map_option f (info_of pm i))"
proof
  fix j
  show "info_of (pm\<lparr>processes := modify_at itr f (processes pm)\<rparr>) j =
          ((info_of pm)(i := map_option f (info_of pm i))) j"
  proof (cases "FindProcess j pm")
    case None
    with assms show ?thesis by (auto simp: info_of_def)
  next
    case (Some k)
    then have "k < length (processes pm)" and "index (processes pm ! k) = j"
      by (auto dest: FindProcess_SomeD)
    moreover have "index (processes pm ! itr) = i"
      using assms(2) by (auto dest: FindProcess_SomeD)
    ultimately show ?thesis
      using assms Some by (auto simp: info_of_def nth_modify_at)
  qed
qed

lemma info_of_at_process:
  "(\<And>info. index (f info) = index info) \<Longrightarrow>
     info_of (at_process i f pm) = (info_of pm)(i := map_option f (info_of pm i))"
proof (cases "FindProcess i pm")
  case None
  then have "info_of pm i = None" by (simp add: info_of_def)
  with None show ?thesis by (simp add: at_process_def fun_upd_idem)
next
  case (Some itr)
  assume "\<And>info. index (f info) = index info"
  with Some show ?thesis by (simp add: at_process_def info_of_modify)
qed

lemma pm_inv_modify:
  assumes "pm_inv pm" and "\<And>info. index (f info) = index info"
    and "\<And>info. entry_ok info \<Longrightarrow> entry_ok (f info)"
  shows "pm_inv (pm\<lparr>processes := modify_at itr f (processes pm)\<rparr>)"
  using assms by (auto simp: pm_inv_def dest!: in_set_modify_at)

lemma pm_inv_cong:
  "processes pm' = processes pm \<Longrightarrow> current_max_id pm' = current_max_id pm \<Longrightarrow>
     pm_inv pm' = pm_inv pm"
  by (simp add: pm_inv_def)

lemma pm_inv_at_process:
  "pm_inv pm \<Longrightarrow> (\<And>info. index (f info) = index info) \<Longrightarrow>
     (\<And>info. entry_ok info \<Longrightarrow> entry_ok (f info)) \<Longrightarrow> pm_inv (at_process i f pm)"
  by (auto simp: at_process_def pm_inv_modify split: option.split)

lemma known_modify [simp]:
  "(\<And>info. index (f info) = index info) \<Longrightarrow> map index (modify_at itr f xs) = map index xs"
  by simp

lemma known_at_process [simp]:
  "(\<And>info. index (f info) = index info) \<Longrightarrow> known (at_process i f pm) = known pm"
  by (simp add: at_process_def known_def flip: set_map split: option.split)

lemma at_process_frame [cm_frame, simp]:
  "current_max_id (at_process i f pm) = current_max_id pm"
  "activations (at_process i f pm) = activations pm"
  "next_thread (at_process i f pm) = next_thread pm"
  "terminating (at_process i f pm) = terminating pm"
  "executed (at_process i f pm) = executed pm"
  "killed (at_process i f pm) = killed pm"
  by (simp_all add: at_process_def split: option.split)

section \<open>Every operation keeps the invariant\<close>

lemma entry_ok_updates [simp]:
  "entry_ok info \<Longrightarrow> entry_ok (info\<lparr>is_done := d\<rparr>)"
  "entry_ok info \<Longrightarrow> entry_ok (info\<lparr>thread := t\<rparr>)"
  "entry_ok info \<Longrightarrow> st \<in> {kRunning, kStopped} \<Longrightarrow> entry_ok (info\<lparr>status := st\<rparr>)"
  "entry_ok info \<Longrightarrow> 0 \<le> c \<Longrightarrow> c \<le> 5 \<Longrightarrow> entry_ok (info\<lparr>restart_count := c\<rparr>)"
  "entry_ok info \<Longrightarrow> entry_ok (info\<lparr>is_done := False, restart_count := 0, thread := t\<rparr>)"
  by (auto simp: entry_ok_def)

lemma pm_inv_new [simp]: "pm_inv new_ProcessManager"
  by (simp add: pm_inv_def new_ProcessManager_def)

lemma unat_next_index: "has_room pm \<Longrightarrow> unat (current_max_id pm + 1) = unat (current_max_id pm) + 1"
  by (simp add: has_room_def unat_word_ariths)

lemma unat_kInvalidIndex: "unat kInvalidIndex = 2 ^ 32 - 1"
  by (simp add: kInvalidIndex_def unsigned_minus_1_eq_mask mask_eq_exp_minus_1)

lemma AddProcess_index:
  assumes "pm_inv pm" and "has_room pm" and "name p \<noteq> []" and "AddProcess p prt pm = (i, pm')"
  shows "i = current_max_id pm + 1" and "i \<noteq> 0" and "i \<noteq> kInvalidIndex" and "i \<notin> known pm"
    and "known pm' = insert i (known pm)" and "pm_inv pm'"
proof -
  show i: "i = current_max_id pm + 1"
    using assms(3,4) by (auto simp: AddProcess_def Let_def)
  have ui: "unat i = unat (current_max_id pm) + 1"
    using unat_next_index [OF assms(2)] i by simp
  then show nz: "i \<noteq> 0" by auto
  show "i \<noteq> kInvalidIndex"
    using ui assms(2) unat_kInvalidIndex by (auto simp: has_room_def)
  have above: "j < i" if "j \<in> known pm" for j
    using that assms(1) ui by (auto simp: known_def pm_inv_def word_less_nat_alt word_le_nat_alt)
  then show fresh: "i \<notin> known pm" by blast
  show "known pm' = insert i (known pm)"
    using assms(3,4) by (auto simp: AddProcess_def Let_def known_def new_ProcessInfo_def)
  have pm': "\<exists>info. processes pm' = processes pm @ [info] \<and> index info = i \<and> entry_ok info"
      "current_max_id pm' = i"
    using assms(3,4)
    by (auto simp: AddProcess_def Let_def entry_ok_def new_ProcessInfo_def AddArgument_def)
  have old: "index info \<le> i" if "info \<in> set (processes pm)" for info
    using above [of "index info"] that by (simp add: known_def)
  show "pm_inv pm'"
    using assms(1) fresh nz old pm' by (auto simp: pm_inv_def known_def)
qed

lemma pm_inv_StartProcess: "pm_inv pm \<Longrightarrow> pm_inv (StartProcess i pm)"
proof (cases "FindProcess i pm")
  case (Some itr)
  assume "pm_inv pm"
  then have "pm_inv (pm\<lparr>processes := modify_at itr
      (\<lambda>info. info\<lparr>is_done := False, restart_count := 0, thread := Some (next_thread pm)\<rparr>)
      (processes pm)\<rparr>)"
    by (rule pm_inv_modify) simp_all
  with Some show ?thesis by (simp add: StartProcess_def Let_def pm_inv_def)
qed (simp add: StartProcess_def)

lemma pm_inv_LetProcessDie: "pm_inv pm \<Longrightarrow> pm_inv (LetProcessDie i pm)"
  unfolding LetProcessDie_def by (rule pm_inv_at_process) simp_all

lemma pm_inv_StopProcess: "pm_inv pm \<Longrightarrow> pm_inv (StopProcess i pm)"
  unfolding StopProcess_def by (rule pm_inv_at_process) simp_all

lemma pm_inv_RestartProcess: "pm_inv pm \<Longrightarrow> pm_inv (RestartProcess i pm)"
  unfolding RestartProcess_def by (rule pm_inv_at_process) simp_all

lemma pm_inv_SetProcessStatus:
  "pm_inv pm \<Longrightarrow> st \<in> {kRunning, kStopped} \<Longrightarrow> pm_inv (snd (SetProcessStatus i st pm))"
  unfolding SetProcessStatus_def snd_conv by (rule pm_inv_at_process) simp_all

lemma pm_inv_LetAllProcessesDie: "pm_inv pm \<Longrightarrow> pm_inv (LetAllProcessesDie pm)"
  by (simp add: pm_inv_def LetAllProcessesDie_def comp_def)

lemma KillProcess_at:
  "KillProcess i pm =
     (let pm' = at_process i (\<lambda>info. info\<lparr>is_done := True\<rparr>) pm
      in case info_of pm i of None \<Rightarrow> pm'
         | Some info \<Rightarrow> pm'\<lparr>killed := killed pm @ [child info]\<rparr>)"
  by (simp add: KillProcess_def at_process_def info_of_def split: option.split)

lemma pm_inv_KillProcess: "pm_inv pm \<Longrightarrow> pm_inv (KillProcess i pm)"
proof -
  assume "pm_inv pm"
  then have "pm_inv (at_process i (\<lambda>info. info\<lparr>is_done := True\<rparr>) pm)"
    by (rule pm_inv_at_process) simp_all
  then show ?thesis
    by (simp add: KillProcess_at Let_def pm_inv_def split: option.split)
qed

lemma pm_inv_WaitForProcessToStop:
  "pm_inv pm \<Longrightarrow> pm_inv (during pm) \<Longrightarrow> pm_inv (snd (WaitForProcessToStop during i pm))"
  by (auto simp: WaitForProcessToStop_def Let_def pm_inv_KillProcess split: option.split)

lemma scan_processes_map:
  "map index (snd (scan_processes infos)) = map index infos \<and>
   (\<forall>info' \<in> set (snd (scan_processes infos)).
      \<exists>info \<in> set infos. info' = info \<or> info' = info\<lparr>thread := None\<rparr>)"
  by (induction infos) (auto split: option.split prod.split)

lemma pm_inv_WaitForProcesses_round: "pm_inv pm \<Longrightarrow> pm_inv (snd (WaitForProcesses_round pm))"
  using scan_processes_map [of "processes pm"]
  by (fastforce simp: pm_inv_def WaitForProcesses_round_def split: prod.split)

lemmas pm_inv_ops = pm_inv_new pm_inv_StartProcess pm_inv_LetProcessDie pm_inv_StopProcess
  pm_inv_RestartProcess pm_inv_SetProcessStatus pm_inv_LetAllProcessesDie pm_inv_KillProcess
  pm_inv_WaitForProcessToStop pm_inv_WaitForProcesses_round AddProcess_index(6)

section \<open>What the operations do to the abstract table\<close>

lemma info_of_LetProcessDie:
  "info_of (LetProcessDie i pm) =
     (info_of pm)(i := map_option (\<lambda>info. info\<lparr>is_done := True\<rparr>) (info_of pm i))"
  by (simp add: LetProcessDie_def info_of_at_process)

lemma info_of_SetProcessStatus:
  "info_of (snd (SetProcessStatus i st pm)) =
     (info_of pm)(i := map_option (\<lambda>info. info\<lparr>status := st\<rparr>) (info_of pm i))"
  by (simp add: SetProcessStatus_def info_of_at_process)

lemma info_of_more:
  "processes pm' = processes pm \<Longrightarrow> info_of pm' = info_of pm"
  by (rule ext) (simp add: info_of_def FindProcess_def)

lemma info_of_StartProcess:
  "info_of (StartProcess i pm) =
     (info_of pm)(i := map_option (\<lambda>info. info\<lparr>is_done := False, restart_count := 0,
        thread := Some (next_thread pm)\<rparr>) (info_of pm i))"
proof -
  let ?f = "\<lambda>info. info\<lparr>is_done := False, restart_count := 0, thread := Some (next_thread pm)\<rparr>"
  have "info_of (StartProcess i pm) = info_of (at_process i ?f pm)"
    by (rule info_of_more) (simp add: StartProcess_def at_process_def Let_def split: option.split)
  then show ?thesis by (simp add: info_of_at_process)
qed

lemma info_of_KillProcess:
  "info_of (KillProcess i pm) =
     (info_of pm)(i := map_option (\<lambda>info. info\<lparr>is_done := True\<rparr>) (info_of pm i))"
proof -
  have "info_of (KillProcess i pm) = info_of (at_process i (\<lambda>info. info\<lparr>is_done := True\<rparr>) pm)"
    by (rule info_of_more) (simp add: KillProcess_at Let_def split: option.split)
  then show ?thesis by (simp add: info_of_at_process)
qed

lemma known_ops [simp]:
  "known (StartProcess i pm) = known pm"
  "known (LetProcessDie i pm) = known pm"
  "known (KillProcess i pm) = known pm"
  by (auto simp flip: dom_info_of simp: info_of_StartProcess info_of_KillProcess
      info_of_LetProcessDie dom_def split: if_splits)

lemma known_LetAllProcessesDie [simp]: "known (LetAllProcessesDie pm) = known pm"
  by (simp add: known_def LetAllProcessesDie_def image_image)

lemma info_of_append:
  assumes "processes pm' = processes pm @ [info]" and "index info \<notin> known pm"
  shows "info_of pm' = (info_of pm)(index info \<mapsto> info)"
proof
  fix j
  have "find_if (\<lambda>x. index x = index info) (processes pm) = None"
    using assms(2) FindProcess_None [of "index info" pm] by (simp add: FindProcess_def)
  with assms(1) show "info_of pm' j = ((info_of pm)(index info \<mapsto> info)) j"
    by (cases "find_if (\<lambda>x. index x = j) (processes pm)")
      (auto simp: info_of_def FindProcess_def find_if_append nth_append dest: find_if_length)
qed

section \<open>The interface that the client manager relies on\<close>

text \<open>
  A host of child processes: \<open>add\<close> registers a process under a fresh valid index, \<open>start\<close> and
  \<open>let_die\<close> change no index.  A client keeps a list of the indices it was given.
\<close>

locale process_host =
  fixes add :: "'proc \<Rightarrow> port \<Rightarrow> 'm \<Rightarrow> process_index \<times> 'm"
    and start :: "process_index \<Rightarrow> 'm \<Rightarrow> 'm"
    and let_die :: "process_index \<Rightarrow> 'm \<Rightarrow> 'm"
    and members :: "'m \<Rightarrow> process_index set"
    and usable :: "'proc \<Rightarrow> bool"
    and room :: "'m \<Rightarrow> bool"
    and inv :: "'m \<Rightarrow> bool"
  assumes add_fresh: "inv m \<Longrightarrow> room m \<Longrightarrow> usable p \<Longrightarrow> add p prt m = (i, m') \<Longrightarrow>
        i \<notin> members m \<and> i \<noteq> 0 \<and> i \<noteq> kInvalidIndex"
    and add_members: "inv m \<Longrightarrow> room m \<Longrightarrow> usable p \<Longrightarrow> add p prt m = (i, m') \<Longrightarrow>
        members m' = insert i (members m)"
    and add_unusable: "\<not> usable p \<Longrightarrow> add p prt m = (kInvalidIndex, m)"
    and add_inv: "inv m \<Longrightarrow> room m \<Longrightarrow> add p prt m = (i, m') \<Longrightarrow> inv m'"
    and start_members [simp]: "members (start i m) = members m"
    and start_inv: "inv m \<Longrightarrow> inv (start i m)"
    and let_die_members [simp]: "members (let_die i m) = members m"
    and let_die_inv: "inv m \<Longrightarrow> inv (let_die i m)"
begin

lemma add_invalid_iff:
  "inv m \<Longrightarrow> room m \<Longrightarrow> add p prt m = (i, m') \<Longrightarrow> i = kInvalidIndex \<longleftrightarrow> \<not> usable p"
  using add_fresh add_unusable by (cases "usable p") fastforce+

lemma register_keeps_handles:
  assumes "inv m" and "room m" and "add p prt m = (i, m')" and "i \<noteq> kInvalidIndex"
    and "distinct handles" and "set handles \<subseteq> members m"
  shows "distinct (handles @ [i]) \<and> set (handles @ [i]) \<subseteq> members (start i m') \<and>
         inv (start i m')"
proof -
  from assms have "usable p" by (simp add: add_invalid_iff)
  with assms have "i \<notin> members m" and "members m' = insert i (members m)"
    using add_fresh add_members by blast+
  with assms add_inv [OF assms(1,2,3)] show ?thesis
    by (auto simp: start_inv)
qed

end

interpretation pm_host: process_host AddProcess StartProcess LetProcessDie known
  "\<lambda>p. name p \<noteq> []" has_room pm_inv
proof unfold_locales
  fix p prt m i m'
  assume "pm_inv m" and "has_room m" and "AddProcess p prt m = (i, m')"
  then show "pm_inv m'"
    by (cases "name p = []") (auto simp: AddProcess_def dest: AddProcess_index(6))
qed (auto dest: AddProcess_index simp: AddProcess_def pm_inv_ops)

section \<open>Properties\<close>

text \<open>
  \<open>AddProcess\<close> extends the table by exactly one entry, under an index that was not in use and
  is neither 0 nor \<open>kInvalidIndex\<close>; the process is stopped, has no thread, and ends its argument list
  with \<open>--vmid\<close> and a value from which the vault recovers that index and the manager's port.
\<close>

theorem AddProcess_registers:
  assumes "pm_inv pm" and "has_room pm" and "name p \<noteq> []" and "AddProcess p prt pm = (i, pm')"
  shows "\<exists>info. info_of pm' = (info_of pm)(i \<mapsto> info) \<and> info_of pm i = None \<and>
           i \<noteq> 0 \<and> i \<noteq> kInvalidIndex \<and> status info = kStopped \<and> thread info = None \<and>
           args (process info) = args p @ [''--vmid'', GenerateVmidParameter i prt] \<and>
           ParseVmidParameter (GenerateVmidParameter i prt) = (None, i, prt)"
proof -
  note new = AddProcess_index [OF assms]
  obtain info where "processes pm' = processes pm @ [info]" and "index info = i"
      and "status info = kStopped" "thread info = None"
        "args (process info) = args p @ [''--vmid'', GenerateVmidParameter i prt]"
    using assms(3,4)
    by (auto simp: AddProcess_def Let_def new_ProcessInfo_def AddArgument_def)
  moreover from this new have "info_of pm' = (info_of pm)(i \<mapsto> info)"
    using info_of_append by blast
  ultimately show ?thesis
    using new by (auto simp: info_of_None vmid_roundtrip)
qed

theorem AddProcess_registers_witness:
  "(let p = \<lparr>args = [''/usr/bin/vault''], name = ''/usr/bin/vault''\<rparr>;
        pm' = snd (AddProcess p 5483 new_ProcessManager)
    in \<exists>info. info_of pm' = (info_of new_ProcessManager)(1 \<mapsto> info) \<and>
         args (process info) =
           [''/usr/bin/vault'', ''--vmid'', GenerateVmidParameter 1 5483])"
  using AddProcess_registers [of new_ProcessManager
      "\<lparr>args = [''/usr/bin/vault''], name = ''/usr/bin/vault''\<rparr>" 5483 1
      "snd (AddProcess \<lparr>args = [''/usr/bin/vault''], name = ''/usr/bin/vault''\<rparr> 5483
         new_ProcessManager)"]
  by (auto simp: Let_def has_room_def new_ProcessManager_def AddProcess_def
      pm_inv_new [unfolded new_ProcessManager_def])

text \<open>
  When a process is still running after the five seconds that \<open>WaitForProcessToStop\<close> grants it,
  the process id that is sent the kill signal is 0: the entry's \<open>child\<close> is never set to the child
  that \<open>RunProcess\<close> launches.  (On POSIX systems process id 0 addresses the caller's own group.)
\<close>

theorem WaitForProcessToStop_kills_0:
  assumes "pm_inv pm" and "pm_inv (during pm)"
    and "GetProcessStatus i pm = kRunning" and "GetProcessStatus i (during pm) = kRunning"
  shows "fst (WaitForProcessToStop during i pm) \<and>
         killed (snd (WaitForProcessToStop during i pm)) = killed (during pm) @ [0]"
proof -
  obtain itr where itr: "FindProcess i pm = Some itr" "status (processes pm ! itr) = kRunning"
    using assms(3) by (auto simp: GetProcessStatus_def split: option.splits)
  obtain info where info: "info_of (during pm) i = Some info"
    using assms(4) by (auto simp: GetProcessStatus_info_of split: option.splits)
  then have "child info = 0"
    using assms(2) by (auto simp: pm_inv_def entry_ok_def dest: info_of_SomeD)
  with itr info assms(4) show ?thesis
    by (simp add: WaitForProcessToStop_def KillProcess_at Let_def)
qed

theorem WaitForProcessToStop_kills_0_witness:
  "(let p = \<lparr>args = [], name = ''vault''\<rparr>;
        pm = snd (SetProcessStatus 1 kRunning (snd (AddProcess p 5483 new_ProcessManager)))
    in killed (snd (WaitForProcessToStop (\<lambda>pm. pm) 1 pm)) = [0])"
proof -
  define pm where "pm = snd (SetProcessStatus 1 kRunning
    (snd (AddProcess \<lparr>args = [], name = ''vault''\<rparr> 5483 new_ProcessManager)))"
  have "pm_inv (snd (AddProcess \<lparr>args = [], name = ''vault''\<rparr> 5483 new_ProcessManager))"
    by (rule AddProcess_index(6) [OF pm_inv_new, of "\<lparr>args = [], name = ''vault''\<rparr>" 5483
          "fst (AddProcess \<lparr>args = [], name = ''vault''\<rparr> 5483 new_ProcessManager)"])
      (simp_all add: has_room_def new_ProcessManager_def)
  then have "pm_inv pm" unfolding pm_def by (rule pm_inv_SetProcessStatus) simp
  moreover have "GetProcessStatus 1 pm = kRunning" "killed pm = []"
    by (simp_all add: pm_def AddProcess_def new_ProcessManager_def new_ProcessInfo_def AddArgument_def
        Let_def SetProcessStatus_def at_process_def FindProcess_def modify_at_def GetProcessStatus_def)
  ultimately show ?thesis
    using WaitForProcessToStop_kills_0 [of pm "\<lambda>pm. pm" 1] by (simp add: Let_def pm_def)
qed

end
