(* ===== verification/Process_Threads.thy ===== *)
theory Process_Threads
  imports Process_Manager
begin

text \<open>
  The threads of the process manager.  \<open>StartProcess\<close> creates a thread that runs \<open>RunProcess\<close>: it
  launches the child, waits for its exit and launches it again, up to a limit.  \<open>RunProcess_step\<close> is
  one atomic step of one thread (the code between two releases of \<open>mutex_\<close>, or one call to the
  operating system); \<open>pm_step\<close> interleaves the threads with the operations of the class and with the
  destructor, which holds \<open>mutex_\<close> while it joins threads.
\<close>

section \<open>One step of a thread\<close>

definition act_at :: "nat \<Rightarrow> ProcessManager \<Rightarrow> activation option" where
  "act_at t pm = find (\<lambda>a. act_thread a = t) (activations pm)"

definition set_pc :: "nat \<Rightarrow> run_pc \<Rightarrow> ProcessManager \<Rightarrow> ProcessManager" where
  "set_pc t pc pm = pm\<lparr>activations :=
     map (\<lambda>a. if act_thread a = t then a\<lparr>act_pc := pc\<rparr> else a) (activations pm)\<rparr>"

definition finish :: "nat \<Rightarrow> ProcessManager \<Rightarrow> ProcessManager" where
  "finish t pm = pm\<lparr>activations := filter (\<lambda>a. act_thread a \<noteq> t) (activations pm)\<rparr>"

text \<open>
  \<open>RunProcess(index, restart, logging)\<close>: copy name and arguments; set the status to running; launch
  the child; wait for it; set the status to stopped; then stop if \<open>done\<close> is set or the restart count
  exceeds 4, and otherwise count the restart and call itself.  The last step dereferences the result
  of \<open>FindProcess\<close> without a test.
\<close>

definition RunProcess_step :: "nat \<Rightarrow> ProcessManager \<Rightarrow> fault + ProcessManager" where
  "RunProcess_step t pm =
     (case act_at t pm of
        None \<Rightarrow> Inr pm
      | Some a \<Rightarrow>
          let i = act_index a
          in case act_pc a of
               Entered restart logging \<Rightarrow>
                 (case FindProcess i pm of
                    None \<Rightarrow> Inr (finish t pm)
                  | Some itr \<Rightarrow>
                      let p = process (processes pm ! itr)
                      in Inr (set_pc t (Launching (name p) (args p) logging) pm))
             | Launching process_name process_args logging \<Rightarrow>
                 Inr (set_pc t (Executing process_name process_args logging)
                        (snd (SetProcessStatus i kRunning pm)))
             | Executing process_name process_args logging \<Rightarrow>
                 Inr (set_pc t (Waiting logging)
                        (pm\<lparr>executed := executed pm @ [(i, process_name, process_args)]\<rparr>))
             | Waiting logging \<Rightarrow> Inr (set_pc t (Exited logging) pm)
             | Exited logging \<Rightarrow>
                 Inr (set_pc t (Deciding logging) (snd (SetProcessStatus i kStopped pm)))
             | Deciding logging \<Rightarrow>
                 (case FindProcess i pm of
                    None \<Rightarrow> Inl EndDereference
                  | Some itr \<Rightarrow>
                      let info = processes pm ! itr;
                          counted = at_process i
                            (\<lambda>info. info\<lparr>restart_count := restart_count info + 1\<rparr>) pm
                      in if is_done info then Inr (finish t pm)
                         else if restart_count info > 4 then Inr (finish t pm)
                         else if restart_count info < 3
                           then Inr (set_pc t (Entered True False) counted)
                           else Inr (set_pc t (Entered True True) counted)))"

text \<open>The steps that lock \<open>mutex_\<close>.\<close>

fun needs_mutex :: "run_pc \<Rightarrow> bool" where
  "needs_mutex (Executing _ _ _) = False"
| "needs_mutex (Waiting _) = False"
| "needs_mutex _ = True"

section \<open>Interleavings\<close>

datatype pm_event =
    Add Process port
  | Start process_index
  | LetDie process_index
  | LetAllDie
  | Kill process_index
  | Stop process_index
  | Restart process_index
  | WaitRound
  | Run nat
  | TerminateStep
  | TerminateDone

inductive pm_step :: "ProcessManager \<Rightarrow> pm_event \<Rightarrow> ProcessManager \<Rightarrow> bool" where
  add: "terminating pm = None \<Longrightarrow> pm_step pm (Add p prt) (snd (AddProcess p prt pm))"
| start: "terminating pm = None \<Longrightarrow> pm_step pm (Start i) (StartProcess i pm)"
| let_die: "terminating pm = None \<Longrightarrow> pm_step pm (LetDie i) (LetProcessDie i pm)"
| let_all_die: "terminating pm = None \<Longrightarrow> pm_step pm LetAllDie (LetAllProcessesDie pm)"
| kill: "terminating pm = None \<Longrightarrow> pm_step pm (Kill i) (KillProcess i pm)"
| stop: "terminating pm = None \<Longrightarrow> pm_step pm (Stop i) (StopProcess i pm)"
| restart: "terminating pm = None \<Longrightarrow> pm_step pm (Restart i) (RestartProcess i pm)"
| wait_round: "terminating pm = None \<Longrightarrow> pm_step pm WaitRound (snd (WaitForProcesses_round pm))"
| run: "act_at t pm = Some a \<Longrightarrow> needs_mutex (act_pc a) \<longrightarrow> terminating pm = None \<Longrightarrow>
     RunProcess_step t pm = Inr pm' \<Longrightarrow> pm_step pm (Run t) pm'"
| terminate: "terminating pm = None \<Longrightarrow> pm_step pm TerminateStep (pm\<lparr>terminating := Some 0\<rparr>)"
| skip: "terminating pm = Some k \<Longrightarrow> k < length (processes pm) \<Longrightarrow>
     thread (processes pm ! k) = None \<or> status (processes pm ! k) \<noteq> kRunning \<Longrightarrow>
     pm_step pm TerminateStep (pm\<lparr>terminating := Some (k + 1)\<rparr>)"
| join: "terminating pm = Some k \<Longrightarrow> k < length (processes pm) \<Longrightarrow>
     thread (processes pm ! k) = Some t \<Longrightarrow> status (processes pm ! k) = kRunning \<Longrightarrow>
     act_at t pm = None \<Longrightarrow>
     pm_step pm TerminateStep
       (pm\<lparr>processes := modify_at k (\<lambda>info. info\<lparr>thread := None\<rparr>) (processes pm),
         terminating := Some (k + 1)\<rparr>)"
| terminated: "terminating pm = Some k \<Longrightarrow> length (processes pm) \<le> k \<Longrightarrow>
     pm_step pm TerminateDone (pm\<lparr>terminating := None, processes := []\<rparr>)"

inductive_cases pm_step_RunE: "pm_step pm (Run t) pm'"
inductive_cases pm_step_TerminateStepE: "pm_step pm TerminateStep pm'"

text \<open>
  States of a live process manager: reached from the constructor by events other than the end of the
  destructor, with fewer than \<open>2 ^ 32 - 2\<close> processes added.
\<close>

inductive reachable :: "ProcessManager \<Rightarrow> bool" where
  constructed: "reachable new_ProcessManager"
| continued: "reachable pm \<Longrightarrow> has_room pm \<Longrightarrow> pm_step pm e pm' \<Longrightarrow> e \<noteq> TerminateDone \<Longrightarrow> reachable pm'"

text \<open>A sequence of events.\<close>

inductive pm_trace :: "ProcessManager \<Rightarrow> pm_event list \<Rightarrow> ProcessManager \<Rightarrow> bool" where
  empty: "pm_trace pm [] pm"
| snoc: "pm_trace pm es pm' \<Longrightarrow> pm_step pm' e pm'' \<Longrightarrow> pm_trace pm (es @ [e]) pm''"

section \<open>The invariant of the threads\<close>

text \<open>
  Threads are distinct, each works for a process of the table, and a process whose status is running
  has a thread between its two status updates.  Every process id that was killed is 0.
\<close>

fun running_pc :: "run_pc \<Rightarrow> bool" where
  "running_pc (Executing _ _ _) = True"
| "running_pc (Waiting _) = True"
| "running_pc (Exited _) = True"
| "running_pc _ = False"

definition thread_inv :: "ProcessManager \<Rightarrow> bool" where
  "thread_inv pm \<longleftrightarrow>
     distinct (map act_thread (activations pm)) \<and>
     (\<forall>a \<in> set (activations pm). act_thread a < next_thread pm \<and> act_index a \<in> known pm) \<and>
     (\<forall>i info. info_of pm i = Some info \<longrightarrow> status info = kRunning \<longrightarrow>
        (\<exists>a \<in> set (activations pm). act_index a = i \<and> running_pc (act_pc a))) \<and>
     set (killed pm) \<subseteq> {0}"

lemma act_at_SomeD: "act_at t pm = Some a \<Longrightarrow> a \<in> set (activations pm) \<and> act_thread a = t"
  by (auto simp: act_at_def find_Some_iff)

lemma act_at_eq:
  "distinct (map act_thread (activations pm)) \<Longrightarrow> a \<in> set (activations pm) \<Longrightarrow>
     act_at (act_thread a) pm = Some a"
proof (unfold act_at_def, induction "activations pm" arbitrary: pm)
  case (Cons b bs)
  from Cons.hyps(1) [of "pm\<lparr>activations := bs\<rparr>"] Cons.prems Cons.hyps(2) show ?case
    by (cases "activations pm") auto
qed simp

lemma set_pc_frame [cm_frame, simp]:
  "processes (set_pc t pc pm) = processes pm"
  "current_max_id (set_pc t pc pm) = current_max_id pm"
  "next_thread (set_pc t pc pm) = next_thread pm"
  "terminating (set_pc t pc pm) = terminating pm"
  "executed (set_pc t pc pm) = executed pm"
  "killed (set_pc t pc pm) = killed pm"
  "map act_thread (activations (set_pc t pc pm)) = map act_thread (activations pm)"
  by (simp_all add: set_pc_def)

lemma finish_frame [cm_frame, simp]:
  "processes (finish t pm) = processes pm"
  "current_max_id (finish t pm) = current_max_id pm"
  "next_thread (finish t pm) = next_thread pm"
  "terminating (finish t pm) = terminating pm"
  "executed (finish t pm) = executed pm"
  "killed (finish t pm) = killed pm"
  by (simp_all add: finish_def)

lemma info_of_set_pc [simp]: "info_of (set_pc t pc pm) = info_of pm"
  by (rule info_of_more) simp

lemma info_of_finish [simp]: "info_of (finish t pm) = info_of pm"
  by (rule info_of_more) simp

lemma known_set_pc [simp]: "known (set_pc t pc pm) = known pm" "known (finish t pm) = known pm"
  by (simp_all add: known_def)

lemma pm_inv_set_pc [simp]:
  "pm_inv (set_pc t pc pm) = pm_inv pm" "pm_inv (finish t pm) = pm_inv pm"
  by (simp_all add: pm_inv_def)

lemma pm_inv_fields [simp]:
  "pm_inv (pm\<lparr>executed := es\<rparr>) = pm_inv pm" "pm_inv (pm\<lparr>terminating := k\<rparr>) = pm_inv pm"
  by (simp_all add: pm_inv_def)

lemma info_of_fields [simp]:
  "info_of (pm\<lparr>executed := es\<rparr>) = info_of pm" "info_of (pm\<lparr>terminating := k\<rparr>) = info_of pm"
  by (rule info_of_more, simp)+

lemma known_fields [simp]:
  "known (pm\<lparr>executed := es\<rparr>) = known pm" "known (pm\<lparr>terminating := k\<rparr>) = known pm"
  by (simp_all add: known_def)

lemma act_at_set_pc:
  "act_at u (set_pc t pc pm) =
     map_option (\<lambda>a. if u = t then a\<lparr>act_pc := pc\<rparr> else a) (act_at u pm)"
proof -
  have "find (\<lambda>a. act_thread a = u)
          (map (\<lambda>a. if act_thread a = t then a\<lparr>act_pc := pc\<rparr> else a) as) =
        map_option (\<lambda>a. if u = t then a\<lparr>act_pc := pc\<rparr> else a) (find (\<lambda>a. act_thread a = u) as)"
    for as by (induction as) auto
  then show ?thesis by (simp add: act_at_def set_pc_def)
qed

lemma act_at_finish: "act_at u (finish t pm) = (if u = t then None else act_at u pm)"
proof -
  have "find (\<lambda>a. act_thread a = u) (filter (\<lambda>a. act_thread a \<noteq> t) as) =
        (if u = t then None else find (\<lambda>a. act_thread a = u) as)" for as
    by (induction as) auto
  from this [of "activations pm"] show ?thesis by (simp add: act_at_def finish_def)
qed

lemma act_at_cong: "activations pm' = activations pm \<Longrightarrow> act_at t pm' = act_at t pm"
  by (simp add: act_at_def)

text \<open>Operations that leave the threads alone and set no status to running.\<close>

lemma thread_inv_mono:
  assumes "thread_inv pm" and "activations pm' = activations pm"
    and "next_thread pm' = next_thread pm" and "known pm \<subseteq> known pm'"
    and "set (killed pm') \<subseteq> {0}"
    and "\<And>i info'. info_of pm' i = Some info' \<Longrightarrow> status info' = kRunning \<Longrightarrow>
           \<exists>info. info_of pm i = Some info \<and> status info = kRunning"
  shows "thread_inv pm'"
  using assms unfolding thread_inv_def by (metis subsetD)

lemma killed_0: "thread_inv pm \<Longrightarrow> set (killed pm) \<subseteq> {0}"
  by (simp add: thread_inv_def)

lemma thread_inv_terminating: "thread_inv (pm\<lparr>terminating := k\<rparr>) = thread_inv pm"
  by (simp add: thread_inv_def)

lemma thread_inv_at_process:
  assumes "thread_inv pm" and "\<And>info. index (f info) = index info"
    and "\<And>info. status (f info) = status info"
  shows "thread_inv (at_process i f pm)"
  by (rule thread_inv_mono [OF assms(1)])
    (use assms killed_0 in \<open>auto simp: info_of_at_process split: if_splits\<close>)

lemma info_of_list_all2:
  assumes "list_all2 R (processes pm) (processes pm')" and "\<And>x y. R x y \<Longrightarrow> index y = index x"
  shows "rel_option R (info_of pm i) (info_of pm' i)"
proof -
  have eq: "find_if (\<lambda>x. index x = i) (processes pm') = find_if (\<lambda>x. index x = i) (processes pm)"
    using assms by (induction rule: list_all2_induct) auto
  show ?thesis
  proof (cases "find_if (\<lambda>x. index x = i) (processes pm)")
    case None
    with eq show ?thesis by (simp add: info_of_def FindProcess_def)
  next
    case (Some k)
    then have "R (processes pm ! k) (processes pm' ! k)"
      using assms(1) by (auto intro: list_all2_nthD dest: find_if_length)
    with Some eq show ?thesis by (simp add: info_of_def FindProcess_def)
  qed
qed

lemma thread_inv_pointwise:
  assumes "thread_inv pm" and "activations pm' = activations pm"
    and "next_thread pm' = next_thread pm" and "killed pm' = killed pm"
    and rel: "list_all2 (\<lambda>x y. index y = index x \<and> status y = status x)
           (processes pm) (processes pm')"
  shows "thread_inv pm'"
proof (rule thread_inv_mono [OF assms(1-3)])
  note same = info_of_list_all2 [OF rel]
  show "known pm \<subseteq> known pm'"
  proof
    fix i
    assume "i \<in> known pm"
    then show "i \<in> known pm'"
      using same [of i] by (auto simp flip: dom_info_of simp: option_rel_Some1)
  qed
  show "\<exists>info. info_of pm i = Some info \<and> status info = kRunning"
    if "info_of pm' i = Some info'" "status info' = kRunning" for i info'
    using same [of i] that by (auto simp: option_rel_Some2)
qed (use assms killed_0 in auto)

lemma thread_inv_modify:
  assumes "thread_inv pm" and "\<And>info. index (f info) = index info"
    and "\<And>info. status (f info) = status info"
  shows "thread_inv (pm\<lparr>processes := modify_at k f (processes pm)\<rparr>)"
proof (rule thread_inv_pointwise [OF assms(1)])
  have "list_all2 (\<lambda>x y. index y = index x \<and> status y = status x) xs (modify_at k f xs)" for xs
    using assms(2,3) by (simp add: list_all2_conv_all_nth nth_modify_at)
  then show "list_all2 (\<lambda>x y. index y = index x \<and> status y = status x) (processes pm)
      (processes (pm\<lparr>processes := modify_at k f (processes pm)\<rparr>))" by simp
qed simp_all

lemma thread_inv_KillProcess:
  assumes "thread_inv pm" and "pm_inv pm"
  shows "thread_inv (KillProcess i pm)"
proof (rule thread_inv_mono [OF assms(1)])
  show "set (killed (KillProcess i pm)) \<subseteq> {0}"
    using killed_0 [OF assms(1)] assms(2)
    by (auto simp: KillProcess_at Let_def pm_inv_def entry_ok_def split: option.splits
        dest!: info_of_SomeD)
  show "activations (KillProcess i pm) = activations pm"
    and "next_thread (KillProcess i pm) = next_thread pm"
    by (simp_all add: KillProcess_def split: option.split)
qed (auto simp: info_of_KillProcess split: if_splits)

lemma thread_inv_LetAllProcessesDie: "thread_inv pm \<Longrightarrow> thread_inv (LetAllProcessesDie pm)"
  by (rule thread_inv_pointwise [where pm = pm])
    (simp_all add: LetAllProcessesDie_def list_all2_conv_all_nth)

lemma info_of_AddProcess:
  assumes "AddProcess p prt pm = (i, pm')" and "pm_inv pm" and "has_room pm" and "name p \<noteq> []"
  shows "\<exists>info. info_of pm' = (info_of pm)(i \<mapsto> info) \<and> status info = kStopped \<and> restart_count info = 0"
proof -
  obtain info where "processes pm' = processes pm @ [info]" "index info = i"
      "status info = kStopped" "restart_count info = 0"
    using assms(1,4) by (auto simp: AddProcess_def Let_def new_ProcessInfo_def)
  with info_of_append [of pm' pm info] AddProcess_index(4) [OF assms(2,3,4,1)] show ?thesis
    by blast
qed

lemma thread_inv_AddProcess:
  assumes "thread_inv pm" and "pm_inv pm" and "has_room pm"
  shows "thread_inv (snd (AddProcess p prt pm))"
proof (cases "name p = []")
  case True
  with assms show ?thesis by (simp add: AddProcess_def)
next
  case False
  obtain i pm' where new: "AddProcess p prt pm = (i, pm')" by fastforce
  then have "activations pm' = activations pm" "next_thread pm' = next_thread pm"
      "killed pm' = killed pm"
    using False by (auto simp: AddProcess_def Let_def)
  moreover obtain info where "info_of pm' = (info_of pm)(i \<mapsto> info)" "status info = kStopped"
    using info_of_AddProcess [OF new] assms False by blast
  ultimately have "thread_inv pm'"
    using assms False new AddProcess_index(5) [OF assms(2,3) False new]
    by (intro thread_inv_mono [OF assms(1)]) (auto dest: killed_0 split: if_splits)
  with new show ?thesis by simp
qed

lemma thread_inv_StartProcess: "thread_inv pm \<Longrightarrow> thread_inv (StartProcess i pm)"
proof (cases "FindProcess i pm")
  case (Some itr)
  assume inv: "thread_inv pm"
  have *: "activations (StartProcess i pm) = activations pm @
      [\<lparr>act_thread = next_thread pm, act_index = i, act_pc = Entered False False\<rparr>]"
    "next_thread (StartProcess i pm) = next_thread pm + 1"
    "killed (StartProcess i pm) = killed pm" "i \<in> known pm"
    using Some by (auto simp: StartProcess_def Let_def dest: FindProcess_known)
  have old: "\<exists>info. info_of pm j = Some info \<and> status info = kRunning"
    if "info_of (StartProcess i pm) j = Some info'" "status info' = kRunning" for j info'
    using that by (auto simp: info_of_StartProcess split: if_splits)
  have running: "\<exists>a \<in> set (activations pm). act_index a = j \<and> running_pc (act_pc a)"
    if "info_of (StartProcess i pm) j = Some info'" "status info' = kRunning" for j info'
    using old [OF that] inv unfolding thread_inv_def by blast
  from inv have "distinct (map act_thread (activations (StartProcess i pm)))"
    by (auto simp: * thread_inv_def)
  moreover from inv have "\<forall>a \<in> set (activations (StartProcess i pm)).
      act_thread a < next_thread (StartProcess i pm) \<and> act_index a \<in> known (StartProcess i pm)"
    using *(4) by (auto simp: *(1,2) thread_inv_def less_Suc_eq)
  ultimately show ?thesis
    using running killed_0 [OF inv] unfolding thread_inv_def by (auto simp: *(1,3))
qed (simp add: StartProcess_def)

lemma scan_processes_pointwise:
  "list_all2 (\<lambda>x y. index y = index x \<and> status y = status x) infos (snd (scan_processes infos))"
  by (induction infos) (auto split: option.split prod.split simp: list_all2_same)

lemma thread_inv_WaitForProcesses_round:
  assumes "thread_inv pm"
  shows "thread_inv (snd (WaitForProcesses_round pm))"
proof (rule thread_inv_pointwise [OF assms])
  have "processes (snd (WaitForProcesses_round pm)) = snd (scan_processes (processes pm))"
    by (simp add: WaitForProcesses_round_def split: prod.split)
  then show "list_all2 (\<lambda>x y. index y = index x \<and> status y = status x) (processes pm)
      (processes (snd (WaitForProcesses_round pm)))"
    using scan_processes_pointwise [of "processes pm"] by simp
qed (simp_all add: WaitForProcesses_round_def split: prod.split)

subsection \<open>Steps of a thread\<close>

lemma thread_inv_set_pc:
  assumes "thread_inv pm" and "act_at t pm = Some a"
    and "running_pc (act_pc a) \<Longrightarrow> running_pc pc \<or>
           (\<forall>info. info_of pm (act_index a) = Some info \<longrightarrow> status info \<noteq> kRunning)"
  shows "thread_inv (set_pc t pc pm)"
proof -
  have upd: "set (activations (set_pc t pc pm)) =
      (\<lambda>a. if act_thread a = t then a\<lparr>act_pc := pc\<rparr> else a) ` set (activations pm)"
    by (simp add: set_pc_def)
  have only: "b = a" if "b \<in> set (activations pm)" "act_thread b = t" for b
    using assms(1,2) act_at_eq [of pm b] that by (auto simp: thread_inv_def)
  have "\<exists>b \<in> set (activations (set_pc t pc pm)). act_index b = i \<and> running_pc (act_pc b)"
    if run: "info_of pm i = Some info" "status info = kRunning" for i info
  proof -
    from assms(1) run obtain b where
      b: "b \<in> set (activations pm)" "act_index b = i" "running_pc (act_pc b)"
      unfolding thread_inv_def by blast
    then have "act_thread b = t \<Longrightarrow> running_pc pc"
      using only [of b] assms(3) run by auto
    with b show ?thesis
      unfolding upd by (intro bexI [OF _ imageI [OF b(1)]]) auto
  qed
  then show ?thesis
    using assms(1) by (auto simp: thread_inv_def upd)
qed

lemma thread_inv_finish:
  assumes "thread_inv pm" and "act_at t pm = Some a" and "\<not> running_pc (act_pc a)"
  shows "thread_inv (finish t pm)"
proof -
  have "b = a" if "b \<in> set (activations pm)" "act_thread b = t" for b
    using assms(1,2) act_at_eq [of pm b] that by (auto simp: thread_inv_def)
  then have "b \<in> set (activations (finish t pm))"
    if "b \<in> set (activations pm)" "running_pc (act_pc b)" for b
    using that assms(3) by (auto simp: finish_def)
  moreover have "distinct (map act_thread (activations (finish t pm)))"
    using assms(1) by (simp add: thread_inv_def finish_def distinct_map_filter)
  moreover have "set (activations (finish t pm)) \<subseteq> set (activations pm)"
    by (auto simp: finish_def)
  ultimately show ?thesis
    using assms(1) unfolding thread_inv_def by (simp, meson subsetD)
qed

lemma thread_inv_SetStopped:
  "thread_inv pm \<Longrightarrow> thread_inv (snd (SetProcessStatus i kStopped pm))"
  by (rule thread_inv_mono [where pm = pm])
    (auto simp: SetProcessStatus_def info_of_at_process split: if_splits dest: killed_0)

lemma thread_inv_SetRunning:
  "thread_inv pm \<Longrightarrow> \<exists>a \<in> set (activations pm). act_index a = i \<and> running_pc (act_pc a) \<Longrightarrow>
     thread_inv (snd (SetProcessStatus i kRunning pm))"
  by (auto simp: thread_inv_def SetProcessStatus_def info_of_at_process)

lemma set_pc_SetProcessStatus:
  "set_pc t pc (snd (SetProcessStatus i st pm)) = snd (SetProcessStatus i st (set_pc t pc pm))"
  by (simp add: SetProcessStatus_def at_process_def set_pc_def FindProcess_def split: option.split)

lemma thread_inv_RunProcess_step:
  assumes inv: "thread_inv pm" and a: "act_at t pm = Some a" and "RunProcess_step t pm = Inr pm'"
  shows "thread_inv pm'"
proof (cases "act_pc a")
  case (Entered restart logging)
  with assms show ?thesis
    by (auto simp: RunProcess_step_def Let_def split: option.splits
        intro!: thread_inv_set_pc [OF inv a] thread_inv_finish [OF inv a])
next
  case (Launching nm as lg)
  let ?pm = "set_pc t (Executing nm as lg) pm"
  have "thread_inv ?pm"
    using Launching by (intro thread_inv_set_pc [OF inv a]) simp
  moreover have "\<exists>b \<in> set (activations ?pm). act_index b = act_index a \<and> running_pc (act_pc b)"
    using act_at_SomeD [OF a]
    by (auto simp: set_pc_def intro!: bexI [of _ "a\<lparr>act_pc := Executing nm as lg\<rparr>"])
  ultimately have "thread_inv (snd (SetProcessStatus (act_index a) kRunning ?pm))"
    by (rule thread_inv_SetRunning)
  with Launching assms show ?thesis
    by (simp add: RunProcess_step_def Let_def set_pc_SetProcessStatus)
next
  case (Executing nm as lg)
  let ?pm = "pm\<lparr>executed := executed pm @ [(act_index a, nm, as)]\<rparr>"
  have "thread_inv ?pm"
    using inv by (simp add: thread_inv_def)
  moreover have "act_at t ?pm = Some a"
    using a by (simp add: act_at_def)
  ultimately have "thread_inv (set_pc t (Waiting lg) ?pm)"
    by (rule thread_inv_set_pc) simp
  with Executing assms show ?thesis by (simp add: RunProcess_step_def Let_def)
next
  case (Waiting lg)
  have "thread_inv (set_pc t (Exited lg) pm)"
    by (rule thread_inv_set_pc [OF inv a]) simp
  with Waiting assms show ?thesis by (simp add: RunProcess_step_def Let_def)
next
  case (Exited lg)
  let ?pm = "snd (SetProcessStatus (act_index a) kStopped pm)"
  have "act_at t ?pm = Some a"
    using a by (simp add: act_at_def SetProcessStatus_def)
  then have "thread_inv (set_pc t (Deciding lg) ?pm)"
    by (rule thread_inv_set_pc [OF thread_inv_SetStopped [OF inv]])
      (auto simp: info_of_SetProcessStatus)
  with Exited assms show ?thesis by (simp add: RunProcess_step_def Let_def)
next
  case (Deciding lg)
  let ?pm = "at_process (act_index a) (\<lambda>info. info\<lparr>restart_count := restart_count info + 1\<rparr>) pm"
  have "thread_inv ?pm"
    by (rule thread_inv_at_process [OF inv]) simp_all
  moreover have "act_at t ?pm = Some a"
    using a by (simp add: act_at_def)
  ultimately have "thread_inv (set_pc t pc ?pm)" for pc
    by (rule thread_inv_set_pc) (simp add: Deciding)
  moreover have "thread_inv (finish t pm)"
    by (rule thread_inv_finish [OF inv a]) (simp add: Deciding)
  ultimately show ?thesis
    using Deciding assms by (auto simp: RunProcess_step_def Let_def split: option.splits if_splits)
qed

lemma pm_inv_RunProcess_step:
  assumes "pm_inv pm" and "RunProcess_step t pm = Inr pm'"
  shows "pm_inv pm'"
proof (cases "act_at t pm")
  case None
  with assms show ?thesis by (simp add: RunProcess_step_def)
next
  case (Some a)
  have count: "pm_inv (at_process (act_index a)
      (\<lambda>info. info\<lparr>restart_count := restart_count info + 1\<rparr>) pm)"
    if "FindProcess (act_index a) pm = Some itr" "restart_count (processes pm ! itr) \<le> 4" for itr
  proof -
    have upd: "entry_ok info \<Longrightarrow> restart_count info \<le> 4 \<Longrightarrow>
        entry_ok (info\<lparr>restart_count := restart_count info + 1\<rparr>)" for info
      by (simp add: entry_ok_def)
    have "entry_ok (processes pm ! itr)"
      using assms(1) FindProcess_SomeD [OF that(1)] by (simp add: pm_inv_def)
    with assms(1) that upd [of "processes pm ! itr"] show ?thesis
      by (auto simp: at_process_def pm_inv_def dest!: in_set_modify_at)
  qed
  with Some assms show ?thesis
    by (auto simp: RunProcess_step_def Let_def pm_inv_SetProcessStatus
        split: option.splits run_pc.splits if_splits)
qed

section \<open>Reachable states\<close>

lemma thread_inv_done:
  assumes "thread_inv pm"
  shows "thread_inv (LetProcessDie i pm)" and "thread_inv (StopProcess i pm)"
    and "thread_inv (RestartProcess i pm)"
  unfolding LetProcessDie_def StopProcess_def RestartProcess_def
  by (rule thread_inv_at_process [OF assms]; simp)+

lemmas thread_inv_ops = thread_inv_StartProcess thread_inv_KillProcess thread_inv_done
  thread_inv_LetAllProcessesDie thread_inv_WaitForProcesses_round

lemma pm_step_inv:
  assumes "pm_step pm e pm'" and "pm_inv pm" and "thread_inv pm" and "has_room pm"
    and "e \<noteq> TerminateDone"
  shows "pm_inv pm' \<and> thread_inv pm'"
  using assms
proof (induction rule: pm_step.induct)
  case (add pm p prt)
  then show ?case
    using pm_host.add_inv [of pm p prt] thread_inv_AddProcess [of pm p prt]
    by (cases "AddProcess p prt pm") auto
next
  case (join pm k t)
  let ?pm = "pm\<lparr>processes := modify_at k (\<lambda>info. info\<lparr>thread := None\<rparr>) (processes pm)\<rparr>"
  have "pm_inv ?pm"
    using join.prems(1) by (rule pm_inv_modify) simp_all
  moreover have "thread_inv ?pm"
    using join.prems(2) by (rule thread_inv_modify) simp_all
  ultimately show ?case
    by (simp only: pm_inv_fields thread_inv_terminating simp_thms)
next
  case (terminate pm)
  then show ?case by (simp add: thread_inv_terminating)
next
  case (skip pm k)
  then show ?case by (simp add: thread_inv_terminating)
next
  case (run t pm a pm')
  then show ?case using thread_inv_RunProcess_step pm_inv_RunProcess_step by blast
qed (simp_all only: pm_inv_StartProcess pm_inv_LetProcessDie pm_inv_LetAllProcessesDie
    pm_inv_KillProcess pm_inv_StopProcess pm_inv_RestartProcess pm_inv_WaitForProcesses_round
    thread_inv_ops simp_thms)

lemma reachable_inv: "reachable pm \<Longrightarrow> pm_inv pm \<and> thread_inv pm"
proof (induction rule: reachable.induct)
  case constructed
  show ?case by (simp add: thread_inv_def new_ProcessManager_def info_of_def FindProcess_def
        pm_inv_new [unfolded new_ProcessManager_def])
next
  case (continued pm e pm')
  then show ?case using pm_step_inv by blast
qed

section \<open>How often a child is launched\<close>

definition executions :: "process_index \<Rightarrow> ProcessManager \<Rightarrow> nat" where
  "executions i pm = length (filter (\<lambda>(j, _, _). j = i) (executed pm))"

text \<open>An activation that has not launched the child yet in its current round.\<close>

fun pending_pc :: "run_pc \<Rightarrow> bool" where
  "pending_pc (Entered _ _) = True"
| "pending_pc (Launching _ _ _) = True"
| "pending_pc (Executing _ _ _) = True"
| "pending_pc _ = False"

definition pending_on :: "process_index \<Rightarrow> activation \<Rightarrow> nat" where
  "pending_on i a = (if act_index a = i \<and> pending_pc (act_pc a) then 1 else 0)"

text \<open>
  The launches that process \<open>i\<close> may still see without a further \<open>StartProcess\<close>: one for each pending
  activation and one for each restart that the counter leaves.
\<close>

definition launch_budget :: "process_index \<Rightarrow> ProcessManager \<Rightarrow> nat" where
  "launch_budget i pm =
     (\<Sum>a \<leftarrow> activations pm. pending_on i a) +
     (case info_of pm i of None \<Rightarrow> 0 | Some info \<Rightarrow> nat (5 - restart_count info))"

lemma sum_set_pc:
  assumes "distinct (map act_thread as)" and "a \<in> set as" and "act_thread a = t"
  shows "(\<Sum>b \<leftarrow> map (\<lambda>b. if act_thread b = t then b\<lparr>act_pc := pc\<rparr> else b) as. pending_on i b)
           + pending_on i a = (\<Sum>b \<leftarrow> as. pending_on i b) + pending_on i (a\<lparr>act_pc := pc\<rparr>)"
  using assms
proof (induction as)
  case (Cons b bs)
  show ?case
  proof (cases "act_thread b = t")
    case True
    with Cons.prems have "b = a" by (auto simp: rev_image_eqI)
    moreover have "act_thread c \<noteq> t" if "c \<in> set bs" for c
      using Cons.prems True that by (auto intro: rev_image_eqI)
    then have "map (\<lambda>b. if act_thread b = t then b\<lparr>act_pc := pc\<rparr> else b) bs = bs"
      by (intro map_idI) auto
    ultimately show ?thesis using True by simp
  next
    case False
    with Cons show ?thesis by auto
  qed
qed simp

lemma sum_finish:
  "(\<Sum>b \<leftarrow> filter P as. pending_on i b) \<le> (\<Sum>b \<leftarrow> as. pending_on i b)"
  by (induction as) auto

lemma launch_budget_set_pc:
  assumes "thread_inv pm" and "act_at t pm = Some a"
  shows "launch_budget i (set_pc t pc pm) + pending_on i a =
           launch_budget i pm + pending_on i (a\<lparr>act_pc := pc\<rparr>)"
proof -
  have "activations (set_pc t pc pm) =
      map (\<lambda>b. if act_thread b = t then b\<lparr>act_pc := pc\<rparr> else b) (activations pm)"
    by (simp add: set_pc_def)
  moreover have "distinct (map act_thread (activations pm))"
    using assms(1) by (simp add: thread_inv_def)
  ultimately show ?thesis
    using sum_set_pc [of "activations pm" a t i pc] act_at_SomeD [OF assms(2)]
    by (simp add: launch_budget_def)
qed

lemma launch_budget_finish: "launch_budget i (finish t pm) \<le> launch_budget i pm"
proof -
  have "activations (finish t pm) = filter (\<lambda>a. act_thread a \<noteq> t) (activations pm)"
    by (simp add: finish_def)
  then show ?thesis
    using sum_finish [of i "\<lambda>a. act_thread a \<noteq> t" "activations pm"]
    by (simp add: launch_budget_def)
qed

lemma launch_budget_terminating [simp]:
  "launch_budget i (pm\<lparr>terminating := k\<rparr>) = launch_budget i pm"
  by (simp add: launch_budget_def)

lemma executions_simps [simp]:
  "executions i (set_pc t pc pm) = executions i pm"
  "executions i (finish t pm) = executions i pm"
  "executions i (at_process j f pm) = executions i pm"
  "executions i (pm\<lparr>terminating := k\<rparr>) = executions i pm"
  "executions i (pm\<lparr>executed := executed pm @ [(j, n, as)]\<rparr>) =
     executions i pm + (if j = i then 1 else 0)"
  by (simp_all add: executions_def)

text \<open>An update of one entry that does not lower its restart count leaves the budget alone.\<close>

lemma launch_budget_at_process:
  assumes "\<And>info. index (f info) = index info" and "\<And>info. restart_count (f info) = restart_count info"
  shows "launch_budget i (at_process j f pm) = launch_budget i pm"
  using assms by (simp add: launch_budget_def info_of_at_process split: option.split)

lemma launch_budget_count:
  assumes "pm_inv pm" and "info_of pm j = Some info" and "restart_count info \<le> 4"
  shows "launch_budget i (at_process j (\<lambda>info. info\<lparr>restart_count := restart_count info + 1\<rparr>) pm)
           + (if i = j then 1 else 0) = launch_budget i pm"
proof -
  have "0 \<le> restart_count info"
    using assms(1,2) by (auto simp: pm_inv_def entry_ok_def dest: info_of_SomeD)
  with assms(2,3) show ?thesis
    by (auto simp: launch_budget_def info_of_at_process)
qed

lemma launch_budget_pointwise:
  assumes "activations pm' = activations pm"
    and "list_all2 (\<lambda>x y. index y = index x \<and> restart_count y = restart_count x)
           (processes pm) (processes pm')"
  shows "launch_budget i pm' = launch_budget i pm"
proof -
  have "rel_option (\<lambda>x y. index y = index x \<and> restart_count y = restart_count x)
      (info_of pm i) (info_of pm' i)"
    by (rule info_of_list_all2 [OF assms(2)]) simp
  with assms(1) show ?thesis
    by (cases "info_of pm i"; cases "info_of pm' i") (simp_all add: launch_budget_def)
qed

lemma RunProcess_step_budget:
  assumes inv: "thread_inv pm" "pm_inv pm" and a: "act_at t pm = Some a"
    and step: "RunProcess_step t pm = Inr pm'"
  shows "executions i pm' + launch_budget i pm' \<le> executions i pm + launch_budget i pm"
proof (cases "act_pc a")
  case (Entered restart logging)
  then have same: "launch_budget i (set_pc t (Launching nm as lg) pm) = launch_budget i pm" for nm as lg
    using launch_budget_set_pc [OF inv(1) a, of i "Launching nm as lg"] by (simp add: pending_on_def)
  with Entered a step show ?thesis
    using launch_budget_finish [of i t pm]
    by (auto simp: RunProcess_step_def Let_def same split: option.splits)
next
  case (Launching nm as lg)
  let ?pm = "at_process (act_index a) (\<lambda>info. info\<lparr>status := kRunning\<rparr>) (set_pc t (Executing nm as lg) pm)"
  have "pm' = ?pm"
    using Launching a step
    by (simp add: RunProcess_step_def Let_def set_pc_SetProcessStatus) (simp add: SetProcessStatus_def)
  with Launching show ?thesis
    using launch_budget_set_pc [OF inv(1) a, of i "Executing nm as lg"]
    by (simp add: launch_budget_at_process pending_on_def)
next
  case (Executing nm as lg)
  let ?pm = "pm\<lparr>executed := executed pm @ [(act_index a, nm, as)]\<rparr>"
  have inv': "thread_inv ?pm" "act_at t ?pm = Some a" and same: "launch_budget i ?pm = launch_budget i pm"
    using inv(1) a by (simp_all add: thread_inv_def act_at_def launch_budget_def)
  have "pm' = set_pc t (Waiting lg) ?pm"
    using Executing a step by (simp add: RunProcess_step_def Let_def)
  with Executing same show ?thesis
    using launch_budget_set_pc [OF inv', of i "Waiting lg"] by (auto simp: pending_on_def)
next
  case (Waiting lg)
  then have "pm' = set_pc t (Exited lg) pm"
    using a step by (simp add: RunProcess_step_def)
  with Waiting show ?thesis
    using launch_budget_set_pc [OF inv(1) a, of i "Exited lg"] by (simp add: pending_on_def)
next
  case (Exited lg)
  let ?pm = "at_process (act_index a) (\<lambda>info. info\<lparr>status := kStopped\<rparr>) (set_pc t (Deciding lg) pm)"
  have "pm' = ?pm"
    using Exited a step
    by (simp add: RunProcess_step_def Let_def set_pc_SetProcessStatus) (simp add: SetProcessStatus_def)
  with Exited show ?thesis
    using launch_budget_set_pc [OF inv(1) a, of i "Deciding lg"]
    by (simp add: launch_budget_at_process pending_on_def)
next
  case (Deciding lg)
  let ?pm = "at_process (act_index a) (\<lambda>info. info\<lparr>restart_count := restart_count info + 1\<rparr>) pm"
  have inv': "thread_inv ?pm" "act_at t ?pm = Some a"
    using a thread_inv_at_process [OF inv(1)] by (simp_all add: act_at_def)
  from Deciding a step consider
      (stop) "pm' = finish t pm"
    | (again) itr b where "FindProcess (act_index a) pm = Some itr"
        "restart_count (processes pm ! itr) \<le> 4" "pm' = set_pc t (Entered True b) ?pm"
    by (auto simp: RunProcess_step_def Let_def split: option.splits if_splits)
  then show ?thesis
  proof cases
    case stop
    then show ?thesis using launch_budget_finish [of i t pm] by simp
  next
    case again
    then have "launch_budget i ?pm + (if i = act_index a then 1 else 0) = launch_budget i pm"
      using launch_budget_count [OF inv(2)] nth_processes_info_of by blast
    with again Deciding show ?thesis
      using launch_budget_set_pc [OF inv', of i "Entered True b"] by (auto simp: pending_on_def)
  qed
qed

lemma pm_step_budget:
  assumes "pm_step pm e pm'" and "pm_inv pm" and "thread_inv pm" and "has_room pm"
    and "e \<noteq> Start i" and "i \<in> known pm"
  shows "executions i pm' + launch_budget i pm' \<le> executions i pm + launch_budget i pm"
  using assms
proof (induction rule: pm_step.induct)
  case (add pm p prt)
  show ?case
  proof (cases "name p = []")
    case True
    then show ?thesis by (simp add: AddProcess_def)
  next
    case False
    obtain j pm' where new: "AddProcess p prt pm = (j, pm')" by fastforce
    moreover have "activations pm' = activations pm" "executed pm' = executed pm"
      using new False by (auto simp: AddProcess_def Let_def)
    moreover have "info_of pm' i = info_of pm i"
      using info_of_AddProcess [OF new] AddProcess_index(4) [OF _ _ False new] add False by fastforce
    ultimately show ?thesis by (simp add: launch_budget_def executions_def)
  qed
next
  case (start pm j)
  then have "info_of (StartProcess j pm) i = info_of pm i" by (simp add: info_of_StartProcess)
  moreover have "(\<Sum>a \<leftarrow> activations (StartProcess j pm). pending_on i a) =
      (\<Sum>a \<leftarrow> activations pm. pending_on i a)"
    using start by (auto simp: StartProcess_def Let_def pending_on_def split: option.split)
  moreover have "executed (StartProcess j pm) = executed pm"
    by (simp add: StartProcess_def Let_def split: option.split)
  ultimately show ?case by (simp add: launch_budget_def executions_def)
next
  case (kill pm j)
  have "info_of (KillProcess j pm) = info_of (at_process j (\<lambda>info. info\<lparr>is_done := True\<rparr>) pm)"
    by (simp add: info_of_KillProcess info_of_at_process)
  then have "launch_budget i (KillProcess j pm) = launch_budget i pm"
    using launch_budget_at_process [of "\<lambda>info. info\<lparr>is_done := True\<rparr>" i j pm]
    by (simp add: launch_budget_def KillProcess_def split: option.splits)
  moreover have "executed (KillProcess j pm) = executed pm"
    by (simp add: KillProcess_def split: option.split)
  ultimately show ?case by (simp add: executions_def)
next
  case (let_all_die pm)
  have "launch_budget i (LetAllProcessesDie pm) = launch_budget i pm"
    by (rule launch_budget_pointwise) (simp_all add: LetAllProcessesDie_def list_all2_conv_all_nth)
  then show ?case by (simp add: executions_def LetAllProcessesDie_def)
next
  case (wait_round pm)
  have "list_all2 (\<lambda>x y. index y = index x \<and> restart_count y = restart_count x) infos
      (snd (scan_processes infos))" for infos
    by (induction infos) (auto split: option.split prod.split simp: list_all2_same)
  moreover have "processes (snd (WaitForProcesses_round pm)) = snd (scan_processes (processes pm))"
    "activations (snd (WaitForProcesses_round pm)) = activations pm"
    "executed (snd (WaitForProcesses_round pm)) = executed pm"
    by (simp_all add: WaitForProcesses_round_def split: prod.split)
  ultimately show ?case
    using launch_budget_pointwise [of "snd (WaitForProcesses_round pm)" pm i]
    by (simp add: executions_def)
next
  case (run t pm a pm')
  then show ?case using RunProcess_step_budget by blast
next
  case (join pm k t)
  have "list_all2 (\<lambda>x y. index y = index x \<and> restart_count y = restart_count x) xs
      (modify_at k (\<lambda>info. info\<lparr>thread := None\<rparr>) xs)" for xs
    by (simp add: list_all2_conv_all_nth nth_modify_at)
  then have "launch_budget i
      (pm\<lparr>processes := modify_at k (\<lambda>info. info\<lparr>thread := None\<rparr>) (processes pm),
        terminating := Some (k + 1)\<rparr>) = launch_budget i pm"
    by (intro launch_budget_pointwise) simp_all
  then show ?case by (simp add: executions_def)
next
  case (terminated pm k)
  show ?case by (simp add: executions_def launch_budget_def info_of_def FindProcess_def)
qed (simp_all add: LetProcessDie_def StopProcess_def RestartProcess_def launch_budget_at_process)

lemma current_max_id_ops [cm_frame, simp]:
  "current_max_id (StartProcess i pm) = current_max_id pm"
  "current_max_id (KillProcess i pm) = current_max_id pm"
  "current_max_id (LetAllProcessesDie pm) = current_max_id pm"
  by (simp_all add: StartProcess_def KillProcess_def LetAllProcessesDie_def Let_def split: option.split)

lemma pm_step_known:
  assumes "pm_step pm e pm'" and "pm_inv pm" and "has_room pm" and "e \<noteq> TerminateDone"
  shows "known pm \<subseteq> known pm' \<and> unat (current_max_id pm') \<le> unat (current_max_id pm) + 1"
  using assms
proof (induction rule: pm_step.induct)
  case (add pm p prt)
  then show ?case
    using unat_next_index [of pm]
    by (cases "name p = []") (auto simp: AddProcess_def Let_def known_def)
next
  case (wait_round pm)
  then show ?case
    using scan_processes_map [of "processes pm"]
    by (cases "scan_processes (processes pm)")
      (simp add: known_def WaitForProcesses_round_def flip: set_map)
next
  case (run t pm a pm')
  then show ?case
    by (auto simp: RunProcess_step_def Let_def SetProcessStatus_def
        split: option.splits run_pc.splits if_splits)
next
  case (join pm k t)
  show ?case by (simp add: known_def flip: set_map)
qed (simp_all add: LetProcessDie_def StopProcess_def RestartProcess_def)

lemma trace_budget:
  assumes "pm_trace pm es pm'" and "reachable pm" and "i \<in> known pm"
    and "\<And>e. e \<in> set es \<Longrightarrow> e \<noteq> Start i \<and> e \<noteq> TerminateDone"
    and "unat (current_max_id pm) + length es + 2 < 2 ^ 32"
  shows "reachable pm' \<and> i \<in> known pm' \<and>
         unat (current_max_id pm') \<le> unat (current_max_id pm) + length es \<and>
         executions i pm' + launch_budget i pm' \<le> executions i pm + launch_budget i pm"
  using assms
proof (induction rule: pm_trace.induct)
  case (snoc pm es pm' e pm'')
  then have IH: "reachable pm'" "i \<in> known pm'"
      "unat (current_max_id pm') \<le> unat (current_max_id pm) + length es"
      "executions i pm' + launch_budget i pm' \<le> executions i pm + launch_budget i pm"
    by auto
  then have room: "has_room pm'" using snoc.prems by (simp add: has_room_def)
  have inv: "pm_inv pm'" "thread_inv pm'" using reachable_inv [OF IH(1)] by simp_all
  have e: "e \<noteq> Start i" "e \<noteq> TerminateDone" using snoc.prems by auto
  have "reachable pm''" using IH(1) room snoc.hyps(2) e(2) by (rule reachable.continued)
  moreover have "executions i pm'' + launch_budget i pm'' \<le> executions i pm' + launch_budget i pm'"
    using pm_step_budget [OF snoc.hyps(2) inv room e(1) IH(2)] .
  moreover have "known pm' \<subseteq> known pm'' \<and> unat (current_max_id pm'') \<le> unat (current_max_id pm') + 1"
    using pm_step_known [OF snoc.hyps(2) inv(1) room e(2)] .
  ultimately show ?case using IH by auto
qed simp

lemma launch_budget_StartProcess:
  assumes "\<And>a. a \<in> set (activations pm) \<Longrightarrow> act_index a \<noteq> i"
  shows "launch_budget i (StartProcess i pm) \<le> 6"
proof -
  have "(\<Sum>a \<leftarrow> as. pending_on i a) = 0" if "\<And>a. a \<in> set as \<Longrightarrow> act_index a \<noteq> i" for as
    using that by (induction as) (auto simp: pending_on_def)
  from this [of "activations pm"] assms have idle: "(\<Sum>a \<leftarrow> activations pm. pending_on i a) = 0"
    by simp
  have "pending_on i a \<le> 1" for a by (simp add: pending_on_def)
  then have "(\<Sum>a \<leftarrow> activations (StartProcess i pm). pending_on i a) \<le> 1"
    by (cases "FindProcess i pm") (simp_all add: StartProcess_def Let_def idle)
  then show ?thesis
    by (auto simp: launch_budget_def info_of_StartProcess info_of_None split: option.splits)
qed

section \<open>A thread that runs on its own\<close>

fun run_thread :: "nat \<Rightarrow> nat \<Rightarrow> ProcessManager \<Rightarrow> fault + ProcessManager" where
  "run_thread 0 t pm = Inr pm"
| "run_thread (Suc n) t pm =
     (case RunProcess_step t pm of Inl e \<Rightarrow> Inl e | Inr pm' \<Rightarrow> run_thread n t pm')"

lemma run_thread_add:
  "run_thread (m + n) t pm =
     (case run_thread m t pm of Inl e \<Rightarrow> Inl e | Inr pm' \<Rightarrow> run_thread n t pm')"
  by (induction m arbitrary: pm) (simp_all split: sum.split)

lemma RunProcess_step_info_of:
  "RunProcess_step t pm =
     (case act_at t pm of
        None \<Rightarrow> Inr pm
      | Some a \<Rightarrow>
          let i = act_index a
          in case act_pc a of
               Entered restart logging \<Rightarrow>
                 (case info_of pm i of
                    None \<Rightarrow> Inr (finish t pm)
                  | Some info \<Rightarrow> Inr (set_pc t (Launching (name (process info)) (args (process info))
                      logging) pm))
             | Launching n as logging \<Rightarrow>
                 Inr (set_pc t (Executing n as logging) (snd (SetProcessStatus i kRunning pm)))
             | Executing n as logging \<Rightarrow>
                 Inr (set_pc t (Waiting logging) (pm\<lparr>executed := executed pm @ [(i, n, as)]\<rparr>))
             | Waiting logging \<Rightarrow> Inr (set_pc t (Exited logging) pm)
             | Exited logging \<Rightarrow>
                 Inr (set_pc t (Deciding logging) (snd (SetProcessStatus i kStopped pm)))
             | Deciding logging \<Rightarrow>
                 (case info_of pm i of
                    None \<Rightarrow> Inl EndDereference
                  | Some info \<Rightarrow>
                      if is_done info \<or> restart_count info > 4 then Inr (finish t pm)
                      else Inr (set_pc t (Entered True (restart_count info \<ge> 3))
                        (at_process i (\<lambda>info. info\<lparr>restart_count := restart_count info + 1\<rparr>) pm))))"
  by (auto simp: RunProcess_step_def info_of_def Let_def split: option.split run_pc.split)

lemma act_at_ops [simp]:
  "act_at t (at_process i f pm) = act_at t pm"
  "act_at t (pm\<lparr>executed := es\<rparr>) = act_at t pm"
  "act_at t (pm\<lparr>terminating := k\<rparr>) = act_at t pm"
  by (simp_all add: act_at_def)

text \<open>One round of \<open>RunProcess\<close>: six steps, one launch, and then either the end or the next round.\<close>

lemma run_thread_round:
  assumes "act_at t pm = Some a" and "act_index a = i" and "act_pc a = Entered r l"
    and "info_of pm i = Some info"
  shows "\<exists>pm'. run_thread 6 t pm = Inr pm' \<and> executions i pm' = executions i pm + 1 \<and>
           (if is_done info \<or> restart_count info > 4
            then act_at t pm' = None \<and> info_of pm' i = Some (info\<lparr>status := kStopped\<rparr>)
            else (\<exists>a' r' l'. act_at t pm' = Some a' \<and> act_index a' = i \<and> act_pc a' = Entered r' l') \<and>
              info_of pm' i =
                Some (info\<lparr>status := kStopped, restart_count := restart_count info + 1\<rparr>))"
  using assms
  by (simp add: numeral_eq_Suc RunProcess_step_info_of Let_def SetProcessStatus_def
      info_of_at_process act_at_set_pc act_at_finish executions_def ex_bool_eq)

lemma run_thread_rounds:
  assumes "act_at t pm = Some a" and "act_index a = i" and "act_pc a = Entered r l"
    and "info_of pm i = Some info" and "\<not> is_done info" and "restart_count info = 5 - int n"
  shows "\<exists>pm'. run_thread (6 * (n + 1)) t pm = Inr pm' \<and>
           executions i pm' = executions i pm + (n + 1) \<and> act_at t pm' = None \<and>
           info_of pm' i = Some (info\<lparr>status := kStopped, restart_count := 5\<rparr>)"
  using assms
proof (induction n arbitrary: pm a r l info)
  case 0
  then have "info\<lparr>status := kStopped, restart_count := 5\<rparr> = info\<lparr>status := kStopped\<rparr>" by simp
  with run_thread_round [OF 0(1-4)] 0 show ?case by auto
next
  case (Suc n)
  let ?info = "info\<lparr>status := kStopped, restart_count := restart_count info + 1\<rparr>"
  from Suc.prems obtain pm1 a1 r1 l1 where step: "run_thread 6 t pm = Inr pm1"
    and one: "executions i pm1 = executions i pm + 1"
    and at: "act_at t pm1 = Some a1" "act_index a1 = i" "act_pc a1 = Entered r1 l1"
      "info_of pm1 i = Some ?info"
    using run_thread_round [OF Suc.prems(1-4)] by auto
  have "\<not> is_done ?info" "restart_count ?info = 5 - int n" using Suc.prems by simp_all
  from Suc.IH [OF at this] obtain pm' where "run_thread (6 * (n + 1)) t pm1 = Inr pm'"
    "executions i pm' = executions i pm1 + (n + 1)" "act_at t pm' = None"
    "info_of pm' i = Some (?info\<lparr>status := kStopped, restart_count := 5\<rparr>)" by blast
  moreover have "6 * (Suc n + 1) = 6 + 6 * (n + 1)" by simp
  ultimately show ?case using step one run_thread_add [of 6 "6 * (n + 1)" t pm] by auto
qed

lemma act_at_StartProcess:
  assumes "thread_inv pm" and "i \<in> known pm"
  shows "act_at (next_thread pm) (StartProcess i pm) =
           Some \<lparr>act_thread = next_thread pm, act_index = i, act_pc = Entered False False\<rparr>"
proof -
  have "find (\<lambda>a. act_thread a = n) (as @ [\<lparr>act_thread = n, act_index = i, act_pc = pc\<rparr>]) =
      Some \<lparr>act_thread = n, act_index = i, act_pc = pc\<rparr>"
    if "\<forall>a \<in> set as. act_thread a < n" for as n pc
    using that by (induction as) auto
  moreover obtain itr where "FindProcess i pm = Some itr"
    using assms(2) FindProcess_None [of i pm] by auto
  ultimately show ?thesis
    using assms(1) by (simp add: thread_inv_def act_at_def StartProcess_def Let_def)
qed

section \<open>The destructor\<close>

text \<open>While the destructor waits for a thread that is alive, nothing but unlocked steps can happen.\<close>

lemma terminate_stuck_step:
  assumes "pm_step pm e pm'" and "terminating pm = Some k" and "k < length (processes pm)"
    and "thread (processes pm ! k) = Some t" and "status (processes pm ! k) = kRunning"
    and "act_at t pm \<noteq> None"
  shows "e \<noteq> TerminateDone \<and> terminating pm' = Some k \<and> processes pm' = processes pm \<and>
         act_at t pm' \<noteq> None"
  using assms
proof (induction rule: pm_step.induct)
  case (run u pm a pm')
  then have "\<not> needs_mutex (act_pc a)" by auto
  with run show ?case
    by (cases "act_pc a") (auto simp: RunProcess_step_def Let_def act_at_set_pc)
qed auto

lemma terminate_stuck:
  assumes "pm_trace pm es pm'" and "terminating pm = Some k" and "k < length (processes pm)"
    and "thread (processes pm ! k) = Some t" and "status (processes pm ! k) = kRunning"
    and "act_at t pm \<noteq> None"
  shows "TerminateDone \<notin> set es \<and> terminating pm' = Some k \<and> processes pm' = processes pm \<and>
         act_at t pm' \<noteq> None"
  using assms
proof (induction rule: pm_trace.induct)
  case (snoc pm es pm' e pm'')
  then show ?case using terminate_stuck_step [of pm' e pm'' k t] by auto
qed simp

section \<open>A concrete history\<close>

text \<open>
  A process is added and started; its thread has launched the child and waits for it; then the
  destructor begins.
\<close>

definition demo_process :: Process where
  "demo_process = \<lparr>args = [''lifestuff_vault''], name = ''lifestuff_vault''\<rparr>"

definition demo_added :: ProcessManager where
  "demo_added = snd (AddProcess demo_process 5483 new_ProcessManager)"

definition demo_waiting :: ProcessManager where
  "demo_waiting =
     (case run_thread 3 0 (StartProcess 1 demo_added) of Inr pm \<Rightarrow> pm | Inl _ \<Rightarrow> demo_added)"

lemma run_thread_reachable:
  "reachable pm \<Longrightarrow> has_room pm \<Longrightarrow> terminating pm = None \<Longrightarrow> run_thread n t pm = Inr pm' \<Longrightarrow>
     reachable pm'"
proof (induction n arbitrary: pm)
  case (Suc n)
  then obtain pm1 where one: "RunProcess_step t pm = Inr pm1" "run_thread n t pm1 = Inr pm'"
    by (auto split: sum.splits)
  have frame: "current_max_id pm1 = current_max_id pm \<and> terminating pm1 = terminating pm"
    using one(1) by (auto simp: RunProcess_step_def Let_def SetProcessStatus_def
        split: option.splits run_pc.splits if_splits)
  have "reachable pm1"
  proof (cases "act_at t pm")
    case None
    with one(1) Suc.prems show ?thesis by (simp add: RunProcess_step_def)
  next
    case (Some a)
    with one(1) Suc.prems have "pm_step pm (Run t) pm1" by (auto intro: pm_step.run)
    with Suc.prems show ?thesis by (auto intro: reachable.continued)
  qed
  with Suc frame one(2) show ?case by (auto simp: has_room_def)
qed simp

lemma demo_facts:
  "known demo_added = {1}" "current_max_id demo_added = 1" "terminating demo_added = None"
  "activations demo_added = []" "next_thread demo_added = 0" "executions 1 demo_added = 0"
  by (simp_all add: demo_added_def demo_process_def AddProcess_def new_ProcessManager_def Let_def
      known_def executions_def new_ProcessInfo_def)

lemma demo_waiting_run: "run_thread 3 0 (StartProcess 1 demo_added) = Inr demo_waiting"
  by (simp add: demo_waiting_def numeral_eq_Suc RunProcess_step_def act_at_def demo_added_def
      demo_process_def AddProcess_def new_ProcessManager_def new_ProcessInfo_def AddArgument_def Let_def
      StartProcess_def FindProcess_def modify_at_def SetProcessStatus_def at_process_def set_pc_def)

lemma demo_waiting_facts:
  "map status (processes demo_waiting) = [kRunning]" "map thread (processes demo_waiting) = [Some 0]"
  "activations demo_waiting = [\<lparr>act_thread = 0, act_index = 1, act_pc = Waiting False\<rparr>]"
  "terminating demo_waiting = None"
  by (simp_all add: demo_waiting_def numeral_eq_Suc RunProcess_step_def act_at_def demo_added_def
      demo_process_def AddProcess_def new_ProcessManager_def new_ProcessInfo_def AddArgument_def Let_def
      StartProcess_def FindProcess_def modify_at_def SetProcessStatus_def at_process_def set_pc_def)

lemma demo_reachable: "reachable demo_added" "reachable demo_waiting"
proof -
  have room: "has_room new_ProcessManager" "terminating new_ProcessManager = None"
    by (simp_all add: new_ProcessManager_def has_room_def)
  from reachable.constructed room(1) pm_step.add [OF room(2)] show added: "reachable demo_added"
    unfolding demo_added_def by (rule reachable.continued) simp
  have "reachable (StartProcess 1 demo_added)"
    by (rule reachable.continued [OF added _ pm_step.start]) (simp_all add: has_room_def demo_facts)
  then show "reachable demo_waiting"
    by (rule run_thread_reachable [OF _ _ _ demo_waiting_run])
      (simp_all add: has_room_def demo_facts StartProcess_def Let_def split: option.split)
qed

section \<open>Properties\<close>



text \<open>
  No step of \<open>RunProcess\<close> dereferences the end iterator while the process manager lives: the entry
  of a thread's process is never removed before the destructor ends.
\<close>

theorem RunProcess_step_defined:
  assumes "reachable pm"
  shows "\<exists>pm'. RunProcess_step t pm = Inr pm'"
proof (cases "act_at t pm")
  case (Some a)
  then have "act_index a \<in> known pm"
    using reachable_inv [OF assms] by (auto simp: thread_inv_def dest: act_at_SomeD)
  then obtain itr where "FindProcess (act_index a) pm = Some itr"
    using FindProcess_None [of "act_index a" pm] by auto
  with Some show ?thesis
    by (auto simp: RunProcess_step_def Let_def split: run_pc.split)
qed (simp add: RunProcess_step_def)

theorem RunProcess_step_defined_witness:
  "\<exists>pm'. RunProcess_step 0 demo_waiting = Inr pm'"
  by (rule RunProcess_step_defined [OF demo_reachable(2)])



text \<open>
  C26: a child that exits every time and is never told to stop is launched exactly six times by the
  thread that \<open>StartProcess\<close> creates; the thread then ends, and leaves the process stopped with its
  restart count at 5.
\<close>

theorem crash_loop_ends:
  assumes "reachable pm" and "i \<in> known pm"
  shows "\<exists>pm'. run_thread 36 (next_thread pm) (StartProcess i pm) = Inr pm' \<and>
           executions i pm' = executions i pm + 6 \<and> act_at (next_thread pm) pm' = None \<and>
           (\<exists>info. info_of pm' i = Some info \<and> status info = kStopped \<and> restart_count info = 5)"
proof -
  obtain info where info: "info_of pm i = Some info"
    using assms(2) info_of_None [of pm i] by auto
  have inv: "thread_inv pm" using assms(1) reachable_inv by blast
  have "executions i (StartProcess i pm) = executions i pm"
    by (simp add: StartProcess_def Let_def executions_def split: option.split)
  then show ?thesis
    using run_thread_rounds [OF act_at_StartProcess [OF inv assms(2)], of i False False _ 5] info
    by (fastforce simp: info_of_StartProcess)
qed

theorem crash_loop_ends_witness:
  "\<exists>pm'. run_thread 36 0 (StartProcess 1 demo_added) = Inr pm' \<and> executions 1 pm' = 6"
  using crash_loop_ends [OF demo_reachable(1), of 1] by (auto simp: demo_facts)

text \<open>
  C27: the destructor never returns once it joins a thread whose process is running: \<open>TerminateAll\<close>
  keeps \<open>mutex_\<close> locked during the join, and the thread needs \<open>mutex_\<close> in order to end.
\<close>

theorem TerminateAll_deadlocks:
  assumes "terminating pm = Some k" and "k < length (processes pm)"
    and "thread (processes pm ! k) = Some t" and "status (processes pm ! k) = kRunning"
    and "act_at t pm \<noteq> None" and "pm_trace pm es pm'"
  shows "terminating pm' = Some k \<and> TerminateDone \<notin> set es \<and> processes pm' \<noteq> []"
  using terminate_stuck [OF assms(6,1-5)] assms(2) by auto

theorem TerminateAll_deadlocks_witness:
  "reachable demo_waiting \<and>
   (\<exists>pm'. pm_trace (demo_waiting\<lparr>terminating := Some 0\<rparr>) [Run 0] pm' \<and>
      terminating pm' = Some 0 \<and> processes pm' \<noteq> [])"
proof -
  let ?pm = "demo_waiting\<lparr>terminating := Some 0\<rparr>"
  have at: "processes ?pm \<noteq> []" "thread (processes ?pm ! 0) = Some 0"
    "status (processes ?pm ! 0) = kRunning"
    using demo_waiting_facts(1,2) by (cases "processes demo_waiting"; simp)+
  have act: "act_at 0 ?pm = Some \<lparr>act_thread = 0, act_index = 1, act_pc = Waiting False\<rparr>"
    unfolding act_at_ops by (simp add: act_at_def demo_waiting_facts)
  then have "RunProcess_step 0 ?pm = Inr (set_pc 0 (Exited False) ?pm)"
    by (simp add: RunProcess_step_def)
  then have "pm_step ?pm (Run 0) (set_pc 0 (Exited False) ?pm)"
    by (intro pm_step.run [OF act]) simp
  then have run: "pm_trace ?pm [Run 0] (set_pc 0 (Exited False) ?pm)"
    using pm_trace.snoc [OF pm_trace.empty] by force
  from TerminateAll_deadlocks [OF _ _ at(2,3) _ run] at(1) act demo_reachable(2) run
  show ?thesis by auto
qed

end
