(* ===== verification/Wire_Format.thy ===== *)
theory Wire_Format
  imports Messages
begin

text \<open>
  One concrete instance of the parameter \<open>protobuf\<close>, in the style of the protocol buffer wire
  format: base-128 varints, length-prefixed strings and lists, fields in order.  It shows that the
  hypothesis \<open>protobuf_ok\<close> of the theorems can be met by computable functions; the witnesses of the
  component theories use it.  It models no code of the repository.
\<close>

section \<open>Coding primitives\<close>

type_synonym 'a encoder = "'a \<Rightarrow> bytes"
type_synonym 'a decoder = "bytes \<Rightarrow> ('a \<times> bytes) option"

definition prefix_code :: "'a encoder \<Rightarrow> 'a decoder \<Rightarrow> bool" where
  "prefix_code e d \<longleftrightarrow> (\<forall>x r. d (e x @ r) = Some (x, r))"

fun enc_nat :: "nat encoder" where
  "enc_nat n = (if n < 128 then [char_of n] else char_of (128 + n mod 128) # enc_nat (n div 128))"

declare enc_nat.simps [simp del]

fun dec_nat :: "nat decoder" where
  "dec_nat [] = None"
| "dec_nat (c # cs) =
     (if of_char c < (128 :: nat) then Some (of_char c, cs)
      else map_option (\<lambda>(n, r). (128 * n + (of_char c - 128), r)) (dec_nat cs))"

definition enc_via :: "('a \<Rightarrow> 'b) \<Rightarrow> 'b encoder \<Rightarrow> 'a encoder" where
  "enc_via f e = (\<lambda>x. e (f x))"

definition dec_via :: "('b \<Rightarrow> 'a) \<Rightarrow> 'b decoder \<Rightarrow> 'a decoder" where
  "dec_via g d = (\<lambda>s. map_option (\<lambda>(x, r). (g x, r)) (d s))"

definition enc_pair :: "'a encoder \<Rightarrow> 'b encoder \<Rightarrow> ('a \<times> 'b) encoder" where
  "enc_pair e1 e2 = (\<lambda>(x, y). e1 x @ e2 y)"

definition dec_pair :: "'a decoder \<Rightarrow> 'b decoder \<Rightarrow> ('a \<times> 'b) decoder" where
  "dec_pair d1 d2 = (\<lambda>s. Option.bind (d1 s)
     (\<lambda>(x, r). map_option (\<lambda>(y, r'). ((x, y), r')) (d2 r)))"

fun dec_many :: "'a decoder \<Rightarrow> nat \<Rightarrow> 'a list decoder" where
  "dec_many d 0 s = Some ([], s)"
| "dec_many d (Suc n) s = Option.bind (d s)
     (\<lambda>(x, r). map_option (\<lambda>(xs, r'). (x # xs, r')) (dec_many d n r))"

definition enc_list :: "'a encoder \<Rightarrow> 'a list encoder" where
  "enc_list e xs = enc_nat (length xs) @ concat (map e xs)"

definition dec_list :: "'a decoder \<Rightarrow> 'a list decoder" where
  "dec_list d s = Option.bind (dec_nat s) (\<lambda>(n, r). dec_many d n r)"

definition enc_bytes :: "bytes encoder" where
  "enc_bytes = enc_list (\<lambda>c. [c])"

definition dec_bytes :: "bytes decoder" where
  "dec_bytes = dec_list (\<lambda>s. case s of [] \<Rightarrow> None | c # r \<Rightarrow> Some (c, r))"

definition enc_option :: "'a encoder \<Rightarrow> 'a option encoder" where
  "enc_option e = enc_via (\<lambda>x. case x of None \<Rightarrow> [] | Some y \<Rightarrow> [y]) (enc_list e)"

definition dec_option :: "'a decoder \<Rightarrow> 'a option decoder" where
  "dec_option d = dec_via (\<lambda>xs. case xs of [] \<Rightarrow> None | y # _ \<Rightarrow> Some y) (dec_list d)"

definition enc_bool :: "bool encoder" where
  "enc_bool = enc_via (\<lambda>b. if b then 1 else 0) enc_nat"

definition dec_bool :: "bool decoder" where
  "dec_bool = dec_via (\<lambda>n. n \<noteq> 0) dec_nat"

definition enc_int :: "int encoder" where
  "enc_int = enc_via (\<lambda>n. (n < 0, nat \<bar>n\<bar>)) (enc_pair enc_bool enc_nat)"

definition dec_int :: "int decoder" where
  "dec_int = dec_via (\<lambda>(b, n). if b then - int n else int n) (dec_pair dec_bool dec_nat)"

definition enc_word :: "32 word encoder" where
  "enc_word = enc_via unat enc_nat"

definition dec_word :: "32 word decoder" where
  "dec_word = dec_via of_nat dec_nat"

text \<open>The tag byte in front keeps every serialisation non-empty.\<close>

definition wire :: "('m \<Rightarrow> 'a) \<Rightarrow> ('a \<Rightarrow> 'm) \<Rightarrow> 'a encoder \<Rightarrow> 'a decoder \<Rightarrow> ('m \<Rightarrow> bool) \<Rightarrow> 'm \<Rightarrow> 'm codec" where
  "wire f g e d initialised dflt =
     \<lparr>SerializeAsString = (\<lambda>m. CHR 0x0A # e (f m)),
      ParseFromString = (\<lambda>s. case dec_via g d (tl s) of
         Some (m, []) \<Rightarrow> (initialised m, m) | _ \<Rightarrow> (False, dflt))\<rparr>"

section \<open>The messages\<close>

definition enc_Endpoint :: "Endpoint encoder" where
  "enc_Endpoint =
     enc_via (\<lambda>m. (ep_ip m, ep_port m)) (enc_pair enc_bytes enc_int)"

definition dec_Endpoint :: "Endpoint decoder" where
  "dec_Endpoint =
     dec_via (\<lambda>(a, b). \<lparr>ep_ip = a, ep_port = b\<rparr>)
       (dec_pair dec_bytes dec_int)"

definition enc_Bootstrap :: "Bootstrap encoder" where
  "enc_Bootstrap =
     enc_via (\<lambda>m. bootstrap_contacts m) (enc_list enc_Endpoint)"

definition dec_Bootstrap :: "Bootstrap decoder" where
  "dec_Bootstrap =
     dec_via (\<lambda>a. \<lparr>bootstrap_contacts = a\<rparr>)
       (dec_list dec_Endpoint)"

definition enc_VaultInfoPb :: "VaultInfoPb encoder" where
  "enc_VaultInfoPb =
     enc_via (\<lambda>m. (vip_pmid m, vip_chunkstore_path m, vip_requested_to_run m, vip_version m)) (enc_pair enc_bytes (enc_pair enc_bytes (enc_pair enc_bool enc_int)))"

definition dec_VaultInfoPb :: "VaultInfoPb decoder" where
  "dec_VaultInfoPb =
     dec_via (\<lambda>(a, b, c, d). \<lparr>vip_pmid = a, vip_chunkstore_path = b, vip_requested_to_run = c, vip_version = d\<rparr>)
       (dec_pair dec_bytes (dec_pair dec_bytes (dec_pair dec_bool dec_int)))"

definition wire_Wrapper :: "WrapperMessage codec" where
  "wire_Wrapper =
     wire (\<lambda>m. (wm_type m, wm_payload m, wm_message_signature m))
       (\<lambda>(a, b, c). \<lparr>wm_type = a, wm_payload = b, wm_message_signature = c\<rparr>)
       (enc_pair enc_int (enc_pair enc_bytes (enc_option enc_bytes)))
       (dec_pair dec_int (dec_pair dec_bytes (dec_option dec_bytes))) (\<lambda>_. True)
       \<lparr>wm_type = 0, wm_payload = [], wm_message_signature = None\<rparr>"

definition wire_ClientRegistrationRequest :: "ClientRegistrationRequest codec" where
  "wire_ClientRegistrationRequest =
     wire (\<lambda>m. (crq_listening_port m, crq_version m))
       (\<lambda>(a, b). \<lparr>crq_listening_port = a, crq_version = b\<rparr>)
       (enc_pair enc_word enc_int)
       (dec_pair dec_word dec_int) (\<lambda>_. True)
       \<lparr>crq_listening_port = 0, crq_version = 0\<rparr>"

definition wire_ClientRegistrationResponse :: "ClientRegistrationResponse codec" where
  "wire_ClientRegistrationResponse =
     wire (\<lambda>m. (crs_bootstrap_endpoint_ip m, crs_bootstrap_endpoint_port m, crs_path_to_new_installer m))
       (\<lambda>(a, b, c). \<lparr>crs_bootstrap_endpoint_ip = a, crs_bootstrap_endpoint_port = b, crs_path_to_new_installer = c\<rparr>)
       (enc_pair (enc_list enc_bytes) (enc_pair (enc_list enc_word) (enc_option enc_bytes)))
       (dec_pair (dec_list dec_bytes) (dec_pair (dec_list dec_word) (dec_option dec_bytes))) (\<lambda>_. True)
       \<lparr>crs_bootstrap_endpoint_ip = [], crs_bootstrap_endpoint_port = [], crs_path_to_new_installer = None\<rparr>"

definition wire_StartVaultRequest :: "StartVaultRequest codec" where
  "wire_StartVaultRequest =
     wire (\<lambda>m. (svq_account_name m, svq_pmid m, svq_token m, svq_token_signature m, svq_credential_change m, svq_client_port m, svq_chunkstore_path m, svq_identity_index m))
       (\<lambda>(a, b, c, d, e, f, g, h). \<lparr>svq_account_name = a, svq_pmid = b, svq_token = c, svq_token_signature = d, svq_credential_change = e, svq_client_port = f, svq_chunkstore_path = g, svq_identity_index = h\<rparr>)
       (enc_pair enc_bytes (enc_pair enc_bytes (enc_pair enc_bytes (enc_pair enc_bytes (enc_pair enc_bool (enc_pair enc_word (enc_pair (enc_option enc_bytes) (enc_option enc_int))))))))
       (dec_pair dec_bytes (dec_pair dec_bytes (dec_pair dec_bytes (dec_pair dec_bytes (dec_pair dec_bool (dec_pair dec_word (dec_pair (dec_option dec_bytes) (dec_option dec_int)))))))) (\<lambda>_. True)
       \<lparr>svq_account_name = [], svq_pmid = [], svq_token = [], svq_token_signature = [], svq_credential_change = False, svq_client_port = 0, svq_chunkstore_path = None, svq_identity_index = None\<rparr>"

definition wire_StartVaultResponse :: "StartVaultResponse codec" where
  "wire_StartVaultResponse =
     wire (\<lambda>m. svs_result m)
       (\<lambda>a. \<lparr>svs_result = a\<rparr>)
       enc_bool
       dec_bool (\<lambda>_. True)
       \<lparr>svs_result = False\<rparr>"

definition wire_VaultIdentityRequest :: "VaultIdentityRequest codec" where
  "wire_VaultIdentityRequest =
     wire (\<lambda>m. (viq_process_index m, viq_listening_port m, viq_version m))
       (\<lambda>(a, b, c). \<lparr>viq_process_index = a, viq_listening_port = b, viq_version = c\<rparr>)
       (enc_pair enc_word (enc_pair enc_word enc_int))
       (dec_pair dec_word (dec_pair dec_word dec_int)) (\<lambda>_. True)
       \<lparr>viq_process_index = 0, viq_listening_port = 0, viq_version = 0\<rparr>"

definition wire_VaultIdentityResponse :: "VaultIdentityResponse codec" where
  "wire_VaultIdentityResponse =
     wire (\<lambda>m. (vis_pmid m, vis_chunkstore_path m, vis_bootstrap_endpoint_ip m, vis_bootstrap_endpoint_port m))
       (\<lambda>(a, b, c, d). \<lparr>vis_pmid = a, vis_chunkstore_path = b, vis_bootstrap_endpoint_ip = c, vis_bootstrap_endpoint_port = d\<rparr>)
       (enc_pair enc_bytes (enc_pair enc_bytes (enc_pair (enc_list enc_bytes) (enc_list enc_word))))
       (dec_pair dec_bytes (dec_pair dec_bytes (dec_pair (dec_list dec_bytes) (dec_list dec_word)))) (\<lambda>_. True)
       \<lparr>vis_pmid = [], vis_chunkstore_path = [], vis_bootstrap_endpoint_ip = [], vis_bootstrap_endpoint_port = []\<rparr>"

definition wire_VaultJoinedNetwork :: "VaultJoinedNetwork codec" where
  "wire_VaultJoinedNetwork =
     wire (\<lambda>m. (vjn_process_index m, vjn_joined m))
       (\<lambda>(a, b). \<lparr>vjn_process_index = a, vjn_joined = b\<rparr>)
       (enc_pair enc_word enc_bool)
       (dec_pair dec_word dec_bool) (\<lambda>_. True)
       \<lparr>vjn_process_index = 0, vjn_joined = False\<rparr>"

definition wire_VaultJoinedNetworkAck :: "VaultJoinedNetworkAck codec" where
  "wire_VaultJoinedNetworkAck =
     wire (\<lambda>m. vja_ack m)
       (\<lambda>a. \<lparr>vja_ack = a\<rparr>)
       enc_bool
       dec_bool (\<lambda>_. True)
       \<lparr>vja_ack = False\<rparr>"

definition wire_VaultJoinConfirmation :: "VaultJoinConfirmation codec" where
  "wire_VaultJoinConfirmation =
     wire (\<lambda>m. (vjc_identity m, vjc_joined m))
       (\<lambda>(a, b). \<lparr>vjc_identity = a, vjc_joined = b\<rparr>)
       (enc_pair enc_bytes enc_bool)
       (dec_pair dec_bytes dec_bool) (\<lambda>_. True)
       \<lparr>vjc_identity = [], vjc_joined = False\<rparr>"

definition wire_VaultJoinConfirmationAck :: "VaultJoinConfirmationAck codec" where
  "wire_VaultJoinConfirmationAck =
     wire (\<lambda>m. vjca_ack m)
       (\<lambda>a. \<lparr>vjca_ack = a\<rparr>)
       enc_bool
       dec_bool (\<lambda>_. True)
       \<lparr>vjca_ack = False\<rparr>"

definition wire_SendEndpointRequest :: "SendEndpointToClientManagerRequest codec" where
  "wire_SendEndpointRequest =
     wire (\<lambda>m. (seq_bootstrap_endpoint_ip m, seq_bootstrap_endpoint_port m))
       (\<lambda>(a, b). \<lparr>seq_bootstrap_endpoint_ip = a, seq_bootstrap_endpoint_port = b\<rparr>)
       (enc_pair enc_bytes enc_word)
       (dec_pair dec_bytes dec_word) (\<lambda>_. True)
       \<lparr>seq_bootstrap_endpoint_ip = [], seq_bootstrap_endpoint_port = 0\<rparr>"

definition wire_SendEndpointResponse :: "SendEndpointToClientManagerResponse codec" where
  "wire_SendEndpointResponse =
     wire (\<lambda>m. ses_result m)
       (\<lambda>a. \<lparr>ses_result = a\<rparr>)
       enc_bool
       dec_bool (\<lambda>_. True)
       \<lparr>ses_result = False\<rparr>"

definition wire_StopVaultRequest :: "StopVaultRequest codec" where
  "wire_StopVaultRequest =
     wire (\<lambda>m. (spq_data m, spq_signature m, spq_identity m))
       (\<lambda>(a, b, c). \<lparr>spq_data = a, spq_signature = b, spq_identity = c\<rparr>)
       (enc_pair enc_bytes (enc_pair enc_bytes enc_bytes))
       (dec_pair dec_bytes (dec_pair dec_bytes dec_bytes)) (\<lambda>_. True)
       \<lparr>spq_data = [], spq_signature = [], spq_identity = []\<rparr>"

definition wire_StopVaultResponse :: "StopVaultResponse codec" where
  "wire_StopVaultResponse =
     wire (\<lambda>m. sps_result m)
       (\<lambda>a. \<lparr>sps_result = a\<rparr>)
       enc_bool
       dec_bool (\<lambda>_. True)
       \<lparr>sps_result = False\<rparr>"

definition wire_VaultShutdownRequest :: "VaultShutdownRequest codec" where
  "wire_VaultShutdownRequest =
     wire (\<lambda>m. (vsq_process_index m, vsq_data m, vsq_signature m))
       (\<lambda>(a, b, c). \<lparr>vsq_process_index = a, vsq_data = b, vsq_signature = c\<rparr>)
       (enc_pair enc_word (enc_pair enc_bytes enc_bytes))
       (dec_pair dec_word (dec_pair dec_bytes dec_bytes)) (\<lambda>_. True)
       \<lparr>vsq_process_index = 0, vsq_data = [], vsq_signature = []\<rparr>"

definition wire_UpdateIntervalRequest :: "UpdateIntervalRequest codec" where
  "wire_UpdateIntervalRequest =
     wire (\<lambda>m. uiq_new_update_interval m)
       (\<lambda>a. \<lparr>uiq_new_update_interval = a\<rparr>)
       (enc_option enc_word)
       (dec_option dec_word) (\<lambda>_. True)
       \<lparr>uiq_new_update_interval = None\<rparr>"

definition wire_UpdateIntervalResponse :: "UpdateIntervalResponse codec" where
  "wire_UpdateIntervalResponse =
     wire (\<lambda>m. uis_update_interval m)
       (\<lambda>a. \<lparr>uis_update_interval = a\<rparr>)
       enc_word
       dec_word (\<lambda>_. True)
       \<lparr>uis_update_interval = 0\<rparr>"

definition wire_NewVersionAvailable :: "NewVersionAvailable codec" where
  "wire_NewVersionAvailable =
     wire (\<lambda>m. nva_new_version_filepath m)
       (\<lambda>a. \<lparr>nva_new_version_filepath = a\<rparr>)
       enc_bytes
       dec_bytes (\<lambda>_. True)
       \<lparr>nva_new_version_filepath = []\<rparr>"

definition wire_NewVersionAvailableAck :: "NewVersionAvailableAck codec" where
  "wire_NewVersionAvailableAck =
     wire (\<lambda>m. nvk_new_version_filepath m)
       (\<lambda>a. \<lparr>nvk_new_version_filepath = a\<rparr>)
       enc_bytes
       dec_bytes (\<lambda>_. True)
       \<lparr>nvk_new_version_filepath = []\<rparr>"

definition wire_BootstrapRequest :: "BootstrapRequest codec" where
  "wire_BootstrapRequest =
     wire (\<lambda>m. btq_message_id m)
       (\<lambda>a. \<lparr>btq_message_id = a\<rparr>)
       enc_word
       dec_word (\<lambda>_. True)
       \<lparr>btq_message_id = 0\<rparr>"

definition wire_BootstrapResponse :: "BootstrapResponse codec" where
  "wire_BootstrapResponse =
     wire (\<lambda>m. (bts_bootstrap_endpoint_ip m, bts_bootstrap_endpoint_port m))
       (\<lambda>(a, b). \<lparr>bts_bootstrap_endpoint_ip = a, bts_bootstrap_endpoint_port = b\<rparr>)
       (enc_pair (enc_list enc_bytes) (enc_list enc_word))
       (dec_pair (dec_list dec_bytes) (dec_list dec_word)) (\<lambda>_. True)
       \<lparr>bts_bootstrap_endpoint_ip = [], bts_bootstrap_endpoint_port = []\<rparr>"

definition wire_Bootstrap :: "Bootstrap codec" where
  "wire_Bootstrap =
     wire (\<lambda>m. bootstrap_contacts m)
       (\<lambda>a. \<lparr>bootstrap_contacts = a\<rparr>)
       (enc_list enc_Endpoint)
       (dec_list dec_Endpoint) (\<lambda>_. True)
       \<lparr>bootstrap_contacts = []\<rparr>"

definition wire_Config :: "ClientManagerConfig codec" where
  "wire_Config =
     wire (\<lambda>m. (cfg_update_interval m, cfg_bootstrap_endpoints m, cfg_vault_info m, cfg_vault_permissions m))
       (\<lambda>(a, b, c, d). \<lparr>cfg_update_interval = a, cfg_bootstrap_endpoints = b, cfg_vault_info = c, cfg_vault_permissions = d\<rparr>)
       (enc_pair (enc_option enc_word) (enc_pair (enc_option enc_Bootstrap) (enc_pair (enc_list enc_VaultInfoPb) (enc_option enc_bytes))))
       (dec_pair (dec_option dec_word) (dec_pair (dec_option dec_Bootstrap) (dec_pair (dec_list dec_VaultInfoPb) (dec_option dec_bytes)))) config_initialised
       empty_config"

definition wire_protobuf :: protobuf where
  "wire_protobuf =
     \<lparr>pb_Wrapper = wire_Wrapper,
      pb_ClientRegistrationRequest = wire_ClientRegistrationRequest,
      pb_ClientRegistrationResponse = wire_ClientRegistrationResponse,
      pb_StartVaultRequest = wire_StartVaultRequest,
      pb_StartVaultResponse = wire_StartVaultResponse,
      pb_VaultIdentityRequest = wire_VaultIdentityRequest,
      pb_VaultIdentityResponse = wire_VaultIdentityResponse,
      pb_VaultJoinedNetwork = wire_VaultJoinedNetwork,
      pb_VaultJoinedNetworkAck = wire_VaultJoinedNetworkAck,
      pb_VaultJoinConfirmation = wire_VaultJoinConfirmation,
      pb_VaultJoinConfirmationAck = wire_VaultJoinConfirmationAck,
      pb_SendEndpointRequest = wire_SendEndpointRequest,
      pb_SendEndpointResponse = wire_SendEndpointResponse,
      pb_StopVaultRequest = wire_StopVaultRequest,
      pb_StopVaultResponse = wire_StopVaultResponse,
      pb_VaultShutdownRequest = wire_VaultShutdownRequest,
      pb_UpdateIntervalRequest = wire_UpdateIntervalRequest,
      pb_UpdateIntervalResponse = wire_UpdateIntervalResponse,
      pb_NewVersionAvailable = wire_NewVersionAvailable,
      pb_NewVersionAvailableAck = wire_NewVersionAvailableAck,
      pb_BootstrapRequest = wire_BootstrapRequest,
      pb_BootstrapResponse = wire_BootstrapResponse,
      pb_Bootstrap = wire_Bootstrap,
      pb_Config = wire_Config\<rparr>"

section \<open>They are prefix codes\<close>

lemma prefix_codeI: "(\<And>x r. d (e x @ r) = Some (x, r)) \<Longrightarrow> prefix_code e d"
  by (simp add: prefix_code_def)

lemma prefix_codeD: "prefix_code e d \<Longrightarrow> d (e x @ r) = Some (x, r)"
  by (simp add: prefix_code_def)

lemma dec_nat_enc_nat [simp]: "dec_nat (enc_nat n @ r) = Some (n, r)"
proof (induction n rule: enc_nat.induct)
  case (1 n)
  show ?case
  proof (cases "n < 128")
    case True
    then show ?thesis by (simp add: enc_nat.simps [of n])
  next
    case False
    then have "dec_nat (enc_nat n @ r) = Some (128 * (n div 128) + n mod 128, r)"
      using "1.IH" by (simp add: enc_nat.simps [of n])
    then show ?thesis by simp
  qed
qed

lemma prefix_code_nat [intro]: "prefix_code enc_nat dec_nat"
  by (rule prefix_codeI) simp

lemma prefix_code_via [intro]:
  "prefix_code e d \<Longrightarrow> (\<And>x. g (f x) = x) \<Longrightarrow> prefix_code (enc_via f e) (dec_via g d)"
  by (rule prefix_codeI) (simp add: enc_via_def dec_via_def prefix_codeD)

lemma prefix_code_pair [intro]:
  "prefix_code e1 d1 \<Longrightarrow> prefix_code e2 d2 \<Longrightarrow> prefix_code (enc_pair e1 e2) (dec_pair d1 d2)"
  by (rule prefix_codeI) (auto simp: enc_pair_def dec_pair_def prefix_codeD)

lemma prefix_code_list [intro]: "prefix_code e d \<Longrightarrow> prefix_code (enc_list e) (dec_list d)"
proof (rule prefix_codeI)
  fix xs r
  assume "prefix_code e d"
  then have "dec_many d (length xs) (concat (map e xs) @ r) = Some (xs, r)"
    by (induction xs) (simp_all add: prefix_codeD)
  then show "dec_list d (enc_list e xs @ r) = Some (xs, r)"
    by (simp add: dec_list_def enc_list_def)
qed

lemma prefix_code_bytes [intro]: "prefix_code enc_bytes dec_bytes"
  unfolding enc_bytes_def dec_bytes_def by (rule prefix_code_list) (rule prefix_codeI, simp)

lemma prefix_code_option [intro]: "prefix_code e d \<Longrightarrow> prefix_code (enc_option e) (dec_option d)"
  unfolding enc_option_def dec_option_def
  by (rule prefix_code_via) (auto split: option.split)

lemma prefix_code_bool [intro]: "prefix_code enc_bool dec_bool"
  unfolding enc_bool_def dec_bool_def by (rule prefix_code_via) auto

lemma prefix_code_int [intro]: "prefix_code enc_int dec_int"
  unfolding enc_int_def dec_int_def by (rule prefix_code_via) auto

lemma prefix_code_word [intro]: "prefix_code enc_word dec_word"
  unfolding enc_word_def dec_word_def by (rule prefix_code_via) auto

lemma parse_wire:
  assumes "prefix_code e d" and "\<And>m. g (f m) = m"
  shows "ParseFromString (wire f g e d i z) (SerializeAsString (wire f g e d i z) m) = (i m, m)"
proof -
  have "dec_via g d (enc_via f e m @ []) = Some (m, [])"
    using prefix_code_via [of e d g f] assms by (blast intro: prefix_codeD)
  then show ?thesis by (simp add: wire_def enc_via_def)
qed

lemma codec_ok_wire:
  "prefix_code e d \<Longrightarrow> (\<And>m. g (f m) = m) \<Longrightarrow> codec_ok (wire f g e d (\<lambda>_. True) z)"
  by (simp add: codec_ok_def parse_wire)

lemma config_codec_ok_wire:
  "prefix_code e d \<Longrightarrow> (\<And>m. g (f m) = m) \<Longrightarrow>
     config_codec_ok (wire f g e d config_initialised z)"
  by (simp add: config_codec_ok_def parse_wire) (simp add: wire_def)

lemma prefix_code_Endpoint [intro]: "prefix_code enc_Endpoint dec_Endpoint"
  unfolding enc_Endpoint_def dec_Endpoint_def
  by (rule prefix_code_via) auto

lemma prefix_code_Bootstrap [intro]: "prefix_code enc_Bootstrap dec_Bootstrap"
  unfolding enc_Bootstrap_def dec_Bootstrap_def
  by (rule prefix_code_via) auto

lemma prefix_code_VaultInfoPb [intro]: "prefix_code enc_VaultInfoPb dec_VaultInfoPb"
  unfolding enc_VaultInfoPb_def dec_VaultInfoPb_def
  by (rule prefix_code_via) auto

lemma wire_codecs_ok [simp]:
  "codec_ok wire_Wrapper"
  "codec_ok wire_ClientRegistrationRequest"
  "codec_ok wire_ClientRegistrationResponse"
  "codec_ok wire_StartVaultRequest"
  "codec_ok wire_StartVaultResponse"
  "codec_ok wire_VaultIdentityRequest"
  "codec_ok wire_VaultIdentityResponse"
  "codec_ok wire_VaultJoinedNetwork"
  "codec_ok wire_VaultJoinedNetworkAck"
  "codec_ok wire_VaultJoinConfirmation"
  "codec_ok wire_VaultJoinConfirmationAck"
  "codec_ok wire_SendEndpointRequest"
  "codec_ok wire_SendEndpointResponse"
  "codec_ok wire_StopVaultRequest"
  "codec_ok wire_StopVaultResponse"
  "codec_ok wire_VaultShutdownRequest"
  "codec_ok wire_UpdateIntervalRequest"
  "codec_ok wire_UpdateIntervalResponse"
  "codec_ok wire_NewVersionAvailable"
  "codec_ok wire_NewVersionAvailableAck"
  "codec_ok wire_BootstrapRequest"
  "codec_ok wire_BootstrapResponse"
  "codec_ok wire_Bootstrap"
  "config_codec_ok wire_Config"
  unfolding wire_Wrapper_def wire_ClientRegistrationRequest_def wire_ClientRegistrationResponse_def wire_StartVaultRequest_def wire_StartVaultResponse_def wire_VaultIdentityRequest_def wire_VaultIdentityResponse_def wire_VaultJoinedNetwork_def wire_VaultJoinedNetworkAck_def wire_VaultJoinConfirmation_def wire_VaultJoinConfirmationAck_def wire_SendEndpointRequest_def wire_SendEndpointResponse_def wire_StopVaultRequest_def wire_StopVaultResponse_def wire_VaultShutdownRequest_def wire_UpdateIntervalRequest_def wire_UpdateIntervalResponse_def wire_NewVersionAvailable_def wire_NewVersionAvailableAck_def wire_BootstrapRequest_def wire_BootstrapResponse_def wire_Bootstrap_def wire_Config_def
  by (rule codec_ok_wire config_codec_ok_wire; (intro prefix_code_pair)?; auto)+

lemma protobuf_ok_wire [simp]: "protobuf_ok wire_protobuf"
  by (simp add: protobuf_ok_def wire_protobuf_def)

section \<open>Lengths\<close>

lemma wire_fields:
  "pb_Wrapper wire_protobuf = wire_Wrapper"
  "pb_ClientRegistrationRequest wire_protobuf = wire_ClientRegistrationRequest"
  "pb_ClientRegistrationResponse wire_protobuf = wire_ClientRegistrationResponse"
  "pb_StartVaultRequest wire_protobuf = wire_StartVaultRequest"
  "pb_StartVaultResponse wire_protobuf = wire_StartVaultResponse"
  "pb_VaultIdentityRequest wire_protobuf = wire_VaultIdentityRequest"
  "pb_VaultIdentityResponse wire_protobuf = wire_VaultIdentityResponse"
  "pb_VaultJoinedNetwork wire_protobuf = wire_VaultJoinedNetwork"
  "pb_VaultJoinedNetworkAck wire_protobuf = wire_VaultJoinedNetworkAck"
  "pb_VaultJoinConfirmation wire_protobuf = wire_VaultJoinConfirmation"
  "pb_VaultJoinConfirmationAck wire_protobuf = wire_VaultJoinConfirmationAck"
  "pb_SendEndpointRequest wire_protobuf = wire_SendEndpointRequest"
  "pb_SendEndpointResponse wire_protobuf = wire_SendEndpointResponse"
  "pb_StopVaultRequest wire_protobuf = wire_StopVaultRequest"
  "pb_StopVaultResponse wire_protobuf = wire_StopVaultResponse"
  "pb_VaultShutdownRequest wire_protobuf = wire_VaultShutdownRequest"
  "pb_UpdateIntervalRequest wire_protobuf = wire_UpdateIntervalRequest"
  "pb_UpdateIntervalResponse wire_protobuf = wire_UpdateIntervalResponse"
  "pb_NewVersionAvailable wire_protobuf = wire_NewVersionAvailable"
  "pb_NewVersionAvailableAck wire_protobuf = wire_NewVersionAvailableAck"
  "pb_BootstrapRequest wire_protobuf = wire_BootstrapRequest"
  "pb_BootstrapResponse wire_protobuf = wire_BootstrapResponse"
  "pb_Bootstrap wire_protobuf = wire_Bootstrap"
  "pb_Config wire_protobuf = wire_Config"
  by (simp_all add: wire_protobuf_def)

lemma length_enc_nat_small [simp]: "n < 128 \<Longrightarrow> length (enc_nat n) = 1"
  by (simp add: enc_nat.simps)

lemma length_enc_nat_numeral [simp]:
  "length (enc_nat (numeral k)) =
     (if numeral k < (128 :: nat) then 1 else Suc (length (enc_nat (numeral k div 128))))"
  by (simp add: enc_nat.simps)

lemma length_enc_nat_le: "n < 128 ^ Suc k \<Longrightarrow> length (enc_nat n) \<le> Suc k"
proof (induction k arbitrary: n)
  case (Suc k)
  then have "n div 128 < 128 ^ Suc k" by (simp add: div_less_iff_less_mult mult.commute)
  with Suc.IH show ?case by (simp add: enc_nat.simps [of n])
qed simp

lemma length_enc_word: "length (enc_word v) \<le> 5"
proof -
  have "unat v < 2 ^ 32" using unsigned_less [of v, where ?'a = nat] by simp
  then have "unat v < 128 ^ Suc 4" by simp
  from length_enc_nat_le [OF this] show ?thesis by (simp add: enc_word_def enc_via_def)
qed

lemma length_enc_bytes [simp]: "length (enc_bytes s) = length (enc_nat (length s)) + length s"
  by (simp add: enc_bytes_def enc_list_def length_concat o_def sum_list_triv)

lemma length_enc_bool [simp]: "length (enc_bool b) = 1"
  by (simp add: enc_bool_def enc_via_def)

lemma length_wire_wrap:
  "length (WrapMessage wire_protobuf t p) =
     3 + length (enc_nat (nat \<bar>int_of_MessageType t\<bar>)) + length (enc_nat (length p)) + length p"
  by (simp add: WrapMessage_def wire_fields wire_Wrapper_def wire_def enc_pair_def enc_int_def enc_via_def
      enc_option_def enc_list_def)

lemmas wire_length = length_wire_wrap enumerators_def wire_fields wire_def enc_pair_def enc_int_def
  enc_via_def enc_word_def enc_option_def enc_list_def

end
