(* ===== verification/Demo_Environment.thy ===== *)
theory Demo_Environment
  imports Wire_Format Environment
begin

text \<open>
  A concrete environment, at which the theorems with hypotheses on the environment are evaluated: an
  in-memory file system, a counter as the source of randomness, pmids that are their own names,
  signatures that are the signed data behind the name, and peers that accept every connection and do
  not answer.
\<close>

record world =
  files :: "(path \<times> bytes) list"
  seed :: nat

definition demo_world :: world where
  "demo_world = \<lparr>files = [], seed = 0\<rparr>"

definition demo_write :: "path \<Rightarrow> bytes \<Rightarrow> world \<Rightarrow> bool \<times> world" where
  "demo_write f c w = (True, w\<lparr>files := (f, c) # files w\<rparr>)"

definition demo_random :: "nat \<Rightarrow> world \<Rightarrow> string \<times> world" where
  "demo_random n w =
     (replicate (n - 1) (CHR ''r'') @ [char_of (65 + seed w)], w\<lparr>seed := seed w + 1\<rparr>)"

definition demo_env :: "(world, string) env" where
  "demo_env = \<lparr>
     pb = wire_protobuf,
     kLivePort = 5483,
     kInvalidVersion = 0,
     kApplicationVersion = ''1'',
     VersionToInt = (\<lambda>s. int (length s)),
     valid_NonEmptyString = (\<lambda>s. s \<noteq> []),
     valid_Identity = (\<lambda>s. s \<noteq> []),
     RandomAlphaNumericString = demo_random,
     RandomString = demo_random,
     RandomUint32 = (\<lambda>w. (word_of_nat (seed w), w\<lparr>seed := seed w + 1\<rparr>)),
     GetAppInstallDir = ''/opt'',
     GetSystemAppSupportDir = ''/var'',
     pmid_name = (\<lambda>p. CHR ''n'' # p),
     SerialisePmid = (\<lambda>p. CHR ''p'' # p),
     ParsePmid = (\<lambda>s. case s of [] \<Rightarrow> None | c # p \<Rightarrow> Some p),
     CheckSignature = (\<lambda>data signature p. signature = p @ data),
     Sign = (\<lambda>data p. p @ data),
     ReadFile = (\<lambda>f w. map_of (files w) f),
     WriteFile = demo_write,
     fs_exists = (\<lambda>f w. (f = ''/opt/vault'' \<or> map_of (files w) f \<noteq> None, False)),
     fs_is_regular_file = (\<lambda>f w. (True, False)),
     fs_is_symlink = (\<lambda>f w. (False, False)),
     fs_create_directories = (\<lambda>f w. ((True, False), w)),
     fs_rename = (\<lambda>f g w. w),
     path_join = (\<lambda>f g. f @ ''/'' @ g),
     parent_path = (\<lambda>f. f),
     path_stem = (\<lambda>f. f),
     path_extension = (\<lambda>f. []),
     GetBootstrapInfo = (\<lambda>w. (SerializeAsString (pb_Bootstrap wire_protobuf)
        \<lparr>bootstrap_contacts = [\<lparr>ep_ip = ''10.0.0.1'', ep_port = 5483\<rparr>]\<rparr>, w)),
     Update = (\<lambda>w. ((1, []), w)),
     latest_remote_version = (\<lambda>w. ''1''),
     latest_local_version = (\<lambda>w. ''1''),
     tcp_connect = (\<lambda>p w. (False, w)),
     tcp_open = (\<lambda>w. (False, w)),
     tcp_set_reuse = (\<lambda>w. (False, w)),
     tcp_bind = (\<lambda>p w. ((False, if p = 0 then 40000 else p), w)),
     tcp_listen = (\<lambda>w. (False, w)),
     await_reply = (\<lambda>p m w. (NoReply, w)),
     address_from_string = (\<lambda>s. Some s)\<rparr>"

lemma demo_env_simps [simp]:
  "pb demo_env = wire_protobuf"
  "kLivePort demo_env = 5483"
  "kInvalidVersion demo_env = 0"
  "kApplicationVersion demo_env = ''1''"
  "VersionToInt demo_env v = int (length v)"
  "valid_NonEmptyString demo_env v = (v \<noteq> [])"
  "valid_Identity demo_env v = (v \<noteq> [])"
  "RandomAlphaNumericString demo_env = demo_random"
  "RandomString demo_env = demo_random"
  "RandomUint32 demo_env w = (word_of_nat (seed w), w\<lparr>seed := seed w + 1\<rparr>)"
  "GetAppInstallDir demo_env = ''/opt''"
  "GetSystemAppSupportDir demo_env = ''/var''"
  "pmid_name demo_env p = CHR ''n'' # p"
  "SerialisePmid demo_env p = CHR ''p'' # p"
  "ParsePmid demo_env v = (case v of [] \<Rightarrow> None | c # p \<Rightarrow> Some p)"
  "CheckSignature demo_env d g p = (g = p @ d)"
  "Sign demo_env d p = p @ d"
  "ReadFile demo_env f w = map_of (files w) f"
  "WriteFile demo_env = demo_write"
  "fs_exists demo_env f w = (f = ''/opt/vault'' \<or> map_of (files w) f \<noteq> None, False)"
  "fs_is_regular_file demo_env f w = (True, False)"
  "fs_is_symlink demo_env f w = (False, False)"
  "fs_create_directories demo_env f w = ((True, False), w)"
  "path_join demo_env f g = f @ ''/'' @ g"
  "parent_path demo_env f = f"
  "GetBootstrapInfo demo_env w = (SerializeAsString (pb_Bootstrap wire_protobuf)
     \<lparr>bootstrap_contacts = [\<lparr>ep_ip = ''10.0.0.1'', ep_port = 5483\<rparr>]\<rparr>, w)"
  "Update demo_env w = ((1, []), w)"
  "latest_remote_version demo_env w = ''1''"
  "latest_local_version demo_env w = ''1''"
  "tcp_connect demo_env q w = (False, w)"
  "tcp_open demo_env w = (False, w)"
  "tcp_set_reuse demo_env w = (False, w)"
  "tcp_bind demo_env q w = ((False, if q = 0 then 40000 else q), w)"
  "tcp_listen demo_env w = (False, w)"
  "await_reply demo_env q m w = (NoReply, w)"
  "address_from_string demo_env v = Some v"
  by (simp_all add: demo_env_def)

lemma demo_passport_ok [simp]: "passport_ok demo_env"
  by (simp add: passport_ok_def demo_env_def)

lemma demo_files_ok [simp]: "files_ok demo_env"
  by (simp add: files_ok_def demo_env_def demo_write_def)

lemma demo_network_ok [simp]: "network_ok demo_env"
  by (simp add: network_ok_def)

end
