(* ===== verification/Std_Map.thy ===== *)
theory Std_Map
  imports CM_Prelude "HOL-Library.List_Lexorder" "HOL-Library.Char_ord"
begin

text \<open>
  \<open>std::map\<close> of the C++ standard library as an association list in ascending order of the keys: the
  order matters where the sources iterate over a map.  The locale \<open>key_value_store\<close> is what the client
  manager (its registered clients) and the client controller (its joining vaults) rely on.
\<close>

type_synonym ('k, 'v) std_map = "('k \<times> 'v) list"

section \<open>Operations\<close>

fun map_find :: "'k \<Rightarrow> ('k, 'v) std_map \<Rightarrow> 'v option" where
  "map_find k [] = None"
| "map_find k ((k', v) # m) = (if k = k' then Some v else map_find k m)"

text \<open>\<open>m[k] = v\<close>\<close>

fun map_assign :: "'k::linorder \<Rightarrow> 'v \<Rightarrow> ('k, 'v) std_map \<Rightarrow> ('k, 'v) std_map" where
  "map_assign k v [] = [(k, v)]"
| "map_assign k v ((k', v') # m) =
     (if k < k' then (k, v) # (k', v') # m
      else if k = k' then (k, v) # m
      else (k', v') # map_assign k v m)"

text \<open>\<open>m.insert(std::make_pair(k, v))\<close> keeps a value that is there already.\<close>

definition map_insert :: "'k::linorder \<Rightarrow> 'v \<Rightarrow> ('k, 'v) std_map \<Rightarrow> ('k, 'v) std_map" where
  "map_insert k v m = (case map_find k m of Some _ \<Rightarrow> m | None \<Rightarrow> map_assign k v m)"

definition map_erase :: "'k \<Rightarrow> ('k, 'v) std_map \<Rightarrow> ('k, 'v) std_map" where
  "map_erase k m = filter (\<lambda>(k', _). k' \<noteq> k) m"

definition map_ok :: "('k::linorder, 'v) std_map \<Rightarrow> bool" where
  "map_ok m \<longleftrightarrow> sorted_wrt (<) (map fst m)"

section \<open>Lemmas\<close>

lemma map_find_assign [simp]: "map_find j (map_assign k v m) = (if j = k then Some v else map_find j m)"
  by (induction m) auto

lemma set_map_assign: "fst ` set (map_assign k v m) = insert k (fst ` set m)"
  by (induction m rule: map_assign.induct) auto

lemma map_ok_assign: "map_ok m \<Longrightarrow> map_ok (map_assign k v m)"
  unfolding map_ok_def
proof (induction m rule: map_assign.induct)
  case (2 k v k' v' m)
  then have above: "k' < x" if "x \<in> fst ` set m" for x using that by auto
  show ?case
  proof (cases "k < k'")
    case True
    with 2 show ?thesis by (auto dest: less_trans)
  next
    case False
    then have "k' < x" if "k \<noteq> k'" "x \<in> fst ` set (map_assign k v m)" for x
      using that above by (auto simp: set_map_assign)
    with 2 False show ?thesis by fastforce
  qed
qed simp

lemma map_find_erase [simp]: "map_find j (map_erase k m) = (if j = k then None else map_find j m)"
  by (induction m) (auto simp: map_erase_def)

lemma map_ok_erase: "map_ok m \<Longrightarrow> map_ok (map_erase k m)"
  unfolding map_ok_def map_erase_def by (induction m) auto

lemma map_ok_insert: "map_ok m \<Longrightarrow> map_ok (map_insert k v m)"
  by (simp add: map_insert_def map_ok_assign split: option.split)

lemma map_find_insert:
  "map_find j (map_insert k v m) =
     (if j = k \<and> map_find k m = None then Some v else map_find j m)"
  by (auto simp: map_insert_def split: option.split)

lemma map_find_iff: "map_ok m \<Longrightarrow> map_find k m = Some v \<longleftrightarrow> (k, v) \<in> set m"
proof (induction m rule: map_find.induct)
  case (2 k k' v' m)
  then have "k' < j" if "(j, w) \<in> set m" for j w
    using that by (fastforce simp: map_ok_def)
  with 2 show ?case by (auto simp: map_ok_def)
qed simp

section \<open>The interface\<close>

locale key_value_store =
  fixes find :: "'k \<Rightarrow> 'm \<Rightarrow> 'v option"
    and assign :: "'k \<Rightarrow> 'v \<Rightarrow> 'm \<Rightarrow> 'm"
    and erase :: "'k \<Rightarrow> 'm \<Rightarrow> 'm"
    and empty :: 'm
    and ok :: "'m \<Rightarrow> bool"
  assumes find_empty: "find k empty = None"
    and find_assign: "find j (assign k v m) = (if j = k then Some v else find j m)"
    and find_erase: "find j (erase k m) = (if j = k then None else find j m)"
    and ok_empty: "ok empty"
    and ok_assign: "ok m \<Longrightarrow> ok (assign k v m)"
    and ok_erase: "ok m \<Longrightarrow> ok (erase k m)"
begin

lemma overwrite: "find k (assign k v (assign k w m)) = Some v"
  by (simp add: find_assign)

lemma erase_assign: "find k m = None \<Longrightarrow> find j (erase k (assign k v m)) = find j m"
  by (auto simp: find_assign find_erase)

lemma ok_fold_assign: "ok m \<Longrightarrow> ok (fold (\<lambda>(k, v). assign k v) kvs m)"
  by (induction kvs arbitrary: m) (auto simp: ok_assign)

lemma find_fold_assign:
  "k \<notin> fst ` set kvs \<Longrightarrow> find k (fold (\<lambda>(k, v). assign k v) kvs m) = find k m"
  by (induction kvs arbitrary: m) (auto simp: find_assign)

end

interpretation std: key_value_store map_find map_assign map_erase "[] :: ('k::linorder, 'v) std_map" map_ok
  by unfold_locales (auto simp: map_ok_assign map_ok_erase, simp add: map_ok_def)

end
