(* ===== verification/Return_Codes.thy ===== *)
theory Return_Codes
  imports CM_Prelude
begin

text \<open>
  The result codes of \<open>return_codes.h\<close> and the constants of \<open>config.h\<close>.  The
  functions of the sources return the codes as \<open>int\<close>.
\<close>

definition kSuccess :: int where "kSuccess = 0"
definition kUninitialised :: int where "kUninitialised = -250001"
definition kManifestFailure :: int where "kManifestFailure = -250002"
definition kDownloadFailure :: int where "kDownloadFailure = -250003"
definition kNoVersionChange :: int where "kNoVersionChange = -250004"
definition kLocalFailure :: int where "kLocalFailure = -250005"
definition kAlreadyStarted :: int where "kAlreadyStarted = -350001"
definition kInvalidAddress :: int where "kInvalidAddress = -350002"
definition kSetOptionFailure :: int where "kSetOptionFailure = -350003"
definition kBindError :: int where "kBindError = -350004"
definition kListenError :: int where "kListenError = -350005"
definition kMessageSizeTooLarge :: int where "kMessageSizeTooLarge = -350006"
definition kReceiveFailure :: int where "kReceiveFailure = -350007"
definition kReceiveTimeout :: int where "kReceiveTimeout = -350008"
definition kSendFailure :: int where "kSendFailure = -350009"
definition kSendTimeout :: int where "kSendTimeout = -350010"
definition kConnectFailure :: int where "kConnectFailure = -350011"

lemmas return_code_defs = kSuccess_def kUninitialised_def kManifestFailure_def kDownloadFailure_def
  kNoVersionChange_def kLocalFailure_def kAlreadyStarted_def kInvalidAddress_def
  kSetOptionFailure_def kBindError_def kListenError_def kMessageSizeTooLarge_def
  kReceiveFailure_def kReceiveTimeout_def kSendFailure_def kSendTimeout_def kConnectFailure_def

text \<open>\<open>config.h\<close>; \<open>kTargetPlatform()\<close> of the common library is the argument.\<close>

definition kSignatureExtension :: string where "kSignatureExtension = ''.sig''"
definition kVersionFilename :: string where "kVersionFilename = ''version.dat''"
definition kManifestFilename :: string where "kManifestFilename = ''manifest.gz''"
definition kGlobalConfigFilename :: string where "kGlobalConfigFilename = ''global-config.dat''"
definition kGlobalBootstrapFilename :: string where "kGlobalBootstrapFilename = ''global-bootstrap.dat''"
definition kClientManagerName :: string where "kClientManagerName = ''client_mgr''"

text \<open>\<open>TESTING\<close> is the argument of the first one; a build with \<open>USE_DUMMY_VAULT\<close> starts another executable.\<close>

definition kDownloadManagerLocation :: "bool \<Rightarrow> string" where
  "kDownloadManagerLocation testing = (if testing then ''test_downloads'' else ''downloads'')"

definition kDownloadManagerSite :: string where "kDownloadManagerSite = ''maidsafe.net''"
definition kDownloadManagerProtocol :: string where "kDownloadManagerProtocol = ''http''"

definition kVaultName :: string where
  "kVaultName = ''vault''"

definition kVaultName_DUMMY :: string where
  "kVaultName_DUMMY = ''dummy_vault''"

definition kInstallerExtension :: "string \<Rightarrow> string" where
  "kInstallerExtension kTargetPlatform =
     (if kTargetPlatform = ''Win8'' \<or> kTargetPlatform = ''Win7'' \<or> kTargetPlatform = ''Vista''
        then ''.exe''
      else if kTargetPlatform = ''OSX10.8'' then ''.dmg''
      else if kTargetPlatform = ''Linux'' then ''.rpm''
      else ''.unknown'')"

definition kTargetPlatformAndArchitecture :: "string \<Rightarrow> string \<Rightarrow> string" where
  "kTargetPlatformAndArchitecture kTargetPlatform kTargetArchitecture =
     kTargetPlatform @ [CHR ''_''] @ kTargetArchitecture"

text \<open>\<open>GetUserId\<close>: the name that \<open>getlogin_r\<close> stores in a zeroed buffer of 64 characters.\<close>

definition GetUserId :: "int \<times> string \<Rightarrow> string" where
  "GetUserId login = (if fst login \<noteq> 0 then [] else c_str (mem_copy (replicate 64 (CHR 0x00)) (snd login)))"

end
