(* ===== verification/Tcp_Connection.thy ===== *)
theory Tcp_Connection
  imports Return_Codes
begin

unbundle bit_operations_syntax

text \<open>
  \<open>tcp_connection.h\<close> and \<open>tcp_connection.cc\<close>: framing of messages on a TCP stream.  A message is sent as
  its length, four bytes in network order, and its content.  The receiver is a chain of asynchronous
  reads; \<open>pending\<close> is the read that is under way and \<open>incoming\<close> the bytes that the socket has received
  and not yet delivered.  \<open>asio::async_read\<close> completes when its whole buffer can be filled, or with an
  error.  \<open>written\<close> collects what \<open>asio::async_write\<close> was given.
\<close>

section \<open>State\<close>

datatype pending_read =
    NoRead \<comment> \<open>nothing under way\<close>
  | ReadSize \<comment> \<open>\<open>async_read\<close> into \<open>size_buffer\<close>\<close>
  | ReadData "64 word" \<comment> \<open>\<open>async_read\<close> of that many bytes into \<open>data_buffer\<close>\<close>

record TcpConnection =
  is_open :: bool
  remote_port :: port
  size_buffer :: "byte list"
  data_buffer :: "byte list"
  data_size :: "64 word"
  data_received :: "64 word"
  pending :: pending_read
  incoming :: "byte list"
  written :: "byte list"

definition kMaxTransportChunkSize :: "32 word" where
  "kMaxTransportChunkSize = 65536"

definition new_TcpConnection :: TcpConnection where
  "new_TcpConnection = \<lparr>is_open = False, remote_port = 0, size_buffer = replicate 4 0,
     data_buffer = [], data_size = 0, data_received = 0, pending = NoRead, incoming = [],
     written = []\<rparr>"

text \<open>Conversions between \<open>char\<close> and \<open>unsigned char\<close>.\<close>

definition byte_of_char :: "char \<Rightarrow> byte" where
  "byte_of_char c = of_char c"

definition char_of_byte :: "byte \<Rightarrow> char" where
  "char_of_byte b = char_of (unat b)"

section \<open>Sending\<close>

text \<open>\<open>msg_size\<close> is an \<open>int32_t\<close>: the shift to the right is the arithmetic one.\<close>

definition EncodeData :: "string \<Rightarrow> TcpConnection \<Rightarrow> TcpConnection" where
  "EncodeData data c =
     (let msg_size = word_of_nat (length data) :: 32 word
      in c\<lparr>size_buffer := map (\<lambda>i. ucast (signed_drop_bit (8 * (3 - i)) msg_size)) [0..<4],
           data_buffer := map byte_of_char data\<rparr>)"

definition StartWrite :: "TcpConnection \<Rightarrow> TcpConnection" where
  "StartWrite c =
     (if \<not> is_open c then c else c\<lparr>written := written c @ size_buffer c @ data_buffer c\<rparr>)"

definition StartSending :: "string \<Rightarrow> TcpConnection \<Rightarrow> TcpConnection" where
  "StartSending data c = StartWrite (EncodeData data c)"

section \<open>Receiving\<close>

definition StartReadSize :: "TcpConnection \<Rightarrow> TcpConnection" where
  "StartReadSize c = (if \<not> is_open c then c else c\<lparr>pending := ReadSize\<rparr>)"

definition StartReceiving :: "TcpConnection \<Rightarrow> TcpConnection" where
  "StartReceiving c = StartReadSize c"

text \<open>\<open>resize\<close> of a vector: truncate, or fill up with zeros.\<close>

definition resize :: "nat \<Rightarrow> byte list \<Rightarrow> byte list" where
  "resize n xs = take n xs @ replicate (n - length xs) 0"

definition StartReadData :: "TcpConnection \<Rightarrow> TcpConnection" where
  "StartReadData c =
     (if \<not> is_open c then c
      else
        let buffer_size = data_received c +
              min (ucast kMaxTransportChunkSize) (data_size c - data_received c)
        in c\<lparr>data_buffer := resize (unat buffer_size) (data_buffer c),
             pending := ReadData (buffer_size - data_received c)\<rparr>)"

datatype asio_error = no_error | eof | connection_reset | other_error

text \<open>
  \<open>HandleReadSize\<close>: the four bytes are promoted to \<open>int\<close> and combined into an \<open>int32_t\<close>, which is
  converted to \<open>size_t\<close> with its sign.  On an end of file the read is posted again; on any other error
  the connection is closed.
\<close>

definition DoClose :: "TcpConnection \<Rightarrow> TcpConnection" where
  "DoClose c = c\<lparr>is_open := False, pending := NoRead\<rparr>"

definition decode_size :: "byte list \<Rightarrow> 32 word" where
  "decode_size b =
     push_bit 8 (push_bit 8 (push_bit 8 (ucast (b ! 0)) OR ucast (b ! 1)) OR ucast (b ! 2))
       OR ucast (b ! 3)"

definition HandleReadSize :: "asio_error \<Rightarrow> TcpConnection \<Rightarrow> TcpConnection" where
  "HandleReadSize ec c =
     (if \<not> is_open c then c
      else if ec = eof then StartReadSize c
      else if ec \<noteq> no_error then DoClose c
      else StartReadData (c\<lparr>data_size := scast (decode_size (size_buffer c)), data_received := 0\<rparr>))"

text \<open>
  \<open>DispatchMessage\<close> hands the content of \<open>data_buffer_\<close> to \<open>on_message_received_\<close> and starts the next
  read.  \<open>HandleReadData\<close> posts it to the io service; here it runs at once, and the property
  \<open>send_overwrites_receive\<close> below is about an operation that comes in between.
\<close>

definition DispatchMessage :: "TcpConnection \<Rightarrow> string \<times> TcpConnection" where
  "DispatchMessage c = (map char_of_byte (data_buffer c), StartReadSize c)"

definition HandleReadData ::
  "asio_error \<Rightarrow> 64 word \<Rightarrow> TcpConnection \<Rightarrow> string option \<times> TcpConnection" where
  "HandleReadData ec len c =
     (if \<not> is_open c then (None, c)
      else if ec \<noteq> no_error then (None, StartReadSize c)
      else
        let c' = c\<lparr>data_received := data_received c + len\<rparr>
        in if data_received c' = data_size c'
           then let (message, c'') = DispatchMessage c' in (Some message, c'')
           else (None, StartReadData c'))"

text \<open>
  One completion of the asynchronous read that is under way: nothing happens before enough bytes have
  arrived.  The bytes go to the buffer of the read.
\<close>

definition read_step :: "TcpConnection \<Rightarrow> string option \<times> TcpConnection" where
  "read_step c =
     (case pending c of
        NoRead \<Rightarrow> (None, c)
      | ReadSize \<Rightarrow>
          if length (incoming c) < 4 then (None, c)
          else (None, HandleReadSize no_error
                  (c\<lparr>size_buffer := take 4 (incoming c), incoming := drop 4 (incoming c),
                     pending := NoRead\<rparr>))
      | ReadData n \<Rightarrow>
          if length (incoming c) < unat n then (None, c)
          else HandleReadData no_error n
                 (c\<lparr>data_buffer := take (unat (data_received c)) (data_buffer c) @
                      take (unat n) (incoming c),
                    incoming := drop (unat n) (incoming c), pending := NoRead\<rparr>))"

text \<open>A number of completions; the messages that were dispatched, in order.\<close>

fun read_steps :: "nat \<Rightarrow> TcpConnection \<Rightarrow> string list \<times> TcpConnection" where
  "read_steps 0 c = ([], c)"
| "read_steps (Suc n) c =
     (let (m, c') = read_step c; (ms, c'') = read_steps n c'
      in ((case m of None \<Rightarrow> ms | Some x \<Rightarrow> x # ms), c''))"

section \<open>The size field\<close>

lemma unat_of_char: "unat (of_char c :: byte) = of_char c"
proof -
  have "unat (word_of_nat (of_char c) :: byte) = of_char c"
    using nat_of_char_less_256 [of c] by (simp add: unat_of_nat)
  then show ?thesis unfolding of_nat_of_char .
qed

lemma char_of_byte_of_char [simp]: "char_of_byte (byte_of_char c) = c"
  by (simp add: char_of_byte_def byte_of_char_def unat_of_char)

definition size_bytes :: "32 word \<Rightarrow> byte list" where
  "size_bytes msg_size = map (\<lambda>i. ucast (signed_drop_bit (8 * (3 - i)) msg_size)) [0..<4]"

lemma length_size_bytes [simp]: "length (size_bytes msg_size) = 4"
  by (simp add: size_bytes_def)

lemma decode_size_bytes [simp]: "decode_size (size_bytes msg_size) = msg_size"
proof (rule bit_word_eqI)
  fix n :: nat
  assume "n < LENGTH(32)"
  then show "bit (decode_size (size_bytes msg_size)) n = bit msg_size n"
    by (cases "16 \<le> n"; cases "24 \<le> n"; cases "8 \<le> n")
      (auto simp: decode_size_def size_bytes_def bit_simps upt_rec)
qed

lemma scast_size: "n < 2 ^ 31 \<Longrightarrow> scast (word_of_nat n :: 32 word) = (word_of_nat n :: 64 word)"
  using signed_take_bit_int_eq_self [of 31 "int n"] by (simp add: signed_of_nat)

lemma unat_small: "n < 2 ^ 64 \<Longrightarrow> unat (word_of_nat n :: 64 word) = n"
  by (simp add: unat_of_nat)

definition frame :: "string \<Rightarrow> byte list" where
  "frame data = size_bytes (word_of_nat (length data)) @ map byte_of_char data"

lemma StartSending_frame:
  "is_open c \<Longrightarrow> written (StartSending data c) = written c @ frame data"
  by (simp add: StartSending_def StartWrite_def EncodeData_def Let_def frame_def size_bytes_def)

section \<open>Reading a message\<close>

lemma read_steps_add:
  "read_steps (m + n) c =
     (let (ms, c') = read_steps m c; (ns, c'') = read_steps n c' in (ms @ ns, c''))"
  by (induction m arbitrary: c) (auto split: prod.split option.split)

text \<open>
  The receiver has stored the first \<open>r\<close> bytes of a message and the rest of it, followed by \<open>rest\<close>, is
  still to be read.
\<close>

definition reading_at :: "byte list \<Rightarrow> nat \<Rightarrow> byte list \<Rightarrow> TcpConnection \<Rightarrow> bool" where
  "reading_at content r rest c \<longleftrightarrow>
     is_open c \<and> r \<le> length content \<and> data_size c = word_of_nat (length content) \<and>
     data_received c = word_of_nat r \<and> incoming c = drop r content @ rest \<and>
     take r (data_buffer c) = take r content \<and>
     pending c = ReadData (word_of_nat (min 65536 (length content - r)))"

definition between_messages :: "byte list \<Rightarrow> TcpConnection \<Rightarrow> bool" where
  "between_messages rest c \<longleftrightarrow> is_open c \<and> pending c = ReadSize \<and> incoming c = rest"

lemma min_chunk:
  assumes "r \<le> n" and "n < 2 ^ 31"
  shows "min (ucast kMaxTransportChunkSize) (word_of_nat n - word_of_nat r) =
           (word_of_nat (min 65536 (n - r)) :: 64 word)"
proof -
  have "(word_of_nat n - word_of_nat r :: 64 word) = word_of_nat (n - r)"
    using assms(1) by (simp add: of_nat_diff)
  moreover have "unat (word_of_nat (n - r) :: 64 word) = n - r"
    using assms(2) by (simp add: unat_of_nat)
  ultimately show ?thesis
    by (auto simp: kMaxTransportChunkSize_def min_def word_le_nat_alt)
qed

lemma StartReadData_at:
  assumes "is_open c" and "r \<le> length content" and "length content < 2 ^ 31"
    and "data_size c = word_of_nat (length content)" and "data_received c = word_of_nat r"
    and "incoming c = drop r content @ rest" and "take r (data_buffer c) = take r content"
    and "r \<le> length (data_buffer c)"
  shows "reading_at content r rest (StartReadData c)"
proof -
  let ?n = "min 65536 (length content - r)"
  have "word_of_nat r + word_of_nat ?n = (word_of_nat (r + ?n) :: 64 word)" by simp
  moreover have "unat (word_of_nat (r + ?n) :: 64 word) = r + ?n"
    by (rule unat_small) (use assms(2,3) in \<open>simp add: min_def\<close>)
  ultimately show ?thesis
    using assms min_chunk [OF assms(2,3)]
    by (simp add: reading_at_def StartReadData_def Let_def resize_def)
qed

lemma read_step_at:
  assumes "reading_at content r rest c" and "length content < 2 ^ 31"
  shows "if length content - r \<le> 65536
         then fst (read_step c) = Some (map char_of_byte content) \<and>
              between_messages rest (snd (read_step c))
         else fst (read_step c) = None \<and> reading_at content (r + 65536) rest (snd (read_step c))"
proof -
  define n where "n = min 65536 (length content - r)"
  define c' where "c' = c\<lparr>data_buffer := take (r + n) content, incoming := drop (r + n) content @ rest,
    pending := NoRead, data_received := word_of_nat (r + n)\<rparr>"
  from assms have open_c: "is_open c" and r: "r \<le> length content"
    and buffer: "take r (data_buffer c) = take r content"
    and fields: "data_size c = word_of_nat (length content)" "data_received c = word_of_nat r"
      "incoming c = drop r content @ rest" "pending c = ReadData (word_of_nat n)"
    by (auto simp: reading_at_def n_def)
  have n: "n \<le> length content - r" "n \<le> 65536" by (simp_all add: n_def)
  have unats: "unat (word_of_nat n :: 64 word) = n" "unat (word_of_nat r :: 64 word) = r"
    "unat (word_of_nat (r + n) :: 64 word) = r + n"
    "unat (word_of_nat (length content) :: 64 word) = length content"
    by - (rule unat_small, use n r assms(2) in simp)+
  then have full: "(word_of_nat (r + n) = (word_of_nat (length content) :: 64 word)) =
      (r + n = length content)"
    by (metis)
  have "take r content @ take n (drop r content) = take (r + n) content"
    "drop n (drop r content @ rest) = drop (r + n) content @ rest"
    using n r by (simp add: take_add, simp add: add.commute)
  then have "c\<lparr>data_buffer := take r (data_buffer c) @ take n (incoming c),
      incoming := drop n (incoming c), pending := NoRead, data_received := data_received c + word_of_nat n\<rparr>
      = c'"
    using n by (simp add: c'_def fields buffer)
  then have step: "read_step c =
      (if r + n = length content then (Some (map char_of_byte (take (r + n) content)), StartReadSize c')
       else (None, StartReadData c'))"
    using n open_c full
    by (auto simp: read_step_def fields unats HandleReadData_def DispatchMessage_def c'_def Let_def)
  show ?thesis
  proof (cases "length content - r \<le> 65536")
    case True
    then have "r + n = length content" using r by (simp add: n_def)
    with step True open_c show ?thesis
      by (simp add: between_messages_def StartReadSize_def c'_def)
  next
    case False
    then have "n = 65536" "r + n \<le> length content" by (auto simp: n_def)
    then have "reading_at content (r + n) rest (StartReadData c')"
      using assms(2) open_c by (intro StartReadData_at) (simp_all add: c'_def fields)
    with step False \<open>n = 65536\<close> show ?thesis by auto
  qed
qed

lemma read_content:
  assumes "reading_at content r rest c" and "length content < 2 ^ 31"
  shows "\<exists>k c1 c'. read_steps k c = ([], c1) \<and>
    read_step c1 = (Some (map char_of_byte content), c') \<and> between_messages rest c'"
  using assms
proof (induction "length content - r" arbitrary: r c rule: less_induct)
  case less
  note step = read_step_at [OF less.prems]
  show ?case
  proof (cases "length content - r \<le> 65536")
    case True
    with step have "read_steps 0 c = ([], c) \<and>
        read_step c = (Some (map char_of_byte content), snd (read_step c)) \<and>
        between_messages rest (snd (read_step c))"
      by (cases "read_step c") simp
    then show ?thesis by blast
  next
    case False
    with step have next_chunk: "read_step c = (None, snd (read_step c))"
        "reading_at content (r + 65536) rest (snd (read_step c))"
      by (cases "read_step c"; simp)+
    have "length content - (r + 65536) < length content - r" using False by linarith
    from less.hyps [OF this next_chunk(2) less.prems(2)] obtain k c1 c' where
      "read_steps k (snd (read_step c)) = ([], c1)"
      and last: "read_step c1 = (Some (map char_of_byte content), c')" "between_messages rest c'" by blast
    then have "read_steps (Suc k) c = ([], c1)"
      using next_chunk(1) by (cases "read_step c") simp
    with last show ?thesis by blast
  qed
qed

text \<open>The reads of one framed message: the last of them dispatches it.\<close>

lemma read_frame_last:
  assumes "between_messages (frame data @ rest) c" and "length data < 2 ^ 31"
  shows "\<exists>k c1 c'. read_steps k c = ([], c1) \<and> read_step c1 = (Some data, c') \<and> between_messages rest c'"
proof -
  let ?content = "map byte_of_char data"
  let ?c = "c\<lparr>size_buffer := size_bytes (word_of_nat (length data)), incoming := ?content @ rest,
    pending := NoRead, data_size := word_of_nat (length data), data_received := 0\<rparr>"
  have first: "read_step c = (None, StartReadData ?c)"
    using assms by (simp add: read_step_def between_messages_def frame_def HandleReadSize_def scast_size)
  have "reading_at ?content 0 rest (StartReadData ?c)"
    using assms by (intro StartReadData_at) (auto simp: between_messages_def)
  then obtain k c1 c' where "read_steps k (StartReadData ?c) = ([], c1)"
    and last: "read_step c1 = (Some (map char_of_byte ?content), c')" "between_messages rest c'"
    using read_content assms(2) by (metis length_map)
  with first have "read_steps (Suc k) c = ([], c1)" by simp
  moreover have "map char_of_byte ?content = data" by (simp add: comp_def)
  ultimately show ?thesis using last by metis
qed

lemma read_frame:
  assumes "between_messages (frame data @ rest) c" and "length data < 2 ^ 31"
  shows "\<exists>k c'. read_steps k c = ([data], c') \<and> between_messages rest c'"
proof -
  obtain k c1 c' where "read_steps k c = ([], c1)" "read_step c1 = (Some data, c')" "between_messages rest c'"
    using read_frame_last [OF assms] by blast
  then have "read_steps (k + 1) c = ([data], c')"
    unfolding read_steps_add by simp
  with \<open>between_messages rest c'\<close> show ?thesis by blast
qed

lemma read_frames:
  assumes "between_messages (concat (map frame datas) @ rest) c"
    and "\<forall>data \<in> set datas. length data < 2 ^ 31"
  shows "\<exists>k c'. read_steps k c = (datas, c') \<and> between_messages rest c'"
  using assms
proof (induction datas arbitrary: c)
  case Nil
  then have "read_steps 0 c = ([], c) \<and> between_messages rest c" by simp
  then show ?case by blast
next
  case (Cons data datas)
  then obtain k c' where one: "read_steps k c = ([data], c')"
      "between_messages (concat (map frame datas) @ rest) c'"
    using read_frame [of data "concat (map frame datas) @ rest" c] by auto
  with Cons obtain l c'' where "read_steps l c' = (datas, c'')" "between_messages rest c''"
    by fastforce
  with one(1) have "read_steps (k + l) c = (data # datas, c'')"
    by (simp add: read_steps_add)
  with \<open>between_messages rest c''\<close> show ?case by blast
qed

lemma written_StartSendings:
  "is_open c \<Longrightarrow> written (fold StartSending datas c) = written c @ concat (map frame datas)"
proof (induction datas arbitrary: c)
  case (Cons data datas)
  moreover have "is_open (StartSending data c) = is_open c"
    by (simp add: StartSending_def StartWrite_def EncodeData_def Let_def)
  ultimately show ?case by (simp add: StartSending_frame)
qed simp

section \<open>Properties\<close>


definition demo_sender :: TcpConnection where
  "demo_sender = new_TcpConnection\<lparr>is_open := True\<rparr>"

definition demo_receiver :: TcpConnection where
  "demo_receiver = StartReceiving (new_TcpConnection\<lparr>is_open := True,
     incoming := written (fold StartSending [''ping'', [], ''pong''] demo_sender)\<rparr>)"


text \<open>
  A connection has one pair of buffers for both directions.  A message that is sent while a
  received one waits to be dispatched replaces it: what is dispatched is the message that was sent.
\<close>

theorem send_overwrites_receive:
  "fst (DispatchMessage (StartSending data c)) = data"
  by (simp add: DispatchMessage_def StartSending_def StartWrite_def EncodeData_def Let_def comp_def)

end
