(* ===== verification/Local_Tcp_Transport.thy ===== *)
theory Local_Tcp_Transport
  imports Demo_Environment Std_Map Tcp_Connection
begin

text \<open>
  \<open>local_tcp_transport.h\<close>, \<open>local_tcp_transport.cc\<close>, \<open>TcpConnection::Connect\<close>, and
  \<open>StartControllerListeningPort\<close> of \<open>utils.cc\<close>.  Functions that the class posts to its strand and waits
  for (\<open>StartListening\<close>, \<open>Connect\<close>) are modelled as direct calls.  The set of connection pointers is a
  map from addresses to connections, in the order of the addresses.  \<open>errors\<close> collects what the signal
  \<open>on_error_\<close> was raised with.
\<close>

section \<open>State\<close>

record LocalTcpTransport =
  acceptor :: "port option" \<comment> \<open>the port it is bound to, when it is open\<close>
  accepting :: bool \<comment> \<open>an \<open>async_accept\<close> is under way\<close>
  connections :: "(nat, TcpConnection) std_map"
  next_address :: nat
  errors :: "int list"

definition new_LocalTcpTransport :: LocalTcpTransport where
  "new_LocalTcpTransport = \<lparr>acceptor = None, accepting = False, connections = [], next_address = 0,
     errors = []\<rparr>"

definition kMaxTransportMessageSize :: int where
  "kMaxTransportMessageSize = 67108864"

section \<open>Listening\<close>

definition DoStartListening ::
  "('w, 'p) env \<Rightarrow> port \<Rightarrow> LocalTcpTransport \<Rightarrow> 'w \<Rightarrow> int \<times> LocalTcpTransport \<times> 'w" where
  "DoStartListening env prt T w =
     (if acceptor T \<noteq> None then (kAlreadyStarted, T, w)
      else let (ec, w) = tcp_open env w
        in if ec then (kInvalidAddress, T\<lparr>acceptor := None\<rparr>, w)
           else let (ec, w) = tcp_set_reuse env w
             in if ec then (kSetOptionFailure, T\<lparr>acceptor := None\<rparr>, w)
                else let ((ec, bound), w) = tcp_bind env prt w
                  in if ec then (kBindError, T\<lparr>acceptor := None\<rparr>, w)
                     else let (ec, w) = tcp_listen env w
                       in if ec then (kListenError, T\<lparr>acceptor := None\<rparr>, w)
                          else (kSuccess, T\<lparr>acceptor := Some bound, accepting := True\<rparr>, w))"

text \<open>The port that \<open>acceptor_.local_endpoint\<close> reports; 0 when the acceptor is closed.\<close>

definition listening_port :: "LocalTcpTransport \<Rightarrow> port" where
  "listening_port T = (case acceptor T of None \<Rightarrow> 0 | Some p \<Rightarrow> p)"

definition StartListening ::
  "('w, 'p) env \<Rightarrow> port \<Rightarrow> LocalTcpTransport \<Rightarrow> 'w \<Rightarrow> port \<times> int \<times> LocalTcpTransport \<times> 'w" where
  "StartListening env prt T w =
     (let (result, T', w') = DoStartListening env prt T w
      in (listening_port T', result, T', w'))"

definition StopListening :: "LocalTcpTransport \<Rightarrow> LocalTcpTransport" where
  "StopListening T = (if acceptor T \<noteq> None then T\<lparr>acceptor := None\<rparr> else T)"

section \<open>Connections\<close>

definition DoInsertConnection :: "nat \<Rightarrow> TcpConnection \<Rightarrow> LocalTcpTransport \<Rightarrow> LocalTcpTransport" where
  "DoInsertConnection a c T = T\<lparr>connections := map_assign a c (connections T)\<rparr>"

definition DoRemoveConnection :: "nat \<Rightarrow> LocalTcpTransport \<Rightarrow> LocalTcpTransport" where
  "DoRemoveConnection a T = T\<lparr>connections := map_erase a (connections T)\<rparr>"

text \<open>\<open>TcpConnection::Close\<close> on a connection of the transport.\<close>

definition Close :: "nat \<Rightarrow> LocalTcpTransport \<Rightarrow> LocalTcpTransport" where
  "Close a T = DoRemoveConnection a T"

text \<open>
  \<open>HandleAccept\<close>: the connection has the peer's port; on success it is inserted and starts to
  receive.  Unless the acceptor was closed, the next connection is awaited.
\<close>

definition HandleAccept :: "bool \<Rightarrow> port \<Rightarrow> LocalTcpTransport \<Rightarrow> LocalTcpTransport" where
  "HandleAccept ec peer T =
     (if acceptor T = None then T\<lparr>accepting := False\<rparr>
      else
        let T' = (if \<not> ec then
                    let c = new_TcpConnection\<lparr>is_open := True, remote_port := peer\<rparr>
                    in DoInsertConnection (next_address T) (StartReceiving c) T
                  else T)
        in T'\<lparr>next_address := next_address T + 1, accepting := True\<rparr>)"

definition TcpConnection_Connect ::
  "('w, 'p) env \<Rightarrow> port \<Rightarrow> TcpConnection \<Rightarrow> 'w \<Rightarrow> int \<times> TcpConnection \<times> 'w" where
  "TcpConnection_Connect env remote c w =
     (let (ec, w') = tcp_connect env remote w
      in if ec then (kConnectFailure, c\<lparr>is_open := False\<rparr>, w')
         else (kSuccess, StartReceiving (c\<lparr>is_open := True, remote_port := remote\<rparr>), w'))"

text \<open>\<open>DoConnect\<close>: the code that is stored for an open acceptor is overwritten by the next statement.\<close>

definition Connect ::
  "('w, 'p) env \<Rightarrow> port \<Rightarrow> LocalTcpTransport \<Rightarrow> 'w \<Rightarrow> int \<times> LocalTcpTransport \<times> 'w" where
  "Connect env server_port T w =
     (let result = (if acceptor T \<noteq> None then kAlreadyStarted else 0);
          a = next_address T;
          (result, c, w') = TcpConnection_Connect env server_port new_TcpConnection w;
          T' = T\<lparr>next_address := a + 1\<rparr>
      in (result, (if result = kSuccess then DoInsertConnection a c T' else T'), w'))"

section \<open>Sending\<close>

text \<open>The port of the peer; 0 when the socket is closed.\<close>

definition peer_port :: "TcpConnection \<Rightarrow> port" where
  "peer_port c = (if is_open c then remote_port c else 0)"

definition DoSend :: "string \<Rightarrow> port \<Rightarrow> LocalTcpTransport \<Rightarrow> LocalTcpTransport" where
  "DoSend data prt T =
     (case find_if (\<lambda>(a, c). peer_port c = prt) (connections T) of
        None \<Rightarrow> T\<lparr>errors := errors T @ [kInvalidAddress]\<rparr>
      | Some itr \<Rightarrow> T\<lparr>connections :=
          modify_at itr (\<lambda>(a, c). (a, StartSending data c)) (connections T)\<rparr>)"

text \<open>The size is converted to an \<open>int32_t\<close> before it is compared with the limit.\<close>

definition Send :: "string \<Rightarrow> port \<Rightarrow> LocalTcpTransport \<Rightarrow> LocalTcpTransport" where
  "Send data prt T =
     (let msg_size = word_of_nat (length data) :: 32 word
      in if sint msg_size > kMaxTransportMessageSize
         then T\<lparr>errors := errors T @ [kMessageSizeTooLarge]\<rparr>
         else DoSend data prt T)"

text \<open>
  What a caller learns that sends a message and waits: an error of the transport, an answer on the
  connection, or nothing before its timeout.
\<close>

definition SendAndWait ::
  "('w, 'p) env \<Rightarrow> bytes \<Rightarrow> port \<Rightarrow> LocalTcpTransport \<Rightarrow> 'w \<Rightarrow> peer_reply \<times> 'w" where
  "SendAndWait env message prt T w =
     (if errors (Send message prt T) \<noteq> errors T then (SendFailed, w) else await_reply env prt message w)"

section \<open>StartControllerListeningPort\<close>

text \<open>The loop: at most \<open>retries\<close> further attempts after one that returned \<open>result\<close>.\<close>

fun retry_listening ::
  "('w, 'p) env \<Rightarrow> nat \<Rightarrow> port \<times> int \<times> LocalTcpTransport \<times> 'w \<Rightarrow> port \<times> int \<times> LocalTcpTransport \<times> 'w"
where
  "retry_listening env 0 r = r"
| "retry_listening env (Suc retries) (prt, result, T, w) =
     (if result \<noteq> kSuccess then retry_listening env retries (StartListening env 0 T w)
      else (prt, result, T, w))"

definition StartControllerListeningPort ::
  "('w, 'p) env \<Rightarrow> LocalTcpTransport \<Rightarrow> 'w \<Rightarrow> fault + (port \<times> LocalTcpTransport \<times> 'w)" where
  "StartControllerListeningPort env T w =
     (let (local_port, result, T', w') = retry_listening env 10 (StartListening env 0 T w)
      in if result \<noteq> kSuccess then Inl (Exception invalid_parameter) else Inr (local_port, T', w'))"

section \<open>Lemmas\<close>

lemma return_codes_distinct [simp]:
  "kAlreadyStarted \<noteq> kSuccess" "kInvalidAddress \<noteq> kSuccess" "kSetOptionFailure \<noteq> kSuccess"
  "kBindError \<noteq> kSuccess" "kListenError \<noteq> kSuccess" "kConnectFailure \<noteq> kSuccess"
  "kMessageSizeTooLarge \<noteq> kSuccess" "kSendFailure \<noteq> kSuccess"
  by (simp_all add: return_code_defs)

lemmas return_codes_distinct' [simp] = return_codes_distinct [THEN not_sym]

lemma DoStartListening_cases:
  assumes "DoStartListening env prt T w = (result, T', w')"
  shows "if acceptor T \<noteq> None then result = kAlreadyStarted \<and> T' = T \<and> w' = w
         else (\<exists>bound. result = kSuccess \<and> T' = T\<lparr>acceptor := Some bound, accepting := True\<rparr>) \<or>
              (result \<in> {kInvalidAddress, kSetOptionFailure, kBindError, kListenError} \<and> T' = T)"
  using assms unfolding DoStartListening_def
  by (auto split: prod.splits if_splits)

lemma StartListening_success:
  "StartListening env prt T w = (p, result, T', w') \<Longrightarrow>
     result = kSuccess \<longleftrightarrow> acceptor T = None \<and> acceptor T' = Some p"
  using DoStartListening_cases [of env prt T w]
  by (auto simp: StartListening_def listening_port_def split: prod.splits if_splits)

lemma StartListening_failure:
  "StartListening env prt T w = (p, result, T', w') \<Longrightarrow> result \<noteq> kSuccess \<Longrightarrow> T' = T"
  using DoStartListening_cases [of env prt T w]
  by (auto simp: StartListening_def split: prod.splits if_splits)

lemma StartListening_closed:
  "StartListening env prt T w = (p, result, T', w') \<Longrightarrow> acceptor T = None \<Longrightarrow>
     (result = kSuccess \<longrightarrow> T' = T\<lparr>acceptor := Some p, accepting := True\<rparr>) \<and>
     (result \<noteq> kSuccess \<longrightarrow> T' = T)"
  using DoStartListening_cases [of env prt T w]
  by (auto simp: StartListening_def listening_port_def split: prod.splits)

lemma retry_listening_result:
  assumes "retry_listening env n (p0, result0, T0, w0) = (p, result, T', w')"
    and "acceptor T = None"
    and "result0 = kSuccess \<longrightarrow> T0 = T\<lparr>acceptor := Some p0, accepting := True\<rparr>"
    and "result0 \<noteq> kSuccess \<longrightarrow> T0 = T"
  shows "if result = kSuccess then T' = T\<lparr>acceptor := Some p, accepting := True\<rparr> else T' = T"
  using assms
proof (induction n arbitrary: p0 result0 T0 w0)
  case (Suc n)
  obtain p1 r1 T1 w1 where one: "StartListening env 0 T w0 = (p1, r1, T1, w1)"
    by (cases "StartListening env 0 T w0") auto
  from StartListening_closed [OF one Suc.prems(2)]
  have "r1 = kSuccess \<longrightarrow> T1 = T\<lparr>acceptor := Some p1, accepting := True\<rparr>"
    and "r1 \<noteq> kSuccess \<longrightarrow> T1 = T" by simp_all
  note attempt = this
  show ?case
  proof (cases "result0 = kSuccess")
    case True
    with Suc.prems show ?thesis by auto
  next
    case False
    with Suc.prems one have "retry_listening env n (p1, r1, T1, w1) = (p, result, T', w')" by simp
    then show ?thesis using Suc.prems(2) attempt by (rule Suc.IH)
  qed
qed (auto split: if_splits)

lemma find_connection_fresh:
  assumes "\<forall>(a, c) \<in> set m. a < n \<and> peer_port c \<noteq> prt" and "peer_port c = prt"
  shows "map_assign n c m = m @ [(n, c)] \<and>
         find_if (\<lambda>(a, c). peer_port c = prt) (m @ [(n, c)]) = Some (length m)"
  using assms by (induction m) auto

section \<open>Properties\<close>

text \<open>
  \<open>StartListening\<close> succeeds exactly when the acceptor was closed and is open afterwards, and then
  returns the port it is bound to; when it fails, the transport is as before, and the code says which
  step failed.
\<close>

theorem StartListening_outcome:
  assumes "StartListening env prt T w = (p, result, T', w')"
  shows "(result = kSuccess \<longleftrightarrow> acceptor T = None \<and> acceptor T' = Some p) \<and>
         (result \<noteq> kSuccess \<longrightarrow> T' = T) \<and>
         (acceptor T \<noteq> None \<longleftrightarrow> result = kAlreadyStarted)"
proof -
  obtain r where "DoStartListening env prt T w = (r, T', w')" "r = result"
    using assms by (auto simp: StartListening_def split: prod.splits)
  from DoStartListening_cases [OF this(1)] this(2)
  have "acceptor T \<noteq> None \<longleftrightarrow> result = kAlreadyStarted"
    by (auto simp: return_code_defs split: if_splits)
  with StartListening_success [OF assms] StartListening_failure [OF assms] show ?thesis by simp
qed

theorem StartListening_outcome_witness:
  "StartListening demo_env 5483 new_LocalTcpTransport demo_world =
     (5483, kSuccess, new_LocalTcpTransport\<lparr>acceptor := Some 5483, accepting := True\<rparr>, demo_world) \<and>
   (kSuccess = kSuccess \<longleftrightarrow> acceptor new_LocalTcpTransport = None)"
  using StartListening_outcome [of demo_env 5483 new_LocalTcpTransport demo_world 5483 kSuccess
      "new_LocalTcpTransport\<lparr>acceptor := Some 5483, accepting := True\<rparr>" demo_world]
  by (simp add: StartListening_def DoStartListening_def demo_env_def new_LocalTcpTransport_def
      listening_port_def)

text \<open>
  \<open>StartControllerListeningPort\<close> on a closed transport either returns the port that the transport
  then listens on, or throws after leaving the transport closed.
\<close>

theorem StartControllerListeningPort_result:
  assumes "acceptor T = None"
  shows "case StartControllerListeningPort env T w of
           Inl e \<Rightarrow> e = Exception invalid_parameter \<and>
             fst (snd (snd (retry_listening env 10 (StartListening env 0 T w)))) = T
         | Inr (p, T', w') \<Rightarrow> T' = T\<lparr>acceptor := Some p, accepting := True\<rparr>"
proof -
  obtain p0 r0 T0 w0 where first: "StartListening env 0 T w = (p0, r0, T0, w0)"
    by (cases "StartListening env 0 T w") auto
  obtain p r T' w' where rest: "retry_listening env 10 (p0, r0, T0, w0) = (p, r, T', w')"
    by (cases "retry_listening env 10 (p0, r0, T0, w0)") auto
  from StartListening_closed [OF first assms]
  have "r0 = kSuccess \<longrightarrow> T0 = T\<lparr>acceptor := Some p0, accepting := True\<rparr>" "r0 \<noteq> kSuccess \<longrightarrow> T0 = T"
    by simp_all
  from retry_listening_result [OF rest assms this] show ?thesis
    by (simp add: StartControllerListeningPort_def first rest split: if_splits)
qed

theorem StartControllerListeningPort_result_witness:
  "StartControllerListeningPort demo_env new_LocalTcpTransport demo_world =
     Inr (40000, new_LocalTcpTransport\<lparr>acceptor := Some 40000, accepting := True\<rparr>, demo_world)"
proof -
  have "\<exists>T' w'. StartControllerListeningPort demo_env new_LocalTcpTransport demo_world =
      Inr (40000, T', w') \<and> w' = demo_world"
    by (simp add: StartControllerListeningPort_def StartListening_def DoStartListening_def
        demo_env_def new_LocalTcpTransport_def listening_port_def numeral_eq_Suc)
  then show ?thesis
    using StartControllerListeningPort_result [of new_LocalTcpTransport demo_env demo_world]
    by (auto simp: new_LocalTcpTransport_def)
qed

text \<open>
  After a successful \<open>Connect\<close> on a new transport, a message within the limit goes out on that
  connection, framed, and raises no error.
\<close>

theorem Connect_Send:
  assumes "Connect env prt new_LocalTcpTransport w = (kSuccess, T, w')"
    and "length message \<le> 67108864"
  shows "\<exists>c. connections (Send message prt T) = [(0, c)] \<and> written c = frame message \<and>
           errors (Send message prt T) = []"
proof -
  have "sint (word_of_nat (length message) :: 32 word) = int (length message)"
    using assms(2) signed_take_bit_int_eq_self [of 31 "int (length message)"]
    by (simp add: signed_of_nat)
  with assms show ?thesis
    by (auto simp: Connect_def TcpConnection_Connect_def Send_def DoSend_def Let_def peer_port_def
        kMaxTransportMessageSize_def DoInsertConnection_def new_LocalTcpTransport_def
        StartReceiving_def StartReadSize_def modify_at_def StartSending_frame new_TcpConnection_def
        split: prod.splits if_splits)
qed

theorem Connect_Send_witness:
  "\<exists>T. Connect demo_env 5483 new_LocalTcpTransport demo_world = (kSuccess, T, demo_world) \<and>
     (\<exists>c. connections (Send ''hello'' 5483 T) = [(0, c)] \<and> written c = frame ''hello'')"
proof -
  obtain T where "Connect demo_env 5483 new_LocalTcpTransport demo_world = (kSuccess, T, demo_world)"
    by (auto simp: Connect_def TcpConnection_Connect_def demo_env_def Let_def)
  with Connect_Send [OF this, of "''hello''"] show ?thesis by auto
qed

text \<open>
  \<open>Connect\<close> does not refuse a transport that is listening: its result depends on the connection
  attempt alone, and \<open>kAlreadyStarted\<close> is never returned.
\<close>

theorem Connect_ignores_acceptor:
  "fst (Connect env prt T w) = (if fst (tcp_connect env prt w) then kConnectFailure else kSuccess) \<and>
   fst (Connect env prt T w) \<noteq> kAlreadyStarted"
  by (simp add: Connect_def TcpConnection_Connect_def Let_def return_code_defs split: prod.split)

end
