(* ===== verification/Client_Manager.thy ===== *)
theory Client_Manager
  imports Process_Threads Local_Tcp_Transport
begin

text \<open>
  \<open>client_manager.h\<close> and the first part of \<open>client_manager.cc\<close>: the state of the client manager, its
  configuration file, its vault processes and the requests it sends to vaults and clients, as the
  release build on Linux has them (\<open>TESTING\<close> undefined).  The handlers of incoming messages are in the
  theory \<open>Client_Manager_Handlers\<close>.

  An operation takes the environment and the state and returns the new state; a result \<open>Inl\<close> is a fault
  (an exception that leaves the operation, or undefined behaviour).  Each operation is one step here; the
  only calls during which the sources let other threads change what the operation depends on are the
  waits for a child process (\<open>sched\<close> is what they do to the process manager meanwhile).
\<close>

section \<open>State\<close>

record 'p VaultInfo =
  process_index :: process_index
  account_name :: string
  pmid :: "'p option" \<comment> \<open>a \<open>unique_ptr\<close>\<close>
  chunkstore_path :: string
  vault_port :: port
  client_port :: port
  requested_to_run :: bool
  joined_network :: bool
  vault_version :: int

definition new_VaultInfo :: "('w, 'p) env \<Rightarrow> 'p VaultInfo" where
  "new_VaultInfo env = \<lparr>process_index = 0, account_name = [], pmid = None, chunkstore_path = [],
     vault_port = 0, client_port = 0, requested_to_run = False, joined_network = False,
     vault_version = kInvalidVersion env\<rparr>"

type_synonym EndPoint = "string \<times> port"

text \<open>
  \<open>outside\<close> is the world outside the program, \<open>sent\<close> the messages that were handed to the temporary
  transports of requests, with the port of the peer.  Intervals are in seconds.
\<close>

record ('w, 'p) ClientManager =
  process_manager :: ProcessManager
  local_port :: port
  config_file_path :: path
  latest_local_installer_path :: path
  vault_infos :: "'p VaultInfo list"
  client_ports_and_versions :: "(port, int) std_map"
  endpoints :: "EndPoint list"
  need_to_stop :: bool
  update_interval :: int
  update_timer :: "int option" \<comment> \<open>the delay of the wait that is under way\<close>
  transport :: "LocalTcpTransport option"
  outside :: 'w
  sent :: "(port \<times> bytes) list"

definition kDefaultPort :: "('w, 'p) env \<Rightarrow> port" where
  "kDefaultPort env = kLivePort env"

definition kMaxRangeAboveDefaultPort :: port where
  "kMaxRangeAboveDefaultPort = 10"

definition kMinUpdateInterval :: int where
  "kMinUpdateInterval = 5 * 60"

definition kMaxUpdateInterval :: int where
  "kMaxUpdateInterval = 24 * 7 * 3600"

definition new_ClientManager :: "('w, 'p) env \<Rightarrow> 'w \<Rightarrow> ('w, 'p) ClientManager" where
  "new_ClientManager env w = \<lparr>process_manager = new_ProcessManager, local_port = kDefaultPort env,
     config_file_path = path_join env (GetSystemAppSupportDir env) kGlobalConfigFilename,
     latest_local_installer_path = [], vault_infos = [], client_ports_and_versions = [],
     endpoints = [], need_to_stop = False, update_interval = kMinUpdateInterval,
     update_timer = None, transport = None, outside = w, sent = []\<rparr>"

text \<open>A vault's details in the configuration.\<close>

definition ToProtobuf :: "('w, 'p) env \<Rightarrow> 'p VaultInfo \<Rightarrow> fault + VaultInfoPb" where
  "ToProtobuf env info =
     (case pmid info of
        None \<Rightarrow> Inl NullDereference
      | Some p \<Rightarrow> Inr \<lparr>vip_pmid = SerialisePmid env p, vip_chunkstore_path = chunkstore_path info,
          vip_requested_to_run = requested_to_run info, vip_version = vault_version info\<rparr>)"

text \<open>\<open>passport::ParsePmid(NonEmptyString(s))\<close>\<close>

definition parse_pmid :: "('w, 'p) env \<Rightarrow> bytes \<Rightarrow> fault + 'p" where
  "parse_pmid env s =
     (if \<not> valid_NonEmptyString env s then Inl (Exception invalid_string_size)
      else case ParsePmid env s of None \<Rightarrow> Inl (Exception parsing_error) | Some p \<Rightarrow> Inr p)"

definition FromProtobuf ::
  "('w, 'p) env \<Rightarrow> VaultInfoPb \<Rightarrow> 'p VaultInfo \<Rightarrow> fault + 'p VaultInfo" where
  "FromProtobuf env v info =
     and_then (parse_pmid env (vip_pmid v)) (\<lambda>p.
       Inr (info\<lparr>pmid := Some p, chunkstore_path := vip_chunkstore_path v,
         requested_to_run := vip_requested_to_run v, vault_version := vip_version v\<rparr>))"

section \<open>Configuration file and bootstrap contacts\<close>

definition ReadFileToClientManagerConfig ::
  "('w, 'p) env \<Rightarrow> path \<Rightarrow> ClientManagerConfig \<Rightarrow> ('w, 'p) ClientManager \<Rightarrow> bool \<times> ClientManagerConfig"
where
  "ReadFileToClientManagerConfig env file_path config s =
     (case ReadFile env file_path (outside s) of
        None \<Rightarrow> (False, config)
      | Some config_content \<Rightarrow>
          if config_content = [] then (False, config)
          else ParseFromString (pb_Config (pb env)) config_content)"

definition write_file ::
  "('w, 'p) env \<Rightarrow> path \<Rightarrow> bytes \<Rightarrow> ('w, 'p) ClientManager \<Rightarrow> bool \<times> ('w, 'p) ClientManager" where
  "write_file env f c s = (let (ok, w) = WriteFile env f c (outside s) in (ok, s\<lparr>outside := w\<rparr>))"

definition LoadBootstrapEndpoints ::
  "Bootstrap \<Rightarrow> ('w, 'p) ClientManager \<Rightarrow> ('w, 'p) ClientManager" where
  "LoadBootstrapEndpoints end_points s =
     s\<lparr>endpoints := map (\<lambda>e. (ep_ip e, word_of_int (ep_port e))) (bootstrap_contacts end_points)\<rparr>"

text \<open>\<open>mutable_bootstrap_endpoints\<close> marks the field as set.\<close>

definition mutable_bootstrap_endpoints :: "ClientManagerConfig \<Rightarrow> ClientManagerConfig" where
  "mutable_bootstrap_endpoints config =
     config\<lparr>cfg_bootstrap_endpoints :=
       Some (case cfg_bootstrap_endpoints config of None \<Rightarrow> empty_bootstrap | Some b \<Rightarrow> b)\<rparr>"

definition ObtainBootstrapInformation ::
  "('w, 'p) env \<Rightarrow> ClientManagerConfig \<Rightarrow> ('w, 'p) ClientManager \<Rightarrow>
     bool \<times> ClientManagerConfig \<times> ('w, 'p) ClientManager" where
  "ObtainBootstrapInformation env config s =
     (let config = mutable_bootstrap_endpoints config;
          (serialised_endpoints, w) = GetBootstrapInfo env (outside s);
          s = s\<lparr>outside := w\<rparr>;
          (parsed, end_points) = ParseFromString (pb_Bootstrap (pb env)) serialised_endpoints
      in if \<not> parsed then (False, config, s)
         else (True, config\<lparr>cfg_bootstrap_endpoints := Some end_points\<rparr>,
               LoadBootstrapEndpoints end_points s))"

fun obtain_bootstrap_retrying ::
  "('w, 'p) env \<Rightarrow> nat \<Rightarrow> ClientManagerConfig \<Rightarrow> ('w, 'p) ClientManager \<Rightarrow>
     ClientManagerConfig \<times> ('w, 'p) ClientManager" where
  "obtain_bootstrap_retrying env retries config s =
     (case ObtainBootstrapInformation env config s of
        (True, config', s') \<Rightarrow> (config', s')
      | (False, config', s') \<Rightarrow>
          (case retries of 0 \<Rightarrow> (config', s')
           | Suc n \<Rightarrow> obtain_bootstrap_retrying env n config' s'))"

declare obtain_bootstrap_retrying.simps [simp del]

definition CreateConfigFile ::
  "('w, 'p) env \<Rightarrow> ('w, 'p) ClientManager \<Rightarrow> bool \<times> ('w, 'p) ClientManager" where
  "CreateConfigFile env s =
     (let config = empty_config\<lparr>cfg_update_interval := Some (word_of_int (update_interval s))\<rparr>;
          (config, s) = obtain_bootstrap_retrying env 10 config s;
          directory = parent_path env (config_file_path s);
          (made, s) = (if fst (fs_exists env directory (outside s)) then (True, s)
            else let ((created, ec), w) = fs_create_directories env directory (outside s)
              in (created \<and> \<not> ec, s\<lparr>outside := w\<rparr>))
      in if \<not> made then (False, s)
         else write_file env (config_file_path s) (SerializeAsString (pb_Config (pb env)) config) s)"

fun to_protobufs :: "('w, 'p) env \<Rightarrow> 'p VaultInfo list \<Rightarrow> fault + VaultInfoPb list" where
  "to_protobufs env [] = Inr []"
| "to_protobufs env (info # infos) =
     and_then (ToProtobuf env info) (\<lambda>v. and_then (to_protobufs env infos) (\<lambda>vs. Inr (v # vs)))"

definition WriteConfigFile ::
  "('w, 'p) env \<Rightarrow> ('w, 'p) ClientManager \<Rightarrow> fault + bool \<times> ('w, 'p) ClientManager" where
  "WriteConfigFile env s =
     (let config = empty_config\<lparr>cfg_update_interval := Some (word_of_int (update_interval s))\<rparr>
      in and_then (to_protobufs env (vault_infos s)) (\<lambda>vs.
        Inr (write_file env (config_file_path s)
          (SerializeAsString (pb_Config (pb env)) (config\<lparr>cfg_vault_info := vs\<rparr>)) s)))"

definition endpoint_pb :: "EndPoint \<Rightarrow> Endpoint" where
  "endpoint_pb e = \<lparr>ep_ip = fst e, ep_port = uint (snd e)\<rparr>"

definition AddBootstrapEndPoint ::
  "('w, 'p) env \<Rightarrow> string \<Rightarrow> port \<Rightarrow> ('w, 'p) ClientManager \<Rightarrow> bool \<times> ('w, 'p) ClientManager" where
  "AddBootstrapEndPoint env ip prt s =
     (case find_if (\<lambda>e. fst e = ip \<and> snd e = prt) (endpoints s) of
        Some _ \<Rightarrow> (True, s)
      | None \<Rightarrow>
          let eps = endpoints s @ [(ip, prt)];
              s = s\<lparr>endpoints := drop (length eps - 1000) eps\<rparr>;
              (ok, config) = ReadFileToClientManagerConfig env (config_file_path s) empty_config s
          in if \<not> ok then (False, s)
             else
               let config = config\<lparr>cfg_bootstrap_endpoints :=
                     Some \<lparr>bootstrap_contacts = map endpoint_pb (endpoints s)\<rparr>\<rparr>
               in write_file env (config_file_path s) (SerializeAsString (pb_Config (pb env)) config) s)"

text \<open>
  The loop over the entries of the configuration stops after the first one with the name of the
  vault; the parse of an entry before it can throw.
\<close>

fun amend_entries ::
  "('w, 'p) env \<Rightarrow> 'p VaultInfo \<Rightarrow> VaultInfoPb list \<Rightarrow> fault + VaultInfoPb list" where
  "amend_entries env info [] = Inr []"
| "amend_entries env info (v # vs) =
     and_then (parse_pmid env (vip_pmid v)) (\<lambda>q.
       case pmid info of
         None \<Rightarrow> Inl NullDereference
       | Some p \<Rightarrow>
           if pmid_name env p = pmid_name env q
           then Inr (\<lparr>vip_pmid = SerialisePmid env p, vip_chunkstore_path = chunkstore_path info,
                  vip_requested_to_run = requested_to_run info, vip_version = vault_version info\<rparr> # vs)
           else and_then (amend_entries env info vs) (\<lambda>vs'. Inr (v # vs')))"

definition AmendVaultDetailsInConfigFile ::
  "('w, 'p) env \<Rightarrow> 'p VaultInfo \<Rightarrow> bool \<Rightarrow> ('w, 'p) ClientManager \<Rightarrow>
     fault + bool \<times> ('w, 'p) ClientManager" where
  "AmendVaultDetailsInConfigFile env info existing_vault s =
     (let (ok, config) = ReadFileToClientManagerConfig env (config_file_path s) empty_config s;
          write = (\<lambda>config. write_file env (config_file_path s)
            (SerializeAsString (pb_Config (pb env)) config))
      in if \<not> ok then Inr (False, s)
         else if existing_vault
         then and_then (amend_entries env info (cfg_vault_info config)) (\<lambda>vs.
           Inr (write (config\<lparr>cfg_vault_info := vs\<rparr>) s))
         else case pmid info of
           None \<Rightarrow> Inl NullDereference
         | Some p \<Rightarrow>
             let config = config\<lparr>cfg_vault_info := cfg_vault_info config @
                   [\<lparr>vip_pmid = SerialisePmid env p, vip_chunkstore_path = chunkstore_path info,
                     vip_requested_to_run = True, vip_version = kInvalidVersion env\<rparr>]\<rparr>;
                 (written, s) = write config s
             in if \<not> written then Inr (False, s) else Inr (write config s))"

section \<open>Vault processes\<close>

definition StartVaultProcess ::
  "('w, 'p) env \<Rightarrow> 'p VaultInfo \<Rightarrow> ('w, 'p) ClientManager \<Rightarrow>
     bool \<times> 'p VaultInfo \<times> ('w, 'p) ClientManager" where
  "StartVaultProcess env info s =
     (let (set_path, p) = SetExecutablePath env (path_join env (GetAppInstallDir env) kVaultName)
            (outside s) new_Process
      in if \<not> set_path then (False, info, s)
         else
           let p = AddArgument (''--chunk_path '' @ chunkstore_path info) (AddArgument ''--start'' p);
               (i, pm) = AddProcess p (local_port s) (process_manager s);
               info = info\<lparr>process_index := i\<rparr>;
               s = s\<lparr>process_manager := pm\<rparr>
           in if i = kInvalidIndex then (False, info, s)
              else (True, info, s\<lparr>process_manager := StartProcess i pm,
                     vault_infos := vault_infos s @ [info]\<rparr>))"

fun start_vaults ::
  "('w, 'p) env \<Rightarrow> VaultInfoPb list \<Rightarrow> ('w, 'p) ClientManager \<Rightarrow> fault + ('w, 'p) ClientManager" where
  "start_vaults env [] s = Inr s"
| "start_vaults env (v # vs) s =
     and_then (FromProtobuf env v (new_VaultInfo env)) (\<lambda>info.
       if requested_to_run info
       then let (_, _, s') = StartVaultProcess env info s in start_vaults env vs s'
       else start_vaults env vs s)"

definition ReadConfigFileAndStartVaults ::
  "('w, 'p) env \<Rightarrow> ('w, 'p) ClientManager \<Rightarrow> fault + bool \<times> ('w, 'p) ClientManager" where
  "ReadConfigFileAndStartVaults env s =
     (case ReadFile env (config_file_path s) (outside s) of
        None \<Rightarrow> Inr (False, s)
      | Some content \<Rightarrow>
          let (parsed, config) = ParseFromString (pb_Config (pb env)) content
          in if \<not> parsed then Inr (False, s)
             else
               let s = s\<lparr>update_interval :=
                     (case cfg_update_interval config of None \<Rightarrow> 0 | Some i \<Rightarrow> uint i)\<rparr>;
                   s = LoadBootstrapEndpoints
                     (case cfg_bootstrap_endpoints config of None \<Rightarrow> empty_bootstrap | Some b \<Rightarrow> b) s
               in and_then (start_vaults env (cfg_vault_info config) s) (\<lambda>s'. Inr (True, s')))"

text \<open>\<open>std::find_if\<close> with a predicate that dereferences the vault's \<open>pmid\<close>.\<close>

fun find_pmid_name :: "('w, 'p) env \<Rightarrow> bytes \<Rightarrow> 'p VaultInfo list \<Rightarrow> fault + nat option" where
  "find_pmid_name env nm [] = Inr None"
| "find_pmid_name env nm (info # infos) =
     (case pmid info of
        None \<Rightarrow> Inl NullDereference
      | Some p \<Rightarrow> if pmid_name env p = nm then Inr (Some 0)
          else and_then (find_pmid_name env nm infos) (\<lambda>itr. Inr (map_option Suc itr)))"

definition FindFromPmidName ::
  "('w, 'p) env \<Rightarrow> bytes \<Rightarrow> ('w, 'p) ClientManager \<Rightarrow> fault + nat option" where
  "FindFromPmidName env nm s = find_pmid_name env nm (vault_infos s)"

definition FindFromProcessIndex :: "process_index \<Rightarrow> ('w, 'p) ClientManager \<Rightarrow> nat option" where
  "FindFromProcessIndex i s = find_if (\<lambda>info. process_index info = i) (vault_infos s)"

definition modify_vault ::
  "nat \<Rightarrow> ('p VaultInfo \<Rightarrow> 'p VaultInfo) \<Rightarrow> ('w, 'p) ClientManager \<Rightarrow> ('w, 'p) ClientManager" where
  "modify_vault itr f s = s\<lparr>vault_infos := modify_at itr f (vault_infos s)\<rparr>"

definition RestartVault ::
  "('w, 'p) env \<Rightarrow> bytes \<Rightarrow> ('w, 'p) ClientManager \<Rightarrow> fault + ('w, 'p) ClientManager" where
  "RestartVault env nm s =
     and_then (FindFromPmidName env nm s) (\<lambda>itr.
       case itr of
         None \<Rightarrow> Inr s
       | Some k \<Rightarrow> Inr (s\<lparr>process_manager :=
           StartProcess (process_index (vault_infos s ! k)) (process_manager s)\<rparr>))"

text \<open>
  \<open>StopVault\<close> after the entry was found and marked: let the process die, send the vault a shutdown
  request and wait for the process.
\<close>

definition shutdown_vault ::
  "('w, 'p) env \<Rightarrow> (ProcessManager \<Rightarrow> ProcessManager) \<Rightarrow> nat \<Rightarrow> bytes \<Rightarrow> bytes \<Rightarrow>
     ('w, 'p) ClientManager \<Rightarrow> bool \<times> ('w, 'p) ClientManager" where
  "shutdown_vault env sched k data signature s =
     (let info = vault_infos s ! k;
          i = process_index info;
          pm = LetProcessDie i (process_manager s);
          request = WrapMessage (pb env) kVaultShutdownRequest
            (SerializeAsString (pb_VaultShutdownRequest (pb env))
              \<lparr>vsq_process_index = i, vsq_data = data, vsq_signature = signature\<rparr>);
          (result, T, w) = Connect env (vault_port info) new_LocalTcpTransport (outside s)
      in if result \<noteq> kSuccess then (False, s\<lparr>process_manager := pm, outside := w\<rparr>)
         else
           let (stopped, pm) = WaitForProcessToStop sched i pm
           in (stopped, s\<lparr>process_manager := pm, outside := w,
                 sent := sent s @ [(vault_port info, request)]\<rparr>))"

definition StopVault ::
  "('w, 'p) env \<Rightarrow> (ProcessManager \<Rightarrow> ProcessManager) \<Rightarrow> bytes \<Rightarrow> bytes \<Rightarrow> bytes \<Rightarrow> bool \<Rightarrow>
     ('w, 'p) ClientManager \<Rightarrow> fault + bool \<times> ('w, 'p) ClientManager" where
  "StopVault env sched nm data signature permanent s =
     and_then (FindFromPmidName env nm s) (\<lambda>itr.
       case itr of
         None \<Rightarrow> Inr (False, s)
       | Some k \<Rightarrow> Inr (shutdown_vault env sched k data signature
           (modify_vault k (\<lambda>info. info\<lparr>requested_to_run := \<not> permanent\<rparr>) s)))"

text \<open>The body of the loop in \<open>StopAllVaults\<close>, at a position of \<open>vault_infos_\<close>.\<close>

definition stop_vault_at ::
  "('w, 'p) env \<Rightarrow> (ProcessManager \<Rightarrow> ProcessManager) \<Rightarrow> nat \<Rightarrow>
     ('w, 'p) ClientManager \<Rightarrow> fault + ('w, 'p) ClientManager" where
  "stop_vault_at env sched k s =
     (let info = vault_infos s ! k
      in if GetProcessStatus (process_index info) (process_manager s) \<noteq> kRunning then Inr s
         else
           let (random_data, w) = RandomString env 64 (outside s);
               s = s\<lparr>outside := w\<rparr>
           in if \<not> valid_NonEmptyString env random_data then Inl (Exception invalid_string_size)
              else case pmid info of
                None \<Rightarrow> Inl NullDereference
              | Some p \<Rightarrow>
                  and_then (StopVault env sched (pmid_name env p) random_data
                    (Sign env random_data p) False s) (\<lambda>(_, s'). Inr s'))"

fun stop_vaults_from ::
  "('w, 'p) env \<Rightarrow> (ProcessManager \<Rightarrow> ProcessManager) \<Rightarrow> nat list \<Rightarrow>
     ('w, 'p) ClientManager \<Rightarrow> fault + ('w, 'p) ClientManager" where
  "stop_vaults_from env sched [] s = Inr s"
| "stop_vaults_from env sched (k # ks) s =
     and_then (stop_vault_at env sched k s) (stop_vaults_from env sched ks)"

definition StopAllVaults ::
  "('w, 'p) env \<Rightarrow> (ProcessManager \<Rightarrow> ProcessManager) \<Rightarrow>
     ('w, 'p) ClientManager \<Rightarrow> fault + ('w, 'p) ClientManager" where
  "StopAllVaults env sched s = stop_vaults_from env sched [0..<length (vault_infos s)] s"

definition InTestMode :: "('w, 'p) env \<Rightarrow> ('w, 'p) ClientManager \<Rightarrow> bool" where
  "InTestMode env s \<longleftrightarrow> config_file_path s = path_join env ''.'' kGlobalConfigFilename"

end
