(* ===== verification/Client_Manager_Handlers.thy ===== *)
theory Client_Manager_Handlers
  imports Client_Manager
begin

text \<open>
  The second part of \<open>client_manager.cc\<close>: the handlers of incoming messages, the notifications to
  clients, the check for updates, listening and start-up.  A handler returns its response beside the
  state; the empty response is the value that \<open>HandleReceivedMessage\<close> passes to it.
\<close>

section \<open>Update interval\<close>

definition SetUpdateInterval ::
  "int \<Rightarrow> ('w, 'p) ClientManager \<Rightarrow> bool \<times> ('w, 'p) ClientManager" where
  "SetUpdateInterval interval s =
     (if interval < kMinUpdateInterval \<or> interval > kMaxUpdateInterval then (False, s)
      else (True, s\<lparr>update_interval := interval\<rparr>))"

definition GetUpdateInterval :: "('w, 'p) ClientManager \<Rightarrow> int" where
  "GetUpdateInterval s = update_interval s"

definition HandleUpdateIntervalRequest ::
  "('w, 'p) env \<Rightarrow> bytes \<Rightarrow> ('w, 'p) ClientManager \<Rightarrow> bytes \<times> ('w, 'p) ClientManager" where
  "HandleUpdateIntervalRequest env request s =
     (let (parsed, update_interval_request) =
            ParseFromString (pb_UpdateIntervalRequest (pb env)) request
      in if \<not> parsed then ([], s)
         else
           let (interval, s) =
                 (case uiq_new_update_interval update_interval_request of
                    Some new_update_interval \<Rightarrow>
                      let (ok, s) = SetUpdateInterval (uint new_update_interval) s
                      in if ok then (word_of_int (GetUpdateInterval s), s) else (0, s)
                  | None \<Rightarrow> (word_of_int (GetUpdateInterval s), s))
           in (WrapMessage (pb env) kUpdateIntervalResponse
                 (SerializeAsString (pb_UpdateIntervalResponse (pb env)) \<lparr>uis_update_interval = interval\<rparr>),
               s))"

section \<open>Requests of clients and vaults\<close>

text \<open>
  When no bootstrap contacts are known, three handlers read the configuration, fetch contacts and write
  the configuration back, whether or not it could be read.  The result says whether it was written.
\<close>

definition refresh_bootstrap ::
  "('w, 'p) env \<Rightarrow> ('w, 'p) ClientManager \<Rightarrow> bool \<times> ('w, 'p) ClientManager" where
  "refresh_bootstrap env s =
     (let (_, config) = ReadFileToClientManagerConfig env (config_file_path s) empty_config s;
          (obtained, config, s) = ObtainBootstrapInformation env config s
      in if \<not> obtained then (False, s)
         else write_file env (config_file_path s) (SerializeAsString (pb_Config (pb env)) config) s)"

definition HandleClientRegistrationRequest ::
  "('w, 'p) env \<Rightarrow> bytes \<Rightarrow> ('w, 'p) ClientManager \<Rightarrow> bytes \<times> ('w, 'p) ClientManager" where
  "HandleClientRegistrationRequest env request s =
     (let (parsed, client_request) = ParseFromString (pb_ClientRegistrationRequest (pb env)) request
      in if \<not> parsed then ([], s)
         else
           let request_port = ucast (crq_listening_port client_request) :: port;
               s = s\<lparr>client_ports_and_versions :=
                     map_assign request_port (crq_version client_request) (client_ports_and_versions s)\<rparr>;
               (eps, s) = (if endpoints s = [] then ([], snd (refresh_bootstrap env s))
                           else (endpoints s, s));
               outdated = crq_version client_request <
                 VersionToInt env (latest_remote_version env (outside s))
           in (WrapMessage (pb env) kClientRegistrationResponse
                 (SerializeAsString (pb_ClientRegistrationResponse (pb env))
                   \<lparr>crs_bootstrap_endpoint_ip = map fst eps,
                    crs_bootstrap_endpoint_port = map (\<lambda>e. ucast (snd e)) eps,
                    crs_path_to_new_installer =
                      (if outdated then Some (latest_local_installer_path s) else None)\<rparr>), s))"

text \<open>The directory for a new vault: names are drawn until one does not exist.\<close>

partial_function (option) choose_chunkstore ::
  "('w, 'p) env \<Rightarrow> path \<Rightarrow> 'w \<Rightarrow> (path \<times> 'w) option" where
  "choose_chunkstore env directory w =
     (let (random_appendix, w') = RandomAlphaNumericString env 16 w;
          chunkstore = path_join env directory random_appendix
      in if fst (fs_exists env chunkstore w') then choose_chunkstore env directory w'
         else Some (chunkstore, w'))"

declare choose_chunkstore.simps [code]

definition start_vault_response :: "('w, 'p) env \<Rightarrow> bool \<Rightarrow> bytes" where
  "start_vault_response env result =
     WrapMessage (pb env) kStartVaultResponse
       (SerializeAsString (pb_StartVaultResponse (pb env)) \<lparr>svs_result = result\<rparr>)"

text \<open>The branch for a vault that is not registered yet; \<open>None\<close>: the loop does not end.\<close>

definition start_new_vault ::
  "('w, 'p) env \<Rightarrow> StartVaultRequest \<Rightarrow> port \<Rightarrow> 'p \<Rightarrow> ('w, 'p) ClientManager \<Rightarrow>
     (fault + bytes \<times> ('w, 'p) ClientManager) option" where
  "start_new_vault env request client request_pmid s =
     (let directory = (case svq_chunkstore_path request of
                         Some directory \<Rightarrow> directory
                       | None \<Rightarrow> parent_path env (config_file_path s))
      in case choose_chunkstore env directory (outside s) of
           None \<Rightarrow> None
         | Some (chunkstore, w) \<Rightarrow>
             let info = (new_VaultInfo env)\<lparr>pmid := Some request_pmid,
                   account_name := svq_account_name request, chunkstore_path := chunkstore,
                   client_port := client\<rparr>;
                 (started, info, s) = StartVaultProcess env info (s\<lparr>outside := w\<rparr>)
             in if \<not> started then Some (Inr (start_vault_response env False, s))
                else Some (and_then (AmendVaultDetailsInConfigFile env info False s) (\<lambda>(amended, s).
                  Inr (start_vault_response env amended, s))))"

text \<open>
  The branch for a registered vault: the signature is checked against the \<open>pmid\<close> of the \<open>VaultInfo\<close> that
  the handler has just created, and that pointer is null.
\<close>

definition start_existing_vault ::
  "('w, 'p) env \<Rightarrow> StartVaultRequest \<Rightarrow> port \<Rightarrow> nat \<Rightarrow> ('w, 'p) ClientManager \<Rightarrow>
     fault + bytes \<times> ('w, 'p) ClientManager" where
  "start_existing_vault env request client k s =
     (let vault_info = new_VaultInfo env
      in if \<not> valid_NonEmptyString env (svq_token request) \<or>
            \<not> valid_NonEmptyString env (svq_token_signature request)
         then Inl (Exception invalid_string_size)
         else case pmid vault_info of
           None \<Rightarrow> Inl NullDereference
         | Some p \<Rightarrow>
             if \<not> CheckSignature env (svq_token request) (svq_token_signature request) p
             then Inr (start_vault_response env False, s)
             else
               and_then
                 (if \<not> svq_credential_change request
                  then if \<not> joined_network (vault_infos s ! k)
                    then Inr ((modify_vault k
                      (\<lambda>info. info\<lparr>client_port := client, requested_to_run := True\<rparr>) s)
                      \<lparr>process_manager :=
                        StartProcess (process_index (vault_infos s ! k)) (process_manager s)\<rparr>)
                    else Inr s
                  else if joined_network (vault_infos s ! k) then Inr s
                    else and_then (parse_pmid env (svq_pmid request)) (\<lambda>q.
                      Inr (modify_vault k (\<lambda>info. info\<lparr>account_name := svq_account_name request,
                        pmid := Some q, client_port := client, requested_to_run := True\<rparr>) s)))
                 (\<lambda>s. and_then (AmendVaultDetailsInConfigFile env vault_info True s) (\<lambda>(amended, s).
                    Inr (start_vault_response env amended, s))))"

definition HandleStartVaultRequest ::
  "('w, 'p) env \<Rightarrow> bytes \<Rightarrow> ('w, 'p) ClientManager \<Rightarrow>
     (fault + bytes \<times> ('w, 'p) ClientManager) option" where
  "HandleStartVaultRequest env request s =
     (let (parsed, start_vault_request) = ParseFromString (pb_StartVaultRequest (pb env)) request
      in if \<not> parsed then Some (Inr ([], s))
         else
           let client = ucast (svq_client_port start_vault_request) :: port
           in if map_find client (client_ports_and_versions s) = None
              then Some (Inr (start_vault_response env False, s))
              else case parse_pmid env (svq_pmid start_vault_request) of
                Inl e \<Rightarrow> Some (Inl e)
              | Inr request_pmid \<Rightarrow>
                  (case FindFromPmidName env (pmid_name env request_pmid) s of
                     Inl e \<Rightarrow> Some (Inl e)
                   | Inr (Some k) \<Rightarrow> Some (start_existing_vault env start_vault_request client k s)
                   | Inr None \<Rightarrow> start_new_vault env start_vault_request client request_pmid s))"

definition HandleVaultIdentityRequest ::
  "('w, 'p) env \<Rightarrow> bytes \<Rightarrow> ('w, 'p) ClientManager \<Rightarrow> fault + bytes \<times> ('w, 'p) ClientManager" where
  "HandleVaultIdentityRequest env request s =
     (let (parsed, vault_identity_request) = ParseFromString (pb_VaultIdentityRequest (pb env)) request
      in if \<not> parsed then Inr ([], s)
         else case FindFromProcessIndex (viq_process_index vault_identity_request) s of
           None \<Rightarrow> Inr ([], s)
         | Some k \<Rightarrow>
             (case pmid (vault_infos s ! k) of
                None \<Rightarrow> Inl NullDereference
              | Some p \<Rightarrow>
                  let serialised_pmid = SerialisePmid env p;
                      (successful_response, s) =
                        (if endpoints s = [] then refresh_bootstrap env s else (True, s))
                  in if \<not> successful_response then Inr ([], s)
                     else
                       let response = \<lparr>vis_pmid = serialised_pmid,
                             vis_chunkstore_path = chunkstore_path (vault_infos s ! k),
                             vis_bootstrap_endpoint_ip = map fst (endpoints s),
                             vis_bootstrap_endpoint_port = map (\<lambda>e. ucast (snd e)) (endpoints s)\<rparr>;
                           s = modify_vault k (\<lambda>info. info\<lparr>
                             vault_port := ucast (viq_listening_port vault_identity_request),
                             vault_version := viq_version vault_identity_request\<rparr>) s
                       in Inr (WrapMessage (pb env) kVaultIdentityResponse
                            (SerializeAsString (pb_VaultIdentityResponse (pb env)) response), s)))"

text \<open>
  \<open>HandleVaultJoinConfirmationAck\<close> and \<open>HandleNewVersionAvailableAck\<close>: the value that the callback is
  called with, if it is called.
\<close>

definition HandleVaultJoinConfirmationAck :: "('w, 'p) env \<Rightarrow> bytes \<Rightarrow> bool option" where
  "HandleVaultJoinConfirmationAck env message =
     (case UnwrapMessage (pb env) message of
        (ok, type, payload) \<Rightarrow>
          if \<not> ok \<or> type \<noteq> kVaultJoinConfirmationAck then None
          else Some (vjca_ack (snd (ParseFromString (pb_VaultJoinConfirmationAck (pb env)) payload))))"

definition HandleNewVersionAvailableAck :: "('w, 'p) env \<Rightarrow> bytes \<Rightarrow> bool option" where
  "HandleNewVersionAvailableAck env message =
     (case UnwrapMessage (pb env) message of
        (ok, type, payload) \<Rightarrow>
          if \<not> ok \<or> type \<noteq> kNewVersionAvailableAck then None else Some True)"

text \<open>
  A request to a client: connect, send whether or not that worked, and wait for the callback.  The
  result is the callback's last value before the wait ends; \<open>None\<close> when it was not called.
\<close>

definition request_client ::
  "('w, 'p) env \<Rightarrow> (bytes \<Rightarrow> bool option) \<Rightarrow> port \<Rightarrow> bytes \<Rightarrow> ('w, 'p) ClientManager \<Rightarrow>
     bool option \<times> ('w, 'p) ClientManager" where
  "request_client env handle_ack client message s =
     (let (result, T, w) = Connect env client new_LocalTcpTransport (outside s);
          s = s\<lparr>sent := sent s @ [(client, message)]\<rparr>
      in if result \<noteq> kSuccess then (Some False, s\<lparr>outside := w\<rparr>)
         else
           let (reply, w) = SendAndWait env message client T w
           in (case reply of Reply answer \<Rightarrow> handle_ack answer | SendFailed \<Rightarrow> Some False | NoReply \<Rightarrow> None,
               s\<lparr>outside := w\<rparr>))"

definition SendVaultJoinConfirmation ::
  "('w, 'p) env \<Rightarrow> bytes \<Rightarrow> bool \<Rightarrow> ('w, 'p) ClientManager \<Rightarrow> fault + ('w, 'p) ClientManager" where
  "SendVaultJoinConfirmation env nm join_result s =
     and_then (FindFromPmidName env nm s) (\<lambda>itr.
       case itr of
         None \<Rightarrow> Inr s
       | Some k \<Rightarrow>
           Inr (snd (request_client env (HandleVaultJoinConfirmationAck env)
             (client_port (vault_infos s ! k))
             (WrapMessage (pb env) kVaultJoinConfirmation
               (SerializeAsString (pb_VaultJoinConfirmation (pb env))
                 \<lparr>vjc_identity = nm, vjc_joined = join_result\<rparr>)) s)))"

text \<open>The entry that was not found is dereferenced, and the acknowledgement has the type of another message.\<close>

definition HandleVaultJoinedNetworkRequest ::
  "('w, 'p) env \<Rightarrow> bytes \<Rightarrow> ('w, 'p) ClientManager \<Rightarrow> fault + bytes \<times> ('w, 'p) ClientManager" where
  "HandleVaultJoinedNetworkRequest env request s =
     (let (parsed, vault_joined_network) = ParseFromString (pb_VaultJoinedNetwork (pb env)) request
      in if \<not> parsed then Inr ([], s)
         else case FindFromProcessIndex (vjn_process_index vault_joined_network) s of
           None \<Rightarrow> Inl EndDereference
         | Some k \<Rightarrow>
             let join_result = True;
                 s = modify_vault k
                   (\<lambda>info. info\<lparr>joined_network := vjn_joined vault_joined_network\<rparr>) s;
                 response = WrapMessage (pb env) kVaultIdentityResponse
                   (SerializeAsString (pb_VaultJoinedNetworkAck (pb env)) \<lparr>vja_ack = join_result\<rparr>)
             in if client_port (vault_infos s ! k) \<noteq> 0
                then (case pmid (vault_infos s ! k) of
                  None \<Rightarrow> Inl NullDereference
                | Some p \<Rightarrow> and_then (SendVaultJoinConfirmation env (pmid_name env p) join_result s)
                    (\<lambda>s. Inr (response, s)))
                else Inr (response, s))"

definition HandleStopVaultRequest ::
  "('w, 'p) env \<Rightarrow> (ProcessManager \<Rightarrow> ProcessManager) \<Rightarrow> bytes \<Rightarrow> ('w, 'p) ClientManager \<Rightarrow>
     fault + bytes \<times> ('w, 'p) ClientManager" where
  "HandleStopVaultRequest env sched request s =
     (let (parsed, stop_vault_request) = ParseFromString (pb_StopVaultRequest (pb env)) request;
          nm = spq_identity stop_vault_request;
          data = spq_data stop_vault_request;
          signature = spq_signature stop_vault_request;
          response = (\<lambda>result. WrapMessage (pb env) kStopVaultResponse
            (SerializeAsString (pb_StopVaultResponse (pb env)) \<lparr>sps_result = result\<rparr>))
      in if \<not> parsed then Inr ([], s)
         else if \<not> valid_Identity env nm \<or> \<not> valid_NonEmptyString env data \<or>
                 \<not> valid_NonEmptyString env signature
         then Inl (Exception invalid_string_size)
         else and_then (FindFromPmidName env nm s) (\<lambda>itr.
           case itr of
             None \<Rightarrow> Inr (response False, s)
           | Some k \<Rightarrow>
               (case pmid (vault_infos s ! k) of
                  None \<Rightarrow> Inl NullDereference
                | Some p \<Rightarrow>
                    if \<not> CheckSignature env data signature p then Inr (response False, s)
                    else and_then (StopVault env sched nm data signature True s) (\<lambda>(stopped, s).
                      and_then (AmendVaultDetailsInConfigFile env (vault_infos s ! k) True s)
                        (\<lambda>(amended, s). Inr (response (stopped \<and> amended), s))))))"

definition HandleSendEndpointToClientManagerRequest ::
  "('w, 'p) env \<Rightarrow> bytes \<Rightarrow> ('w, 'p) ClientManager \<Rightarrow> bytes \<times> ('w, 'p) ClientManager" where
  "HandleSendEndpointToClientManagerRequest env request s =
     (let (parsed, send_endpoint_request) = ParseFromString (pb_SendEndpointRequest (pb env)) request
      in if \<not> parsed then ([], s)
         else
           let (added, s) = AddBootstrapEndPoint env (seq_bootstrap_endpoint_ip send_endpoint_request)
                 (ucast (seq_bootstrap_endpoint_port send_endpoint_request)) s
           in (WrapMessage (pb env) kSendEndpointToClientManagerResponse
                 (SerializeAsString (pb_SendEndpointResponse (pb env)) \<lparr>ses_result = added\<rparr>), s))"

definition HandleBootstrapRequest ::
  "('w, 'p) env \<Rightarrow> bytes \<Rightarrow> ('w, 'p) ClientManager \<Rightarrow> bytes \<times> ('w, 'p) ClientManager" where
  "HandleBootstrapRequest env request s =
     (let (parsed, bootstrap_request) = ParseFromString (pb_BootstrapRequest (pb env)) request
      in if \<not> parsed then ([], s)
         else
           let (eps, s) = (if endpoints s = [] then ([], snd (refresh_bootstrap env s))
                           else (endpoints s, s))
           in (WrapMessage (pb env) kBootstrapResponse
                 (SerializeAsString (pb_BootstrapResponse (pb env))
                   \<lparr>bts_bootstrap_endpoint_ip = map fst eps,
                    bts_bootstrap_endpoint_port = map (\<lambda>e. ucast (snd e)) eps\<rparr>), s))"

section \<open>Dispatch\<close>

text \<open>The response is sent even when it is empty.  \<open>None\<close>: the handler does not return.\<close>

definition send_response ::
  "port \<Rightarrow> bytes \<times> ('w, 'p) ClientManager \<Rightarrow> fault + ('w, 'p) ClientManager" where
  "send_response peer r =
     (case transport (snd r) of
        None \<Rightarrow> Inl NullDereference
      | Some T \<Rightarrow> Inr ((snd r)\<lparr>transport := Some (Send (fst r) peer T)\<rparr>))"

definition HandleReceivedMessage ::
  "('w, 'p) env \<Rightarrow> (ProcessManager \<Rightarrow> ProcessManager) \<Rightarrow> bytes \<Rightarrow> port \<Rightarrow> ('w, 'p) ClientManager \<Rightarrow>
     (fault + ('w, 'p) ClientManager) option" where
  "HandleReceivedMessage env sched message peer s =
     (case UnwrapMessage (pb env) message of
        (ok, type, payload) \<Rightarrow>
          if \<not> ok then Some (Inr s)
          else case type of
            kClientRegistrationRequest \<Rightarrow>
              Some (send_response peer (HandleClientRegistrationRequest env payload s))
          | kStartVaultRequest \<Rightarrow>
              map_option (\<lambda>r. and_then r (send_response peer)) (HandleStartVaultRequest env payload s)
          | kVaultIdentityRequest \<Rightarrow>
              Some (and_then (HandleVaultIdentityRequest env payload s) (send_response peer))
          | kVaultJoinedNetwork \<Rightarrow>
              Some (and_then (HandleVaultJoinedNetworkRequest env payload s) (send_response peer))
          | kStopVaultRequest \<Rightarrow>
              Some (and_then (HandleStopVaultRequest env sched payload s) (send_response peer))
          | kUpdateIntervalRequest \<Rightarrow>
              Some (send_response peer (HandleUpdateIntervalRequest env payload s))
          | kSendEndpointToClientManagerRequest \<Rightarrow>
              Some (send_response peer (HandleSendEndpointToClientManagerRequest env payload s))
          | kBootstrapRequest \<Rightarrow>
              Some (send_response peer (HandleBootstrapRequest env payload s))
          | _ \<Rightarrow> Some (Inr s))"

section \<open>Updates\<close>

definition SendNewVersionAvailable ::
  "('w, 'p) env \<Rightarrow> port \<Rightarrow> ('w, 'p) ClientManager \<Rightarrow> ('w, 'p) ClientManager" where
  "SendNewVersionAvailable env client s =
     (let (answer, s) = request_client env (HandleNewVersionAvailableAck env) client
            (WrapMessage (pb env) kNewVersionAvailable
              (SerializeAsString (pb_NewVersionAvailable (pb env))
                \<lparr>nva_new_version_filepath = latest_local_installer_path s\<rparr>)) s
      in if answer \<noteq> Some True then s
         else if map_find client (client_ports_and_versions s) = None then s
         else s\<lparr>client_ports_and_versions :=
                map_assign client (VersionToInt env (latest_local_version env (outside s)))
                  (client_ports_and_versions s)\<rparr>)"

definition IsInstaller :: "('w, 'p) env \<Rightarrow> path \<Rightarrow> bool" where
  "IsInstaller env p \<longleftrightarrow>
     path_extension env p = ''.deb'' \<and> length (path_stem env p) > 8 \<and>
     take 9 (path_stem env p) = ''Client''"

text \<open>The same function on every other platform.\<close>

definition IsInstaller_other :: "('w, 'p) env \<Rightarrow> path \<Rightarrow> bool" where
  "IsInstaller_other env p \<longleftrightarrow> path_extension env p = ''.exe'' \<and> take 9 (path_stem env p) = ''Client''"

fun notify_clients ::
  "('w, 'p) env \<Rightarrow> (port \<times> int) list \<Rightarrow> ('w, 'p) ClientManager \<Rightarrow> ('w, 'p) ClientManager" where
  "notify_clients env [] s = s"
| "notify_clients env ((client, version) # entries) s =
     notify_clients env entries
       (if version < VersionToInt env (latest_remote_version env (outside s))
        then SendNewVersionAvailable env client s else s)"

definition UpdateExecutor ::
  "('w, 'p) env \<Rightarrow> (ProcessManager \<Rightarrow> ProcessManager) \<Rightarrow> ('w, 'p) ClientManager \<Rightarrow>
     fault + ('w, 'p) ClientManager" where
  "UpdateExecutor env sched s =
     (let ((result, updated_files), w) = Update env (outside s);
          s = s\<lparr>outside := w\<rparr>
      in if result \<noteq> kSuccess then Inr s
         else
           let s = (case find_if (IsInstaller env) updated_files of
                      Some it \<Rightarrow> s\<lparr>latest_local_installer_path := updated_files ! it\<rparr>
                    | None \<Rightarrow> s);
               new_local_vault_path =
                 (case find_if (\<lambda>p. path_stem env p = kVaultName) updated_files of
                    Some it \<Rightarrow> updated_files ! it
                  | None \<Rightarrow> []);
               s = notify_clients env (client_ports_and_versions s) s
           in if new_local_vault_path = [] then Inr s
              else and_then (StopAllVaults env sched s) (\<lambda>s.
                let s = s\<lparr>outside := fs_rename env new_local_vault_path
                          (path_join env (GetAppInstallDir env) kVaultName) (outside s),
                          vault_infos := []\<rparr>
                in and_then (ReadConfigFileAndStartVaults env s) (\<lambda>(_, s). Inr s)))"

datatype timer_result = expired | operation_aborted | timer_error

definition CheckForUpdates ::
  "('w, 'p) env \<Rightarrow> (ProcessManager \<Rightarrow> ProcessManager) \<Rightarrow> timer_result \<Rightarrow>
     ('w, 'p) ClientManager \<Rightarrow> fault + ('w, 'p) ClientManager" where
  "CheckForUpdates env sched ec s =
     (if ec = timer_error then Inr s
      else and_then (UpdateExecutor env sched s) (\<lambda>s.
        Inr (s\<lparr>update_timer := Some (update_interval s)\<rparr>)))"

section \<open>Start-up\<close>

text \<open>
  The loop of \<open>ListenForMessages\<close> after an attempt with \<open>result\<close>: \<open>local\<close> is a \<open>uint16_t\<close> and wraps, the
  bound is computed as an \<open>int\<close>.  The port that is listened on, if any.
\<close>

partial_function (option) listen_loop ::
  "('w, 'p) env \<Rightarrow> port \<Rightarrow> port \<Rightarrow> int \<Rightarrow> LocalTcpTransport \<Rightarrow> 'w \<Rightarrow>
     (port option \<times> LocalTcpTransport \<times> 'w) option" where
  "listen_loop env base local result T w =
     (if result = kSuccess then Some (Some local, T, w)
      else
        let local = local + 1
        in if uint local > uint base + uint kMaxRangeAboveDefaultPort then Some (None, T, w)
           else let (_, result, T, w) = StartListening env local T w
             in listen_loop env base local result T w)"

declare listen_loop.simps [code]

definition ListenForMessages ::
  "('w, 'p) env \<Rightarrow> ('w, 'p) ClientManager \<Rightarrow> (fault + bool \<times> ('w, 'p) ClientManager) option" where
  "ListenForMessages env s =
     (case transport s of
        None \<Rightarrow> Some (Inl NullDereference)
      | Some T \<Rightarrow>
          let (_, result, T, w) = StartListening env (local_port s) T (outside s)
          in map_option (\<lambda>(listening, T, w).
               let s = s\<lparr>transport := Some T, outside := w\<rparr>
               in case listening of
                    None \<Rightarrow> Inr (False, s)
                  | Some p \<Rightarrow> Inr (True, s\<lparr>local_port := p\<rparr>))
             (listen_loop env (local_port s) (local_port s) result T w))"

text \<open>
  The loops of \<open>Initialise\<close> that retry once a second; \<open>Inr (False, s)\<close> is the early return when
  \<open>need_to_stop_\<close> is set.
\<close>

partial_function (option) create_config_retrying ::
  "('w, 'p) env \<Rightarrow> ('w, 'p) ClientManager \<Rightarrow> (bool \<times> ('w, 'p) ClientManager) option" where
  "create_config_retrying env s =
     (let (created, s) = CreateConfigFile env s
      in if created then Some (True, s)
         else if need_to_stop s then Some (False, s)
         else create_config_retrying env s)"

partial_function (option) listen_retrying ::
  "('w, 'p) env \<Rightarrow> ('w, 'p) ClientManager \<Rightarrow> (fault + bool \<times> ('w, 'p) ClientManager) option" where
  "listen_retrying env s =
     (case ListenForMessages env s of
        None \<Rightarrow> None
      | Some (Inl e) \<Rightarrow> Some (Inl e)
      | Some (Inr (listening, s)) \<Rightarrow>
          if listening then Some (Inr (True, s))
          else if need_to_stop s then Some (Inr (False, s))
          else listen_retrying env s)"

definition Initialise ::
  "('w, 'p) env \<Rightarrow> (ProcessManager \<Rightarrow> ProcessManager) \<Rightarrow> ('w, 'p) ClientManager \<Rightarrow>
     (fault + ('w, 'p) ClientManager) option" where
  "Initialise env sched s =
     (if transport s = None then Some (Inl NullDereference)
      else
        case (if \<not> fst (fs_exists env (config_file_path s) (outside s))
              then create_config_retrying env s else Some (True, s)) of
          None \<Rightarrow> None
        | Some (False, s) \<Rightarrow> Some (Inr s)
        | Some (True, s) \<Rightarrow>
            (case listen_retrying env s of
               None \<Rightarrow> None
             | Some (Inl e) \<Rightarrow> Some (Inl e)
             | Some (Inr (False, s)) \<Rightarrow> Some (Inr s)
             | Some (Inr (True, s)) \<Rightarrow>
                 Some (and_then (UpdateExecutor env sched s) (\<lambda>s.
                   and_then (ReadConfigFileAndStartVaults env s) (\<lambda>(_, s).
                     Inr (s\<lparr>update_timer := Some (update_interval s)\<rparr>))))))"

end
