(* ===== verification/Client_Manager_Invariant.thy ===== *)
theory Client_Manager_Invariant
  imports Client_Manager_Handlers
begin

text \<open>
  The invariant of the client manager: every vault it knows has a pmid and a process of its own in the
  process manager.  Every operation keeps it, and it confines the faults that a message can cause.  The
  facts about processes come from the interpretation \<open>pm_host\<close> of the locale \<open>process_host\<close>.
\<close>

section \<open>The invariant\<close>

definition handles :: "('w, 'p) ClientManager \<Rightarrow> process_index list" where
  "handles s = map process_index (vault_infos s)"

definition cm_inv :: "('w, 'p) ClientManager \<Rightarrow> bool" where
  "cm_inv s \<longleftrightarrow>
     pm_inv (process_manager s) \<and> distinct (handles s) \<and>
     set (handles s) \<subseteq> known (process_manager s) \<and>
     (\<forall>info \<in> set (vault_infos s). pmid info \<noteq> None) \<and>
     map_ok (client_ports_and_versions s)"

text \<open>
  What the other threads do while a child process is waited for: they keep the table of processes
  well-formed, neither add nor remove an entry, and leave the flags alone that say which processes are
  to be restarted.  The steps of the threads of the process manager do so (\<open>sched_ok_run_thread\<close>).
\<close>

definition sched_ok :: "(ProcessManager \<Rightarrow> ProcessManager) \<Rightarrow> bool" where
  "sched_ok sched \<longleftrightarrow>
     (\<forall>pm. pm_inv pm \<longrightarrow> pm_inv (sched pm) \<and> known (sched pm) = known pm \<and>
        current_max_id (sched pm) = current_max_id pm \<and>
        (\<forall>i. map_option is_done (info_of (sched pm) i) = map_option is_done (info_of pm i)))"

lemma sched_okD:
  "sched_ok sched \<Longrightarrow> pm_inv pm \<Longrightarrow>
     pm_inv (sched pm) \<and> known (sched pm) = known pm \<and> current_max_id (sched pm) = current_max_id pm"
  by (simp add: sched_ok_def)

lemma RunProcess_step_sched:
  assumes "RunProcess_step t pm = Inr pm'"
  shows "known pm' = known pm \<and> current_max_id pm' = current_max_id pm \<and>
         map_option is_done (info_of pm' i) = map_option is_done (info_of pm i)"
proof -
  have upd: "map_option is_done (info_of (at_process j f pm) i) = map_option is_done (info_of pm i)"
    if "\<And>info. index (f info) = index info" "\<And>info. is_done (f info) = is_done info" for j f
    using that by (simp add: info_of_at_process option.map_comp comp_def)
  show ?thesis
    using assms upd
    by (auto simp: RunProcess_step_info_of Let_def SetProcessStatus_def
        split: option.splits run_pc.splits if_splits)
qed

lemma run_thread_sched:
  "run_thread n t pm = Inr pm' \<Longrightarrow> pm_inv pm \<Longrightarrow>
     pm_inv pm' \<and> known pm' = known pm \<and> current_max_id pm' = current_max_id pm \<and>
     map_option is_done (info_of pm' i) = map_option is_done (info_of pm i)"
proof (induction n arbitrary: pm)
  case (Suc n)
  then obtain pm1 where "RunProcess_step t pm = Inr pm1" "run_thread n t pm1 = Inr pm'"
    by (auto split: sum.splits)
  with Suc RunProcess_step_sched [of t pm pm1] pm_inv_RunProcess_step [of pm t pm1] show ?case by auto
qed simp

lemma sched_ok_run_thread:
  "sched_ok (\<lambda>pm. case run_thread n t pm of Inl _ \<Rightarrow> pm | Inr pm' \<Rightarrow> pm')"
proof -
  have "pm_inv pm' \<and> known pm' = known pm \<and> current_max_id pm' = current_max_id pm \<and>
      (\<forall>i. map_option is_done (info_of pm' i) = map_option is_done (info_of pm i))"
    if "pm_inv pm" "pm' = (case run_thread n t pm of Inl _ \<Rightarrow> pm | Inr pm' \<Rightarrow> pm')" for pm pm'
    using that run_thread_sched [of n t pm] by (cases "run_thread n t pm") auto
  then show ?thesis unfolding sched_ok_def by blast
qed

lemma sched_ok_id [simp]: "sched_ok (\<lambda>pm. pm)"
  by (simp add: sched_ok_def)

lemma cm_inv_new [simp]: "cm_inv (new_ClientManager env w)"
  by (simp add: cm_inv_def new_ClientManager_def handles_def map_ok_def)

lemma cm_inv_cong:
  "process_manager s' = process_manager s \<Longrightarrow> vault_infos s' = vault_infos s \<Longrightarrow>
     client_ports_and_versions s' = client_ports_and_versions s \<Longrightarrow> cm_inv s' = cm_inv s"
  by (simp add: cm_inv_def handles_def)

lemma cm_inv_fields [simp]:
  "cm_inv (s\<lparr>outside := w\<rparr>) = cm_inv s"
  "cm_inv (s\<lparr>sent := ms\<rparr>) = cm_inv s"
  "cm_inv (s\<lparr>transport := T\<rparr>) = cm_inv s"
  "cm_inv (s\<lparr>endpoints := eps\<rparr>) = cm_inv s"
  "cm_inv (s\<lparr>update_interval := i\<rparr>) = cm_inv s"
  "cm_inv (s\<lparr>update_timer := t\<rparr>) = cm_inv s"
  "cm_inv (s\<lparr>latest_local_installer_path := p\<rparr>) = cm_inv s"
  "cm_inv (s\<lparr>local_port := q\<rparr>) = cm_inv s"
  by (rule cm_inv_cong, simp_all)+

lemma cm_inv_assign [simp]:
  "cm_inv s \<Longrightarrow>
     cm_inv (s\<lparr>client_ports_and_versions := map_assign prt v (client_ports_and_versions s)\<rparr>)"
  by (simp add: cm_inv_def handles_def map_ok_assign)

lemma cm_inv_modify_vault:
  assumes "cm_inv s" and "\<And>info. process_index (f info) = process_index info"
    and "\<And>info. pmid info \<noteq> None \<Longrightarrow> pmid (f info) \<noteq> None"
  shows "cm_inv (modify_vault k f s)"
proof -
  have "handles (modify_vault k f s) = handles s"
    using assms(2) by (simp add: handles_def modify_vault_def)
  moreover have "\<forall>info \<in> set (modify_at k f (vault_infos s)). pmid info \<noteq> None"
  proof
    fix info
    assume "info \<in> set (modify_at k f (vault_infos s))"
    then consider "info \<in> set (vault_infos s)"
      | "k < length (vault_infos s)" "info = f (vault_infos s ! k)"
      using in_set_modify_at by fast
    then show "pmid info \<noteq> None" using assms(1,3) by cases (auto simp: cm_inv_def)
  qed
  ultimately show ?thesis using assms(1) by (simp add: cm_inv_def modify_vault_def)
qed

lemma cm_inv_process_manager:
  "cm_inv s \<Longrightarrow> pm_inv pm \<Longrightarrow> known (process_manager s) \<subseteq> known pm \<Longrightarrow>
     cm_inv (s\<lparr>process_manager := pm\<rparr>)"
  by (auto simp: cm_inv_def handles_def)

lemma cm_inv_pm_inv: "cm_inv s \<Longrightarrow> pm_inv (process_manager s)"
  by (simp add: cm_inv_def)

lemma cm_inv_pmid: "cm_inv s \<Longrightarrow> k < length (vault_infos s) \<Longrightarrow> \<exists>p. pmid (vault_infos s ! k) = Some p"
  by (auto simp: cm_inv_def)

section \<open>Searching\<close>

lemma find_pmid_name_total:
  assumes "\<forall>info \<in> set infos. pmid info \<noteq> None"
  shows "find_pmid_name env nm infos =
           Inr (find_if (\<lambda>info. map_option (pmid_name env) (pmid info) = Some nm) infos)"
  using assms by (induction infos) auto

lemma FindFromPmidName_total:
  "cm_inv s \<Longrightarrow> FindFromPmidName env nm s =
     Inr (find_if (\<lambda>info. map_option (pmid_name env) (pmid info) = Some nm) (vault_infos s))"
  by (simp add: FindFromPmidName_def find_pmid_name_total cm_inv_def)

lemma FindFromPmidName_Some:
  assumes "FindFromPmidName env nm s = Inr (Some k)" and "cm_inv s"
  shows "k < length (vault_infos s) \<and> (\<exists>p. pmid (vault_infos s ! k) = Some p \<and> pmid_name env p = nm)"
  using assms by (auto simp: FindFromPmidName_total dest!: find_if_SomeD)

lemma FindFromProcessIndex_Some:
  "FindFromProcessIndex i s = Some k \<Longrightarrow>
     k < length (vault_infos s) \<and> process_index (vault_infos s ! k) = i"
  unfolding FindFromProcessIndex_def using find_if_SomeD by fast

section \<open>Frame rules\<close>

text \<open>The operations on the configuration change nothing but the contacts and the world outside.\<close>

definition only_config :: "('w, 'p) ClientManager \<Rightarrow> ('w, 'p) ClientManager \<Rightarrow> bool" where
  "only_config s s' \<longleftrightarrow> (\<exists>w eps. s' = s\<lparr>outside := w, endpoints := eps\<rparr>)"

lemma only_config_intros [simp]:
  "only_config s s"
  "only_config s (s\<lparr>outside := w\<rparr>)"
  "only_config s (s\<lparr>outside := w, endpoints := eps\<rparr>)"
proof -
  have "s\<lparr>outside := w\<rparr> = s\<lparr>outside := w, endpoints := endpoints s\<rparr>" for w by simp
  then show outside: "only_config s (s\<lparr>outside := w\<rparr>)" for w unfolding only_config_def by blast
  show "only_config s s" using outside [of "outside s"] by simp
  show "only_config s (s\<lparr>outside := w, endpoints := eps\<rparr>)" unfolding only_config_def by blast
qed

lemma only_config_trans: "only_config s s' \<Longrightarrow> only_config s' s'' \<Longrightarrow> only_config s s''"
proof -
  assume "only_config s s'" and "only_config s' s''"
  then obtain w eps where "s'' = s\<lparr>outside := w, endpoints := eps\<rparr>"
    by (auto simp: only_config_def)
  then show ?thesis unfolding only_config_def by blast
qed

lemma only_config_frame [cm_frame]:
  assumes "only_config s s'"
  shows "process_manager s' = process_manager s" "vault_infos s' = vault_infos s"
    "client_ports_and_versions s' = client_ports_and_versions s" "transport s' = transport s"
    "config_file_path s' = config_file_path s" "local_port s' = local_port s" "sent s' = sent s"
    "update_interval s' = update_interval s" "need_to_stop s' = need_to_stop s"
    "latest_local_installer_path s' = latest_local_installer_path s" "cm_inv s' = cm_inv s"
  using assms by (auto simp: only_config_def)

lemma write_file_eq:
  "write_file env f c s =
     (fst (WriteFile env f c (outside s)), s\<lparr>outside := snd (WriteFile env f c (outside s))\<rparr>)"
  by (simp add: write_file_def split: prod.split)

lemma ObtainBootstrapInformation_frame:
  "only_config s (snd (snd (ObtainBootstrapInformation env config s)))"
  by (simp add: ObtainBootstrapInformation_def LoadBootstrapEndpoints_def Let_def split: prod.split)

lemma refresh_bootstrap_frame: "only_config s (snd (refresh_bootstrap env s))"
proof -
  obtain read config where r:
    "ReadFileToClientManagerConfig env (config_file_path s) empty_config s = (read, config)"
    by fastforce
  obtain ok config' s1 where o: "ObtainBootstrapInformation env config s = (ok, config', s1)"
    using prod_cases3 by blast
  have "only_config s s1" using ObtainBootstrapInformation_frame [of s env config] o by simp
  moreover have "only_config s1 (snd (refresh_bootstrap env s))"
    using r o by (simp add: refresh_bootstrap_def Let_def write_file_eq)
  ultimately show ?thesis by (rule only_config_trans)
qed

lemma Amend_frame:
  "AmendVaultDetailsInConfigFile env info existing s = Inr (ok, s') \<Longrightarrow> only_config s s'"
  by (cases "ReadFileToClientManagerConfig env (config_file_path s) empty_config s")
    (auto simp: AmendVaultDetailsInConfigFile_def Let_def write_file_eq and_then_Inr
      split: if_splits option.splits)

lemma AddBootstrapEndPoint_frame:
  "only_config s (snd (AddBootstrapEndPoint env ip prt s))"
proof -
  have "s\<lparr>endpoints := eps, outside := w\<rparr> = s\<lparr>outside := w, endpoints := eps\<rparr>"
    "s\<lparr>endpoints := eps\<rparr> = s\<lparr>outside := outside s, endpoints := eps\<rparr>" for eps w by simp_all
  then have "only_config s (s\<lparr>endpoints := eps, outside := w\<rparr>)" "only_config s (s\<lparr>endpoints := eps\<rparr>)"
    for eps w unfolding only_config_def by blast+
  then show ?thesis
    by (simp add: AddBootstrapEndPoint_def Let_def write_file_eq split: option.split prod.split)
qed

lemma request_client_frame:
  "\<exists>w ms. snd (request_client env ack client message s) = s\<lparr>outside := w, sent := ms\<rparr>"
proof -
  have "snd (request_client env ack client message s) =
      s\<lparr>outside := outside (snd (request_client env ack client message s)),
        sent := sent s @ [(client, message)]\<rparr>"
    by (simp add: request_client_def Let_def split: prod.split)
  then show ?thesis by blast
qed

lemma cm_inv_request_client [simp]:
  "cm_inv (snd (request_client env ack client message s)) = cm_inv s"
  using request_client_frame [of env ack client message s] by auto

section \<open>Vault processes\<close>

lemma has_room_cong: "current_max_id pm' = current_max_id pm \<Longrightarrow> has_room pm' = has_room pm"
  by (simp add: has_room_def)

lemma StartVaultProcess_inv:
  assumes "StartVaultProcess env info s = (started, info', s')" and "cm_inv s"
    and "has_room (process_manager s)" and "pmid info \<noteq> None"
  shows "cm_inv s' \<and>
         (if started then vault_infos s' = vault_infos s @ [info'] else vault_infos s' = vault_infos s) \<and>
         pmid info' = pmid info \<and> current_max_id (process_manager s') \<in>
           {current_max_id (process_manager s), current_max_id (process_manager s) + 1}"
proof -
  obtain set_path p where p: "SetExecutablePath env (path_join env (GetAppInstallDir env) kVaultName)
      (outside s) new_Process = (set_path, p)" by fastforce
  define p' where "p' = AddArgument (''--chunk_path '' @ chunkstore_path info) (AddArgument ''--start'' p)"
  obtain i pm where add: "AddProcess p' (local_port s) (process_manager s) = (i, pm)" by fastforce
  have inv: "pm_inv (process_manager s)" "distinct (handles s)"
      "set (handles s) \<subseteq> known (process_manager s)"
    using assms(2) by (auto simp: cm_inv_def)
  have max: "current_max_id pm \<in> {current_max_id (process_manager s), current_max_id (process_manager s) + 1}"
    using add by (auto simp: AddProcess_def Let_def split: if_splits)
  note reg = pm_host.register_keeps_handles [OF inv(1) assms(3) add _ inv(2,3)]
  consider "\<not> set_path" "started = False" "info' = info" "s' = s"
    | "i = kInvalidIndex" "started = False" "info' = info\<lparr>process_index := i\<rparr>"
      "s' = s\<lparr>process_manager := pm\<rparr>"
    | "i \<noteq> kInvalidIndex" "started = True" "info' = info\<lparr>process_index := i\<rparr>"
      "s' = s\<lparr>process_manager := StartProcess i pm, vault_infos := vault_infos s @ [info']\<rparr>"
    using assms(1) p add
    by (auto simp: StartVaultProcess_def Let_def p'_def split: if_splits)
  then show ?thesis
  proof cases
    case 2
    then have "name p' = []"
      using pm_host.add_invalid_iff [OF inv(1) assms(3) add] by simp
    then have "pm = process_manager s" using add by (simp add: AddProcess_def)
    with 2 assms(2) max show ?thesis by simp
  next
    case 3
    then have "cm_inv s'"
      using reg assms(2,4) by (auto simp: cm_inv_def handles_def)
    with 3 max show ?thesis by simp
  qed (use assms(2) in simp)
qed

lemma shutdown_vault_frame:
  fixes s :: "('w, 'p) ClientManager"
  assumes "pm_inv (process_manager s)" and "sched_ok sched"
  shows "\<exists>pm w ms. snd (shutdown_vault env sched k data signature s) =
             s\<lparr>process_manager := pm, outside := w, sent := ms\<rparr> \<and>
           pm_inv pm \<and> known pm = known (process_manager s) \<and>
           current_max_id pm = current_max_id (process_manager s)"
proof -
  define i where "i = process_index (vault_infos s ! k)"
  define pm where "pm = LetProcessDie i (process_manager s)"
  obtain result T w where conn:
      "Connect env (vault_port (vault_infos s ! k)) new_LocalTcpTransport (outside s) = (result, T, w)"
    using prod_cases3 by blast
  have pm: "pm_inv pm \<and> known pm = known (process_manager s) \<and>
      current_max_id pm = current_max_id (process_manager s)"
    using assms(1) by (simp add: pm_def pm_inv_ops) (simp add: LetProcessDie_def)
  let ?pm' = "snd (WaitForProcessToStop sched i pm)"
  have wait: "pm_inv ?pm' \<and> known ?pm' = known pm \<and> current_max_id ?pm' = current_max_id pm"
    using sched_okD [OF assms(2)] pm
    by (auto simp: WaitForProcessToStop_def Let_def pm_inv_KillProcess split: option.split)
  show ?thesis
  proof (cases "result = kSuccess")
    case True
    then have "\<exists>ms. snd (shutdown_vault env sched k data signature s) =
        s\<lparr>process_manager := ?pm', outside := w, sent := ms\<rparr>"
      using conn by (auto simp: shutdown_vault_def Let_def pm_def i_def case_prod_beta)
    with wait pm show ?thesis by metis
  next
    case False
    then have "snd (shutdown_vault env sched k data signature s) =
        s\<lparr>process_manager := pm, outside := w, sent := sent s\<rparr>"
      using conn by (simp add: shutdown_vault_def Let_def pm_def i_def)
    with pm show ?thesis by metis
  qed
qed

lemma StopVault_inv:
  assumes "StopVault env sched nm data signature permanent s = Inr (stopped, s')" and "cm_inv s"
    and "sched_ok sched"
  shows "cm_inv s' \<and> length (vault_infos s') = length (vault_infos s) \<and>
         current_max_id (process_manager s') = current_max_id (process_manager s) \<and>
         known (process_manager s') = known (process_manager s)"
proof -
  obtain itr where itr: "FindFromPmidName env nm s = Inr itr"
    using FindFromPmidName_total [OF assms(2)] by blast
  show ?thesis
  proof (cases itr)
    case None
    with itr assms show ?thesis by (simp add: StopVault_def)
  next
    case (Some k)
    define s1 where "s1 = modify_vault k (\<lambda>info. info\<lparr>requested_to_run := \<not> permanent\<rparr>) s"
    have inv1: "cm_inv s1" unfolding s1_def by (rule cm_inv_modify_vault) (use assms(2) in simp_all)
    have s1: "length (vault_infos s1) = length (vault_infos s)" "process_manager s1 = process_manager s"
      by (simp_all add: s1_def modify_vault_def)
    have "s' = snd (shutdown_vault env sched k data signature s1)"
      using assms(1) itr Some by (auto simp: StopVault_def s1_def)
    with shutdown_vault_frame [OF cm_inv_pm_inv [OF inv1] assms(3), of env k data signature]
    obtain pm w ms where s': "s' = s1\<lparr>process_manager := pm, outside := w, sent := ms\<rparr>"
      and pm: "pm_inv pm" "known pm = known (process_manager s1)"
        "current_max_id pm = current_max_id (process_manager s1)" by blast
    have "cm_inv (s1\<lparr>process_manager := pm\<rparr>)"
      by (rule cm_inv_process_manager [OF inv1 pm(1)]) (simp add: pm(2))
    with s' pm s1 show ?thesis by simp
  qed
qed

lemma stop_vault_at_inv:
  assumes "stop_vault_at env sched k s = Inr s'" and "cm_inv s" and "sched_ok sched"
  shows "cm_inv s' \<and> length (vault_infos s') = length (vault_infos s) \<and>
         current_max_id (process_manager s') = current_max_id (process_manager s) \<and>
         known (process_manager s') = known (process_manager s)"
proof (cases "GetProcessStatus (process_index (vault_infos s ! k)) (process_manager s) = kRunning")
  case True
  obtain data w where "RandomString env 64 (outside s) = (data, w)" by fastforce
  with True assms(1) obtain p stopped where
    "StopVault env sched (pmid_name env p) data (Sign env data p) False (s\<lparr>outside := w\<rparr>) =
       Inr (stopped, s')"
    by (auto simp: stop_vault_at_def and_then_Inr split: if_splits option.splits)
  from StopVault_inv [OF this _ assms(3)] assms(2) show ?thesis by simp
qed (use assms in \<open>simp add: stop_vault_at_def\<close>)

lemma stop_vaults_from_inv:
  "stop_vaults_from env sched ks s = Inr s' \<Longrightarrow> cm_inv s \<Longrightarrow> sched_ok sched \<Longrightarrow>
     cm_inv s' \<and> current_max_id (process_manager s') = current_max_id (process_manager s) \<and>
     known (process_manager s') = known (process_manager s)"
proof (induction ks arbitrary: s)
  case (Cons k ks)
  then obtain s1 where "stop_vault_at env sched k s = Inr s1" "stop_vaults_from env sched ks s1 = Inr s'"
    by (auto simp: and_then_Inr)
  with Cons stop_vault_at_inv show ?case by metis
qed simp

section \<open>Handlers\<close>

lemma Registration_inv: "cm_inv s \<Longrightarrow> cm_inv (snd (HandleClientRegistrationRequest env request s))"
  by (cases "ParseFromString (pb_ClientRegistrationRequest (pb env)) request")
    (simp add: HandleClientRegistrationRequest_def Let_def
      only_config_frame(11) [OF refresh_bootstrap_frame])

lemma Bootstrap_inv: "cm_inv s \<Longrightarrow> cm_inv (snd (HandleBootstrapRequest env request s))"
  by (cases "ParseFromString (pb_BootstrapRequest (pb env)) request")
    (simp add: HandleBootstrapRequest_def Let_def only_config_frame(11) [OF refresh_bootstrap_frame])

lemma UpdateInterval_inv: "cm_inv s \<Longrightarrow> cm_inv (snd (HandleUpdateIntervalRequest env request s))"
  by (simp add: HandleUpdateIntervalRequest_def SetUpdateInterval_def Let_def split: prod.split option.split)

lemma SendEndpoint_inv:
  "cm_inv s \<Longrightarrow> cm_inv (snd (HandleSendEndpointToClientManagerRequest env request s))"
proof -
  assume "cm_inv s"
  then have "cm_inv (snd (AddBootstrapEndPoint env ip prt s))" for ip prt
    using only_config_frame(11) [OF AddBootstrapEndPoint_frame] by blast
  then show ?thesis
    by (simp add: HandleSendEndpointToClientManagerRequest_def \<open>cm_inv s\<close> split: prod.split)
       (metis snd_conv)
qed

lemma Identity_inv:
  assumes "HandleVaultIdentityRequest env request s = Inr (response, s')" and "cm_inv s"
  shows "cm_inv s'"
proof -
  define s1 where "s1 = (if endpoints s = [] then snd (refresh_bootstrap env s) else s)"
  have "cm_inv s1"
    using assms(2) only_config_frame(11) [OF refresh_bootstrap_frame] by (auto simp: s1_def)
  then have "cm_inv (modify_vault k (\<lambda>info. info\<lparr>vault_port := q, vault_version := v\<rparr>) s1)" for k q v
    by (rule cm_inv_modify_vault) simp_all
  with assms \<open>cm_inv s1\<close> show ?thesis
    by (auto simp: HandleVaultIdentityRequest_def Let_def s1_def
        split: prod.splits if_splits option.splits)
qed

lemma JoinConfirmation_inv:
  "SendVaultJoinConfirmation env nm result s = Inr s' \<Longrightarrow> cm_inv s \<Longrightarrow> cm_inv s'"
  by (auto simp: SendVaultJoinConfirmation_def and_then_Inr split: option.splits)

lemma JoinedNetwork_inv:
  assumes "HandleVaultJoinedNetworkRequest env request s = Inr (response, s')" and "cm_inv s"
  shows "cm_inv s'"
proof -
  have "cm_inv (modify_vault k (\<lambda>info. info\<lparr>joined_network := j\<rparr>) s)" for k j
    by (rule cm_inv_modify_vault) (use assms(2) in simp_all)
  with assms show ?thesis
    by (auto simp: HandleVaultJoinedNetworkRequest_def Let_def and_then_Inr
        split: prod.splits if_splits option.splits dest: JoinConfirmation_inv)
qed

lemma Stop_cases:
  assumes "HandleStopVaultRequest env sched request s = Inr (response, s')"
  obtains "s' = s"
  | nm data signature stopped s1 info amended where
      "StopVault env sched nm data signature True s = Inr (stopped, s1)"
      "AmendVaultDetailsInConfigFile env info True s1 = Inr (amended, s')"
proof -
  obtain parsed r where r: "ParseFromString (pb_StopVaultRequest (pb env)) request = (parsed, r)"
    by fastforce
  have "s' = s \<or> (\<exists>k stopped s1 amended.
      StopVault env sched (spq_identity r) (spq_data r) (spq_signature r) True s = Inr (stopped, s1) \<and>
      AmendVaultDetailsInConfigFile env (vault_infos s1 ! k) True s1 = Inr (amended, s'))"
  proof (cases "FindFromPmidName env (spq_identity r) s")
    case (Inr itr)
    with assms r show ?thesis
      by (cases itr) (auto simp: HandleStopVaultRequest_def Let_def and_then_Inr
          split: if_splits option.splits)
  qed (use assms r in \<open>auto simp: HandleStopVaultRequest_def Let_def split: if_splits\<close>)
  with that show thesis by blast
qed

lemma Stop_inv:
  assumes "HandleStopVaultRequest env sched request s = Inr (response, s')" and "cm_inv s"
    and "sched_ok sched"
  shows "cm_inv s'"
  using assms(1)
proof (cases rule: Stop_cases)
  case 2
  then show ?thesis
    using StopVault_inv [OF 2(1) assms(2,3)] only_config_frame(11) [OF Amend_frame [OF 2(2)]] by simp
qed (use assms(2) in simp)

lemma Start_new_inv:
  assumes "start_new_vault env request client p s = Some (Inr (response, s'))" and "cm_inv s"
    and "has_room (process_manager s)"
  shows "cm_inv s'"
proof -
  obtain chunkstore w where "choose_chunkstore env (case svq_chunkstore_path request of
      Some directory \<Rightarrow> directory | None \<Rightarrow> parent_path env (config_file_path s)) (outside s) =
        Some (chunkstore, w)"
    using assms(1) by (auto simp: start_new_vault_def Let_def split: option.splits)
  moreover define info where "info = (new_VaultInfo env)\<lparr>pmid := Some p,
    account_name := svq_account_name request, chunkstore_path := chunkstore, client_port := client\<rparr>"
  moreover obtain started info' s1 where start:
    "StartVaultProcess env info (s\<lparr>outside := w\<rparr>) = (started, info', s1)" using prod_cases3 by blast
  moreover have "cm_inv s1"
    using StartVaultProcess_inv [OF start] assms(2,3) by (simp add: info_def)
  ultimately show ?thesis
    using assms(1)
    by (auto simp: start_new_vault_def Let_def and_then_Inr split: if_splits
        dest!: only_config_frame(11) [OF Amend_frame])
qed

lemma Start_existing_faults:
  "start_existing_vault env request client k s =
     (if valid_NonEmptyString env (svq_token request) \<and> valid_NonEmptyString env (svq_token_signature request)
      then Inl NullDereference else Inl (Exception invalid_string_size))"
  by (simp add: start_existing_vault_def new_VaultInfo_def)

lemma Start_inv:
  assumes "HandleStartVaultRequest env request s = Some (Inr (response, s'))" and "cm_inv s"
    and "has_room (process_manager s)"
  shows "cm_inv s'"
  using assms Start_new_inv
  by (auto simp: HandleStartVaultRequest_def Let_def Start_existing_faults
      split: prod.splits if_splits sum.splits option.splits)

lemma send_response_inv:
  "send_response peer r = Inr s' \<Longrightarrow> cm_inv (snd r) \<Longrightarrow> cm_inv s'"
  by (auto simp: send_response_def split: option.splits)

section \<open>Faults\<close>

lemma parse_pmid_fault: "parse_pmid env v = Inl e \<Longrightarrow> \<exists>err. e = Exception err"
  by (auto simp: parse_pmid_def split: if_splits option.splits)

lemma amend_entries_fault:
  "amend_entries env info vs = Inl e \<Longrightarrow> pmid info \<noteq> None \<Longrightarrow> \<exists>err. e = Exception err"
  by (induction vs)
    (auto simp: and_then_def parse_pmid_fault split: sum.splits if_splits option.splits)

lemma Amend_fault:
  assumes "AmendVaultDetailsInConfigFile env info existing s = Inl e" and "pmid info \<noteq> None"
  shows "existing \<and> (\<exists>err. e = Exception err)"
proof -
  obtain ok config where
    "ReadFileToClientManagerConfig env (config_file_path s) empty_config s = (ok, config)" by fastforce
  with assms show ?thesis
    using amend_entries_fault [of env info "cfg_vault_info config"]
    by (auto simp: AmendVaultDetailsInConfigFile_def Let_def write_file_eq and_then_def
        split: if_splits sum.splits option.splits)
qed

lemma Identity_no_fault:
  assumes "cm_inv s"
  shows "\<exists>r. HandleVaultIdentityRequest env request s = Inr r"
proof -
  obtain parsed r where r: "ParseFromString (pb_VaultIdentityRequest (pb env)) request = (parsed, r)"
    by fastforce
  show ?thesis
  proof (cases "FindFromProcessIndex (viq_process_index r) s")
    case (Some k)
    then obtain p where "pmid (vault_infos s ! k) = Some p"
      using cm_inv_pmid [OF assms] FindFromProcessIndex_Some by blast
    with r Some show ?thesis
      by (cases "refresh_bootstrap env s") (auto simp: HandleVaultIdentityRequest_def Let_def)
  qed (use r in \<open>simp add: HandleVaultIdentityRequest_def\<close>)
qed

lemma JoinConfirmation_no_fault:
  "cm_inv s \<Longrightarrow> \<exists>s'. SendVaultJoinConfirmation env nm result s = Inr s'"
  by (simp add: SendVaultJoinConfirmation_def FindFromPmidName_total split: option.split)

lemma JoinedNetwork_fault:
  assumes "cm_inv s" and "HandleVaultJoinedNetworkRequest env request s = Inl e"
    and "ParseFromString (pb_VaultJoinedNetwork (pb env)) request = (parsed, r)"
  shows "parsed \<and> FindFromProcessIndex (vjn_process_index r) s = None \<and> e = EndDereference"
proof (cases "FindFromProcessIndex (vjn_process_index r) s")
  case (Some k)
  define s1 where "s1 = modify_vault k (\<lambda>info. info\<lparr>joined_network := vjn_joined r\<rparr>) s"
  have inv: "cm_inv s1" unfolding s1_def by (rule cm_inv_modify_vault) (use assms(1) in simp_all)
  have "k < length (vault_infos s1)"
    using FindFromProcessIndex_Some [OF Some] by (simp add: s1_def modify_vault_def)
  then obtain p where p: "pmid (vault_infos s1 ! k) = Some p" using cm_inv_pmid [OF inv] by blast
  obtain s2 where "SendVaultJoinConfirmation env (pmid_name env p) True s1 = Inr s2"
    using JoinConfirmation_no_fault [OF inv] by blast
  with p assms(2,3) Some show ?thesis
    by (auto simp: HandleVaultJoinedNetworkRequest_def s1_def [symmetric] Let_def split: if_splits)
qed (use assms(2,3) in \<open>auto simp: HandleVaultJoinedNetworkRequest_def split: if_splits\<close>)

lemma Stop_fault:
  assumes "cm_inv s" and "sched_ok sched" and "HandleStopVaultRequest env sched request s = Inl e"
  shows "\<exists>err. e = Exception err"
proof -
  obtain parsed r where r: "ParseFromString (pb_StopVaultRequest (pb env)) request = (parsed, r)"
    by fastforce
  obtain itr where itr: "FindFromPmidName env (spq_identity r) s = Inr itr"
    using FindFromPmidName_total [OF assms(1)] by blast
  show ?thesis
  proof (cases itr)
    case None
    with r itr assms(3) show ?thesis
      by (auto simp: HandleStopVaultRequest_def Let_def split: if_splits)
  next
    case (Some k)
    then obtain p where k: "k < length (vault_infos s)" "pmid (vault_infos s ! k) = Some p"
      using FindFromPmidName_Some itr assms(1) by blast
    obtain stopped s1 where stop:
      "StopVault env sched (spq_identity r) (spq_data r) (spq_signature r) True s = Inr (stopped, s1)"
      using itr Some by (auto simp: StopVault_def intro: prod.exhaust)
    from StopVault_inv [OF this assms(1,2)] k obtain q where "pmid (vault_infos s1 ! k) = Some q"
      using cm_inv_pmid by metis
    then have "\<exists>err. e' = Exception err"
      if "AmendVaultDetailsInConfigFile env (vault_infos s1 ! k) True s1 = Inl e'" for e'
      using Amend_fault [OF that] by simp
    with r itr Some k(2) stop assms(3) show ?thesis
      by (auto simp: HandleStopVaultRequest_def Let_def and_then_def
          split: if_splits sum.splits prod.splits)
  qed
qed

lemma StartVaultProcess_pmid:
  "StartVaultProcess env info s = (started, info', s') \<Longrightarrow> pmid info' = pmid info"
  by (auto simp: StartVaultProcess_def Let_def split: prod.splits if_splits)

lemma Start_new_fault: "start_new_vault env request client p s \<noteq> Some (Inl e)"
proof -
  have "AmendVaultDetailsInConfigFile env info' False s' \<noteq> Inl e"
    if "StartVaultProcess env info s1 = (True, info', s')" "pmid info = Some p" for info s1 info' s'
    using Amend_fault [of env info' False s' e] StartVaultProcess_pmid [OF that(1)] that(2) by auto
  then show ?thesis
    by (auto simp: start_new_vault_def Let_def and_then_def
        split: option.splits prod.splits sum.splits if_splits)
qed

section \<open>No handler touches the transport\<close>

lemma modify_vault_frame [cm_frame, simp]:
  "transport (modify_vault k f s) = transport s"
  "process_manager (modify_vault k f s) = process_manager s"
  "outside (modify_vault k f s) = outside s"
  "config_file_path (modify_vault k f s) = config_file_path s"
  by (simp_all add: modify_vault_def)

lemma transport_request_client [simp]:
  "transport (snd (request_client env ack client message s)) = transport s"
  using request_client_frame [of env ack client message s] by auto

lemma transport_refresh [simp]: "transport (snd (refresh_bootstrap env s)) = transport s"
  by (rule only_config_frame(4) [OF refresh_bootstrap_frame])

lemma transport_refreshD: "refresh_bootstrap env s = (ok, s') \<Longrightarrow> transport s' = transport s"
  using transport_refresh [of env s] by simp

lemma transport_AddBootstrap [simp]: "transport (snd (AddBootstrapEndPoint env ip prt s)) = transport s"
  by (rule only_config_frame(4) [OF AddBootstrapEndPoint_frame])

lemma transport_shutdown [simp]:
  "transport (snd (shutdown_vault env sched k data signature s)) = transport s"
  by (simp add: shutdown_vault_def Let_def split: prod.split)

lemma transport_shutdownD:
  "shutdown_vault env sched k data signature s = (stopped, s') \<Longrightarrow> transport s' = transport s"
  using transport_shutdown [of env sched k data signature s] by simp

lemma transport_pure:
  "transport (snd (HandleClientRegistrationRequest env request s)) = transport s"
  "transport (snd (HandleBootstrapRequest env request s)) = transport s"
  "transport (snd (HandleUpdateIntervalRequest env request s)) = transport s"
  "transport (snd (HandleSendEndpointToClientManagerRequest env request s)) = transport s"
proof -
  show "transport (snd (HandleClientRegistrationRequest env request s)) = transport s"
    by (simp add: HandleClientRegistrationRequest_def Let_def case_prod_beta)
  show "transport (snd (HandleBootstrapRequest env request s)) = transport s"
    by (simp add: HandleBootstrapRequest_def Let_def case_prod_beta)
  show "transport (snd (HandleUpdateIntervalRequest env request s)) = transport s"
    by (simp add: HandleUpdateIntervalRequest_def SetUpdateInterval_def Let_def
        split: prod.split option.split)
  show "transport (snd (HandleSendEndpointToClientManagerRequest env request s)) = transport s"
    by (simp add: HandleSendEndpointToClientManagerRequest_def Let_def case_prod_beta)
qed

lemma transport_Identity:
  "HandleVaultIdentityRequest env request s = Inr (response, s') \<Longrightarrow> transport s' = transport s"
  by (auto simp: HandleVaultIdentityRequest_def Let_def split: prod.splits if_splits option.splits
      dest: transport_refreshD)

lemma transport_Joined:
  "HandleVaultJoinedNetworkRequest env request s = Inr (response, s') \<Longrightarrow> transport s' = transport s"
  by (auto simp: HandleVaultJoinedNetworkRequest_def SendVaultJoinConfirmation_def Let_def and_then_Inr
      split: prod.splits if_splits option.splits)

lemma transport_Stop:
  assumes "HandleStopVaultRequest env sched request s = Inr (response, s')"
  shows "transport s' = transport s"
  using assms
proof (cases rule: Stop_cases)
  case (2 nm data signature stopped s1 info amended)
  have "transport s1 = transport s"
    using 2(1) transport_shutdownD [of env sched _ data signature "modify_vault _ _ s" stopped s1]
    by (auto simp: StopVault_def and_then_Inr split: option.splits)
  then show ?thesis using only_config_frame(4) [OF Amend_frame [OF 2(2)]] by simp
qed simp

lemma transport_Start:
  assumes "HandleStartVaultRequest env request s = Some (Inr (response, s'))"
  shows "transport s' = transport s"
proof -
  have start: "transport s2 = transport s1" if "StartVaultProcess env info s1 = (started, info', s2)"
    for info s1 started info' s2
    using that by (auto simp: StartVaultProcess_def Let_def split: prod.splits if_splits)
  have "transport s' = transport s"
    if new: "start_new_vault env r client p s = Some (Inr (response, s'))" for r client p
  proof -
    obtain w info started info' s1 where one:
      "StartVaultProcess env info (s\<lparr>outside := w\<rparr>) = (started, info', s1)"
      "s' = s1 \<or> (\<exists>amended. AmendVaultDetailsInConfigFile env info' False s1 = Inr (amended, s'))"
      using new by (auto simp: start_new_vault_def Let_def and_then_Inr
          split: option.splits prod.splits if_splits)
    then show ?thesis using start [OF one(1)] by (auto dest: only_config_frame(4) [OF Amend_frame])
  qed
  with assms show ?thesis
    by (auto simp: HandleStartVaultRequest_def Let_def Start_existing_faults
        split: prod.splits if_splits sum.splits option.splits)
qed

lemma send_response_fault: "send_response peer r = Inl e \<Longrightarrow> transport (snd r) = None"
  by (auto simp: send_response_def split: option.splits)

lemma Start_fault:
  assumes "HandleStartVaultRequest env request s = Some (Inl e)" and "cm_inv s"
  shows "(\<exists>err. e = Exception err) \<or>
    (e = NullDereference \<and>
      (\<exists>r p k. ParseFromString (pb_StartVaultRequest (pb env)) request = (True, r) \<and>
         parse_pmid env (svq_pmid r) = Inr p \<and> FindFromPmidName env (pmid_name env p) s = Inr (Some k)))"
  using assms FindFromPmidName_total [OF assms(2)]
  by (auto simp: HandleStartVaultRequest_def Let_def Start_existing_faults Start_new_fault
      split: prod.splits if_splits sum.splits option.splits dest: parse_pmid_fault)

section \<open>A concrete state\<close>

definition demo_cm :: "(world, string) ClientManager" where
  "demo_cm = (new_ClientManager demo_env demo_world)
     \<lparr>transport := Some new_LocalTcpTransport, client_ports_and_versions := [(5000, 1)]\<rparr>"

lemma demo_cm_inv [simp]: "cm_inv demo_cm" "has_room (process_manager demo_cm)" "transport demo_cm \<noteq> None"
  by (simp_all add: demo_cm_def cm_inv_def new_ClientManager_def handles_def map_ok_def has_room_def)
    (simp add: new_ProcessManager_def)

section \<open>Properties\<close>

text \<open>
  Every message that the client manager handles, of any type and content, keeps its invariant: the
  vaults it knows have a pmid and pairwise distinct processes that the process manager runs, and the
  registered clients stay ordered by their ports.
\<close>

lemma HandleReceivedMessage_inv:
  assumes "cm_inv s" and "has_room (process_manager s)" and "sched_ok sched"
    and "HandleReceivedMessage env sched message peer s = Some (Inr s')"
  shows "cm_inv s'"
proof -
  obtain ok type payload where "UnwrapMessage (pb env) message = (ok, type, payload)"
    using prod_cases3 by blast
  then consider "s' = s"
    | r where "send_response peer r = Inr s'" "cm_inv (snd r)"
    using assms(1,4) Registration_inv [OF assms(1)] Bootstrap_inv [OF assms(1)]
      UpdateInterval_inv [OF assms(1)] SendEndpoint_inv [OF assms(1)] Identity_inv [OF _ assms(1)]
      JoinedNetwork_inv [OF _ assms(1)] Stop_inv [OF _ assms(1,3)] Start_inv [OF _ assms(1,2)]
    unfolding HandleReceivedMessage_def
    by (cases type) (auto simp: and_then_Inr split: if_splits)
  then show ?thesis using assms(1) send_response_inv by cases auto
qed

text \<open>
  C2: a message can make the client manager dereference an invalid pointer in exactly two situations: a
  request to start a vault that is registered already, and a report of a process that no vault has.
  Every other fault is an exception about malformed content.
\<close>

theorem HandleReceivedMessage_faults:
  assumes "cm_inv s" and "sched_ok sched" and "transport s \<noteq> None"
    and "HandleReceivedMessage env sched message peer s = Some (Inl e)"
    and "UnwrapMessage (pb env) message = (ok, type, payload)"
  shows "(\<exists>err. e = Exception err) \<or>
         (type = kStartVaultRequest \<and> e = NullDereference \<and>
           (\<exists>r p k. ParseFromString (pb_StartVaultRequest (pb env)) payload = (True, r) \<and>
              parse_pmid env (svq_pmid r) = Inr p \<and>
              FindFromPmidName env (pmid_name env p) s = Inr (Some k))) \<or>
         (type = kVaultJoinedNetwork \<and> e = EndDereference \<and>
           (\<exists>r. ParseFromString (pb_VaultJoinedNetwork (pb env)) payload = (True, r) \<and>
              FindFromProcessIndex (vjn_process_index r) s = None))"
proof -
  have sent: False if "send_response peer r = Inl e'" "transport (snd r) = transport s" for r e'
    using send_response_fault [OF that(1)] that(2) assms(3) by simp
  have then_sent: "r = Inl e"
    if "and_then r (send_response peer) = Inl e" "\<And>x s'. r = Inr (x, s') \<Longrightarrow> transport s' = transport s" for r
    using that sent by (cases r) auto
  have results:
    "and_then (HandleVaultIdentityRequest env payload s) (send_response peer) = Inl e \<Longrightarrow>
       HandleVaultIdentityRequest env payload s = Inl e"
    "and_then (HandleVaultJoinedNetworkRequest env payload s) (send_response peer) = Inl e \<Longrightarrow>
       HandleVaultJoinedNetworkRequest env payload s = Inl e"
    "and_then (HandleStopVaultRequest env sched payload s) (send_response peer) = Inl e \<Longrightarrow>
       HandleStopVaultRequest env sched payload s = Inl e"
    "\<And>r. HandleStartVaultRequest env payload s = Some r \<Longrightarrow>
       and_then r (send_response peer) = Inl e \<Longrightarrow> r = Inl e"
    by (erule then_sent, erule transport_Identity, erule then_sent, erule transport_Joined,
        erule then_sent, erule transport_Stop, erule then_sent, simp, erule transport_Start)
  have silent: "send_response peer (HandleClientRegistrationRequest env payload s) \<noteq> Inl e"
    "send_response peer (HandleBootstrapRequest env payload s) \<noteq> Inl e"
    "send_response peer (HandleUpdateIntervalRequest env payload s) \<noteq> Inl e"
    "send_response peer (HandleSendEndpointToClientManagerRequest env payload s) \<noteq> Inl e"
    using sent transport_pure by blast+
  have "ok" using assms(4,5) by (cases ok) (auto simp: HandleReceivedMessage_def)
  with assms(4,5) consider
      "HandleVaultIdentityRequest env payload s = Inl e"
    | "type = kVaultJoinedNetwork" "HandleVaultJoinedNetworkRequest env payload s = Inl e"
    | "HandleStopVaultRequest env sched payload s = Inl e"
    | "type = kStartVaultRequest" "HandleStartVaultRequest env payload s = Some (Inl e)"
    using silent unfolding HandleReceivedMessage_def
    by (cases type) (auto dest: results)
  then show ?thesis
  proof cases
    case 1
    then show ?thesis using Identity_no_fault [OF assms(1)] by (metis Inl_Inr_False)
  next
    case 2
    obtain parsed r where r: "ParseFromString (pb_VaultJoinedNetwork (pb env)) payload = (parsed, r)"
      by fastforce
    from JoinedNetwork_fault [OF assms(1) 2(2) r] 2(1) r show ?thesis by simp
  next
    case 4
    from Start_fault [OF 4(2) assms(1)] 4(1) show ?thesis by blast
  qed (use Stop_fault [OF assms(1,2)] in blast)
qed

theorem HandleReceivedMessage_faults_witness:
  "(let message = WrapMessage wire_protobuf kVaultJoinedNetwork (SerializeAsString
          (pb_VaultJoinedNetwork wire_protobuf) \<lparr>vjn_process_index = 7, vjn_joined = True\<rparr>)
    in HandleReceivedMessage demo_env (\<lambda>pm. pm) message 5000 demo_cm = Some (Inl EndDereference) \<and>
       FindFromProcessIndex 7 demo_cm = None)"
proof -
  let ?payload = "SerializeAsString (pb_VaultJoinedNetwork wire_protobuf)
    \<lparr>vjn_process_index = 7, vjn_joined = True\<rparr>"
  have "HandleReceivedMessage demo_env (\<lambda>pm. pm) (WrapMessage wire_protobuf kVaultJoinedNetwork ?payload)
      5000 demo_cm = Some (Inl EndDereference)"
    by (simp add: HandleReceivedMessage_def HandleVaultJoinedNetworkRequest_def FindFromProcessIndex_def
        demo_cm_def new_ClientManager_def)
  with HandleReceivedMessage_faults [OF demo_cm_inv(1) sched_ok_id demo_cm_inv(3) this, of True
      kVaultJoinedNetwork ?payload] show ?thesis by simp
qed

end
