(* ===== verification/Client_Manager_Config.thy ===== *)
theory Client_Manager_Config
  imports Client_Manager_Invariant
begin

text \<open>
  Properties of the configuration file: what the client manager writes and what it reads back, the list
  of bootstrap contacts, and the vaults that are started from the file.
\<close>

section \<open>Reading back\<close>

lemma protobuf_config_nonempty:
  "protobuf_ok codecs \<Longrightarrow> config_initialised config \<Longrightarrow>
     SerializeAsString (pb_Config codecs) config \<noteq> []"
  using protobuf_okD(24) [of codecs] by (simp add: config_codec_ok_def)

text \<open>After a successful write, the file is readable exactly if all required fields are set.\<close>

lemma read_after_write:
  assumes "files_ok env" and "protobuf_ok (pb env)"
    and "write_file env f (SerializeAsString (pb_Config (pb env)) config) s = (True, s')"
  shows "fst (ReadFileToClientManagerConfig env f c0 s') = config_initialised config \<and>
         (config_initialised config \<longrightarrow> snd (ReadFileToClientManagerConfig env f c0 s') = config)"
proof -
  have "ReadFile env f (outside s') = Some (SerializeAsString (pb_Config (pb env)) config)"
    using assms(1,3) by (auto simp: write_file_eq intro!: files_okD prod_eqI)
  then show ?thesis
    using assms(2) protobuf_config_nonempty [OF assms(2), of config]
    by (auto simp: ReadFileToClientManagerConfig_def)
qed

lemma mutable_bootstrap_initialised [simp]:
  "config_initialised (mutable_bootstrap_endpoints config) \<longleftrightarrow> cfg_update_interval config \<noteq> None"
  "cfg_update_interval (mutable_bootstrap_endpoints config) = cfg_update_interval config"
  "cfg_vault_info (mutable_bootstrap_endpoints config) = cfg_vault_info config"
  by (simp_all add: mutable_bootstrap_endpoints_def config_initialised_def)

lemma ObtainBootstrapInformation_config:
  assumes "ObtainBootstrapInformation env config s = (ok, config', s')"
  shows "cfg_update_interval config' = cfg_update_interval config \<and>
         cfg_vault_info config' = cfg_vault_info config \<and> cfg_bootstrap_endpoints config' \<noteq> None \<and>
         (ok \<longrightarrow> endpoints s' = map (\<lambda>e. (ep_ip e, word_of_int (ep_port e)))
            (case cfg_bootstrap_endpoints config' of None \<Rightarrow> [] | Some b \<Rightarrow> bootstrap_contacts b))"
  using assms
  by (auto simp: ObtainBootstrapInformation_def mutable_bootstrap_endpoints_def LoadBootstrapEndpoints_def
      Let_def split: prod.splits if_splits)

lemma obtain_bootstrap_retrying_config:
  assumes "obtain_bootstrap_retrying env n config s = (config', s')"
  shows "cfg_update_interval config' = cfg_update_interval config \<and>
         cfg_vault_info config' = cfg_vault_info config \<and> cfg_bootstrap_endpoints config' \<noteq> None \<and>
         only_config s s'"
  using assms
proof (induction n arbitrary: config s)
  case 0
  obtain ok c1 s1 where one: "ObtainBootstrapInformation env config s = (ok, c1, s1)"
    using prod_cases3 by blast
  moreover have "only_config s s1"
    using ObtainBootstrapInformation_frame [of s env config] one by simp
  ultimately show ?case
    using 0 ObtainBootstrapInformation_config [OF one]
    by (cases ok) (simp_all add: obtain_bootstrap_retrying.simps [of env 0])
next
  case (Suc n)
  obtain ok c1 s1 where one: "ObtainBootstrapInformation env config s = (ok, c1, s1)"
    using prod_cases3 by blast
  note step = ObtainBootstrapInformation_config [OF one]
  have frame: "only_config s s1" using ObtainBootstrapInformation_frame [of s env config] one by simp
  show ?case
  proof (cases ok)
    case True
    with Suc.prems one step frame show ?thesis by (simp add: obtain_bootstrap_retrying.simps [of env "Suc n"])
  next
    case False
    with Suc.prems one have "obtain_bootstrap_retrying env n c1 s1 = (config', s')"
      by (simp add: obtain_bootstrap_retrying.simps [of env "Suc n"])
    from Suc.IH [OF this] step frame show ?thesis using only_config_trans by auto
  qed
qed

section \<open>Properties\<close>

text \<open>
  C28: a configuration file that \<open>CreateConfigFile\<close> wrote can be read, even when no bootstrap contacts
  could be fetched; it holds the update interval and no vaults.
\<close>

theorem CreateConfigFile_readable:
  assumes "files_ok env" and "protobuf_ok (pb env)" and "CreateConfigFile env s = (True, s')"
  shows "\<exists>config. ReadFileToClientManagerConfig env (config_file_path s') c0 s' = (True, config) \<and>
           cfg_update_interval config = Some (word_of_int (update_interval s)) \<and>
           cfg_vault_info config = [] \<and> config_file_path s' = config_file_path s"
proof -
  obtain config s1 where obt: "obtain_bootstrap_retrying env 10
      (empty_config\<lparr>cfg_update_interval := Some (word_of_int (update_interval s))\<rparr>) s = (config, s1)"
    by fastforce
  from obtain_bootstrap_retrying_config [OF obt]
  have config: "cfg_update_interval config = Some (word_of_int (update_interval s))"
      "cfg_vault_info config = []" "config_initialised config" and frame: "only_config s s1"
    by (simp_all add: empty_config_def config_initialised_def)
  let ?directory = "parent_path env (config_file_path s1)"
  obtain made ec w where made: "fs_create_directories env ?directory (outside s1) = ((made, ec), w)"
    by (metis prod.exhaust)
  define s2 where "s2 = (if fst (fs_exists env ?directory (outside s1)) then s1 else s1\<lparr>outside := w\<rparr>)"
  then have s2: "config_file_path s2 = config_file_path s1"
    "write_file env (config_file_path s1) (SerializeAsString (pb_Config (pb env)) config) s2 = (True, s')"
    using assms(3) obt made
    by (simp_all add: CreateConfigFile_def Let_def split: prod.splits if_splits)
  then have path: "config_file_path s' = config_file_path s1" by (auto simp: write_file_eq)
  from read_after_write [OF assms(1,2) s2(2), of c0] config path only_config_frame(5) [OF frame]
  show ?thesis by (metis prod.collapse)
qed

theorem CreateConfigFile_readable_witness:
  "\<exists>s' config. CreateConfigFile demo_env demo_cm = (True, s') \<and>
     ReadFileToClientManagerConfig demo_env (config_file_path s') empty_config s' = (True, config) \<and>
     cfg_update_interval config = Some 300"
proof -
  have "fst (CreateConfigFile demo_env demo_cm)"
    by (simp add: CreateConfigFile_def Let_def obtain_bootstrap_retrying.simps write_file_eq
        ObtainBootstrapInformation_def demo_write_def split: prod.split)
  then obtain s' where "CreateConfigFile demo_env demo_cm = (True, s')" by (metis prod.collapse)
  with CreateConfigFile_readable [OF demo_files_ok _ this, of empty_config] show ?thesis
    by (auto simp: demo_cm_def new_ClientManager_def kMinUpdateInterval_def)
qed

text \<open>
  C29: the file that \<open>WriteConfigFile\<close> writes can never be read again: the required field
  \<open>bootstrap_endpoints\<close> is not set.
\<close>

theorem WriteConfigFile_unreadable:
  assumes "files_ok env" and "protobuf_ok (pb env)" and "WriteConfigFile env s = Inr (True, s')"
  shows "\<not> fst (ReadFileToClientManagerConfig env (config_file_path s') c0 s')"
proof -
  obtain vs where w: "write_file env (config_file_path s) (SerializeAsString (pb_Config (pb env))
      (empty_config\<lparr>cfg_update_interval := Some (word_of_int (update_interval s)), cfg_vault_info := vs\<rparr>)) s
      = (True, s')"
    using assms(3) by (auto simp: WriteConfigFile_def Let_def and_then_Inr)
  then have "config_file_path s' = config_file_path s" by (auto simp: write_file_eq)
  with read_after_write [OF assms(1,2) w, of c0] show ?thesis
    by (simp add: config_initialised_def empty_config_def)
qed

theorem WriteConfigFile_unreadable_witness:
  "\<exists>s'. WriteConfigFile demo_env demo_cm = Inr (True, s') \<and>
     \<not> fst (ReadFileToClientManagerConfig demo_env (config_file_path s') empty_config s')"
proof -
  obtain s' where "WriteConfigFile demo_env demo_cm = Inr (True, s')"
    by (simp add: WriteConfigFile_def Let_def write_file_eq demo_cm_def new_ClientManager_def
        demo_write_def)
  with WriteConfigFile_unreadable [OF demo_files_ok _ this, of empty_config] show ?thesis by auto
qed

text \<open>
  When bootstrap contacts are missing in memory and the configuration file cannot be read, the
  refresh that three handlers perform replaces the file by one that cannot be read either.
\<close>

theorem refresh_loses_config:
  assumes "files_ok env" and "protobuf_ok (pb env)"
    and "ReadFile env (config_file_path s) (outside s) \<in> {None, Some []}"
    and "refresh_bootstrap env s = (True, s')"
  shows "\<not> fst (ReadFileToClientManagerConfig env (config_file_path s') c0 s')"
proof -
  have "ReadFileToClientManagerConfig env (config_file_path s) empty_config s = (False, empty_config)"
    using assms(3) by (auto simp: ReadFileToClientManagerConfig_def)
  then obtain config s1 where obt: "ObtainBootstrapInformation env empty_config s = (True, config, s1)"
    and w: "write_file env (config_file_path s1) (SerializeAsString (pb_Config (pb env)) config) s1
      = (True, s')"
    using assms(4) by (auto simp: refresh_bootstrap_def Let_def split: prod.splits if_splits)
  have "\<not> config_initialised config"
    using ObtainBootstrapInformation_config [OF obt] by (simp add: config_initialised_def empty_config_def)
  moreover have "config_file_path s' = config_file_path s1" using w by (auto simp: write_file_eq)
  ultimately show ?thesis using read_after_write [OF assms(1,2) w, of c0] by simp
qed

theorem refresh_loses_config_witness:
  "\<exists>s'. refresh_bootstrap demo_env demo_cm = (True, s') \<and>
     \<not> fst (ReadFileToClientManagerConfig demo_env (config_file_path s') empty_config s')"
proof -
  have missing: "ReadFile demo_env (config_file_path demo_cm) (outside demo_cm) \<in> {None, Some []}"
    by (simp add: demo_cm_def new_ClientManager_def demo_world_def)
  have "fst (refresh_bootstrap demo_env demo_cm)"
    by (simp add: refresh_bootstrap_def Let_def write_file_eq ObtainBootstrapInformation_def
        demo_write_def split: prod.split)
  then obtain s' where "refresh_bootstrap demo_env demo_cm = (True, s')" by (metis prod.collapse)
  with refresh_loses_config [OF demo_files_ok _ missing this, of empty_config] show ?thesis by auto
qed

text \<open>
  A vault's details survive the way through the configuration: what \<open>ToProtobuf\<close> stores,
  \<open>FromProtobuf\<close> restores, and only that.
\<close>

theorem VaultInfo_roundtrip:
  assumes "passport_ok env" and "pmid info = Some p"
  shows "\<exists>v. ToProtobuf env info = Inr v \<and>
           FromProtobuf env v (new_VaultInfo env) =
             Inr (info\<lparr>process_index := 0, account_name := [], vault_port := 0, client_port := 0,
                    joined_network := False\<rparr>)"
  using assms by (simp add: ToProtobuf_def FromProtobuf_def parse_pmid_def new_VaultInfo_def)

theorem VaultInfo_roundtrip_witness:
  "\<exists>v. ToProtobuf demo_env ((new_VaultInfo demo_env)\<lparr>pmid := Some ''key'', chunkstore_path := ''/c''\<rparr>) = Inr v \<and>
     FromProtobuf demo_env v (new_VaultInfo demo_env) =
       Inr ((new_VaultInfo demo_env)\<lparr>pmid := Some ''key'', chunkstore_path := ''/c''\<rparr>)"
  using VaultInfo_roundtrip [OF demo_passport_ok,
      of "(new_VaultInfo demo_env)\<lparr>pmid := Some ''key'', chunkstore_path := ''/c''\<rparr>" "''key''"]
  by (simp add: new_VaultInfo_def)

end
