(* ===== verification/Client_Manager_Requests.thy ===== *)
theory Client_Manager_Requests
  imports Client_Manager_Config
begin

text \<open>
  What the handlers of the client manager do, request by request.  The last section states the
  contract of the handlers that only touch the registry of clients, vaults and contacts as operations
  on an abstract registry, and shows that the handlers refine it.
\<close>

section \<open>Vault processes\<close>

lemma AddProcess_started:
  assumes "pm_inv pm" and "has_room pm" and "name p \<noteq> []" and "AddProcess p prt pm = (i, pm')"
  shows "\<exists>entry. info_of (StartProcess i pm') i = Some entry \<and> thread entry \<noteq> None \<and>
    args (process entry) = args p @ [''--vmid'', GenerateVmidParameter i prt]"
proof -
  obtain entry where "processes pm' = processes pm @ [entry]" "index entry = i"
      "args (process entry) = args p @ [''--vmid'', GenerateVmidParameter i prt]"
    using assms(3,4) by (auto simp: AddProcess_def Let_def new_ProcessInfo_def AddArgument_def)
  moreover from this AddProcess_index(4) [OF assms] have "info_of pm' i = Some entry"
    using info_of_append [of pm' pm entry] by simp
  ultimately show ?thesis by (simp add: info_of_StartProcess)
qed

lemma StartVaultProcess_success:
  assumes "SetExecutablePath env (path_join env (GetAppInstallDir env) kVaultName) (outside s)
      new_Process = (True, p)"
    and "cm_inv s" and "has_room (process_manager s)" and "name p \<noteq> []"
  shows "\<exists>i pm entry. StartVaultProcess env info s =
      (True, info\<lparr>process_index := i\<rparr>,
       s\<lparr>process_manager := pm, vault_infos := vault_infos s @ [info\<lparr>process_index := i\<rparr>]\<rparr>) \<and>
      i \<notin> known (process_manager s) \<and>
      info_of pm i = Some entry \<and> thread entry \<noteq> None \<and>
      args (process entry) = args p @ [''--start'', ''--chunk_path '' @ chunkstore_path info,
        ''--vmid'', GenerateVmidParameter i (local_port s)]"
proof -
  define p' where "p' = AddArgument (''--chunk_path '' @ chunkstore_path info) (AddArgument ''--start'' p)"
  obtain i pm where add: "AddProcess p' (local_port s) (process_manager s) = (i, pm)" by fastforce
  have nm: "name p' \<noteq> []" using assms(4) by (simp add: p'_def AddArgument_def)
  note idx = AddProcess_index [OF cm_inv_pm_inv [OF assms(2)] assms(3) nm add]
  have "StartVaultProcess env info s = (True, info\<lparr>process_index := i\<rparr>,
      s\<lparr>process_manager := StartProcess i pm, vault_infos := vault_infos s @ [info\<lparr>process_index := i\<rparr>]\<rparr>)"
    using assms(1) add idx(3) by (simp add: StartVaultProcess_def Let_def p'_def)
  with AddProcess_started [OF cm_inv_pm_inv [OF assms(2)] assms(3) nm add] idx(4) show ?thesis
    by (fastforce simp: p'_def AddArgument_def)
qed

section \<open>The configuration after a vault was added\<close>

lemma Amend_new:
  assumes "files_ok env" and "protobuf_ok (pb env)" and "pmid info = Some p"
    and "ReadFileToClientManagerConfig env (config_file_path s) empty_config s = (True, config)"
    and "config_initialised config"
    and "\<And>c w. fst (WriteFile env (config_file_path s) c w)"
  shows "\<exists>s'. AmendVaultDetailsInConfigFile env info False s = Inr (True, s') \<and> only_config s s' \<and>
           ReadFileToClientManagerConfig env (config_file_path s) empty_config s' =
             (True, config\<lparr>cfg_vault_info := cfg_vault_info config @
                [\<lparr>vip_pmid = SerialisePmid env p, vip_chunkstore_path = chunkstore_path info,
                  vip_requested_to_run = True, vip_version = kInvalidVersion env\<rparr>]\<rparr>)"
proof -
  define config' where "config' = config\<lparr>cfg_vault_info := cfg_vault_info config @
    [\<lparr>vip_pmid = SerialisePmid env p, vip_chunkstore_path = chunkstore_path info,
      vip_requested_to_run = True, vip_version = kInvalidVersion env\<rparr>]\<rparr>"
  define content where "content = SerializeAsString (pb_Config (pb env)) config'"
  define s1 where "s1 = snd (write_file env (config_file_path s) content s)"
  define s2 where "s2 = snd (write_file env (config_file_path s) content s1)"
  have one: "write_file env (config_file_path s) content s = (True, s1)"
    "write_file env (config_file_path s) content s1 = (True, s2)"
    using assms(6) by (simp_all add: write_file_eq s1_def s2_def)
  have "only_config s s2" by (simp add: s2_def s1_def write_file_eq)
  moreover have "AmendVaultDetailsInConfigFile env info False s = Inr (True, s2)"
    using assms(3,4) one by (simp add: AmendVaultDetailsInConfigFile_def Let_def config'_def content_def)
  moreover have "config_initialised config'"
    using assms(5) by (simp add: config_initialised_def config'_def)
  then have "ReadFileToClientManagerConfig env (config_file_path s) empty_config s2 = (True, config')"
    using read_after_write [OF assms(1,2) one(2) [unfolded content_def], of empty_config]
    by (simp add: prod_eq_iff)
  ultimately show ?thesis using config'_def by blast
qed

lemma config_read_initialised:
  "protobuf_ok (pb env) \<Longrightarrow> ReadFile env f (outside s) = Some (SerializeAsString (pb_Config (pb env)) config) \<Longrightarrow>
     config_initialised config \<Longrightarrow> ReadFileToClientManagerConfig env f c0 s = (True, config)"
  by (simp add: ReadFileToClientManagerConfig_def protobuf_config_nonempty)

section \<open>Properties\<close>

text \<open>
  A request to change the update interval succeeds exactly if the interval is between five minutes
  and a week; the response carries the new interval, or 0 when it was refused and nothing changed.
\<close>

theorem HandleUpdateIntervalRequest_set:
  assumes "protobuf_ok (pb env)"
    and "request = SerializeAsString (pb_UpdateIntervalRequest (pb env)) \<lparr>uiq_new_update_interval = Some v\<rparr>"
  shows "HandleUpdateIntervalRequest env request s =
    (if 300 \<le> uint v \<and> uint v \<le> 604800
     then (WrapMessage (pb env) kUpdateIntervalResponse
             (SerializeAsString (pb_UpdateIntervalResponse (pb env)) \<lparr>uis_update_interval = v\<rparr>),
           s\<lparr>update_interval := uint v\<rparr>)
     else (WrapMessage (pb env) kUpdateIntervalResponse
             (SerializeAsString (pb_UpdateIntervalResponse (pb env)) \<lparr>uis_update_interval = 0\<rparr>), s))"
  using assms
  by (simp add: HandleUpdateIntervalRequest_def SetUpdateInterval_def GetUpdateInterval_def
      kMinUpdateInterval_def kMaxUpdateInterval_def Let_def)

theorem HandleUpdateIntervalRequest_set_witness:
  "update_interval (snd (HandleUpdateIntervalRequest demo_env
     (SerializeAsString (pb_UpdateIntervalRequest wire_protobuf) \<lparr>uiq_new_update_interval = Some 86400\<rparr>)
     demo_cm)) = 86400"
  by (subst HandleUpdateIntervalRequest_set [where v = 86400]) (simp_all)

text \<open>
  A request to start a vault that comes from a port no client has registered is answered with a
  refusal and changes nothing.
\<close>

theorem start_vault_unregistered:
  assumes "protobuf_ok (pb env)"
    and "map_find (ucast (svq_client_port r)) (client_ports_and_versions s) = None"
  shows "HandleStartVaultRequest env (SerializeAsString (pb_StartVaultRequest (pb env)) r) s =
           Some (Inr (start_vault_response env False, s))"
  using assms by (simp add: HandleStartVaultRequest_def Let_def)

definition demo_start :: StartVaultRequest where
  "demo_start = \<lparr>svq_account_name = ''account'', svq_pmid = ''pkey'', svq_token = ''t'',
     svq_token_signature = ''s'', svq_credential_change = False, svq_client_port = 5000,
     svq_chunkstore_path = Some ''/data'', svq_identity_index = None\<rparr>"

theorem start_vault_unregistered_witness:
  "HandleStartVaultRequest demo_env (SerializeAsString (pb_StartVaultRequest wire_protobuf)
     (demo_start\<lparr>svq_client_port := 6000\<rparr>)) demo_cm =
   Some (Inr (start_vault_response demo_env False, demo_cm))"
  using start_vault_unregistered [of demo_env "demo_start\<lparr>svq_client_port := 6000\<rparr>" demo_cm]
  by (simp add: demo_start_def demo_cm_def)

text \<open>
  A request to start a vault that is registered already never gets an answer: the signature is
  checked with the null pmid of a fresh vault record.
\<close>

theorem start_vault_existing_faults:
  assumes "protobuf_ok (pb env)" and "cm_inv s"
    and "map_find (ucast (svq_client_port r)) (client_ports_and_versions s) \<noteq> None"
    and "parse_pmid env (svq_pmid r) = Inr p"
    and "FindFromPmidName env (pmid_name env p) s = Inr (Some k)"
    and "valid_NonEmptyString env (svq_token r)" and "valid_NonEmptyString env (svq_token_signature r)"
  shows "HandleStartVaultRequest env (SerializeAsString (pb_StartVaultRequest (pb env)) r) s =
           Some (Inl NullDereference)"
  using assms by (auto simp: HandleStartVaultRequest_def Let_def Start_existing_faults)

definition demo_vault :: "string VaultInfo" where
  "demo_vault = (new_VaultInfo demo_env)\<lparr>pmid := Some ''key'', chunkstore_path := ''/data/c'',
     client_port := 5000, requested_to_run := True\<rparr>"

definition demo_config :: ClientManagerConfig where
  "demo_config = \<lparr>cfg_update_interval = Some 300, cfg_bootstrap_endpoints = Some empty_bootstrap,
     cfg_vault_info = [\<lparr>vip_pmid = ''pkey'', vip_chunkstore_path = ''/data/c'',
       vip_requested_to_run = True, vip_version = 0\<rparr>], cfg_vault_permissions = None\<rparr>"

definition demo_configured :: "(world, string) ClientManager" where
  "demo_configured = demo_cm\<lparr>outside := demo_world\<lparr>files :=
     [(config_file_path demo_cm, SerializeAsString (pb_Config wire_protobuf) demo_config)]\<rparr>\<rparr>"

definition demo_running :: "(world, string) ClientManager" where
  "demo_running = snd (snd (StartVaultProcess demo_env demo_vault demo_configured))"

lemma demo_configured_inv [simp]:
  "cm_inv demo_configured" "has_room (process_manager demo_configured)"
  by (simp_all add: demo_configured_def)

lemma demo_running_inv [simp]: "cm_inv demo_running"
proof -
  obtain b info s' where start: "StartVaultProcess demo_env demo_vault demo_configured = (b, info, s')"
    using prod_cases3 by blast
  have "cm_inv s'"
    using StartVaultProcess_inv [OF start demo_configured_inv] by (simp add: demo_vault_def)
  then show ?thesis by (simp add: demo_running_def start)
qed

lemma demo_running_facts:
  "vault_infos demo_running = [demo_vault\<lparr>process_index := 1\<rparr>]"
  "outside demo_running = outside demo_configured"
  "config_file_path demo_running = config_file_path demo_configured"
  "client_ports_and_versions demo_running = [(5000, 1)]"
  "endpoints demo_running = []" "transport demo_running = Some new_LocalTcpTransport"
  by (simp_all add: demo_running_def StartVaultProcess_def SetExecutablePath_def new_Process_def
      AddArgument_def AddProcess_def new_ProcessManager_def kVaultName_def Let_def demo_configured_def
      demo_cm_def new_ClientManager_def kInvalidIndex_def)

lemma demo_find: "FindFromPmidName demo_env ''nkey'' demo_running = Inr (Some 0)"
  by (simp add: FindFromPmidName_def demo_running_facts demo_vault_def)

theorem start_vault_existing_faults_witness:
  "HandleStartVaultRequest demo_env (SerializeAsString (pb_StartVaultRequest wire_protobuf) demo_start)
     demo_running = Some (Inl NullDereference)"
  using start_vault_existing_faults [of demo_env demo_running demo_start "''key''" 0]
  by (simp add: demo_start_def demo_running_facts demo_find parse_pmid_def)

text \<open>
  C9: starting a vault that is not registered yet, on behalf of a registered client and with a readable
  configuration, succeeds: exactly one vault is added, under a process index that was free, its process
  is started with the chunk store and the parameter that identifies it, and the configuration on disk
  gains an entry that will have it started again; the earlier entries stay.
\<close>

theorem start_vault_registers:
  assumes "protobuf_ok (pb env)" and "files_ok env" and "passport_ok env" and "cm_inv s"
    and "has_room (process_manager s)"
    and "map_find (ucast (svq_client_port r)) (client_ports_and_versions s) \<noteq> None"
    and "svq_pmid r = SerialisePmid env p" and "svq_chunkstore_path r = Some directory"
    and "FindFromPmidName env (pmid_name env p) s = Inr None"
    and "choose_chunkstore env directory (outside s) = Some (chunkstore, w)"
    and "SetExecutablePath env (path_join env (GetAppInstallDir env) kVaultName) w new_Process = (True, exe)"
    and "name exe \<noteq> []"
    and "ReadFile env (config_file_path s) w = Some (SerializeAsString (pb_Config (pb env)) config)"
    and "config_initialised config" and "\<And>c w. fst (WriteFile env (config_file_path s) c w)"
  shows "\<exists>s' i entry. HandleStartVaultRequest env (SerializeAsString (pb_StartVaultRequest (pb env)) r) s =
             Some (Inr (start_vault_response env True, s')) \<and>
           vault_infos s' = vault_infos s @ [(new_VaultInfo env)\<lparr>process_index := i, pmid := Some p,
             account_name := svq_account_name r, chunkstore_path := chunkstore,
             client_port := ucast (svq_client_port r)\<rparr>] \<and>
           i \<notin> known (process_manager s) \<and> info_of (process_manager s') i = Some entry \<and>
           thread entry \<noteq> None \<and>
           args (process entry) = args exe @ [''--start'', ''--chunk_path '' @ chunkstore,
             ''--vmid'', GenerateVmidParameter i (local_port s)] \<and>
           ReadFileToClientManagerConfig env (config_file_path s') empty_config s' =
             (True, config\<lparr>cfg_vault_info := cfg_vault_info config @
                [\<lparr>vip_pmid = SerialisePmid env p, vip_chunkstore_path = chunkstore,
                  vip_requested_to_run = True, vip_version = kInvalidVersion env\<rparr>]\<rparr>)"
proof -
  define info where "info = (new_VaultInfo env)\<lparr>pmid := Some p, account_name := svq_account_name r,
    chunkstore_path := chunkstore, client_port := ucast (svq_client_port r)\<rparr>"
  define s1 where "s1 = s\<lparr>outside := w\<rparr>"
  obtain i pm entry where start: "StartVaultProcess env info s1 = (True, info\<lparr>process_index := i\<rparr>,
        s1\<lparr>process_manager := pm, vault_infos := vault_infos s1 @ [info\<lparr>process_index := i\<rparr>]\<rparr>)"
      and entry: "i \<notin> known (process_manager s1)" "info_of pm i = Some entry" "thread entry \<noteq> None"
        "args (process entry) = args exe @ [''--start'', ''--chunk_path '' @ chunkstore_path info,
          ''--vmid'', GenerateVmidParameter i (local_port s1)]"
    using StartVaultProcess_success [of env s1 exe info] assms(4,5,11,12) by (auto simp: s1_def)
  define s2 where "s2 = s1\<lparr>process_manager := pm, vault_infos := vault_infos s1 @ [info\<lparr>process_index := i\<rparr>]\<rparr>"
  have read: "ReadFileToClientManagerConfig env (config_file_path s2) empty_config s2 = (True, config)"
    using config_read_initialised [OF assms(1) _ assms(14)] assms(13) by (simp add: s2_def s1_def)
  have "pmid (info\<lparr>process_index := i\<rparr>) = Some p" "config_file_path s2 = config_file_path s"
    by (simp_all add: info_def s2_def s1_def)
  from Amend_new [OF assms(2,1) this(1) read assms(14)] assms(15) this(2) obtain s' where
    amend: "AmendVaultDetailsInConfigFile env (info\<lparr>process_index := i\<rparr>) False s2 = Inr (True, s')"
      "only_config s2 s'"
    and read': "ReadFileToClientManagerConfig env (config_file_path s2) empty_config s' =
        (True, config\<lparr>cfg_vault_info := cfg_vault_info config @
           [\<lparr>vip_pmid = SerialisePmid env p, vip_chunkstore_path = chunkstore,
             vip_requested_to_run = True, vip_version = kInvalidVersion env\<rparr>]\<rparr>)"
    by (auto simp: info_def)
  have "parse_pmid env (svq_pmid r) = Inr p" using assms(3,7) by (simp add: parse_pmid_def)
  moreover have "start_new_vault env r (ucast (svq_client_port r)) p s =
      Some (Inr (start_vault_response env True, s'))"
    using assms(8,10) start amend(1)
    by (simp add: start_new_vault_def Let_def info_def s1_def s2_def)
  ultimately have "HandleStartVaultRequest env (SerializeAsString (pb_StartVaultRequest (pb env)) r) s =
      Some (Inr (start_vault_response env True, s'))"
    using assms(1,6,9) by (auto simp: HandleStartVaultRequest_def Let_def)
  moreover note only_config_frame [OF amend(2)]
  ultimately show ?thesis
    using entry read' by (intro exI [of _ s'] exI [of _ i] exI [of _ entry])
      (simp add: s2_def s1_def info_def)
qed

theorem start_vault_registers_witness:
  "\<exists>s' i. HandleStartVaultRequest demo_env
       (SerializeAsString (pb_StartVaultRequest wire_protobuf) (demo_start\<lparr>svq_pmid := ''pother''\<rparr>))
       demo_configured = Some (Inr (start_vault_response demo_env True, s')) \<and>
     map process_index (vault_infos s') = [i] \<and> map client_port (vault_infos s') = [5000]"
proof -
  let ?w = "outside demo_configured\<lparr>seed := 1\<rparr>"
  let ?chunkstore = "''/data/rrrrrrrrrrrrrrrA''"
  have path: "config_file_path demo_configured = ''/var/global-config.dat''"
    by (simp add: demo_configured_def demo_cm_def new_ClientManager_def kGlobalConfigFilename_def)
  have files: "files ?w = [(''/var/global-config.dat'',
      SerializeAsString (pb_Config wire_protobuf) demo_config)]" "seed (outside demo_configured) = 0"
    using path by (simp_all add: demo_configured_def demo_world_def)
  have letters: "replicate 15 (CHR ''r'') = ''rrrrrrrrrrrrrrr''" by (simp add: numeral_eq_Suc)
  have letter: "char_of (65 :: nat) = CHR ''A''" by code_simp
  have chosen: "choose_chunkstore demo_env ''/data'' (outside demo_configured) = Some (?chunkstore, ?w)"
    using files by (simp add: choose_chunkstore.simps demo_random_def letters letter)
  have exe: "SetExecutablePath demo_env (path_join demo_env (GetAppInstallDir demo_env) kVaultName) ?w
      new_Process = (True, \<lparr>args = [''/opt/vault''], name = ''/opt/vault''\<rparr>)"
    by (simp add: SetExecutablePath_def kVaultName_def AddArgument_def new_Process_def)
  define r where "r = demo_start\<lparr>svq_pmid := ''pother''\<rparr>"
  have r: "svq_pmid r = SerialisePmid demo_env ''other''" "svq_chunkstore_path r = Some ''/data''"
    "ucast (svq_client_port r) = (5000 :: port)"
    by (simp_all add: r_def demo_start_def)
  have cm: "vault_infos demo_configured = []" "client_ports_and_versions demo_configured = [(5000, 1)]"
    by (simp_all add: demo_configured_def demo_cm_def new_ClientManager_def)
  have "map_find (ucast (svq_client_port r)) (client_ports_and_versions demo_configured) \<noteq> None"
    "FindFromPmidName demo_env (pmid_name demo_env ''other'') demo_configured = Inr None"
    "ReadFile demo_env (config_file_path demo_configured) ?w =
       Some (SerializeAsString (pb_Config (pb demo_env)) demo_config)"
    using files path by (simp_all add: r cm FindFromPmidName_def)
  from start_vault_registers [OF _ demo_files_ok demo_passport_ok demo_configured_inv this(1) r(1,2)
      this(2) chosen exe _ this(3)]
  obtain s' i where "HandleStartVaultRequest demo_env (SerializeAsString (pb_StartVaultRequest wire_protobuf) r)
      demo_configured = Some (Inr (start_vault_response demo_env True, s'))"
    "process_index (last (vault_infos s')) = i" "length (vault_infos s') = 1"
    "client_port (last (vault_infos s')) = 5000"
    by (auto simp: demo_write_def demo_config_def config_initialised_def cm r(3))
  then show ?thesis unfolding r_def
    by (intro exI [of _ s'] exI [of _ i]) (cases "vault_infos s'", auto)
qed

end
