(* ===== verification/Client_Manager_Stop.thy ===== *)
theory Client_Manager_Stop
  imports Client_Manager_Requests
begin

text \<open>
  Stopping a vault: who may do it, what becomes of its process, and what the configuration file says
  afterwards.
\<close>

section \<open>Lemmas\<close>

lemma WaitForProcessToStop_done:
  assumes "sched_ok sched" and "pm_inv pm"
    and "\<exists>entry. info_of pm i = Some entry \<and> is_done entry"
  shows "\<exists>entry. info_of (snd (WaitForProcessToStop sched i pm)) i = Some entry \<and> is_done entry"
proof -
  have "map_option is_done (info_of (sched pm) i) = Some True"
    using assms by (auto simp: sched_ok_def)
  then obtain entry where "info_of (sched pm) i = Some entry" "is_done entry" by auto
  with assms(3) show ?thesis
    by (auto simp: WaitForProcessToStop_def Let_def info_of_KillProcess split: option.split)
qed

lemma shutdown_vault_effect:
  assumes "sched_ok sched" and "cm_inv s" and "k < length (vault_infos s)"
    and "shutdown_vault env sched k data signature s = (stopped, s')"
  shows "vault_infos s' = vault_infos s \<and> config_file_path s' = config_file_path s \<and>
         outside s' = snd (tcp_connect env (vault_port (vault_infos s ! k)) (outside s)) \<and>
         (\<exists>entry. info_of (process_manager s') (process_index (vault_infos s ! k)) = Some entry \<and>
            is_done entry)"
proof -
  define i where "i = process_index (vault_infos s ! k)"
  define pm where "pm = LetProcessDie i (process_manager s)"
  have "i \<in> known (process_manager s)"
    using assms(2,3) by (auto simp: cm_inv_def handles_def i_def)
  then obtain entry where "info_of (process_manager s) i = Some entry"
    using info_of_None [of "process_manager s" i] by auto
  then have die: "\<exists>entry. info_of pm i = Some entry \<and> is_done entry"
    by (simp add: pm_def info_of_LetProcessDie)
  have "pm_inv pm" using assms(2) by (simp add: pm_def pm_inv_ops cm_inv_pm_inv)
  note wait = WaitForProcessToStop_done [OF assms(1) this die]
  obtain result T w where conn:
      "Connect env (vault_port (vault_infos s ! k)) new_LocalTcpTransport (outside s) = (result, T, w)"
    using prod_cases3 by blast
  then have w: "w = snd (tcp_connect env (vault_port (vault_infos s ! k)) (outside s))"
    by (auto simp: Connect_def TcpConnection_Connect_def Let_def split: prod.splits if_splits)
  show ?thesis
  proof (cases "result = kSuccess")
    case True
    then have "process_manager s' = snd (WaitForProcessToStop sched i pm)" "vault_infos s' = vault_infos s"
      "config_file_path s' = config_file_path s" "outside s' = w"
      using assms(4) conn by (auto simp: shutdown_vault_def Let_def pm_def i_def split: prod.splits)
    with wait w show ?thesis by (simp add: i_def)
  next
    case False
    then have "process_manager s' = pm" "vault_infos s' = vault_infos s"
      "config_file_path s' = config_file_path s" "outside s' = w"
      using assms(4) conn by (auto simp: shutdown_vault_def Let_def pm_def i_def)
    with die w show ?thesis by (simp add: i_def)
  qed
qed

lemma amend_entries_found:
  assumes "passport_ok env" and "pmid info = Some p"
    and "\<forall>v \<in> set before. \<exists>q. vip_pmid v = SerialisePmid env q \<and> pmid_name env q \<noteq> pmid_name env p"
    and "vip_pmid v = SerialisePmid env p"
  shows "amend_entries env info (before @ v # after) =
           Inr (before @ \<lparr>vip_pmid = SerialisePmid env p, vip_chunkstore_path = chunkstore_path info,
             vip_requested_to_run = requested_to_run info, vip_version = vault_version info\<rparr> # after)"
  using assms(3)
proof (induction before)
  case Nil
  then show ?case using assms by (simp add: parse_pmid_def)
next
  case (Cons u us)
  then obtain q where "vip_pmid u = SerialisePmid env q" "pmid_name env q \<noteq> pmid_name env p" by auto
  with Cons assms(1,2) show ?case by (auto simp: parse_pmid_def)
qed

lemma Amend_existing:
  assumes "files_ok env" and "protobuf_ok (pb env)"
    and "ReadFile env (config_file_path s) (outside s) = Some (SerializeAsString (pb_Config (pb env)) config)"
    and "config_initialised config"
    and "amend_entries env info (cfg_vault_info config) = Inr vs"
    and "\<And>c w. fst (WriteFile env (config_file_path s) c w)"
  shows "\<exists>s'. AmendVaultDetailsInConfigFile env info True s = Inr (True, s') \<and> only_config s s' \<and>
           ReadFileToClientManagerConfig env (config_file_path s) empty_config s' =
             (True, config\<lparr>cfg_vault_info := vs\<rparr>)"
proof -
  define content where "content = SerializeAsString (pb_Config (pb env)) (config\<lparr>cfg_vault_info := vs\<rparr>)"
  define s1 where "s1 = snd (write_file env (config_file_path s) content s)"
  have one: "write_file env (config_file_path s) content s = (True, s1)"
    using assms(6) by (simp add: write_file_eq s1_def)
  have "config_initialised (config\<lparr>cfg_vault_info := vs\<rparr>)"
    using assms(4) by (simp add: config_initialised_def)
  then have "ReadFileToClientManagerConfig env (config_file_path s) empty_config s1 =
      (True, config\<lparr>cfg_vault_info := vs\<rparr>)"
    using read_after_write [OF assms(1,2) one [unfolded content_def], of empty_config]
    by (simp add: prod_eq_iff)
  moreover have "only_config s s1" by (simp add: s1_def write_file_eq)
  moreover have "AmendVaultDetailsInConfigFile env info True s = Inr (True, s1)"
    using config_read_initialised [OF assms(2,3,4), of empty_config] assms(5) one
    by (simp add: AmendVaultDetailsInConfigFile_def Let_def content_def)
  ultimately show ?thesis by blast
qed

section \<open>Properties\<close>

text \<open>
  C10: a request to stop a vault that is not known, or whose signature does not validate with the
  vault's own key, is refused and changes nothing.
\<close>

theorem stop_vault_unauthorised:
  assumes "protobuf_ok (pb env)" and "cm_inv s"
    and "valid_Identity env (spq_identity r)" and "valid_NonEmptyString env (spq_data r)"
    and "valid_NonEmptyString env (spq_signature r)"
    and "\<And>info p. info \<in> set (vault_infos s) \<Longrightarrow> pmid info = Some p \<Longrightarrow>
           pmid_name env p = spq_identity r \<Longrightarrow> \<not> CheckSignature env (spq_data r) (spq_signature r) p"
  shows "HandleStopVaultRequest env sched (SerializeAsString (pb_StopVaultRequest (pb env)) r) s =
           Inr (WrapMessage (pb env) kStopVaultResponse
             (SerializeAsString (pb_StopVaultResponse (pb env)) \<lparr>sps_result = False\<rparr>), s)"
proof (cases "FindFromPmidName env (spq_identity r) s")
  case (Inl e)
  then show ?thesis using FindFromPmidName_total [OF assms(2)] by simp
next
  case (Inr itr)
  show ?thesis
  proof (cases itr)
    case None
    with Inr assms show ?thesis by (simp add: HandleStopVaultRequest_def Let_def)
  next
    case (Some k)
    with FindFromPmidName_Some Inr assms(2) obtain p where p: "k < length (vault_infos s)"
      "pmid (vault_infos s ! k) = Some p" "pmid_name env p = spq_identity r" by blast
    then have "\<not> CheckSignature env (spq_data r) (spq_signature r) p" using assms(6) nth_mem by blast
    with Inr Some p(2) assms show ?thesis by (simp add: HandleStopVaultRequest_def Let_def)
  qed
qed

definition demo_stop :: "bytes \<Rightarrow> StopVaultRequest" where
  "demo_stop signature = \<lparr>spq_data = ''d'', spq_signature = signature, spq_identity = ''nkey''\<rparr>"

theorem stop_vault_unauthorised_witness:
  "HandleStopVaultRequest demo_env (\<lambda>pm. pm)
     (SerializeAsString (pb_StopVaultRequest wire_protobuf) (demo_stop ''forged'')) demo_running =
   Inr (WrapMessage wire_protobuf kStopVaultResponse
     (SerializeAsString (pb_StopVaultResponse wire_protobuf) \<lparr>sps_result = False\<rparr>), demo_running)"
  using stop_vault_unauthorised [of demo_env demo_running "demo_stop ''forged''" "\<lambda>pm. pm"]
  by (auto simp: demo_stop_def demo_running_facts demo_vault_def)

text \<open>
  C11: a request to stop a vault that carries a valid signature of its key marks the vault as not to be
  run, in memory and in its entry of the configuration file (no other vault and no other entry
  changes), and marks its process as done, so that its thread will not launch it again.
\<close>

theorem stop_vault_effect:
  assumes "protobuf_ok (pb env)" and "files_ok env" and "passport_ok env" and "network_ok env"
    and "cm_inv s" and "sched_ok sched"
    and "valid_Identity env (pmid_name env p)" and "valid_NonEmptyString env data"
    and "valid_NonEmptyString env signature"
    and "FindFromPmidName env (pmid_name env p) s = Inr (Some k)"
    and "pmid (vault_infos s ! k) = Some p" and "CheckSignature env data signature p"
    and "ReadFile env (config_file_path s) (outside s) = Some (SerializeAsString (pb_Config (pb env)) config)"
    and "config_initialised config" and "cfg_vault_info config = before @ v # after"
    and "\<And>u. u \<in> set before \<Longrightarrow> \<exists>q. vip_pmid u = SerialisePmid env q \<and> pmid_name env q \<noteq> pmid_name env p"
    and "vip_pmid v = SerialisePmid env p" and "\<And>c w. fst (WriteFile env (config_file_path s) c w)"
  shows "\<exists>response s' entry v'. HandleStopVaultRequest env sched
             (SerializeAsString (pb_StopVaultRequest (pb env))
               \<lparr>spq_data = data, spq_signature = signature, spq_identity = pmid_name env p\<rparr>) s =
             Inr (response, s') \<and>
           vault_infos s' = modify_at k (\<lambda>info. info\<lparr>requested_to_run := False\<rparr>) (vault_infos s) \<and>
           info_of (process_manager s') (process_index (vault_infos s ! k)) = Some entry \<and>
           is_done entry \<and>
           ReadFileToClientManagerConfig env (config_file_path s') empty_config s' =
             (True, config\<lparr>cfg_vault_info := before @ v' # after\<rparr>) \<and>
           vip_pmid v' = SerialisePmid env p \<and> \<not> vip_requested_to_run v'"
proof -
  define s1 where "s1 = modify_vault k (\<lambda>info. info\<lparr>requested_to_run := False\<rparr>) s"
  have k: "k < length (vault_infos s)" using FindFromPmidName_Some [OF assms(10,5)] by simp
  have inv: "cm_inv s1" unfolding s1_def by (rule cm_inv_modify_vault) (use assms(5) in simp_all)
  have s1: "k < length (vault_infos s1)" "process_index (vault_infos s1 ! k) = process_index (vault_infos s ! k)"
    "pmid (vault_infos s1 ! k) = Some p" "\<not> requested_to_run (vault_infos s1 ! k)"
    using k assms(11) by (simp_all add: s1_def modify_vault_def nth_modify_at)
  obtain stopped s2 where down: "shutdown_vault env sched k data signature s1 = (stopped, s2)"
    by fastforce
  note eff = shutdown_vault_effect [OF assms(6) inv s1(1) down]
  have "ReadFile env (config_file_path s2) (outside s2) =
      Some (SerializeAsString (pb_Config (pb env)) config)"
    using eff assms(4,13) by (simp add: network_ok_def s1_def)
  moreover have "config_file_path s2 = config_file_path s" using eff by (simp add: s1_def)
  moreover have "pmid (vault_infos s2 ! k) = Some p" "\<not> requested_to_run (vault_infos s2 ! k)"
    using eff s1 by simp_all
  ultimately obtain s' v' where amend:
    "AmendVaultDetailsInConfigFile env (vault_infos s2 ! k) True s2 = Inr (True, s')" "only_config s2 s'"
    "ReadFileToClientManagerConfig env (config_file_path s2) empty_config s' =
       (True, config\<lparr>cfg_vault_info := before @ v' # after\<rparr>)"
    "vip_pmid v' = SerialisePmid env p" "\<not> vip_requested_to_run v'"
    using Amend_existing [OF assms(2,1) _ assms(14), of s2 "vault_infos s2 ! k"]
      amend_entries_found [OF assms(3), of "vault_infos s2 ! k" p before v after] assms(15,16,17,18)
    by fastforce
  have "HandleStopVaultRequest env sched (SerializeAsString (pb_StopVaultRequest (pb env))
      \<lparr>spq_data = data, spq_signature = signature, spq_identity = pmid_name env p\<rparr>) s =
      Inr (WrapMessage (pb env) kStopVaultResponse (SerializeAsString (pb_StopVaultResponse (pb env))
        \<lparr>sps_result = stopped\<rparr>), s')"
    using assms(1,7-12) down amend(1)
    by (simp add: HandleStopVaultRequest_def StopVault_def Let_def s1_def)
  with amend eff s1 only_config_frame [OF amend(2)] show ?thesis
    by (auto simp: s1_def modify_vault_def)
qed

theorem stop_vault_effect_witness:
  "\<exists>response s' entry. HandleStopVaultRequest demo_env (\<lambda>pm. pm)
       (SerializeAsString (pb_StopVaultRequest wire_protobuf) (demo_stop ''keyd'')) demo_running =
       Inr (response, s') \<and>
     info_of (process_manager s') 1 = Some entry \<and> is_done entry \<and>
     fst (ReadFileToClientManagerConfig demo_env (config_file_path s') empty_config s')"
proof -
  have "ReadFile demo_env (config_file_path demo_running) (outside demo_running) =
      Some (SerializeAsString (pb_Config (pb demo_env)) demo_config)"
    by (simp add: demo_running_facts demo_configured_def)
  with stop_vault_effect [of demo_env demo_running "\<lambda>pm. pm" "''key''" "''d''" "''keyd''" 0 demo_config
      "[]" "hd (cfg_vault_info demo_config)" "[]"] demo_find
  show ?thesis
    by (fastforce simp: demo_stop_def demo_running_facts demo_vault_def demo_config_def
        config_initialised_def demo_write_def)
qed

end
