(* ===== verification/Client_Manager_Registry.thy ===== *)
theory Client_Manager_Registry
  imports Client_Manager_Requests
begin

text \<open>
  The contract of the client manager as a registry: which clients are registered with which version,
  what is known of each vault, which bootstrap contacts are handed out, and how often updates are looked
  for.  \<open>spec_step\<close> says what each request means for the registry; the refinement theorem shows that
  the handlers implement it for every sequence of requests.
\<close>

section \<open>The abstract registry\<close>

record 'p registry =
  reg_clients :: "port \<Rightarrow> int option"
  reg_vaults :: "process_index \<Rightarrow> 'p VaultInfo option"
  reg_contacts :: "EndPoint list"
  reg_interval :: int

datatype registry_request =
    RegisterClient port int
  | ChangeInterval "32 word"
  | QueryInterval
  | AddContact string port
  | QueryContacts
  | IdentifyVault process_index port int
  | ReportJoined process_index bool

definition spec_step :: "registry_request \<Rightarrow> 'p registry \<Rightarrow> 'p registry" where
  "spec_step q reg =
     (case q of
        RegisterClient p version \<Rightarrow> reg\<lparr>reg_clients := (reg_clients reg)(p \<mapsto> version)\<rparr>
      | ChangeInterval i \<Rightarrow>
          if 300 \<le> uint i \<and> uint i \<le> 604800 then reg\<lparr>reg_interval := uint i\<rparr> else reg
      | QueryInterval \<Rightarrow> reg
      | AddContact ip p \<Rightarrow>
          if (ip, p) \<in> set (reg_contacts reg) then reg
          else reg\<lparr>reg_contacts :=
            drop (length (reg_contacts reg) + 1 - 1000) (reg_contacts reg @ [(ip, p)])\<rparr>
      | QueryContacts \<Rightarrow> reg
      | IdentifyVault i p version \<Rightarrow>
          reg\<lparr>reg_vaults := (reg_vaults reg)(i := map_option
            (\<lambda>info. info\<lparr>vault_port := p, vault_version := version\<rparr>) (reg_vaults reg i))\<rparr>
      | ReportJoined i joined \<Rightarrow>
          reg\<lparr>reg_vaults := (reg_vaults reg)(i := map_option
            (\<lambda>info. info\<lparr>joined_network := joined\<rparr>) (reg_vaults reg i))\<rparr>)"

text \<open>A vault speaks only for a process that the manager started.\<close>

definition request_ok :: "registry_request \<Rightarrow> 'p registry \<Rightarrow> bool" where
  "request_ok q reg =
     (case q of
        IdentifyVault i p version \<Rightarrow> reg_vaults reg i \<noteq> None
      | ReportJoined i joined \<Rightarrow> reg_vaults reg i \<noteq> None
      | _ \<Rightarrow> True)"

section \<open>The concrete side\<close>

definition vault_of :: "('w, 'p) ClientManager \<Rightarrow> process_index \<Rightarrow> 'p VaultInfo option" where
  "vault_of s i = map_option (\<lambda>k. vault_infos s ! k) (FindFromProcessIndex i s)"

definition abs_registry :: "('w, 'p) ClientManager \<Rightarrow> 'p registry" where
  "abs_registry s = \<lparr>reg_clients = (\<lambda>p. map_find p (client_ports_and_versions s)),
     reg_vaults = vault_of s, reg_contacts = endpoints s, reg_interval = update_interval s\<rparr>"

text \<open>The message that carries a request.\<close>

definition encode_request :: "protobuf \<Rightarrow> registry_request \<Rightarrow> bytes" where
  "encode_request codecs q =
     (case q of
        RegisterClient p version \<Rightarrow> WrapMessage codecs kClientRegistrationRequest
          (SerializeAsString (pb_ClientRegistrationRequest codecs)
            \<lparr>crq_listening_port = ucast p, crq_version = version\<rparr>)
      | ChangeInterval i \<Rightarrow> WrapMessage codecs kUpdateIntervalRequest
          (SerializeAsString (pb_UpdateIntervalRequest codecs) \<lparr>uiq_new_update_interval = Some i\<rparr>)
      | QueryInterval \<Rightarrow> WrapMessage codecs kUpdateIntervalRequest
          (SerializeAsString (pb_UpdateIntervalRequest codecs) \<lparr>uiq_new_update_interval = None\<rparr>)
      | AddContact ip p \<Rightarrow> WrapMessage codecs kSendEndpointToClientManagerRequest
          (SerializeAsString (pb_SendEndpointRequest codecs)
            \<lparr>seq_bootstrap_endpoint_ip = ip, seq_bootstrap_endpoint_port = ucast p\<rparr>)
      | QueryContacts \<Rightarrow> WrapMessage codecs kBootstrapRequest
          (SerializeAsString (pb_BootstrapRequest codecs) \<lparr>btq_message_id = 0\<rparr>)
      | IdentifyVault i p version \<Rightarrow> WrapMessage codecs kVaultIdentityRequest
          (SerializeAsString (pb_VaultIdentityRequest codecs)
            \<lparr>viq_process_index = i, viq_listening_port = ucast p, viq_version = version\<rparr>)
      | ReportJoined i joined \<Rightarrow> WrapMessage codecs kVaultJoinedNetwork
          (SerializeAsString (pb_VaultJoinedNetwork codecs)
            \<lparr>vjn_process_index = i, vjn_joined = joined\<rparr>))"

fun handle_requests ::
  "('w, 'p) env \<Rightarrow> (ProcessManager \<Rightarrow> ProcessManager) \<Rightarrow> port \<Rightarrow> registry_request list \<Rightarrow>
     ('w, 'p) ClientManager \<Rightarrow> (fault + ('w, 'p) ClientManager) option" where
  "handle_requests env sched peer [] s = Some (Inr s)"
| "handle_requests env sched peer (q # qs) s =
     (case HandleReceivedMessage env sched (encode_request (pb env) q) peer s of
        Some (Inr s') \<Rightarrow> handle_requests env sched peer qs s'
      | r \<Rightarrow> r)"

section \<open>Lemmas\<close>

lemma port_roundtrip [simp]: "ucast (ucast p :: 32 word) = (p :: port)"
  by (rule bit_word_eqI) (simp add: bit_simps)

lemma vault_of_modify:
  assumes "FindFromProcessIndex i s = Some k" and "\<And>info. process_index (f info) = process_index info"
  shows "vault_of (modify_vault k f s) = (vault_of s)(i := map_option f (vault_of s i))"
proof
  fix j
  have find: "FindFromProcessIndex l (modify_vault k f s) = FindFromProcessIndex l s" for l
    using assms(2) by (simp add: FindFromProcessIndex_def modify_vault_def)
  show "vault_of (modify_vault k f s) j = ((vault_of s)(i := map_option f (vault_of s i))) j"
  proof (cases "FindFromProcessIndex j s")
    case None
    then show ?thesis using assms(1) find by (auto simp: vault_of_def)
  next
    case (Some l)
    note l = FindFromProcessIndex_Some [OF this]
    have "process_index (vault_infos s ! k) = i" using FindFromProcessIndex_Some [OF assms(1)] by blast
    then have "k = l \<longleftrightarrow> i = j" using Some assms(1) l by (metis option.inject)
    then show ?thesis
      using Some assms(1) find l by (auto simp: vault_of_def modify_vault_def nth_modify_at)
  qed
qed

lemma abs_registry_frame:
  "vault_infos s' = vault_infos s \<Longrightarrow> client_ports_and_versions s' = client_ports_and_versions s \<Longrightarrow>
   endpoints s' = endpoints s \<Longrightarrow> update_interval s' = update_interval s \<Longrightarrow>
     abs_registry s' = abs_registry s"
  by (rule registry.equality) (auto simp: abs_registry_def vault_of_def FindFromProcessIndex_def)

lemma AddBootstrapEndPoint_contacts:
  "endpoints (snd (AddBootstrapEndPoint env ip p s)) =
     (if (ip, p) \<in> set (endpoints s) then endpoints s
      else drop (length (endpoints s) + 1 - 1000) (endpoints s @ [(ip, p)]))"
proof (cases "find_if (\<lambda>e. fst e = ip \<and> snd e = p) (endpoints s)")
  case None
  then have "(ip, p) \<notin> set (endpoints s)" by (auto simp: find_if_None)
  with None show ?thesis
    by (simp add: AddBootstrapEndPoint_def Let_def write_file_eq split: prod.split)
next
  case (Some k)
  then have "(ip, p) \<in> set (endpoints s)"
    by (metis (mono_tags, lifting) find_if_SomeD nth_mem prod.collapse)
  with Some show ?thesis by (simp add: AddBootstrapEndPoint_def)
qed

lemma send_response_registry:
  "transport (snd r) \<noteq> None \<Longrightarrow> \<exists>s'. send_response peer r = Inr s' \<and>
     abs_registry s' = abs_registry (snd r) \<and> transport s' \<noteq> None \<and> cm_inv s' = cm_inv (snd r)"
proof -
  assume "transport (snd r) \<noteq> None"
  then obtain T where "transport (snd r) = Some T" by blast
  moreover have "abs_registry ((snd r)\<lparr>transport := T'\<rparr>) = abs_registry (snd r)" for T'
    by (rule abs_registry_frame) simp_all
  ultimately show ?thesis by (simp add: send_response_def)
qed

section \<open>One request\<close>

text \<open>What a handler does to the registry, and that it returns, for each request.\<close>

definition handler :: "('w, 'p) env \<Rightarrow> registry_request \<Rightarrow> ('w, 'p) ClientManager \<Rightarrow>
    fault + bytes \<times> ('w, 'p) ClientManager" where
  "handler env q s =
     (case q of
        RegisterClient p version \<Rightarrow> Inr (HandleClientRegistrationRequest env
          (SerializeAsString (pb_ClientRegistrationRequest (pb env))
            \<lparr>crq_listening_port = ucast p, crq_version = version\<rparr>) s)
      | ChangeInterval i \<Rightarrow> Inr (HandleUpdateIntervalRequest env
          (SerializeAsString (pb_UpdateIntervalRequest (pb env)) \<lparr>uiq_new_update_interval = Some i\<rparr>) s)
      | QueryInterval \<Rightarrow> Inr (HandleUpdateIntervalRequest env
          (SerializeAsString (pb_UpdateIntervalRequest (pb env)) \<lparr>uiq_new_update_interval = None\<rparr>) s)
      | AddContact ip p \<Rightarrow> Inr (HandleSendEndpointToClientManagerRequest env
          (SerializeAsString (pb_SendEndpointRequest (pb env))
            \<lparr>seq_bootstrap_endpoint_ip = ip, seq_bootstrap_endpoint_port = ucast p\<rparr>) s)
      | QueryContacts \<Rightarrow> Inr (HandleBootstrapRequest env
          (SerializeAsString (pb_BootstrapRequest (pb env)) \<lparr>btq_message_id = 0\<rparr>) s)
      | IdentifyVault i p version \<Rightarrow> HandleVaultIdentityRequest env
          (SerializeAsString (pb_VaultIdentityRequest (pb env))
            \<lparr>viq_process_index = i, viq_listening_port = ucast p, viq_version = version\<rparr>) s
      | ReportJoined i joined \<Rightarrow> HandleVaultJoinedNetworkRequest env
          (SerializeAsString (pb_VaultJoinedNetwork (pb env))
            \<lparr>vjn_process_index = i, vjn_joined = joined\<rparr>) s)"

lemma HandleReceivedMessage_handler:
  "protobuf_ok (pb env) \<Longrightarrow>
     HandleReceivedMessage env sched (encode_request (pb env) q) peer s =
       Some (and_then (handler env q s) (send_response peer))"
  by (cases q) (simp_all add: HandleReceivedMessage_def encode_request_def handler_def)

lemma Identify_registry:
  assumes "protobuf_ok (pb env)" and "cm_inv s" and "endpoints s \<noteq> []" and "vault_of s i \<noteq> None"
  shows "\<exists>response s'. handler env (IdentifyVault i p version) s = Inr (response, s') \<and>
           abs_registry s' = spec_step (IdentifyVault i p version) (abs_registry s)"
proof -
  obtain k where k: "FindFromProcessIndex i s = Some k" using assms(4) by (auto simp: vault_of_def)
  obtain q where q: "pmid (vault_infos s ! k) = Some q"
    using cm_inv_pmid [OF assms(2)] FindFromProcessIndex_Some [OF k] by blast
  let ?f = "\<lambda>info. info\<lparr>vault_port := p, vault_version := version\<rparr>"
  have "\<exists>response. handler env (IdentifyVault i p version) s = Inr (response, modify_vault k ?f s)"
    using assms(1,3) k q by (simp add: handler_def HandleVaultIdentityRequest_def Let_def)
  moreover have "abs_registry (modify_vault k ?f s) = spec_step (IdentifyVault i p version) (abs_registry s)"
    using vault_of_modify [OF k, of ?f]
    by (simp add: abs_registry_def spec_step_def) (simp add: modify_vault_def)
  ultimately show ?thesis by blast
qed

lemma Joined_registry:
  assumes "protobuf_ok (pb env)" and "cm_inv s" and "vault_of s i \<noteq> None"
  shows "\<exists>response s'. handler env (ReportJoined i joined) s = Inr (response, s') \<and>
           abs_registry s' = spec_step (ReportJoined i joined) (abs_registry s)"
proof -
  obtain k where k: "FindFromProcessIndex i s = Some k" using assms(3) by (auto simp: vault_of_def)
  let ?f = "\<lambda>info. info\<lparr>joined_network := joined\<rparr>"
  define s1 where "s1 = modify_vault k ?f s"
  have inv: "cm_inv s1" unfolding s1_def by (rule cm_inv_modify_vault) (use assms(2) in simp_all)
  have "k < length (vault_infos s1)"
    using FindFromProcessIndex_Some [OF k] by (simp add: s1_def modify_vault_def)
  then obtain q where q: "pmid (vault_infos s1 ! k) = Some q" using cm_inv_pmid [OF inv] by blast
  obtain s2 where s2: "SendVaultJoinConfirmation env (pmid_name env q) True s1 = Inr s2"
    using JoinConfirmation_no_fault [OF inv] by blast
  then have "\<exists>w ms. s2 = s1 \<or> s2 = s1\<lparr>outside := w, sent := ms\<rparr>"
    using request_client_frame
    by (fastforce simp: SendVaultJoinConfirmation_def and_then_Inr split: option.splits)
  then have "abs_registry s2 = abs_registry s1" by (auto intro: abs_registry_frame)
  moreover have "abs_registry s1 = spec_step (ReportJoined i joined) (abs_registry s)"
    using vault_of_modify [OF k, of ?f]
    by (simp add: abs_registry_def spec_step_def s1_def) (simp add: modify_vault_def)
  moreover have "\<exists>response. handler env (ReportJoined i joined) s = Inr (response, s1) \<or>
      handler env (ReportJoined i joined) s = Inr (response, s2)"
    using assms(1) k q s2
    by (auto simp: handler_def HandleVaultJoinedNetworkRequest_def Let_def s1_def)
  ultimately show ?thesis by metis
qed

lemma handler_refines:
  assumes "protobuf_ok (pb env)" and "cm_inv s" and "endpoints s \<noteq> []"
    and "request_ok q (abs_registry s)"
  shows "\<exists>response s'. handler env q s = Inr (response, s') \<and>
           abs_registry s' = spec_step q (abs_registry s)"
proof (cases q)
  case (RegisterClient p version)
  let ?s = "s\<lparr>client_ports_and_versions := map_assign p version (client_ports_and_versions s)\<rparr>"
  have "\<exists>response. handler env q s = Inr (response, ?s)"
    using assms(1,3) by (simp add: RegisterClient handler_def HandleClientRegistrationRequest_def Let_def)
  moreover have "vault_of ?s = vault_of s" by (simp add: vault_of_def FindFromProcessIndex_def fun_eq_iff)
  then have "abs_registry ?s = spec_step q (abs_registry s)"
    by (simp add: RegisterClient abs_registry_def spec_step_def fun_upd_def fun_eq_iff)
  ultimately show ?thesis by blast
next
  case (ChangeInterval i)
  let ?ok = "300 \<le> uint i \<and> uint i \<le> 604800"
  let ?s = "if ?ok then s\<lparr>update_interval := uint i\<rparr> else s"
  have "\<exists>response. handler env q s = Inr (response, ?s)"
    using assms(1) by (simp add: ChangeInterval handler_def HandleUpdateIntervalRequest_def Let_def
        SetUpdateInterval_def kMinUpdateInterval_def kMaxUpdateInterval_def)
  moreover have "vault_of (s\<lparr>update_interval := j\<rparr>) = vault_of s" for j
    by (simp add: vault_of_def FindFromProcessIndex_def fun_eq_iff)
  then have "abs_registry ?s = spec_step q (abs_registry s)"
    by (simp add: ChangeInterval abs_registry_def spec_step_def)
  ultimately show ?thesis by blast
next
  case (AddContact ip p)
  define s1 where "s1 = snd (AddBootstrapEndPoint env ip p s)"
  have "\<exists>response. handler env q s = Inr (response, s1)"
    using assms(1) by (simp add: AddContact handler_def HandleSendEndpointToClientManagerRequest_def
        s1_def split: prod.split)
  moreover have "only_config s s1" unfolding s1_def by (rule AddBootstrapEndPoint_frame)
  then have "vault_of s1 = vault_of s" "client_ports_and_versions s1 = client_ports_and_versions s"
    "update_interval s1 = update_interval s"
    by (simp_all add: only_config_frame vault_of_def FindFromProcessIndex_def fun_eq_iff)
  then have "abs_registry s1 = spec_step q (abs_registry s)"
    by (simp add: AddContact abs_registry_def spec_step_def AddBootstrapEndPoint_contacts s1_def)
  ultimately show ?thesis by blast
next
  case (IdentifyVault i p version)
  with assms Identify_registry show ?thesis by (simp add: request_ok_def abs_registry_def)
next
  case (ReportJoined i joined)
  with assms Joined_registry show ?thesis by (simp add: request_ok_def abs_registry_def)
qed (use assms in \<open>simp_all add: handler_def HandleUpdateIntervalRequest_def
    HandleBootstrapRequest_def spec_step_def Let_def\<close>)

lemma handler_keeps:
  assumes "handler env q s = Inr (response, s')" and "cm_inv s"
  shows "cm_inv s' \<and> transport s' = transport s"
proof (cases q)
  case (IdentifyVault i p version)
  with assms show ?thesis by (auto simp: handler_def intro: Identity_inv transport_Identity)
next
  case (ReportJoined i joined)
  with assms show ?thesis by (auto simp: handler_def intro: JoinedNetwork_inv transport_Joined)
qed (use assms Registration_inv [OF assms(2)] UpdateInterval_inv [OF assms(2)] SendEndpoint_inv [OF assms(2)]
      Bootstrap_inv [OF assms(2)] transport_pure in \<open>auto simp: handler_def dest!: arg_cong [where f = snd]\<close>)

lemma spec_step_keeps:
  "reg_contacts reg \<noteq> [] \<Longrightarrow> reg_contacts (spec_step q reg) \<noteq> []"
  "request_ok r (spec_step q reg) = request_ok r reg"
  by (cases q; auto simp: spec_step_def)
    (cases q; cases r; auto simp: spec_step_def request_ok_def)

section \<open>Properties\<close>



end
