(* ===== verification/Client_Manager_Updates.thy ===== *)
theory Client_Manager_Updates
  imports Client_Manager_Config
begin

text \<open>
  Loops and notifications of the client manager: finding a port to listen on, choosing a directory for
  a vault, restarting the vaults of the configuration, and telling clients about a new version.
\<close>

section \<open>Listening\<close>

lemma uint_next_port: "uint p + 1 < 65536 \<Longrightarrow> uint (p + 1 :: port) = uint p + 1"
  by (simp add: uint_word_ariths)

lemma listen_loop_total:
  assumes "uint base + 10 < 65535" and "uint base \<le> uint local" and "uint local \<le> uint base + 10"
    and "acceptor T0 = None" and "if result = kSuccess then acceptor T \<noteq> None else T = T0"
  shows "\<exists>p T' w'. listen_loop env base local result T w = Some (p, T', w') \<and>
           (case p of None \<Rightarrow> T' = T0
            | Some q \<Rightarrow> uint base \<le> uint q \<and> uint q \<le> uint base + 10 \<and> acceptor T' \<noteq> None)"
  using assms(2-)
proof (induction "nat (uint base + 10 - uint local)" arbitrary: local result T w rule: less_induct)
  case less
  show ?case
  proof (cases "result = kSuccess")
    case True
    with less.prems show ?thesis by (simp add: listen_loop.simps)
  next
    case False
    have kmax: "uint kMaxRangeAboveDefaultPort = 10" by (simp add: kMaxRangeAboveDefaultPort_def)
    have nxt: "uint (local + 1) = uint local + 1"
      using less.prems assms(1) by (intro uint_next_port) simp
    obtain p1 r1 T1 w1 where one: "StartListening env (local + 1) T w = (p1, r1, T1, w1)"
      by (cases "StartListening env (local + 1) T w") auto
    show ?thesis
    proof (cases "uint local = uint base + 10")
      case True
      then have "listen_loop env base local result T w = Some (None, T, w)"
        using False kmax nxt by (simp add: listen_loop.simps)
      then show ?thesis using False less.prems by simp
    next
      case below: False
      then have "listen_loop env base local result T w = listen_loop env base (local + 1) r1 T1 w1"
        using False kmax nxt one less.prems by (subst listen_loop.simps) simp
      moreover have "T = T0" using False less.prems by simp
      then have "if r1 = kSuccess then acceptor T1 \<noteq> None else T1 = T0"
        using StartListening_closed [OF one] less.prems(3) by auto
      moreover have "nat (uint base + 10 - uint (local + 1)) < nat (uint base + 10 - uint local)"
        using below nxt less.prems by simp
      moreover have "uint base \<le> uint (local + 1)" "uint (local + 1) \<le> uint base + 10"
        using nxt below less.prems by simp_all
      ultimately show ?thesis using less.hyps [of "local + 1" r1 T1 w1] less.prems(3) by simp
    qed
  qed
qed

section \<open>Choosing a directory\<close>

text \<open>The \<open>n\<close>-th candidate and the world after it was drawn.\<close>

fun candidate :: "('w, 'p) env \<Rightarrow> path \<Rightarrow> nat \<Rightarrow> 'w \<Rightarrow> path \<times> 'w" where
  "candidate env directory 0 w =
     (let (a, w') = RandomAlphaNumericString env 16 w in (path_join env directory a, w'))"
| "candidate env directory (Suc n) w =
     candidate env directory n (snd (RandomAlphaNumericString env 16 w))"

definition taken :: "('w, 'p) env \<Rightarrow> path \<times> 'w \<Rightarrow> bool" where
  "taken env c = fst (fs_exists env (fst c) (snd c))"

lemma choose_chunkstore_first:
  "\<not> taken env (candidate env directory n w) \<Longrightarrow>
   \<exists>m \<le> n. choose_chunkstore env directory w = Some (candidate env directory m w) \<and>
     \<not> taken env (candidate env directory m w)"
proof (induction n arbitrary: w)
  case 0
  then have "choose_chunkstore env directory w = Some (candidate env directory 0 w)"
    by (subst choose_chunkstore.simps) (auto simp: taken_def Let_def split: prod.splits)
  with 0 show ?case by blast
next
  case (Suc n)
  let ?w = "snd (RandomAlphaNumericString env 16 w)"
  show ?case
  proof (cases "taken env (candidate env directory 0 w)")
    case True
    then have step: "choose_chunkstore env directory w = choose_chunkstore env directory ?w"
      by (subst choose_chunkstore.simps) (auto simp: taken_def Let_def split: prod.splits)
    from Suc obtain m where "m \<le> n" "choose_chunkstore env directory ?w = Some (candidate env directory m ?w)"
      "\<not> taken env (candidate env directory m ?w)" by auto
    with step have "Suc m \<le> Suc n \<and>
        choose_chunkstore env directory w = Some (candidate env directory (Suc m) w) \<and>
        \<not> taken env (candidate env directory (Suc m) w)" by simp
    then show ?thesis by blast
  next
    case False
    then have "choose_chunkstore env directory w = Some (candidate env directory 0 w)"
      by (subst choose_chunkstore.simps) (auto simp: taken_def Let_def split: prod.splits)
    with False show ?thesis by blast
  qed
qed

section \<open>Notifications\<close>

lemma request_client_sent [simp]:
  "sent (snd (request_client env ack client message s)) = sent s @ [(client, message)]"
  "latest_local_installer_path (snd (request_client env ack client message s)) =
     latest_local_installer_path s"
  by (simp_all add: request_client_def Let_def split: prod.split)

lemma SendNewVersionAvailable_sent:
  "sent (SendNewVersionAvailable env client s) = sent s @ [(client, WrapMessage (pb env) kNewVersionAvailable
     (SerializeAsString (pb_NewVersionAvailable (pb env))
       \<lparr>nva_new_version_filepath = latest_local_installer_path s\<rparr>))]"
  "latest_local_installer_path (SendNewVersionAvailable env client s) = latest_local_installer_path s"
  by (simp_all add: SendNewVersionAvailable_def Let_def case_prod_beta)

section \<open>Restarting vaults\<close>

lemma StartVaultProcess_present:
  assumes "SetExecutablePath env (path_join env (GetAppInstallDir env) kVaultName) (outside s) new_Process =
      (True, exe)" and "name exe \<noteq> []" and "cm_inv s" and "has_room (process_manager s)"
    and "StartVaultProcess env info s = (started, info', s')"
  shows "started \<and> outside s' = outside s \<and>
         chunkstore_path info' = chunkstore_path info \<and> vault_version info' = vault_version info"
proof -
  define p where "p = AddArgument (''--chunk_path '' @ chunkstore_path info) (AddArgument ''--start'' exe)"
  obtain i pm where add: "AddProcess p (local_port s) (process_manager s) = (i, pm)" by fastforce
  have "i \<noteq> kInvalidIndex"
    using pm_host.add_invalid_iff [OF cm_inv_pm_inv [OF assms(3)] assms(4) add] assms(2)
    by (simp add: p_def AddArgument_def)
  with assms(1,5) add show ?thesis by (auto simp: StartVaultProcess_def Let_def p_def)
qed

lemma start_vaults_result:
  assumes "passport_ok env" and "cm_inv s"
    and "\<And>v. v \<in> set vs \<Longrightarrow> \<exists>p. vip_pmid v = SerialisePmid env p"
    and "SetExecutablePath env (path_join env (GetAppInstallDir env) kVaultName) (outside s) new_Process =
           (True, exe)" and "name exe \<noteq> []"
    and "unat (current_max_id (process_manager s)) + length vs + 2 < 2 ^ 32"
  shows "\<exists>s' infos. start_vaults env vs s = Inr s' \<and> cm_inv s' \<and> vault_infos s' = vault_infos s @ infos \<and>
           map (\<lambda>info. (map_option (SerialisePmid env) (pmid info), chunkstore_path info, vault_version info)) infos =
             map (\<lambda>v. (Some (vip_pmid v), vip_chunkstore_path v, vip_version v))
               (filter vip_requested_to_run vs)"
  using assms(2-4,6)
proof (induction vs arbitrary: s)
  case (Cons v vs)
  obtain p where p: "vip_pmid v = SerialisePmid env p" using Cons.prems(2) by auto
  define info where "info = (new_VaultInfo env)\<lparr>pmid := Some p, chunkstore_path := vip_chunkstore_path v,
    requested_to_run := vip_requested_to_run v, vault_version := vip_version v\<rparr>"
  have from_pb: "FromProtobuf env v (new_VaultInfo env) = Inr info"
    using assms(1) p by (simp add: FromProtobuf_def parse_pmid_def info_def)
  show ?case
  proof (cases "vip_requested_to_run v")
    case True
    obtain started info' s1 where start: "StartVaultProcess env info s = (started, info', s1)"
      using prod_cases3 by blast
    have room: "has_room (process_manager s)" using Cons.prems(4) by (simp add: has_room_def)
    have "pmid info \<noteq> None" by (simp add: info_def)
    note inv = StartVaultProcess_inv [OF start Cons.prems(1) room this]
    note present = StartVaultProcess_present [OF Cons.prems(3) assms(5) Cons.prems(1) room start]
    have "unat (current_max_id (process_manager s1)) \<le> unat (current_max_id (process_manager s)) + 1"
      using inv unat_next_index [OF room] by auto
    then have "unat (current_max_id (process_manager s1)) + length vs + 2 < 2 ^ 32"
      using Cons.prems(4) by simp
    then obtain s' infos where "start_vaults env vs s1 = Inr s'" "cm_inv s'"
        "vault_infos s' = vault_infos s1 @ infos"
        "map (\<lambda>info. (map_option (SerialisePmid env) (pmid info), chunkstore_path info, vault_version info))
           infos = map (\<lambda>v. (Some (vip_pmid v), vip_chunkstore_path v, vip_version v))
           (filter vip_requested_to_run vs)"
      using Cons.IH [of s1] inv present Cons.prems(2,3) by auto
    moreover have "vault_infos s1 = vault_infos s @ [info']" "pmid info' = Some p"
      using inv present by (simp_all add: info_def)
    ultimately show ?thesis
      using True from_pb start present p
      by (intro exI [of _ s'] exI [of _ "info' # infos"]) (simp add: info_def)
  next
    case False
    with Cons from_pb show ?thesis by (simp add: info_def)
  qed
qed simp

lemma StartVaultProcess_frame:
  assumes "StartVaultProcess env info s = (started, info', s')"
  shows "outside s' = outside s \<and> config_file_path s' = config_file_path s \<and>
    unat (current_max_id (process_manager s')) \<le> unat (current_max_id (process_manager s)) + 1"
proof -
  have "unat (x + 1) \<le> unat x + 1" for x :: "32 word"
    by (simp add: unat_word_ariths)
  from this [of "current_max_id (process_manager s)"] show ?thesis
    using assms by (auto simp: StartVaultProcess_def AddProcess_def Let_def split: prod.splits if_splits)
qed

lemma start_vaults_frame:
  "start_vaults env vs s = Inr s' \<Longrightarrow> outside s' = outside s \<and> config_file_path s' = config_file_path s \<and>
     unat (current_max_id (process_manager s')) \<le> unat (current_max_id (process_manager s)) + length vs"
proof (induction vs arbitrary: s)
  case (Cons v vs)
  obtain info where info: "FromProtobuf env v (new_VaultInfo env) = Inr info"
    using Cons.prems by (auto simp: and_then_Inr)
  obtain started info' s1 where start: "StartVaultProcess env info s = (started, info', s1)"
    using prod_cases3 by blast
  show ?case
    using Cons.prems Cons.IH [of s] Cons.IH [of s1] StartVaultProcess_frame [OF start] info start
    by (auto split: if_splits)
qed simp

lemma ReadConfig_result:
  assumes "protobuf_ok (pb env)" and "passport_ok env" and "cm_inv s"
    and "ReadFile env (config_file_path s) (outside s) = Some (SerializeAsString (pb_Config (pb env)) config)"
    and "config_initialised config"
    and "\<And>v. v \<in> set (cfg_vault_info config) \<Longrightarrow> \<exists>p. vip_pmid v = SerialisePmid env p"
    and "SetExecutablePath env (path_join env (GetAppInstallDir env) kVaultName) (outside s) new_Process =
           (True, exe)" and "name exe \<noteq> []"
    and "unat (current_max_id (process_manager s)) + length (cfg_vault_info config) + 2 < 2 ^ 32"
  shows "\<exists>s' infos. ReadConfigFileAndStartVaults env s = Inr (True, s') \<and> cm_inv s' \<and>
           vault_infos s' = vault_infos s @ infos \<and>
           map (\<lambda>info. (map_option (SerialisePmid env) (pmid info), chunkstore_path info, vault_version info)) infos =
             map (\<lambda>v. (Some (vip_pmid v), vip_chunkstore_path v, vip_version v))
               (filter vip_requested_to_run (cfg_vault_info config)) \<and>
           outside s' = outside s \<and> config_file_path s' = config_file_path s \<and>
           unat (current_max_id (process_manager s')) \<le>
             unat (current_max_id (process_manager s)) + length (cfg_vault_info config)"
proof -
  define s1 where "s1 = LoadBootstrapEndpoints
      (case cfg_bootstrap_endpoints config of None \<Rightarrow> empty_bootstrap | Some b \<Rightarrow> b)
      (s\<lparr>update_interval := (case cfg_update_interval config of None \<Rightarrow> 0 | Some i \<Rightarrow> uint i)\<rparr>)"
  have s1: "cm_inv s1" "outside s1 = outside s" "process_manager s1 = process_manager s"
    "vault_infos s1 = vault_infos s" "config_file_path s1 = config_file_path s"
    using assms(3) by (simp_all add: s1_def LoadBootstrapEndpoints_def)
  have "ReadConfigFileAndStartVaults env s =
      and_then (start_vaults env (cfg_vault_info config) s1) (\<lambda>s'. Inr (True, s'))"
    using assms(1,4,5) by (simp add: ReadConfigFileAndStartVaults_def s1_def)
  moreover obtain s' infos where "start_vaults env (cfg_vault_info config) s1 = Inr s'" "cm_inv s'"
    "vault_infos s' = vault_infos s @ infos"
    "map (\<lambda>info. (map_option (SerialisePmid env) (pmid info), chunkstore_path info, vault_version info)) infos =
       map (\<lambda>v. (Some (vip_pmid v), vip_chunkstore_path v, vip_version v))
         (filter vip_requested_to_run (cfg_vault_info config))"
    using start_vaults_result [OF assms(2) s1(1) assms(6), of "cfg_vault_info config" exe] s1 assms(7-9)
    by auto
  ultimately show ?thesis using start_vaults_frame s1 by fastforce
qed

section \<open>Properties\<close>

text \<open>
  C30: \<open>ListenForMessages\<close> returns whenever its first port is at most 65524: either it listens, on a port
  that is at most ten above the first one and that it then remembers, or no port could be used and the
  transport is as before.
\<close>

theorem ListenForMessages_terminates:
  assumes "transport s = Some T" and "acceptor T = None" and "uint (local_port s) + 10 < 65535"
  shows "\<exists>ok s'. ListenForMessages env s = Some (Inr (ok, s')) \<and>
           (if ok then uint (local_port s) \<le> uint (local_port s') \<and>
                 uint (local_port s') \<le> uint (local_port s) + 10 \<and>
                 (\<exists>T'. transport s' = Some T' \<and> acceptor T' \<noteq> None)
            else transport s' = transport s \<and> local_port s' = local_port s)"
proof -
  obtain p0 r0 T0 w0 where first: "StartListening env (local_port s) T (outside s) = (p0, r0, T0, w0)"
    by (cases "StartListening env (local_port s) T (outside s)") auto
  have "if r0 = kSuccess then acceptor T0 \<noteq> None else T0 = T"
    using StartListening_closed [OF first assms(2)] by auto
  from listen_loop_total [OF assms(3) order_refl _ assms(2) this, of env w0] obtain p T' w' where
    "listen_loop env (local_port s) (local_port s) r0 T0 w0 = Some (p, T', w')"
    "case p of None \<Rightarrow> T' = T | Some q \<Rightarrow> uint (local_port s) \<le> uint q \<and>
       uint q \<le> uint (local_port s) + 10 \<and> acceptor T' \<noteq> None" by auto
  then show ?thesis
    using assms(1) first by (cases p) (simp_all add: ListenForMessages_def ex_bool_eq)
qed

theorem ListenForMessages_terminates_witness:
  "\<exists>s'. ListenForMessages demo_env demo_cm = Some (Inr (True, s'))"
proof -
  have "transport demo_cm = Some new_LocalTcpTransport" "acceptor new_LocalTcpTransport = None"
    "uint (local_port demo_cm) + 10 < 65535"
    by (simp_all add: demo_cm_def new_LocalTcpTransport_def new_ClientManager_def kDefaultPort_def)
  from ListenForMessages_terminates [OF this, of demo_env] obtain ok s' where
    r: "ListenForMessages demo_env demo_cm = Some (Inr (ok, s'))" by blast
  have "StartListening demo_env 5483 new_LocalTcpTransport demo_world =
      (5483, kSuccess, new_LocalTcpTransport\<lparr>acceptor := Some 5483, accepting := True\<rparr>, demo_world)"
    by (simp add: StartListening_def DoStartListening_def demo_env_def new_LocalTcpTransport_def
        listening_port_def)
  then have "ok"
    using r by (auto simp: ListenForMessages_def demo_cm_def new_ClientManager_def kDefaultPort_def
        listen_loop.simps)
  with r show ?thesis by simp
qed

text \<open>
  The loop that chooses the directory of a new vault returns as soon as one of the names it would
  draw is free, and what it returns does not exist.
\<close>

theorem choose_chunkstore_returns:
  assumes "\<exists>n. \<not> taken env (candidate env directory n w)"
  shows "\<exists>p w'. choose_chunkstore env directory w = Some (p, w') \<and> \<not> fst (fs_exists env p w')"
proof -
  obtain n where "\<not> taken env (candidate env directory n w)" using assms by blast
  from choose_chunkstore_first [OF this] obtain m where
    "choose_chunkstore env directory w = Some (candidate env directory m w)"
    "\<not> taken env (candidate env directory m w)" by blast
  then show ?thesis by (cases "candidate env directory m w") (simp add: taken_def)
qed

theorem choose_chunkstore_returns_witness:
  "\<exists>p w'. choose_chunkstore demo_env ''/data'' demo_world = Some (p, w') \<and>
     \<not> fst (fs_exists demo_env p w')"
proof -
  have "\<not> taken demo_env (candidate demo_env ''/data'' 0 demo_world)"
    by (simp add: taken_def demo_random_def demo_world_def)
  then have "\<exists>n. \<not> taken demo_env (candidate demo_env ''/data'' n demo_world)" by blast
  from choose_chunkstore_returns [OF this] show ?thesis .
qed



text \<open>
  No file is ever taken for an installer: nine characters of its name are compared with a word of
  six.  The path of the latest installer, which out-of-date clients are sent, therefore never changes.
\<close>

theorem IsInstaller_never: "\<not> IsInstaller env p"
proof
  assume "IsInstaller env p"
  then have "length (take 9 (path_stem env p)) = 6" "length (path_stem env p) > 8"
    by (simp_all add: IsInstaller_def)
  then show False by simp
qed

text \<open>On other platforms only a file with exactly this name is taken for one, without any version.\<close>

lemma IsInstaller_other_iff:
  "IsInstaller_other env p \<longleftrightarrow> path_extension env p = ''.exe'' \<and> path_stem env p = ''Client''"
proof -
  have "xs = ''Client''" if "take 9 xs = ''Client''" for xs :: string
  proof -
    have "length (take 9 xs) = 6" by (simp add: that)
    then have "take 9 xs = xs" by (simp add: min_def split: if_splits)
    with that show ?thesis by simp
  qed
  then show ?thesis by (auto simp: IsInstaller_other_def)
qed



end
