(* ===== verification/Client_Manager_Life.thy ===== *)
theory Client_Manager_Life
  imports Client_Manager_Updates
begin

text \<open>
  The life of a client manager: start-up, messages, checks for updates, restarts of vaults and the steps
  of the threads that run the vaults, in any order.  The invariant holds in every state that can be
  reached.
\<close>

section \<open>Operations that change no process\<close>

definition same_vaults :: "('w, 'p) ClientManager \<Rightarrow> ('w, 'p) ClientManager \<Rightarrow> bool" where
  "same_vaults s s' \<longleftrightarrow>
     process_manager s' = process_manager s \<and> vault_infos s' = vault_infos s \<and>
     (cm_inv s \<longrightarrow> cm_inv s')"

lemma same_vaults_refl [simp]: "same_vaults s s"
  by (simp add: same_vaults_def)

lemma same_vaults_trans: "same_vaults s s' \<Longrightarrow> same_vaults s' s'' \<Longrightarrow> same_vaults s s''"
  by (simp add: same_vaults_def)

lemma same_vaults_only_config: "only_config s s' \<Longrightarrow> same_vaults s s'"
  by (simp add: same_vaults_def only_config_frame)

lemma SendNewVersionAvailable_same: "same_vaults s (SendNewVersionAvailable env client s)"
proof -
  define ack where "ack = HandleNewVersionAvailableAck env"
  define m where "m = WrapMessage (pb env) kNewVersionAvailable
    (SerializeAsString (pb_NewVersionAvailable (pb env)) \<lparr>nva_new_version_filepath = latest_local_installer_path s\<rparr>)"
  obtain answer s1 where r: "request_client env ack client m s = (answer, s1)" by fastforce
  obtain w ms where s1: "s1 = s\<lparr>outside := w, sent := ms\<rparr>"
    using request_client_frame [of env ack client m s] r by auto
  then have "same_vaults s s1" by (simp add: same_vaults_def)
  moreover have "same_vaults s1 (SendNewVersionAvailable env client s)"
    using r by (simp add: SendNewVersionAvailable_def ack_def m_def same_vaults_def)
  ultimately show ?thesis by (rule same_vaults_trans)
qed

lemma notify_clients_same: "same_vaults s (notify_clients env entries s)"
proof (induction entries arbitrary: s)
  case (Cons entry entries)
  obtain client version where "entry = (client, version)" by fastforce
  with same_vaults_trans [OF SendNewVersionAvailable_same Cons.IH] Cons.IH show ?case
    by simp
qed simp

lemma obtain_bootstrap_retrying_frame:
  "only_config s (snd (obtain_bootstrap_retrying env n config s))"
proof (induction n arbitrary: config s)
  case 0
  show ?case
    using ObtainBootstrapInformation_frame [of s env config]
    by (auto simp: obtain_bootstrap_retrying.simps split: prod.split bool.split)
next
  case (Suc n)
  obtain ok config' s' where o: "ObtainBootstrapInformation env config s = (ok, config', s')"
    using prod_cases3 by blast
  then have "only_config s s'"
    using ObtainBootstrapInformation_frame [of s env config] by simp
  with o Suc [of s' config'] show ?case
    by (cases ok) (auto simp: obtain_bootstrap_retrying.simps intro: only_config_trans)
qed

lemma CreateConfigFile_frame: "only_config s (snd (CreateConfigFile env s))"
proof -
  define config where "config = empty_config\<lparr>cfg_update_interval := Some (word_of_int (update_interval s))\<rparr>"
  obtain config' s1 where o: "obtain_bootstrap_retrying env 10 config s = (config', s1)" by fastforce
  then have "only_config s s1"
    using obtain_bootstrap_retrying_frame [of s env 10 config] by simp
  moreover have "only_config s1 (snd (CreateConfigFile env s))"
    using o by (auto simp: CreateConfigFile_def config_def [symmetric] Let_def write_file_eq split: prod.split)
  ultimately show ?thesis by (rule only_config_trans)
qed

lemma create_config_retrying_frame:
  assumes "create_config_retrying env s = Some (ok, s')"
  shows "only_config s s'"
proof -
  have "only_config s (snd (ok, s'))"
  proof (rule create_config_retrying.raw_induct [where P = "\<lambda>env s r. only_config s (snd r)", OF _ assms])
    fix loop :: "('w, 'p) env \<Rightarrow> ('w, 'p) ClientManager \<Rightarrow> (bool \<times> ('w, 'p) ClientManager) option"
      and env s r
    assume IH: "\<And>env s r. loop env s = Some r \<Longrightarrow> only_config s (snd r)"
      and body: "(let (created, s) = CreateConfigFile env s
        in if created then Some (True, s)
           else if need_to_stop s then Some (False, s) else loop env s) = Some r"
    obtain created s1 where c: "CreateConfigFile env s = (created, s1)" by fastforce
    then have "only_config s s1" using CreateConfigFile_frame [of s env] by simp
    moreover from body have "(if created then Some (True, s1)
        else if need_to_stop s1 then Some (False, s1) else loop env s1) = Some r"
      unfolding c by simp
    then have "only_config s1 (snd r)"
      using IH [of env s1 r] by (auto split: if_splits)
    ultimately show "only_config s (snd r)" by (rule only_config_trans)
  qed
  then show ?thesis by simp
qed

lemma ListenForMessages_frame:
  "ListenForMessages env s = Some (Inr (ok, s')) \<Longrightarrow>
     config_file_path s' = config_file_path s \<and>
     client_ports_and_versions s' = client_ports_and_versions s"
  by (auto simp: ListenForMessages_def Let_def split: option.splits prod.splits)

lemma ListenForMessages_same:
  "ListenForMessages env s = Some (Inr (ok, s')) \<Longrightarrow> same_vaults s s'"
  by (auto simp: ListenForMessages_def Let_def same_vaults_def split: option.splits prod.splits)

lemma listen_retrying_same:
  assumes "listen_retrying env s = Some (Inr (ok, s'))"
  shows "same_vaults s s'"
proof -
  let ?Q = "\<lambda>env s r. \<forall>ok s'. r = Inr (ok, s') \<longrightarrow> same_vaults s s'"
  have "?Q env s (Inr (ok, s') :: fault + bool \<times> ('a, 'b) ClientManager)"
  proof (rule listen_retrying.raw_induct [where P = ?Q, OF _ assms])
    fix loop :: "('a, 'b) env \<Rightarrow> ('a, 'b) ClientManager \<Rightarrow> (fault + bool \<times> ('a, 'b) ClientManager) option"
      and env s r
    assume IH: "\<And>env s r. loop env s = Some r \<Longrightarrow> ?Q env s r"
      and body: "(case ListenForMessages env s of
        None \<Rightarrow> None
      | Some (Inl e) \<Rightarrow> Some (Inl e)
      | Some (Inr (listening, s)) \<Rightarrow>
          if listening then Some (Inr (True, s))
          else if need_to_stop s then Some (Inr (False, s)) else loop env s) = Some r"
    show "?Q env s r"
    proof (cases "\<exists>l s1. ListenForMessages env s = Some (Inr (l, s1))")
      case True
      then obtain l s1 where l: "ListenForMessages env s = Some (Inr (l, s1))" by blast
      with body IH [of env s1 r] show ?thesis
        using ListenForMessages_same [OF l] by (auto split: if_splits intro: same_vaults_trans)
    qed (use body in \<open>auto split: option.splits sum.splits\<close>)
  qed
  then show ?thesis by blast
qed

section \<open>Operations that start vaults\<close>

text \<open>
  Process indices are 32 bits wide; the index \<open>2 ^ 32 - 1\<close> is reserved.  The processes that a step adds
  fit if the counter does not reach it.
\<close>

definition fits_between :: "ProcessManager \<Rightarrow> ProcessManager \<Rightarrow> bool" where
  "fits_between pm pm' \<longleftrightarrow>
     unat (current_max_id pm) + (card (known pm') - card (known pm)) + 1 < 2 ^ 32"

lemma finite_known [simp]: "finite (known pm)"
  by (simp add: known_def)

lemma fits_has_room:
  assumes "fits_between pm pm'" and "known pm \<subset> known pm'"
  shows "has_room pm"
  using assms psubset_card_mono [OF finite_known assms(2)] by (simp add: fits_between_def has_room_def)

definition started_from :: "('w, 'p) ClientManager \<Rightarrow> ('w, 'p) ClientManager \<Rightarrow> bool" where
  "started_from s s' \<longleftrightarrow> known (process_manager s) \<subseteq> known (process_manager s') \<and>
     (cm_inv s \<longrightarrow> fits_between (process_manager s) (process_manager s') \<longrightarrow>
        cm_inv s' \<and> unat (current_max_id (process_manager s')) \<le>
          unat (current_max_id (process_manager s)) +
            (card (known (process_manager s')) - card (known (process_manager s))))"

lemma started_from_refl [simp]: "started_from s s"
  by (simp add: started_from_def)

lemma started_from_trans:
  assumes "started_from s s'" and "started_from s' s''"
  shows "started_from s s''"
proof -
  let ?k = "\<lambda>s. card (known (process_manager s))"
  let ?m = "\<lambda>s. unat (current_max_id (process_manager s))"
  have le: "?k s \<le> ?k s'" "?k s' \<le> ?k s''"
    using assms by (auto simp: started_from_def card_mono)
  have "cm_inv s'' \<and> ?m s'' \<le> ?m s + (?k s'' - ?k s)"
    if "cm_inv s" "fits_between (process_manager s) (process_manager s'')"
  proof -
    have "fits_between (process_manager s) (process_manager s')"
      using that(2) le by (simp add: fits_between_def)
    then have s': "cm_inv s'" "?m s' \<le> ?m s + (?k s' - ?k s)"
      using assms(1) that(1) by (simp_all add: started_from_def)
    then have "fits_between (process_manager s') (process_manager s'')"
      using that(2) le by (simp add: fits_between_def)
    then have "cm_inv s''" "?m s'' \<le> ?m s' + (?k s'' - ?k s')"
      using assms(2) s'(1) by (simp_all add: started_from_def)
    with s' le show ?thesis by simp
  qed
  with assms show ?thesis unfolding started_from_def by blast
qed

lemma started_from_same: "same_vaults s s' \<Longrightarrow> started_from s s'"
  by (simp add: same_vaults_def started_from_def)

lemma StartVaultProcess_known:
  assumes "StartVaultProcess env info s = (started, info', s')"
  shows "s' = s \<or> known (process_manager s') =
    insert (current_max_id (process_manager s) + 1) (known (process_manager s))"
proof -
  obtain set_path p where p: "SetExecutablePath env (path_join env (GetAppInstallDir env) kVaultName)
      (outside s) new_Process = (set_path, p)" by fastforce
  define p' where "p' = AddArgument (''--chunk_path '' @ chunkstore_path info) (AddArgument ''--start'' p)"
  obtain i pm where add: "AddProcess p' (local_port s) (process_manager s) = (i, pm)" by fastforce
  then have pm: "if name p' = [] then i = kInvalidIndex \<and> pm = process_manager s
      else known pm = insert (current_max_id (process_manager s) + 1) (known (process_manager s))"
    by (auto simp: AddProcess_def Let_def known_def split: if_splits)
  have s': "s' = (if \<not> set_path then s
      else if i = kInvalidIndex then s\<lparr>process_manager := pm\<rparr>
      else s\<lparr>process_manager := StartProcess i pm, vault_infos := vault_infos s @ [info\<lparr>process_index := i\<rparr>]\<rparr>)"
    using assms p add by (auto simp: StartVaultProcess_def Let_def p'_def split: if_splits)
  show ?thesis
  proof (cases "name p' = []")
    case True
    with pm have "s\<lparr>process_manager := pm\<rparr> = s" "i = kInvalidIndex" by simp_all
    with s' show ?thesis by simp
  next
    case False
    with pm s' show ?thesis by simp
  qed
qed

lemma StartVaultProcess_started:
  assumes start: "StartVaultProcess env info s = (started, info', s')" and "pmid info \<noteq> None"
  shows "started_from s s'"
  using StartVaultProcess_known [OF start]
proof
  assume grown: "known (process_manager s') =
    insert (current_max_id (process_manager s) + 1) (known (process_manager s))"
  have "cm_inv s' \<and> unat (current_max_id (process_manager s')) \<le>
      unat (current_max_id (process_manager s)) +
        (card (known (process_manager s')) - card (known (process_manager s)))"
    if inv: "cm_inv s" and fits: "fits_between (process_manager s) (process_manager s')"
  proof -
    have "unat (current_max_id (process_manager s)) + 1 < 2 ^ 32"
      using fits by (simp add: fits_between_def)
    then have "current_max_id (process_manager s) < current_max_id (process_manager s) + 1"
      by (simp add: word_less_nat_alt unat_word_ariths)
    moreover have "i \<le> current_max_id (process_manager s)" if "i \<in> known (process_manager s)" for i
      using cm_inv_pm_inv [OF inv] that by (auto simp: pm_inv_def known_def)
    ultimately have fresh: "current_max_id (process_manager s) + 1 \<notin> known (process_manager s)"
      using leD by blast
    then have room: "has_room (process_manager s)"
      using fits grown by (auto intro: fits_has_room)
    show ?thesis
      using StartVaultProcess_inv [OF start inv room assms(2)] unat_next_index [OF room] grown fresh
      by auto
  qed
  with grown show ?thesis by (auto simp: started_from_def)
qed simp

lemma start_vaults_started: "start_vaults env vs s = Inr s' \<Longrightarrow> started_from s s'"
proof (induction vs arbitrary: s)
  case (Cons v vs)
  obtain info where info: "FromProtobuf env v (new_VaultInfo env) = Inr info"
    using Cons.prems by (auto simp: and_then_Inr)
  then have "pmid info \<noteq> None"
    by (auto simp: FromProtobuf_def and_then_Inr)
  obtain started info' s1 where start: "StartVaultProcess env info s = (started, info', s1)"
    using prod_cases3 by blast
  note first = StartVaultProcess_started [OF start \<open>pmid info \<noteq> None\<close>]
  show ?case
  proof (cases "requested_to_run info")
    case True
    then have "start_vaults env vs s1 = Inr s'"
      using Cons.prems info start by simp
    with Cons.IH first started_from_trans show ?thesis by blast
  qed (use Cons info in simp)
qed simp

lemma start_vaults_card:
  "start_vaults env vs s = Inr s' \<Longrightarrow>
     card (known (process_manager s')) \<le> card (known (process_manager s)) + length vs"
proof (induction vs arbitrary: s)
  case (Cons v vs)
  obtain info where info: "FromProtobuf env v (new_VaultInfo env) = Inr info"
    using Cons.prems by (auto simp: and_then_Inr)
  obtain started info' s1 where start: "StartVaultProcess env info s = (started, info', s1)"
    using prod_cases3 by blast
  have "card (known (process_manager s1)) \<le> card (known (process_manager s)) + 1"
    using StartVaultProcess_known [OF start] by (auto simp: card_insert_if)
  then show ?case
    using Cons.prems Cons.IH [of s] Cons.IH [of s1] info start by (auto split: if_splits)
qed simp

lemma ReadConfig_started:
  assumes "ReadConfigFileAndStartVaults env s = Inr (ok, s')"
  shows "started_from s s'"
proof (cases "ok")
  case True
  then obtain vs b i where "start_vaults env vs (LoadBootstrapEndpoints b (s\<lparr>update_interval := i\<rparr>)) = Inr s'"
    using assms
    by (auto simp: ReadConfigFileAndStartVaults_def Let_def and_then_Inr split: option.splits prod.splits if_splits)
  then have "started_from (LoadBootstrapEndpoints b (s\<lparr>update_interval := i\<rparr>)) s'"
    by (rule start_vaults_started)
  moreover have "same_vaults s (LoadBootstrapEndpoints b (s\<lparr>update_interval := i\<rparr>))" for b i
    by (simp add: same_vaults_def LoadBootstrapEndpoints_def)
  ultimately show ?thesis
    using started_from_trans started_from_same by blast
next
  case False
  then have "s' = s"
    using assms
    by (auto simp: ReadConfigFileAndStartVaults_def Let_def and_then_Inr split: option.splits prod.splits if_splits)
  then show ?thesis by simp
qed

lemma UpdateExecutor_started:
  assumes "UpdateExecutor env sched s = Inr s'" and "sched_ok sched" and "cm_inv s"
  shows "started_from s s'"
proof -
  obtain result updated w where u: "Update env (outside s) = ((result, updated), w)"
    by (metis prod.exhaust)
  define s1 where "s1 = (case find_if (IsInstaller env) updated of
      Some it \<Rightarrow> s\<lparr>outside := w, latest_local_installer_path := updated ! it\<rparr> | None \<Rightarrow> s\<lparr>outside := w\<rparr>)"
  define s2 where "s2 = notify_clients env (client_ports_and_versions s1) s1"
  have "same_vaults s s1"
    by (simp add: s1_def same_vaults_def split: option.split)
  then have same: "same_vaults s s2"
    unfolding s2_def using notify_clients_same same_vaults_trans by blast
  consider "s' = s\<lparr>outside := w\<rparr>" | "s' = s2"
    | s3 w' ok where "StopAllVaults env sched s2 = Inr s3"
        "ReadConfigFileAndStartVaults env (s3\<lparr>outside := w', vault_infos := []\<rparr>) = Inr (ok, s')"
    using assms(1) u
    by (auto simp: UpdateExecutor_def Let_def s1_def s2_def and_then_Inr split: if_splits option.splits)
  then show ?thesis
  proof cases
    case 1
    then show ?thesis by (intro started_from_same) (simp add: same_vaults_def)
  next
    case 2
    with same show ?thesis by (simp add: started_from_same)
  next
    case (3 s3 w' ok)
    have inv: "cm_inv s2" using same assms(3) by (simp add: same_vaults_def)
    have "stop_vaults_from env sched [0..<length (vault_infos s2)] s2 = Inr s3"
      using 3(1) by (simp add: StopAllVaults_def)
    from stop_vaults_from_inv [OF this inv assms(2)]
    have s3: "cm_inv s3" "current_max_id (process_manager s3) = current_max_id (process_manager s2)"
      "known (process_manager s3) = known (process_manager s2)" by simp_all
    have "cm_inv (s3\<lparr>outside := w', vault_infos := []\<rparr>)"
      using s3(1) by (simp add: cm_inv_def handles_def)
    then have "started_from s (s3\<lparr>outside := w', vault_infos := []\<rparr>)"
      using same s3 by (simp add: started_from_def same_vaults_def)
    then show ?thesis using ReadConfig_started [OF 3(2)] by (rule started_from_trans)
  qed
qed

lemma CheckForUpdates_started:
  assumes "CheckForUpdates env sched ec s = Inr s'" and "sched_ok sched" and "cm_inv s"
  shows "started_from s s'"
proof -
  consider "s' = s" | s1 where "UpdateExecutor env sched s = Inr s1" "s' = s1\<lparr>update_timer := Some (update_interval s1)\<rparr>"
    using assms(1) by (auto simp: CheckForUpdates_def and_then_Inr split: if_splits)
  then show ?thesis
  proof cases
    case (2 s1)
    have "same_vaults s1 s'" by (simp add: 2 same_vaults_def)
    with UpdateExecutor_started [OF 2(1) assms(2,3)] show ?thesis
      using started_from_trans started_from_same by blast
  qed simp
qed

lemma Initialise_started:
  assumes init: "Initialise env sched s = Some (Inr s')" and "sched_ok sched" and "cm_inv s"
  shows "started_from s s'"
proof -
  let ?r = "if \<not> fst (fs_exists env (config_file_path s) (outside s))
      then create_config_retrying env s else Some (True, s)"
  obtain created s1 where s1: "?r = Some (created, s1)"
    using init by (cases ?r) (auto simp: Initialise_def simp del: if_split split: if_splits(2))
  then have same1: "same_vaults s s1"
    by (auto simp: same_vaults_only_config dest: create_config_retrying_frame split: if_splits)
  show ?thesis
  proof (cases created)
    case False
    with init s1 have "s' = s1" by (auto simp: Initialise_def split: if_splits)
    with same1 show ?thesis by (simp add: started_from_same)
  next
    case True
    with init s1 obtain listening s2 where s2: "listen_retrying env s1 = Some (Inr (listening, s2))"
      by (auto simp: Initialise_def split: if_splits option.splits sum.splits)
    then have same2: "same_vaults s s2"
      using listen_retrying_same same1 same_vaults_trans by blast
    show ?thesis
    proof (cases listening)
      case False
      with init s1 s2 True have "s' = s2" by (auto simp: Initialise_def split: if_splits)
      with same2 show ?thesis by (simp add: started_from_same)
    next
      case True
      with init s1 s2 \<open>created\<close> obtain s3 s4 ok where "UpdateExecutor env sched s2 = Inr s3"
          "ReadConfigFileAndStartVaults env s3 = Inr (ok, s4)"
          "s' = s4\<lparr>update_timer := Some (update_interval s4)\<rparr>"
        by (auto simp: Initialise_def and_then_Inr split: if_splits)
      moreover from this have "same_vaults s4 s'" by (simp add: same_vaults_def)
      moreover have "cm_inv s2" using same2 assms(3) by (simp add: same_vaults_def)
      ultimately show ?thesis
        using UpdateExecutor_started [OF _ assms(2)] ReadConfig_started started_from_same [OF same2]
          started_from_same started_from_trans by meson
    qed
  qed
qed

section \<open>Reachable states\<close>

text \<open>
  The states of a client manager that has handled any sequence of events without a fault.  The transport
  is arbitrary at first: the constructor leaves it null.  The world outside may change at any time.
\<close>

inductive cm_reachable :: "('w, 'p) env \<Rightarrow> ('w, 'p) ClientManager \<Rightarrow> bool" for env where
  constructed: "cm_reachable env ((new_ClientManager env w)\<lparr>transport := T\<rparr>)"
| initialised: "cm_reachable env s \<Longrightarrow> sched_ok sched \<Longrightarrow> Initialise env sched s = Some (Inr s') \<Longrightarrow>
     fits_between (process_manager s) (process_manager s') \<Longrightarrow> cm_reachable env s'"
| received: "cm_reachable env s \<Longrightarrow> sched_ok sched \<Longrightarrow> has_room (process_manager s) \<Longrightarrow>
     HandleReceivedMessage env sched message peer s = Some (Inr s') \<Longrightarrow> cm_reachable env s'"
| checked: "cm_reachable env s \<Longrightarrow> sched_ok sched \<Longrightarrow> CheckForUpdates env sched ec s = Inr s' \<Longrightarrow>
     fits_between (process_manager s) (process_manager s') \<Longrightarrow> cm_reachable env s'"
| restarted: "cm_reachable env s \<Longrightarrow> RestartVault env nm s = Inr s' \<Longrightarrow> cm_reachable env s'"
| stopped: "cm_reachable env s \<Longrightarrow> sched_ok sched \<Longrightarrow> StopAllVaults env sched s = Inr s' \<Longrightarrow>
     cm_reachable env s'"
| ran: "cm_reachable env s \<Longrightarrow> RunProcess_step t (process_manager s) = Inr pm \<Longrightarrow>
     cm_reachable env (s\<lparr>process_manager := pm\<rparr>)"
| world: "cm_reachable env s \<Longrightarrow> cm_reachable env (s\<lparr>outside := w\<rparr>)"

lemma cm_reachable_inv: "cm_reachable env s \<Longrightarrow> cm_inv s"
proof (induction rule: cm_reachable.induct)
  case (initialised s sched s')
  then show ?case using Initialise_started unfolding started_from_def by blast
next
  case (received s sched message peer s')
  show ?case by (rule HandleReceivedMessage_inv [OF received.IH received.hyps(3,2,4)])
next
  case (checked s sched ec s')
  then show ?case using CheckForUpdates_started unfolding started_from_def by blast
next
  case (restarted s nm s')
  then consider "s' = s" | i where "s' = s\<lparr>process_manager := StartProcess i (process_manager s)\<rparr>"
    by (auto simp: RestartVault_def and_then_Inr split: option.splits)
  then show ?case
    using restarted cm_inv_process_manager [OF restarted.IH pm_inv_StartProcess [OF cm_inv_pm_inv [OF restarted.IH]]]
    by cases simp_all
next
  case (stopped s sched s')
  then show ?case
    using stop_vaults_from_inv [of env sched "[0..<length (vault_infos s)]" s s'] by (simp add: StopAllVaults_def)
next
  case (ran s t pm)
  then show ?case
    using pm_inv_RunProcess_step [OF cm_inv_pm_inv [OF ran.IH] ran.hyps(2)] RunProcess_step_sched [OF ran.hyps(2)]
    by (simp add: cm_inv_process_manager)
qed simp_all

section \<open>Start-up in full\<close>

lemma Initialise_listening:
  assumes "transport s \<noteq> None" and "fst (fs_exists env (config_file_path s) (outside s))"
    and "ListenForMessages env s = Some (Inr (True, s1))"
  shows "Initialise env sched s =
    Some (and_then (UpdateExecutor env sched s1) (\<lambda>s. and_then (ReadConfigFileAndStartVaults env s)
      (\<lambda>(_, s). Inr (s\<lparr>update_timer := Some (update_interval s)\<rparr>))))"
  using assms by (auto simp: Initialise_def listen_retrying.simps)

text \<open>An update that brings a new vault executable, before any vault or client is known.\<close>

lemma UpdateExecutor_restarts:
  assumes "Update env (outside s) = ((kSuccess, updated), w)"
    and "find_if (\<lambda>p. path_stem env p = kVaultName) updated = Some it" and "updated ! it \<noteq> []"
    and "vault_infos s = []" and "client_ports_and_versions s = []"
  shows "UpdateExecutor env sched s =
    and_then (ReadConfigFileAndStartVaults env (s\<lparr>outside :=
      fs_rename env (updated ! it) (path_join env (GetAppInstallDir env) kVaultName) w\<rparr>)) (\<lambda>(_, s). Inr s)"
proof -
  have "find_if (IsInstaller env) updated = None"
    by (simp add: find_if_None IsInstaller_never)
  moreover have same: "s\<lparr>outside := w', vault_infos := []\<rparr> = s\<lparr>outside := w'\<rparr>" for w'
    using assms(4) by simp
  ultimately show ?thesis
    using assms by (simp add: UpdateExecutor_def StopAllVaults_def same)
qed

section \<open>Properties\<close>

text \<open>
  C1: after any sequence of start-ups, messages of any type and content, checks for updates, restarts
  and stops of vaults and steps of the threads that run them, each vault that the client manager knows
  has a pmid and a process of its own in the table of the process manager, no two processes of the
  table have the same index, and the registered clients are in the order of their ports.
\<close>

theorem client_manager_consistent:
  assumes "cm_reachable env s" and "k < length (vault_infos s)"
  shows "pmid (vault_infos s ! k) \<noteq> None \<and>
    info_of (process_manager s) (process_index (vault_infos s ! k)) \<noteq> None \<and>
    (\<forall>j < length (vault_infos s). j \<noteq> k \<longrightarrow>
       process_index (vault_infos s ! j) \<noteq> process_index (vault_infos s ! k)) \<and>
    distinct (map index (processes (process_manager s))) \<and>
    sorted_wrt (<) (map fst (client_ports_and_versions s))"
proof -
  have inv: "cm_inv s" using assms(1) by (rule cm_reachable_inv)
  then have "distinct (map process_index (vault_infos s))"
    "process_index (vault_infos s ! k) \<in> known (process_manager s)"
    using assms(2) by (auto simp: cm_inv_def handles_def)
  then show ?thesis
    using inv assms(2) info_of_None [of "process_manager s"]
    by (auto simp: cm_inv_def pm_inv_def map_ok_def distinct_conv_nth)
qed

definition recorded ::
  "('w, 'p) env \<Rightarrow> 'p VaultInfo \<Rightarrow> bytes option \<times> path" where
  "recorded env info = (map_option (SerialisePmid env) (pmid info), chunkstore_path info)"


text \<open>A start-up that finds one recorded vault; in \<open>updating_env\<close> there is a new vault executable.\<close>

definition demo_recorded :: ClientManagerConfig where
  "demo_recorded = \<lparr>cfg_update_interval = Some 300, cfg_bootstrap_endpoints = Some empty_bootstrap,
     cfg_vault_info = [\<lparr>vip_pmid = ''pkey'', vip_chunkstore_path = ''/data/c'',
       vip_requested_to_run = True, vip_version = 0\<rparr>], cfg_vault_permissions = None\<rparr>"

definition demo_installed :: "(world, string) ClientManager" where
  "demo_installed = (new_ClientManager demo_env demo_world)\<lparr>transport := Some new_LocalTcpTransport,
     outside := demo_world\<lparr>files := [(config_file_path (new_ClientManager demo_env demo_world),
       SerializeAsString (pb_Config wire_protobuf) demo_recorded)]\<rparr>\<rparr>"

definition updating_env :: "(world, string) env" where
  "updating_env = demo_env\<lparr>Update := \<lambda>w. ((kSuccess, [''vault'']), w)\<rparr>"

definition demo_listening :: "(world, string) ClientManager" where
  "demo_listening = demo_installed\<lparr>transport :=
     Some (new_LocalTcpTransport\<lparr>acceptor := Some 5483, accepting := True\<rparr>), local_port := 5483\<rparr>"

lemma demo_installed_facts:
  "cm_inv demo_installed" "transport demo_installed = Some new_LocalTcpTransport"
  "vault_infos demo_installed = []" "client_ports_and_versions demo_installed = []"
  "current_max_id (process_manager demo_installed) = 0" "known (process_manager demo_installed) = {}"
  "map_of (files (outside demo_installed)) (config_file_path demo_installed) =
     Some (SerializeAsString (pb_Config wire_protobuf) demo_recorded)"
  by (simp_all add: demo_installed_def)
    (simp_all add: new_ClientManager_def new_ProcessManager_def known_def)

lemma demo_paths [simp]: "path_stem demo_env p = p" "fs_rename demo_env p q w = w"
  by (simp_all add: demo_env_def)

lemma updating_env_simps [simp]:
  "path_stem updating_env p = p" "fs_rename updating_env p q w = w" "pb updating_env = wire_protobuf"
  "Update updating_env w = ((kSuccess, [''vault'']), w)"
  by (simp_all add: updating_env_def demo_env_def)

lemma demo_listens:
  assumes "env \<in> {demo_env, updating_env}"
  shows "ListenForMessages env demo_installed = Some (Inr (True, demo_listening))"
  using assms
  by (auto simp: ListenForMessages_def demo_installed_def demo_listening_def new_ClientManager_def
      kDefaultPort_def StartListening_def DoStartListening_def updating_env_def new_LocalTcpTransport_def
      listen_loop.simps listening_port_def)


theorem client_manager_consistent_witness:
  "\<exists>s'. Initialise demo_env (\<lambda>pm. pm) demo_installed = Some (Inr s') \<and> length (vault_infos s') = 1 \<and>
     info_of (process_manager s') (process_index (vault_infos s' ! 0)) \<noteq> None"
proof -
  have update: "UpdateExecutor demo_env (\<lambda>pm. pm) demo_listening = Inr demo_listening"
    by (simp add: UpdateExecutor_def return_code_defs)
  have listening: "cm_inv demo_listening" "vault_infos demo_listening = []"
      "current_max_id (process_manager demo_listening) = 0" "known (process_manager demo_listening) = {}"
      "outside demo_listening = outside demo_installed"
      "config_file_path demo_listening = config_file_path demo_installed"
    using demo_installed_facts by (simp_all add: demo_listening_def)
  have exe: "SetExecutablePath demo_env (path_join demo_env (GetAppInstallDir demo_env) kVaultName)
      (outside demo_listening) new_Process = (True, \<lparr>args = [''/opt/vault''], name = ''/opt/vault''\<rparr>)"
    by (simp add: SetExecutablePath_def kVaultName_def AddArgument_def new_Process_def)
  have read: "ReadFile demo_env (config_file_path demo_listening) (outside demo_listening) =
      Some (SerializeAsString (pb_Config (pb demo_env)) demo_recorded)"
    using demo_installed_facts(7) by (simp add: listening)
  have recorded_ok: "config_initialised demo_recorded"
    by (simp add: config_initialised_def demo_recorded_def)
  obtain s1 where s1: "ReadConfigFileAndStartVaults demo_env demo_listening = Inr (True, s1)"
      "length (vault_infos s1) = 1"
    using ReadConfig_result [OF _ demo_passport_ok listening(1) read, of "\<lparr>args = [''/opt/vault''], name = ''/opt/vault''\<rparr>"] exe
    by (auto simp: config_initialised_def demo_recorded_def listening)
  let ?s = "s1\<lparr>update_timer := Some (update_interval s1)\<rparr>"
  have init: "Initialise demo_env (\<lambda>pm. pm) demo_installed = Some (Inr ?s)"
    by (subst Initialise_listening [OF _ _ demo_listens])
      (simp_all add: demo_installed_facts update s1)
  have "\<exists>b i. start_vaults demo_env (cfg_vault_info demo_recorded)
      (LoadBootstrapEndpoints b (demo_listening\<lparr>update_interval := i\<rparr>)) = Inr s1"
    using s1(1) read recorded_ok by (auto simp: ReadConfigFileAndStartVaults_def Let_def and_then_Inr)
  then have "card (known (process_manager s1)) \<le> 1"
    using start_vaults_card
    by (fastforce simp: listening LoadBootstrapEndpoints_def demo_recorded_def)
  then have "fits_between (process_manager demo_installed) (process_manager ?s)"
    by (simp add: fits_between_def demo_installed_facts)
  moreover have "cm_reachable demo_env demo_installed"
    unfolding demo_installed_def by (rule cm_reachable.world [OF cm_reachable.constructed])
  ultimately have "cm_reachable demo_env ?s"
    using cm_reachable.initialised [OF _ sched_ok_id init] by blast
  from client_manager_consistent [OF this, of 0] s1(2) init show ?thesis by auto
qed

end
