(* ===== verification/Controller_Requests.thy ===== *)
theory Controller_Requests
  imports Client_Manager
begin

text \<open>
  What the client controller and the vault controller have in common: the request over a transport of
  its own, the loop that reads bootstrap endpoints from a response, and time durations.
\<close>

section \<open>Requests\<close>

text \<open>
  A request to the client manager: \<open>None\<close> when the new transport cannot connect, otherwise what arrives
  before the wait ends.
\<close>

definition request_manager ::
  "('w, 'p) env \<Rightarrow> port \<Rightarrow> bytes \<Rightarrow> 'w \<Rightarrow> peer_reply option \<times> 'w" where
  "request_manager env manager message w =
     (let (result, request_transport, w) = Connect env manager new_LocalTcpTransport w
      in if result \<noteq> kSuccess then (None, w)
         else let (reply, w) = SendAndWait env message manager request_transport w
           in (Some reply, w))"

section \<open>Bootstrap endpoints\<close>

text \<open>\<open>None\<close>: the address does not parse and \<open>from_string\<close> throws.\<close>

definition GetEndpoint :: "('w, 'p) env \<Rightarrow> string \<Rightarrow> port \<Rightarrow> EndPoint option" where
  "GetEndpoint env ip prt = map_option (\<lambda>address. (address, prt)) (address_from_string env ip)"

text \<open>
  The loop over the first \<open>min(ip_size, port_size)\<close> endpoints of a response: each is appended, and one
  whose address does not parse is skipped.
\<close>

fun push_endpoints ::
  "('w, 'p) env \<Rightarrow> bytes list \<Rightarrow> 32 word list \<Rightarrow> EndPoint list \<Rightarrow> EndPoint list" where
  "push_endpoints env (ip # ips) (prt # prts) eps =
     push_endpoints env ips prts
       (case GetEndpoint env ip (ucast prt) of Some e \<Rightarrow> eps @ [e] | None \<Rightarrow> eps)"
| "push_endpoints env _ _ eps = eps"

section \<open>Time durations\<close>

datatype time_duration = neg_infin | pos_infin | seconds int

section \<open>Lemmas\<close>

text \<open>The ports of the client manager survive the \<open>uint32\<close> fields of the messages.\<close>

lemma ucast_port [simp]: "ucast (ucast (p :: port) :: 32 word) = p"
  by (rule ucast_up_ucast_id) (simp add: is_up)

text \<open>All endpoints whose addresses are printed addresses arrive, in order.\<close>

lemma push_endpoints_printed:
  "(\<And>ip prt. (ip, prt) \<in> set es \<Longrightarrow> address_from_string env ip = Some ip) \<Longrightarrow>
     push_endpoints env (map fst es) (map (\<lambda>e. ucast (snd e)) es) eps = eps @ es"
proof (induction es arbitrary: eps)
  case (Cons e es)
  obtain ip prt where e: "e = (ip, prt)" by fastforce
  with Cons.prems [of ip prt] have "GetEndpoint env ip prt = Some e" by (simp add: GetEndpoint_def)
  moreover have "push_endpoints env (map fst es) (map (\<lambda>e. ucast (snd e)) es) (eps @ [e]) = (eps @ [e]) @ es"
    using Cons.prems by (intro Cons.IH) auto
  ultimately show ?case using e by simp
qed simp

text \<open>A message that fits is sent on the connection that was just made.\<close>

definition fits :: "bytes \<Rightarrow> bool" where
  "fits message \<longleftrightarrow> int (length message) \<le> kMaxTransportMessageSize"

lemma map_assign_mem: "(k, v) \<in> set (map_assign k v m)"
  by (induction m) auto

lemma SendAndWait_connected:
  assumes "Connect env manager T0 w = (kSuccess, T, w')" and "fits message"
  shows "SendAndWait env message manager T w' = await_reply env manager message w'"
proof -
  have "length message \<le> 67108864" using assms(2) by (simp add: fits_def kMaxTransportMessageSize_def)
  then have "sint (word_of_nat (length message) :: 32 word) = int (length message)"
    by (simp add: signed_of_nat signed_take_bit_int_eq_self)
  then have "Send message manager T = DoSend message manager T"
    using assms(2) by (simp add: Send_def fits_def)
  moreover obtain a c where "(a, c) \<in> set (connections T)" "peer_port c = manager"
    using assms(1) map_assign_mem
    by (fastforce simp: Connect_def TcpConnection_Connect_def DoInsertConnection_def peer_port_def
        StartReceiving_def StartReadSize_def Let_def split: prod.splits if_splits)
  then obtain itr where "find_if (\<lambda>(a, c). peer_port c = manager) (connections T) = Some itr"
    using find_if_ex [of "(a, c)" "connections T" "\<lambda>(a, c). peer_port c = manager"] by auto
  then have "errors (DoSend message manager T) = errors T" by (simp add: DoSend_def)
  ultimately show ?thesis by (simp add: SendAndWait_def)
qed

lemma request_manager_answered:
  assumes "tcp_connect env manager w = (False, w1)" and "fits message"
    and "await_reply env manager message w1 = (reply, w2)"
  shows "request_manager env manager message w = (Some reply, w2)"
proof -
  obtain T where "Connect env manager new_LocalTcpTransport w = (kSuccess, T, w1)"
    using assms(1) by (simp add: Connect_def TcpConnection_Connect_def Let_def)
  with SendAndWait_connected [OF this assms(2)] assms(3) show ?thesis
    by (simp add: request_manager_def)
qed

lemma request_manager_refused:
  "tcp_connect env manager w = (True, w1) \<Longrightarrow> request_manager env manager message w = (None, w1)"
  by (simp add: request_manager_def Connect_def TcpConnection_Connect_def)

end
