(* ===== verification/Client_Controller.thy ===== *)
theory Client_Controller
  imports Controller_Requests
begin

text \<open>
  \<open>client_controller.h\<close> and \<open>client_controller.cc\<close>, as the release build has them (\<open>TESTING\<close> undefined):
  the part of the client manager's protocol that runs inside a client.  As in the theory of the vault
  controller, the callback that a handler is given is represented by the value it is called with.
  \<open>raised\<close> holds the arguments that the slot of \<open>on_new_version_available_\<close> was called with, once it is
  connected.
\<close>

section \<open>State\<close>

datatype State = kInitialising | kVerified | kFailed

record ('w, 'p) ClientController =
  cc_client_manager_port :: port
  cc_local_port :: port
  slot_connected :: bool
  raised :: "string list"
  bootstrap_nodes :: "EndPoint list"
  joining_vaults :: "(bytes, bool) std_map"
  receiving_transport :: LocalTcpTransport
  cc_outside :: 'w

definition on_new_version_available ::
  "string \<Rightarrow> ('w, 'p) ClientController \<Rightarrow> ('w, 'p) ClientController" where
  "on_new_version_available file s = (if slot_connected s then s\<lparr>raised := raised s @ [file]\<rparr> else s)"

definition BootstrapEndpoints :: "('w, 'p) ClientController \<Rightarrow> EndPoint list" where
  "BootstrapEndpoints s = bootstrap_nodes s"

section \<open>Registration\<close>

text \<open>
  The loop of \<open>FindNextAcceptingPort\<close> after an attempt with \<open>result\<close>: \<open>manager\<close> is a \<open>uint16_t\<close> and wraps,
  the bound is computed as an \<open>int\<close>.  The port that accepted, if any.
\<close>

partial_function (option) accepting_loop ::
  "('w, 'p) env \<Rightarrow> port \<Rightarrow> port \<Rightarrow> int \<Rightarrow> LocalTcpTransport \<Rightarrow> 'w \<Rightarrow>
     (port option \<times> LocalTcpTransport \<times> 'w) option" where
  "accepting_loop env base manager result T w =
     (if result = kSuccess then Some (Some manager, T, w)
      else
        let manager = manager + 1
        in if uint manager > uint base + uint kMaxRangeAboveDefaultPort then Some (None, T, w)
           else let (result, T, w) = Connect env manager T w
             in accepting_loop env base manager result T w)"

declare accepting_loop.simps [code]

definition FindNextAcceptingPort ::
  "('w, 'p) env \<Rightarrow> LocalTcpTransport \<Rightarrow> ('w, 'p) ClientController \<Rightarrow>
     (bool \<times> LocalTcpTransport \<times> ('w, 'p) ClientController) option" where
  "FindNextAcceptingPort env request_transport s =
     (let base = cc_client_manager_port s;
          (result, T, w) = Connect env base request_transport (cc_outside s)
      in map_option (\<lambda>(found, T, w).
           case found of
             None \<Rightarrow> (False, T, s\<lparr>cc_outside := w\<rparr>)
           | Some manager \<Rightarrow> (True, T, s\<lparr>cc_outside := w, cc_client_manager_port := manager\<rparr>))
         (accepting_loop env base base result T w))"

text \<open>The final state of the registration, the path of a new installer, and the controller.\<close>

definition HandleRegisterResponse ::
  "('w, 'p) env \<Rightarrow> bytes \<Rightarrow> ('w, 'p) ClientController \<Rightarrow> State \<times> string \<times> ('w, 'p) ClientController" where
  "HandleRegisterResponse env message s =
     (case UnwrapMessage (pb env) message of
        (ok, type, payload) \<Rightarrow>
          if \<not> ok then (kFailed, [], s)
          else
            let (parsed, response) = ParseFromString (pb_ClientRegistrationResponse (pb env)) payload
            in if \<not> parsed then (kFailed, [], s)
               else
                 let installer =
                       (case crs_path_to_new_installer response of
                          None \<Rightarrow> []
                        | Some new_version \<Rightarrow>
                            let (exists, error_code) = fs_exists env new_version (cc_outside s)
                            in if \<not> exists \<or> error_code then [] else new_version)
                 in (kVerified, installer, s\<lparr>bootstrap_nodes := push_endpoints env
                      (crs_bootstrap_endpoint_ip response) (crs_bootstrap_endpoint_port response)
                      (bootstrap_nodes s)\<rparr>))"

definition registration_request :: "('w, 'p) env \<Rightarrow> ('w, 'p) ClientController \<Rightarrow> bytes" where
  "registration_request env s =
     WrapMessage (pb env) kClientRegistrationRequest
       (SerializeAsString (pb_ClientRegistrationRequest (pb env))
         \<lparr>crq_listening_port = ucast (cc_local_port s),
          crq_version = VersionToInt env (kApplicationVersion env)\<rparr>)"

text \<open>The loop of \<open>ConnectToClientManager\<close>: after a timeout the search starts again at the same port.\<close>

partial_function (option) register_loop ::
  "('w, 'p) env \<Rightarrow> LocalTcpTransport \<Rightarrow> ('w, 'p) ClientController \<Rightarrow>
     (State \<times> string \<times> ('w, 'p) ClientController) option" where
  "register_loop env T s =
     (case FindNextAcceptingPort env T s of
        None \<Rightarrow> None
      | Some (found, T, s) \<Rightarrow>
          if \<not> found then Some (kInitialising, [], s)
          else
            let request = registration_request env s;
                (reply, w) = SendAndWait env request (cc_client_manager_port s) T (cc_outside s);
                T = Send request (cc_client_manager_port s) T;
                s = s\<lparr>cc_outside := w\<rparr>
            in case reply of
                 Reply message \<Rightarrow> Some (HandleRegisterResponse env message s)
               | SendFailed \<Rightarrow> Some (kFailed, [], s)
               | NoReply \<Rightarrow> register_loop env T s)"

declare register_loop.simps [code]

definition ConnectToClientManager ::
  "('w, 'p) env \<Rightarrow> ('w, 'p) ClientController \<Rightarrow>
     (bool \<times> string \<times> ('w, 'p) ClientController) option" where
  "ConnectToClientManager env s =
     map_option (\<lambda>(state, path_to_new_installer, s). (state = kVerified, path_to_new_installer, s))
       (register_loop env new_LocalTcpTransport s)"

definition new_ClientController ::
  "('w, 'p) env \<Rightarrow> 'w \<Rightarrow> (fault + ('w, 'p) ClientController) option" where
  "new_ClientController env w =
     (case StartControllerListeningPort env new_LocalTcpTransport w of
        Inl e \<Rightarrow> Some (Inl e)
      | Inr (p, T, w) \<Rightarrow>
          map_option (\<lambda>(connected, path_to_new_installer, s).
              if \<not> connected then Inl (Exception uninitialised)
              else
                let s = s\<lparr>slot_connected := True\<rparr>
                in Inr (if path_to_new_installer \<noteq> [] then on_new_version_available path_to_new_installer s
                        else s))
            (ConnectToClientManager env
              \<lparr>cc_client_manager_port = kDefaultPort env, cc_local_port = p, slot_connected = False,
               raised = [], bootstrap_nodes = [], joining_vaults = [], receiving_transport = T,
               cc_outside = w\<rparr>))"

definition delete_ClientController :: "('w, 'p) ClientController \<Rightarrow> LocalTcpTransport" where
  "delete_ClientController s = StopListening (receiving_transport s)"

section \<open>Requests to the client\<close>

definition HandleNewVersionAvailable ::
  "('w, 'p) env \<Rightarrow> bytes \<Rightarrow> ('w, 'p) ClientController \<Rightarrow> bytes \<times> ('w, 'p) ClientController" where
  "HandleNewVersionAvailable env request s =
     (let (parsed, new_version_available) = ParseFromString (pb_NewVersionAvailable (pb env)) request;
          file = nva_new_version_filepath new_version_available;
          acknowledged =
            (if \<not> parsed then []
             else let (exists, error_code) = fs_exists env file (cc_outside s)
               in if \<not> exists \<or> error_code then [] else file)
      in (WrapMessage (pb env) kNewVersionAvailableAck
            (SerializeAsString (pb_NewVersionAvailableAck (pb env))
              \<lparr>nvk_new_version_filepath = acknowledged\<rparr>),
          on_new_version_available file s))"

text \<open>\<open>Identity\<close> throws when the string does not have the size of an identity.\<close>

definition HandleVaultJoinConfirmation ::
  "('w, 'p) env \<Rightarrow> bytes \<Rightarrow> ('w, 'p) ClientController \<Rightarrow> fault + bytes \<times> ('w, 'p) ClientController" where
  "HandleVaultJoinConfirmation env request s =
     (let (parsed, vault_join_confirmation) = ParseFromString (pb_VaultJoinConfirmation (pb env)) request;
          ack = (\<lambda>b. WrapMessage (pb env) kVaultJoinConfirmationAck
            (SerializeAsString (pb_VaultJoinConfirmationAck (pb env)) \<lparr>vjca_ack = b\<rparr>))
      in if \<not> parsed then Inr (ack False, s)
         else
           let nm = vjc_identity vault_join_confirmation
           in if \<not> valid_Identity env nm then Inl (Exception invalid_string_size)
              else if map_find nm (joining_vaults s) = None then Inr (ack False, s)
              else Inr (ack True, s\<lparr>joining_vaults := map_assign nm True (joining_vaults s)\<rparr>))"

definition ClientController_HandleReceivedRequest ::
  "('w, 'p) env \<Rightarrow> bytes \<times> port \<Rightarrow> ('w, 'p) ClientController \<Rightarrow> fault + ('w, 'p) ClientController" where
  "ClientController_HandleReceivedRequest env received s =
     (case UnwrapMessage (pb env) (fst received) of
        (ok, type, payload) \<Rightarrow>
          if \<not> ok then Inr s
          else case type of
            kNewVersionAvailable \<Rightarrow>
              (let (response, s) = HandleNewVersionAvailable env payload s
               in Inr (s\<lparr>receiving_transport := Send response (snd received) (receiving_transport s)\<rparr>))
          | kVaultJoinConfirmation \<Rightarrow>
              and_then (HandleVaultJoinConfirmation env payload s) (\<lambda>(response, s).
                Inr (s\<lparr>receiving_transport := Send response (snd received) (receiving_transport s)\<rparr>))
          | _ \<Rightarrow> Inr s)"

text \<open>The requests that arrive, with the ports of their senders, while the client waits.\<close>

fun receive_all ::
  "('w, 'p) env \<Rightarrow> (bytes \<times> port) list \<Rightarrow> ('w, 'p) ClientController \<Rightarrow> fault + ('w, 'p) ClientController"
where
  "receive_all env [] s = Inr s"
| "receive_all env (m # ms) s =
     and_then (ClientController_HandleReceivedRequest env m s) (receive_all env ms)"

section \<open>Vaults\<close>

text \<open>The value that the callback is called with; the response type is a parameter of the template.\<close>

definition HandleStartStopVaultResponse ::
  "('w, 'p) env \<Rightarrow> 'm codec \<Rightarrow> ('m \<Rightarrow> bool) \<Rightarrow> bytes \<Rightarrow> bool" where
  "HandleStartStopVaultResponse env ResponseType result message =
     (case UnwrapMessage (pb env) message of
        (ok, type, payload) \<Rightarrow>
          if \<not> ok then False
          else
            let (parsed, vault_response) = ParseFromString ResponseType payload
            in if \<not> parsed then False else result vault_response)"

definition start_request ::
  "('w, 'p) env \<Rightarrow> 'p \<Rightarrow> bytes \<Rightarrow> path \<Rightarrow> bytes \<Rightarrow> ('w, 'p) ClientController \<Rightarrow> StartVaultRequest" where
  "start_request env key account chunkstore token s =
     \<lparr>svq_account_name = account, svq_pmid = SerialisePmid env key, svq_token = token,
      svq_token_signature = Sign env token key, svq_credential_change = False,
      svq_client_port = ucast (cc_local_port s),
      svq_chunkstore_path = (if chunkstore \<noteq> [] then Some chunkstore else None),
      svq_identity_index = None\<rparr>"

text \<open>
  The second half of \<open>StartVault\<close>: the vault is entered as joining, the requests \<open>late\<close> arrive during the
  wait, and the entry is removed only when the vault has joined.
\<close>

definition await_join ::
  "('w, 'p) env \<Rightarrow> (bytes \<times> port) list \<Rightarrow> bytes \<Rightarrow> ('w, 'p) ClientController \<Rightarrow>
     fault + bool \<times> ('w, 'p) ClientController" where
  "await_join env late nm s =
     and_then (receive_all env late (s\<lparr>joining_vaults := map_assign nm False (joining_vaults s)\<rparr>)) (\<lambda>s.
       if map_find nm (joining_vaults s) \<noteq> Some True then Inr (False, s)
       else Inr (True, s\<lparr>joining_vaults := map_erase nm (joining_vaults s)\<rparr>))"

text \<open>The requests \<open>early\<close> arrive while \<open>StartVault\<close> waits for the response to its own request.\<close>

definition StartVault ::
  "('w, 'p) env \<Rightarrow> (bytes \<times> port) list \<Rightarrow> (bytes \<times> port) list \<Rightarrow> 'p \<Rightarrow> bytes \<Rightarrow> path \<Rightarrow>
     ('w, 'p) ClientController \<Rightarrow> fault + bool \<times> ('w, 'p) ClientController" where
  "StartVault env early late key account chunkstore s =
     (let (token, w) = RandomString env 16 (cc_outside s);
          (reply, w) = request_manager env (cc_client_manager_port s)
            (WrapMessage (pb env) kStartVaultRequest
              (SerializeAsString (pb_StartVaultRequest (pb env))
                (start_request env key account chunkstore token s))) w;
          s = s\<lparr>cc_outside := w\<rparr>
      in case reply of
           None \<Rightarrow> Inr (False, s)
         | Some reply \<Rightarrow>
             and_then (receive_all env early s) (\<lambda>s.
               let local_result = (case reply of
                     Reply message \<Rightarrow> HandleStartStopVaultResponse env
                       (pb_StartVaultResponse (pb env)) svs_result message
                   | _ \<Rightarrow> False)
               in if \<not> local_result then Inr (False, s)
                  else await_join env late (pmid_name env key) s))"

definition ClientController_StopVault ::
  "('w, 'p) env \<Rightarrow> bytes \<Rightarrow> bytes \<Rightarrow> bytes \<Rightarrow> ('w, 'p) ClientController \<Rightarrow>
     bool \<times> ('w, 'p) ClientController" where
  "ClientController_StopVault env data signature identity s =
     (let (reply, w) = request_manager env (cc_client_manager_port s)
            (WrapMessage (pb env) kStopVaultRequest
              (SerializeAsString (pb_StopVaultRequest (pb env))
                \<lparr>spq_data = data, spq_signature = signature, spq_identity = identity\<rparr>)) (cc_outside s)
      in (case reply of
            Some (Reply message) \<Rightarrow> HandleStartStopVaultResponse env
              (pb_StopVaultResponse (pb env)) sps_result message
          | _ \<Rightarrow> False, s\<lparr>cc_outside := w\<rparr>))"

section \<open>Update interval\<close>

definition HandleUpdateIntervalResponse :: "('w, 'p) env \<Rightarrow> bytes \<Rightarrow> time_duration" where
  "HandleUpdateIntervalResponse env message =
     (case UnwrapMessage (pb env) message of
        (ok, type, payload) \<Rightarrow>
          if \<not> ok then pos_infin
          else
            let (parsed, response) = ParseFromString (pb_UpdateIntervalResponse (pb env)) payload
            in if \<not> parsed then pos_infin
               else if uis_update_interval response = 0 then pos_infin
               else seconds (uint (uis_update_interval response)))"

text \<open>\<open>None\<close> is \<open>pos_infin\<close>, the request to read the interval; \<open>total_seconds\<close> is converted to \<open>uint32\<close>.\<close>

definition SetOrGetUpdateInterval ::
  "('w, 'p) env \<Rightarrow> int option \<Rightarrow> ('w, 'p) ClientController \<Rightarrow> time_duration \<times> ('w, 'p) ClientController"
where
  "SetOrGetUpdateInterval env interval s =
     (let (reply, w) = request_manager env (cc_client_manager_port s)
            (WrapMessage (pb env) kUpdateIntervalRequest
              (SerializeAsString (pb_UpdateIntervalRequest (pb env))
                \<lparr>uiq_new_update_interval = map_option word_of_int interval\<rparr>)) (cc_outside s)
      in (case reply of
            Some (Reply message) \<Rightarrow> HandleUpdateIntervalResponse env message
          | _ \<Rightarrow> pos_infin, s\<lparr>cc_outside := w\<rparr>))"

definition ClientController_SetUpdateInterval ::
  "('w, 'p) env \<Rightarrow> int \<Rightarrow> ('w, 'p) ClientController \<Rightarrow> bool \<times> ('w, 'p) ClientController" where
  "ClientController_SetUpdateInterval env interval s =
     (if interval < kMinUpdateInterval \<or> interval > kMaxUpdateInterval then (False, s)
      else let (returned, s) = SetOrGetUpdateInterval env (Some interval) s
        in (returned = seconds interval, s))"

definition ClientController_GetUpdateInterval ::
  "('w, 'p) env \<Rightarrow> ('w, 'p) ClientController \<Rightarrow> time_duration \<times> ('w, 'p) ClientController" where
  "ClientController_GetUpdateInterval env s = SetOrGetUpdateInterval env None s"

section \<open>Bootstrap nodes\<close>

definition ClientController_HandleBootstrapResponse ::
  "('w, 'p) env \<Rightarrow> bytes \<Rightarrow> EndPoint list \<Rightarrow> ('w, 'p) ClientController \<Rightarrow>
     bool \<times> EndPoint list \<times> ('w, 'p) ClientController" where
  "ClientController_HandleBootstrapResponse env message eps s =
     (case UnwrapMessage (pb env) message of
        (ok, type, payload) \<Rightarrow>
          if \<not> ok then (False, eps, s)
          else
            let (parsed, response) = ParseFromString (pb_BootstrapResponse (pb env)) payload
            in if \<not> parsed then (False, eps, s)
               else
                 let eps = push_endpoints env (bts_bootstrap_endpoint_ip response)
                       (bts_bootstrap_endpoint_port response) eps
                 in (True, eps, s\<lparr>bootstrap_nodes := eps\<rparr>))"

definition ClientController_GetBootstrapNodes ::
  "('w, 'p) env \<Rightarrow> EndPoint list \<Rightarrow> ('w, 'p) ClientController \<Rightarrow>
     bool \<times> EndPoint list \<times> ('w, 'p) ClientController" where
  "ClientController_GetBootstrapNodes env eps s =
     (let (message_id, w) = RandomUint32 env (cc_outside s);
          (reply, w) = request_manager env (cc_client_manager_port s)
            (WrapMessage (pb env) kBootstrapRequest
              (SerializeAsString (pb_BootstrapRequest (pb env)) \<lparr>btq_message_id = message_id\<rparr>)) w;
          s = s\<lparr>cc_outside := w\<rparr>
      in case reply of
           Some (Reply message) \<Rightarrow> ClientController_HandleBootstrapResponse env message eps s
         | _ \<Rightarrow> (False, eps, s))"

section \<open>Joining\<close>

text \<open>The message confirms that the vault \<open>nm\<close> joined; the flag \<open>joined\<close> in it plays no part.\<close>

definition confirms :: "('w, 'p) env \<Rightarrow> bytes \<Rightarrow> bytes \<Rightarrow> bool" where
  "confirms env nm message \<longleftrightarrow>
     (case UnwrapMessage (pb env) message of
        (ok, type, payload) \<Rightarrow>
          ok \<and> type = kVaultJoinConfirmation \<and>
          fst (ParseFromString (pb_VaultJoinConfirmation (pb env)) payload) \<and>
          vjc_identity (snd (ParseFromString (pb_VaultJoinConfirmation (pb env)) payload)) = nm)"

lemma receive_joining:
  assumes "ClientController_HandleReceivedRequest env m s = Inr s'"
    and "map_find nm (joining_vaults s) = Some b"
  shows "map_find nm (joining_vaults s') = Some (b \<or> confirms env nm (fst m))"
proof -
  obtain ok type payload where u: "UnwrapMessage (pb env) (fst m) = (ok, type, payload)"
    by (cases "UnwrapMessage (pb env) (fst m)") auto
  obtain parsed c where c: "ParseFromString (pb_VaultJoinConfirmation (pb env)) payload = (parsed, c)"
    by fastforce
  show ?thesis
  proof (cases "ok \<and> type = kVaultJoinConfirmation")
    case True
    with assms u c show ?thesis
      by (auto simp: ClientController_HandleReceivedRequest_def confirms_def and_then_Inr
          HandleVaultJoinConfirmation_def Let_def split: if_splits)
  next
    case False
    with assms u show ?thesis
      by (auto simp: ClientController_HandleReceivedRequest_def confirms_def HandleNewVersionAvailable_def
          on_new_version_available_def Let_def case_prod_beta split: MessageType.splits if_splits)
  qed
qed

lemma receive_all_joining:
  assumes "receive_all env ms s = Inr s'" and "map_find nm (joining_vaults s) = Some b"
  shows "map_find nm (joining_vaults s') = Some (b \<or> (\<exists>m \<in> set ms. confirms env nm (fst m)))"
  using assms
proof (induction ms arbitrary: s b)
  case (Cons m ms)
  then obtain s1 where "ClientController_HandleReceivedRequest env m s = Inr s1"
    and rest: "receive_all env ms s1 = Inr s'"
    by (auto simp: and_then_Inr)
  with Cons.prems have "map_find nm (joining_vaults s1) = Some (b \<or> confirms env nm (fst m))"
    by (intro receive_joining)
  from Cons.IH [OF rest this] show ?case by auto
qed simp

end
