(* ===== verification/Vault_Controller.thy ===== *)
theory Vault_Controller
  imports Controller_Requests
begin

text \<open>
  \<open>vault_controller.h\<close> and \<open>vault_controller.cc\<close>: the part of the client manager's protocol that runs
  inside a vault process.  A handler of a response takes the message that arrives on the connection of the
  request; the callback it is given is represented by the value it is called with.  \<open>stops\<close> counts the
  calls of \<open>stop_callback_\<close>.
\<close>

section \<open>State\<close>

record ('w, 'p) VaultController =
  vc_process_index :: process_index
  vc_client_manager_port :: port
  vc_local_port :: port
  vc_pmid :: "'p option"
  vc_bootstrap_endpoints :: "EndPoint list"
  stops :: nat
  vc_receiving_transport :: LocalTcpTransport
  vc_outside :: 'w

section \<open>Identity\<close>

text \<open>The parse of the pmid may throw; what was read before is then lost with the controller.\<close>

definition HandleVaultIdentityResponse ::
  "('w, 'p) env \<Rightarrow> bytes \<Rightarrow> ('w, 'p) VaultController \<Rightarrow> fault + ('w, 'p) VaultController" where
  "HandleVaultIdentityResponse env message s =
     (case UnwrapMessage (pb env) message of
        (ok, type, payload) \<Rightarrow>
          if \<not> ok then Inr s
          else
            let (parsed, response) = ParseFromString (pb_VaultIdentityResponse (pb env)) payload
            in if \<not> parsed then Inr s
               else and_then (parse_pmid env (vis_pmid response)) (\<lambda>p.
                 Inr (s\<lparr>vc_pmid := Some p,
                   vc_bootstrap_endpoints := push_endpoints env (vis_bootstrap_endpoint_ip response)
                     (vis_bootstrap_endpoint_port response) (vc_bootstrap_endpoints s)\<rparr>)))"

definition identity_request :: "('w, 'p) env \<Rightarrow> port \<Rightarrow> ('w, 'p) VaultController \<Rightarrow> bytes" where
  "identity_request env listening s =
     WrapMessage (pb env) kVaultIdentityRequest
       (SerializeAsString (pb_VaultIdentityRequest (pb env))
         \<lparr>viq_process_index = vc_process_index s, viq_listening_port = ucast listening,
          viq_version = VersionToInt env (kApplicationVersion env)\<rparr>)"

text \<open>The wait ends when the pmid is set; an error of the transport is only logged.\<close>

definition RequestVaultIdentity ::
  "('w, 'p) env \<Rightarrow> port \<Rightarrow> ('w, 'p) VaultController \<Rightarrow> fault + ('w, 'p) VaultController" where
  "RequestVaultIdentity env listening s =
     (let (reply, w) = request_manager env (vc_client_manager_port s)
            (identity_request env listening s) (vc_outside s);
          s = s\<lparr>vc_outside := w\<rparr>
      in case reply of
           None \<Rightarrow> Inl (Exception uninitialised)
         | Some (Reply message) \<Rightarrow>
             and_then (HandleVaultIdentityResponse env message s) (\<lambda>s.
               if vc_pmid s = None then Inl (Exception uninitialised) else Inr s)
         | Some _ \<Rightarrow> if vc_pmid s = None then Inl (Exception uninitialised) else Inr s)"

text \<open>The constructor; \<open>callable\<close> says whether \<open>stop_callback\<close> holds a function.\<close>

definition new_VaultController ::
  "('w, 'p) env \<Rightarrow> string \<Rightarrow> bool \<Rightarrow> 'w \<Rightarrow> fault + ('w, 'p) VaultController" where
  "new_VaultController env client_manager_identifier callable w =
     (let s = \<lparr>vc_process_index = - 1, vc_client_manager_port = 0, vc_local_port = 0, vc_pmid = None,
            vc_bootstrap_endpoints = [], stops = 0, vc_receiving_transport = new_LocalTcpTransport,
            vc_outside = w\<rparr>
      in if \<not> callable then Inl (Exception invalid_parameter)
         else if client_manager_identifier = ''test'' then Inr s
         else case ParseVmidParameter client_manager_identifier of
           (Some e, _, _) \<Rightarrow> Inl (Exception e)
         | (None, i, manager) \<Rightarrow>
             and_then (StartControllerListeningPort env (vc_receiving_transport s) w) (\<lambda>(p, T, w).
               RequestVaultIdentity env p (s\<lparr>vc_process_index := i, vc_client_manager_port := manager,
                 vc_local_port := p, vc_receiving_transport := T, vc_outside := w\<rparr>)))"

definition delete_VaultController :: "('w, 'p) VaultController \<Rightarrow> LocalTcpTransport" where
  "delete_VaultController s = StopListening (vc_receiving_transport s)"

text \<open>Success flag with the two outputs; the outputs are left alone on failure.\<close>

definition GetIdentity ::
  "('w, 'p) VaultController \<Rightarrow> fault + ('p \<times> EndPoint list) option" where
  "GetIdentity s =
     (if vc_client_manager_port s = 0 then Inr None
      else case vc_pmid s of
        None \<Rightarrow> Inl NullDereference
      | Some p \<Rightarrow> Inr (Some (p, vc_bootstrap_endpoints s)))"

section \<open>Requests of the vault\<close>

text \<open>Whether the callback is called.\<close>

definition HandleVaultJoinedAck :: "('w, 'p) env \<Rightarrow> bytes \<Rightarrow> bool" where
  "HandleVaultJoinedAck env message =
     (case UnwrapMessage (pb env) message of
        (ok, type, payload) \<Rightarrow>
          ok \<and> fst (ParseFromString (pb_VaultJoinedNetworkAck (pb env)) payload))"

text \<open>
  \<open>ConfirmJoin\<close> returns nothing; the flag says whether it was told of an outcome (\<open>done\<close>) before its
  timeout.
\<close>

definition ConfirmJoin ::
  "('w, 'p) env \<Rightarrow> ('w, 'p) VaultController \<Rightarrow> bool \<times> ('w, 'p) VaultController" where
  "ConfirmJoin env s =
     (let (reply, w) = request_manager env (vc_client_manager_port s)
            (WrapMessage (pb env) kVaultJoinedNetwork
              (SerializeAsString (pb_VaultJoinedNetwork (pb env))
                \<lparr>vjn_process_index = vc_process_index s, vjn_joined = True\<rparr>)) (vc_outside s)
      in (case reply of
            None \<Rightarrow> False
          | Some (Reply message) \<Rightarrow> HandleVaultJoinedAck env message
          | Some SendFailed \<Rightarrow> True
          | Some NoReply \<Rightarrow> False, s\<lparr>vc_outside := w\<rparr>))"

text \<open>The value of the callback, the vector of the caller and the controller.\<close>

definition VaultController_HandleBootstrapResponse ::
  "('w, 'p) env \<Rightarrow> bytes \<Rightarrow> EndPoint list \<Rightarrow> ('w, 'p) VaultController \<Rightarrow>
     bool \<times> EndPoint list \<times> ('w, 'p) VaultController" where
  "VaultController_HandleBootstrapResponse env message eps s =
     (case UnwrapMessage (pb env) message of
        (ok, type, payload) \<Rightarrow>
          if \<not> ok then (False, eps, s)
          else
            let (parsed, response) = ParseFromString (pb_BootstrapResponse (pb env)) payload
            in if \<not> parsed then (False, eps, s)
               else
                 let eps = push_endpoints env (bts_bootstrap_endpoint_ip response)
                       (bts_bootstrap_endpoint_port response) eps
                 in (True, eps, s\<lparr>vc_bootstrap_endpoints := eps\<rparr>))"

definition VaultController_GetBootstrapNodes ::
  "('w, 'p) env \<Rightarrow> EndPoint list \<Rightarrow> ('w, 'p) VaultController \<Rightarrow>
     bool \<times> EndPoint list \<times> ('w, 'p) VaultController" where
  "VaultController_GetBootstrapNodes env eps s =
     (let (message_id, w) = RandomUint32 env (vc_outside s);
          (reply, w) = request_manager env (vc_client_manager_port s)
            (WrapMessage (pb env) kBootstrapRequest
              (SerializeAsString (pb_BootstrapRequest (pb env)) \<lparr>btq_message_id = message_id\<rparr>)) w;
          s = s\<lparr>vc_outside := w\<rparr>
      in case reply of
           Some (Reply message) \<Rightarrow> VaultController_HandleBootstrapResponse env message eps s
         | _ \<Rightarrow> (False, eps, s))"

definition HandleSendEndpointToClientManagerResponse :: "('w, 'p) env \<Rightarrow> bytes \<Rightarrow> bool" where
  "HandleSendEndpointToClientManagerResponse env message =
     (case UnwrapMessage (pb env) message of
        (ok, type, payload) \<Rightarrow>
          if \<not> ok then False
          else
            let (parsed, response) = ParseFromString (pb_SendEndpointResponse (pb env)) payload
            in if \<not> parsed then False else ses_result response)"

definition SendEndpointToClientManager ::
  "('w, 'p) env \<Rightarrow> EndPoint \<Rightarrow> ('w, 'p) VaultController \<Rightarrow> bool \<times> ('w, 'p) VaultController" where
  "SendEndpointToClientManager env endpoint s =
     (let (reply, w) = request_manager env (vc_client_manager_port s)
            (WrapMessage (pb env) kSendEndpointToClientManagerRequest
              (SerializeAsString (pb_SendEndpointRequest (pb env))
                \<lparr>seq_bootstrap_endpoint_ip = fst endpoint,
                 seq_bootstrap_endpoint_port = ucast (snd endpoint)\<rparr>)) (vc_outside s)
      in (case reply of
            Some (Reply message) \<Rightarrow> HandleSendEndpointToClientManagerResponse env message
          | _ \<Rightarrow> False, s\<lparr>vc_outside := w\<rparr>))"

section \<open>Requests to the vault\<close>

text \<open>
  The response that the handler builds is never serialised or sent, and the callback is called on every
  path.  The flag is what \<open>set_shutdown\<close> was called with.
\<close>

definition HandleVaultShutdownRequest ::
  "('w, 'p) env \<Rightarrow> bytes \<Rightarrow> ('w, 'p) VaultController \<Rightarrow> bool \<times> ('w, 'p) VaultController" where
  "HandleVaultShutdownRequest env request s =
     (let (parsed, vault_shutdown_request) = ParseFromString (pb_VaultShutdownRequest (pb env)) request;
          shutdown = (if \<not> parsed then False
                      else if vsq_process_index vault_shutdown_request \<noteq> vc_process_index s then False
                      else True)
      in (shutdown, s\<lparr>stops := stops s + 1\<rparr>))"

definition VaultController_HandleReceivedRequest ::
  "('w, 'p) env \<Rightarrow> bytes \<Rightarrow> ('w, 'p) VaultController \<Rightarrow> ('w, 'p) VaultController" where
  "VaultController_HandleReceivedRequest env message s =
     (case UnwrapMessage (pb env) message of
        (ok, type, payload) \<Rightarrow>
          if \<not> ok then s
          else case type of
            kVaultShutdownRequest \<Rightarrow> snd (HandleVaultShutdownRequest env payload s)
          | _ \<Rightarrow> s)"

section \<open>Lives of a controller\<close>

text \<open>The controllers that a vault process can have: the constructor, then any of the operations.\<close>

inductive vault_reachable :: "('w, 'p) env \<Rightarrow> ('w, 'p) VaultController \<Rightarrow> bool" for env where
  construct: "new_VaultController env identifier callable w = Inr s \<Longrightarrow> vault_reachable env s"
| confirm: "vault_reachable env s \<Longrightarrow> vault_reachable env (snd (ConfirmJoin env s))"
| bootstrap: "vault_reachable env s \<Longrightarrow>
    vault_reachable env (snd (snd (VaultController_GetBootstrapNodes env eps s)))"
| send_endpoint: "vault_reachable env s \<Longrightarrow>
    vault_reachable env (snd (SendEndpointToClientManager env endpoint s))"
| receive: "vault_reachable env s \<Longrightarrow>
    vault_reachable env (VaultController_HandleReceivedRequest env message s)"
| elsewhere: "vault_reachable env s \<Longrightarrow> vault_reachable env (s\<lparr>vc_outside := w\<rparr>)"

section \<open>Lemmas\<close>

text \<open>A controller that has a client manager has an identity and listens on the port it announced.\<close>

definition vc_inv :: "('w, 'p) VaultController \<Rightarrow> bool" where
  "vc_inv s \<longleftrightarrow> (vc_client_manager_port s \<noteq> 0 \<longrightarrow>
     vc_pmid s \<noteq> None \<and> acceptor (vc_receiving_transport s) = Some (vc_local_port s))"

lemma HandleVaultIdentityResponse_frame:
  assumes "HandleVaultIdentityResponse env message s = Inr s'"
  shows "vc_client_manager_port s' = vc_client_manager_port s \<and> vc_local_port s' = vc_local_port s \<and>
         vc_receiving_transport s' = vc_receiving_transport s \<and> vc_process_index s' = vc_process_index s \<and>
         stops s' = stops s"
  using assms
  by (auto simp: HandleVaultIdentityResponse_def Let_def and_then_Inr split: prod.splits if_splits)

lemma RequestVaultIdentity_frame:
  assumes "RequestVaultIdentity env p s = Inr s'"
  shows "vc_pmid s' \<noteq> None \<and> vc_client_manager_port s' = vc_client_manager_port s \<and>
         vc_local_port s' = vc_local_port s \<and> vc_receiving_transport s' = vc_receiving_transport s \<and>
         vc_process_index s' = vc_process_index s"
proof -
  obtain reply w where r: "request_manager env (vc_client_manager_port s) (identity_request env p s)
      (vc_outside s) = (reply, w)" by fastforce
  show ?thesis
  proof (cases "\<exists>message. reply = Some (Reply message)")
    case True
    then obtain message where "HandleVaultIdentityResponse env message (s\<lparr>vc_outside := w\<rparr>) = Inr s'"
      "vc_pmid s' \<noteq> None"
      using assms r by (auto simp: RequestVaultIdentity_def Let_def and_then_Inr split: if_splits)
    from HandleVaultIdentityResponse_frame [OF this(1)] this(2) show ?thesis by simp
  next
    case False
    with assms r have "s' = s\<lparr>vc_outside := w\<rparr>" "vc_pmid s \<noteq> None"
      by (auto simp: RequestVaultIdentity_def Let_def split: option.splits peer_reply.splits if_splits)
    then show ?thesis by simp
  qed
qed

lemma StartControllerListeningPort_listens:
  assumes "StartControllerListeningPort env new_LocalTcpTransport w = Inr (p, T, w')"
  shows "acceptor T = Some p"
proof -
  obtain p0 r0 T0 w0 where first: "StartListening env 0 new_LocalTcpTransport w = (p0, r0, T0, w0)"
    by (cases "StartListening env 0 new_LocalTcpTransport w") auto
  obtain p1 r1 T1 w1 where rest: "retry_listening env 10 (p0, r0, T0, w0) = (p1, r1, T1, w1)"
    by (cases "retry_listening env 10 (p0, r0, T0, w0)") auto
  have closed: "acceptor new_LocalTcpTransport = None" by (simp add: new_LocalTcpTransport_def)
  from StartListening_closed [OF first closed]
  have "r0 = kSuccess \<longrightarrow> T0 = new_LocalTcpTransport\<lparr>acceptor := Some p0, accepting := True\<rparr>"
    "r0 \<noteq> kSuccess \<longrightarrow> T0 = new_LocalTcpTransport" by simp_all
  from retry_listening_result [OF rest closed this] assms show ?thesis
    by (auto simp: StartControllerListeningPort_def first rest split: if_splits)
qed

lemma new_VaultController_inv:
  assumes "new_VaultController env identifier callable w = Inr s"
  shows "vc_inv s"
proof (cases "identifier = ''test''")
  case True
  with assms show ?thesis by (auto simp: new_VaultController_def vc_inv_def Let_def split: if_splits)
next
  case False
  with assms obtain p T w' s0 where
    "StartControllerListeningPort env new_LocalTcpTransport w = Inr (p, T, w')"
    and req: "RequestVaultIdentity env p s0 = Inr s"
    and s0: "vc_local_port s0 = p" "vc_receiving_transport s0 = T"
    by (auto simp: new_VaultController_def Let_def and_then_Inr split: if_splits prod.splits option.splits)
  then have "acceptor T = Some p" by (auto intro: StartControllerListeningPort_listens)
  with s0 RequestVaultIdentity_frame [OF req] show ?thesis by (simp add: vc_inv_def)
qed

lemma vault_operations_inv:
  assumes "vc_inv s"
  shows "vc_inv (snd (ConfirmJoin env s))"
    and "vc_inv (snd (snd (VaultController_GetBootstrapNodes env eps s)))"
    and "vc_inv (snd (SendEndpointToClientManager env endpoint s))"
    and "vc_inv (VaultController_HandleReceivedRequest env message s)"
    and "vc_inv (s\<lparr>vc_outside := w\<rparr>)"
  using assms
  by (auto simp: vc_inv_def ConfirmJoin_def VaultController_GetBootstrapNodes_def Let_def
      VaultController_HandleBootstrapResponse_def SendEndpointToClientManager_def
      VaultController_HandleReceivedRequest_def HandleVaultShutdownRequest_def
      split: prod.split option.split peer_reply.split MessageType.split)

lemma vault_reachable_inv: "vault_reachable env s \<Longrightarrow> vc_inv s"
  by (induction rule: vault_reachable.induct)
    (auto intro: vault_operations_inv dest: new_VaultController_inv)

lemma HandleVaultIdentityResponse_reads:
  assumes "protobuf_ok (pb env)" and "passport_ok env" and "vis_pmid r = SerialisePmid env p"
  shows "HandleVaultIdentityResponse env (WrapMessage (pb env) kVaultIdentityResponse
           (SerializeAsString (pb_VaultIdentityResponse (pb env)) r)) s =
         Inr (s\<lparr>vc_pmid := Some p, vc_bootstrap_endpoints := push_endpoints env
           (vis_bootstrap_endpoint_ip r) (vis_bootstrap_endpoint_port r) (vc_bootstrap_endpoints s)\<rparr>)"
  using assms by (simp add: HandleVaultIdentityResponse_def parse_pmid_def)

section \<open>Properties\<close>

text \<open>
  C33: whatever a vault process does with its controller, \<open>GetIdentity\<close> does not dereference a null
  pointer: it reports that there is no client manager, or it returns an identity.
\<close>

theorem GetIdentity_safe:
  assumes "vault_reachable env s"
  shows "GetIdentity s = (if vc_client_manager_port s = 0 then Inr None
           else Inr (Some (the (vc_pmid s), vc_bootstrap_endpoints s)))"
  using vault_reachable_inv [OF assms] by (auto simp: GetIdentity_def vc_inv_def)

theorem GetIdentity_safe_witness:
  "\<exists>s. new_VaultController demo_env ''test'' True demo_world = Inr s \<and> GetIdentity s = Inr None"
proof -
  obtain s where s: "new_VaultController demo_env ''test'' True demo_world = Inr s"
    "vc_client_manager_port s = 0"
    by (simp add: new_VaultController_def)
  from GetIdentity_safe [OF vault_reachable.construct [OF s(1)]] s show ?thesis by auto
qed

text \<open>
  A vault that is started with the parameter the process manager generates, and whose request for its
  identity is answered, knows its process index and the port of the client manager, listens on the port
  it announced, and has the pmid and the contacts of the answer.
\<close>

theorem new_VaultController_identity:
  assumes "protobuf_ok (pb env)" and "passport_ok env" and "i \<noteq> 0"
    and "StartControllerListeningPort env new_LocalTcpTransport w = Inr (p, T, w0)"
    and "request = WrapMessage (pb env) kVaultIdentityRequest
      (SerializeAsString (pb_VaultIdentityRequest (pb env)) \<lparr>viq_process_index = i,
        viq_listening_port = ucast p, viq_version = VersionToInt env (kApplicationVersion env)\<rparr>)"
    and "fits request" and "tcp_connect env manager w0 = (False, w1)"
    and "await_reply env manager request w1 = (Reply (WrapMessage (pb env) kVaultIdentityResponse
      (SerializeAsString (pb_VaultIdentityResponse (pb env)) r)), w2)"
    and "vis_pmid r = SerialisePmid env key"
  shows "new_VaultController env (GenerateVmidParameter i manager) True w =
    Inr \<lparr>vc_process_index = i, vc_client_manager_port = manager, vc_local_port = p, vc_pmid = Some key,
      vc_bootstrap_endpoints =
        push_endpoints env (vis_bootstrap_endpoint_ip r) (vis_bootstrap_endpoint_port r) [],
      stops = 0, vc_receiving_transport = T, vc_outside = w2\<rparr>"
proof -
  have "CHR ''t'' \<noteq> kSeparator \<and> \<not> isdigit (CHR ''t'')" by (simp add: kSeparator_def isdigit_def)
  then have "hd (GenerateVmidParameter i manager) \<noteq> CHR ''t''"
    using isdigit_to_string [of "hd (to_string (unat i))" "unat i"]
    by (auto simp: GenerateVmidParameter_def hd_append)
  then have "GenerateVmidParameter i manager \<noteq> ''test''" by auto
  with assms(4) vmid_roundtrip [OF assms(3), of manager]
    request_manager_answered [OF assms(7,6,8)]
    HandleVaultIdentityResponse_reads [OF assms(1,2,9)]
  show ?thesis
    by (simp add: new_VaultController_def RequestVaultIdentity_def identity_request_def assms(5))
qed

text \<open>A client manager that answers every request.\<close>

definition answering :: "(bytes \<Rightarrow> bytes) \<Rightarrow> (world, string) env" where
  "answering m = demo_env\<lparr>await_reply := \<lambda>p q w. (Reply (m q), w)\<rparr>"

definition demo_identity :: VaultIdentityResponse where
  "demo_identity = \<lparr>vis_pmid = ''pkey'', vis_chunkstore_path = ''/var'',
     vis_bootstrap_endpoint_ip = [''10.0.0.1''], vis_bootstrap_endpoint_port = [5483]\<rparr>"

lemma answering_simps [simp]:
  "pb (answering m) = wire_protobuf" "passport_ok (answering m)"
  "tcp_connect (answering m) q w = (False, w)" "await_reply (answering m) q c w = (Reply (m c), w)"
  "SerialisePmid (answering m) k = CHR ''p'' # k" "address_from_string (answering m) v = Some v"
  "VersionToInt (answering m) v = int (length v)" "kApplicationVersion (answering m) = ''1''"
  by (simp_all add: answering_def passport_ok_def)

lemma answering_listens:
  "StartControllerListeningPort (answering m) new_LocalTcpTransport w =
     Inr (40000, new_LocalTcpTransport\<lparr>acceptor := Some 40000, accepting := True\<rparr>, w)"
  by (simp add: StartControllerListeningPort_def StartListening_def DoStartListening_def answering_def
      new_LocalTcpTransport_def listening_port_def eval_nat_numeral)

theorem new_VaultController_identity_witness:
  "\<exists>s. new_VaultController (answering (\<lambda>_. WrapMessage wire_protobuf kVaultIdentityResponse
      (SerializeAsString (pb_VaultIdentityResponse wire_protobuf) demo_identity)))
      (GenerateVmidParameter 1 5483) True demo_world = Inr s \<and>
    vc_process_index s = 1 \<and> vc_pmid s = Some ''key'' \<and> vc_bootstrap_endpoints s = [(''10.0.0.1'', 5483)]"
proof -
  let ?request = "WrapMessage wire_protobuf kVaultIdentityRequest
    (SerializeAsString (pb_VaultIdentityRequest wire_protobuf)
      \<lparr>viq_process_index = 1, viq_listening_port = ucast (40000 :: port), viq_version = 1\<rparr>)"
  have "fits ?request"
    by (simp add: fits_def kMaxTransportMessageSize_def wire_length wire_VaultIdentityRequest_def)
  then show ?thesis
    using new_VaultController_identity [OF _ _ _ answering_listens, where i = 1 and request = ?request
        and manager = 5483 and r = demo_identity and key = "''key''"]
    by (simp add: demo_identity_def GetEndpoint_def)
qed

text \<open>
  C38: a shutdown request makes the vault stop, exactly once, whatever its payload is: also when it does
  not parse or names another process.  No other message stops the vault or changes its controller.
\<close>

theorem shutdown_always_stops:
  assumes "protobuf_ok (pb env)" and "is_enumerator t"
  shows "VaultController_HandleReceivedRequest env (WrapMessage (pb env) t payload) s =
    (if t = kVaultShutdownRequest then s\<lparr>stops := stops s + 1\<rparr> else s)"
  using assms
  by (cases t) (simp_all add: VaultController_HandleReceivedRequest_def HandleVaultShutdownRequest_def
      case_prod_beta)

theorem shutdown_always_stops_witness:
  "\<exists>s. new_VaultController demo_env ''test'' True demo_world = Inr s \<and>
     stops (VaultController_HandleReceivedRequest demo_env
       (WrapMessage (pb demo_env) kVaultShutdownRequest ''?'') s) = stops s + 1"
  using shutdown_always_stops [of demo_env kVaultShutdownRequest "''?''"]
  by (simp add: new_VaultController_def)

end
