(* ===== verification/Client_Registration.thy ===== *)
theory Client_Registration
  imports Client_Controller Vault_Controller
begin

text \<open>
  Properties of the client controller: the search for the client manager's port, the registration, the
  start of a vault and the announcements of new versions.
\<close>

section \<open>The search for the port\<close>

lemma Connect_result:
  "tcp_connect env p w = (ec, w') \<Longrightarrow>
     \<exists>T'. Connect env p T w = (if ec then kConnectFailure else kSuccess, T', w')"
  by (simp add: Connect_def TcpConnection_Connect_def Let_def)

lemma uint_port_offset:
  "uint (base :: port) + 10 < 65535 \<Longrightarrow> k \<le> 11 \<Longrightarrow> uint (base + word_of_nat k) = uint base + int k"
  by (simp add: uint_word_ariths unsigned_of_nat take_bit_nat_eq_self nat_less_iff)

text \<open>The loop after the attempt at offset \<open>k\<close> finds the first port from there that accepts.\<close>

lemma accepting_loop_finds:
  assumes "\<And>p w. fst (tcp_connect env p w) = refused p" and "uint base + 10 < 65535" and "k \<le> 10"
  shows "\<exists>T' w'. accepting_loop env base (base + word_of_nat k)
           (if refused (base + word_of_nat k) then kConnectFailure else kSuccess) T w =
         Some (map_option (\<lambda>i. base + word_of_nat i)
           (find (\<lambda>i. \<not> refused (base + word_of_nat i)) [k..<11]), T', w')"
  using assms(3)
proof (induction "10 - k" arbitrary: k T w)
  case 0
  then have k: "k = 10" by simp
  have "uint (11 + base) = uint base + 11"
    using uint_port_offset [OF assms(2), of 11] by (simp add: add.commute)
  moreover have "base + word_of_nat 10 + 1 = base + word_of_nat 11" by simp
  ultimately show ?case
    using k by (subst accepting_loop.simps) (simp add: Let_def kMaxRangeAboveDefaultPort_def upt_rec)
next
  case (Suc d)
  then have below: "\<not> 9 < k" by simp
  let ?next = "base + word_of_nat (Suc k)"
  have step: "base + word_of_nat k + 1 = ?next" by simp
  have u: "uint ?next = uint base + int (Suc k)" using assms(2) Suc by (intro uint_port_offset) simp_all
  obtain w1 where "tcp_connect env ?next w = (refused ?next, w1)"
    using assms(1) [of ?next w] by (cases "tcp_connect env ?next w") auto
  from Connect_result [OF this, of T] obtain T1 where
    one: "Connect env ?next T w = (if refused ?next then kConnectFailure else kSuccess, T1, w1)" by blast
  show ?case
  proof (cases "refused (base + word_of_nat k)")
    case False
    then show ?thesis using Suc by (subst accepting_loop.simps) (simp add: upt_rec [of k])
  next
    case True
    have "accepting_loop env base (base + word_of_nat k) kConnectFailure T w =
        accepting_loop env base ?next (if refused ?next then kConnectFailure else kSuccess) T1 w1"
      using below u one by (subst accepting_loop.simps) (simp add: step kMaxRangeAboveDefaultPort_def Let_def)
    moreover have "d = 10 - Suc k" "Suc k \<le> 10" using Suc.hyps(2) by simp_all
    from Suc.hyps(1) [OF this, of T1 w1] obtain T' w' where
      "accepting_loop env base ?next (if refused ?next then kConnectFailure else kSuccess) T1 w1 =
        Some (map_option (\<lambda>i. base + word_of_nat i)
          (find (\<lambda>i. \<not> refused (base + word_of_nat i)) [Suc k..<11]), T', w')" by blast
    moreover have "[k..<11] = k # [Suc k..<11]" using Suc by (simp add: upt_conv_Cons)
    ultimately show ?thesis using True by simp
  qed
qed

lemma FindNextAcceptingPort_finds:
  assumes "\<And>p w. fst (tcp_connect env p w) = refused p" and "uint (cc_client_manager_port s) + 10 < 65535"
  shows "\<exists>T' w'. FindNextAcceptingPort env T s = Some
    (case find (\<lambda>i. \<not> refused (cc_client_manager_port s + word_of_nat i)) [0..<11] of
       None \<Rightarrow> (False, T', s\<lparr>cc_outside := w'\<rparr>)
     | Some i \<Rightarrow> (True, T', s\<lparr>cc_outside := w',
         cc_client_manager_port := cc_client_manager_port s + word_of_nat i\<rparr>))"
proof -
  let ?base = "cc_client_manager_port s"
  obtain w1 where "tcp_connect env ?base (cc_outside s) = (refused ?base, w1)"
    using assms(1) [of ?base "cc_outside s"] by (cases "tcp_connect env ?base (cc_outside s)") auto
  from Connect_result [OF this, of T] obtain T1 where
    "Connect env ?base T (cc_outside s) = (if refused ?base then kConnectFailure else kSuccess, T1, w1)"
    by blast
  moreover from accepting_loop_finds [of env refused ?base 0 T1 w1, OF assms] obtain T' w' where
    "accepting_loop env ?base ?base (if refused ?base then kConnectFailure else kSuccess) T1 w1 =
      Some (map_option (\<lambda>i. ?base + word_of_nat i)
        (find (\<lambda>i. \<not> refused (?base + word_of_nat i)) [0..<11]), T', w')" by auto
  ultimately have "FindNextAcceptingPort env T s = Some
    (case find (\<lambda>i. \<not> refused (?base + word_of_nat i)) [0..<11] of
       None \<Rightarrow> (False, T', s\<lparr>cc_outside := w'\<rparr>)
     | Some i \<Rightarrow> (True, T', s\<lparr>cc_outside := w', cc_client_manager_port := ?base + word_of_nat i\<rparr>))"
    by (simp add: FindNextAcceptingPort_def split: option.split)
  then show ?thesis by blast
qed

section \<open>A client manager that does not answer\<close>

text \<open>All ports accept, and no registration is answered before the timeout.\<close>

definition silent :: "('w, 'p) env \<Rightarrow> bool" where
  "silent env \<longleftrightarrow> (\<forall>p w. \<not> fst (tcp_connect env p w)) \<and>
     (\<forall>p m w. fst (await_reply env p m w) = NoReply) \<and>
     (\<forall>v. fits (WrapMessage (pb env) kClientRegistrationRequest
       (SerializeAsString (pb_ClientRegistrationRequest (pb env))
         \<lparr>crq_listening_port = v, crq_version = VersionToInt env (kApplicationVersion env)\<rparr>)))"

lemma FindNextAcceptingPort_silent:
  assumes "silent env" and "FindNextAcceptingPort env T s = Some (found, T', s')"
  shows "found \<and> s' = s\<lparr>cc_outside := cc_outside s'\<rparr> \<and>
    (\<exists>w. Connect env (cc_client_manager_port s) T w = (kSuccess, T', cc_outside s'))"
proof -
  obtain w1 where "tcp_connect env (cc_client_manager_port s) (cc_outside s) = (False, w1)"
    using assms(1) unfolding silent_def by (metis (full_types) prod.collapse)
  from Connect_result [OF this, of T] obtain T1 where
    "Connect env (cc_client_manager_port s) T (cc_outside s) = (kSuccess, T1, w1)" by auto
  with assms(2) show ?thesis
    by (auto simp: FindNextAcceptingPort_def accepting_loop.simps Let_def)
qed

lemma register_loop_silent:
  assumes "register_loop env T s = Some r"
  shows "\<not> silent env"
proof (rule register_loop.raw_induct [OF _ assms])
  fix loop :: "('a, 'b) env \<Rightarrow> LocalTcpTransport \<Rightarrow> ('a, 'b) ClientController \<Rightarrow>
    (State \<times> string \<times> ('a, 'b) ClientController) option" and env T s r
  assume ih: "\<And>env T s r. loop env T s = Some r \<Longrightarrow> \<not> silent env"
    and body: "(case FindNextAcceptingPort env T s of
        None \<Rightarrow> None
      | Some (found, T, s) \<Rightarrow>
          if \<not> found then Some (kInitialising, [], s)
          else
            let request = registration_request env s;
                (reply, w) = SendAndWait env request (cc_client_manager_port s) T (cc_outside s);
                T = Send request (cc_client_manager_port s) T;
                s = s\<lparr>cc_outside := w\<rparr>
            in case reply of
                 Reply message \<Rightarrow> Some (HandleRegisterResponse env message s)
               | SendFailed \<Rightarrow> Some (kFailed, [], s)
               | NoReply \<Rightarrow> loop env T s) = Some r"
  show "\<not> silent env"
  proof
    assume silent: "silent env"
    from body obtain found T1 s1 where f: "FindNextAcceptingPort env T s = Some (found, T1, s1)"
      by (auto split: option.splits)
    from FindNextAcceptingPort_silent [OF silent this] obtain w where
      found and s1: "cc_client_manager_port s1 = cc_client_manager_port s"
      and c: "Connect env (cc_client_manager_port s) T w = (kSuccess, T1, cc_outside s1)"
      by (cases s; cases s1) auto
    have "fits (registration_request env s1)"
      using silent by (simp add: silent_def registration_request_def)
    from SendAndWait_connected [OF c this] obtain w2 where
      "SendAndWait env (registration_request env s1) (cc_client_manager_port s1) T1 (cc_outside s1) =
        (NoReply, w2)"
      using silent s1 unfolding silent_def by (metis prod.collapse)
    with body f \<open>found\<close> obtain T2 s2 where "loop env T2 s2 = Some r" by (auto simp: Let_def)
    with ih silent show False by blast
  qed
qed

section \<open>Properties\<close>

text \<open>
  C34: the client looks for the client manager on eleven consecutive ports, in ascending order, and
  remembers the first one that accepts a connection; if none does, it keeps the port it had.  The search
  ends for every first port up to 65524.
\<close>

theorem FindNextAcceptingPort_first:
  assumes "\<And>p w. fst (tcp_connect env p w) = refused p" and "uint (cc_client_manager_port s) + 10 < 65535"
  shows "\<exists>T' s'. FindNextAcceptingPort env T s =
      Some (\<exists>i < 11. \<not> refused (cc_client_manager_port s + word_of_nat i), T', s') \<and>
    cc_client_manager_port s' =
      (case find (\<lambda>i. \<not> refused (cc_client_manager_port s + word_of_nat i)) [0..<11] of
         None \<Rightarrow> cc_client_manager_port s
       | Some i \<Rightarrow> cc_client_manager_port s + word_of_nat i)"
proof -
  let ?P = "\<lambda>i. \<not> refused (cc_client_manager_port s + word_of_nat i)"
  have "(\<exists>i < 11. ?P i) \<longleftrightarrow> find ?P [0..<11] \<noteq> None"
    by (auto simp: find_None_iff)
  with FindNextAcceptingPort_finds [OF assms, of T] show ?thesis
    by (auto split: option.splits)
qed

definition demo_client :: "(world, string) ClientController" where
  "demo_client = \<lparr>cc_client_manager_port = 5483, cc_local_port = 40000, slot_connected = True,
     raised = [], bootstrap_nodes = [], joining_vaults = [], receiving_transport = new_LocalTcpTransport,
     cc_outside = demo_world\<rparr>"

theorem FindNextAcceptingPort_first_witness:
  "\<exists>T' s'. FindNextAcceptingPort (demo_env\<lparr>tcp_connect := \<lambda>p w. (p < 5485, w)\<rparr>) new_LocalTcpTransport
     demo_client = Some (True, T', s') \<and> cc_client_manager_port s' = 5485"
proof -
  have "\<exists>i < 11. \<not> (5483 :: port) + word_of_nat i < 5485" by (rule exI [of _ 2]) simp
  with FindNextAcceptingPort_first [of "demo_env\<lparr>tcp_connect := \<lambda>p w. (p < 5485, w)\<rparr>" "\<lambda>p. p < 5485"
      demo_client new_LocalTcpTransport] show ?thesis
    by (simp add: demo_client_def upt_rec)
qed

text \<open>
  C35: if a client manager accepts connections and does not answer the registration, the constructor of
  the client controller does not return: after every timeout the search starts at the same port again.
\<close>

theorem registration_diverges:
  assumes "silent env"
    and "StartControllerListeningPort env new_LocalTcpTransport w = Inr (p, T, w')"
  shows "new_ClientController env w = None"
proof -
  have "register_loop env new_LocalTcpTransport s = None" for s :: "('a, 'b) ClientController"
    using register_loop_silent [of env new_LocalTcpTransport s] assms(1)
    by (cases "register_loop env new_LocalTcpTransport s") auto
  with assms(2) show ?thesis by (simp add: new_ClientController_def ConnectToClientManager_def)
qed

lemma demo_silent: "silent demo_env"
proof -
  have "fits (WrapMessage wire_protobuf kClientRegistrationRequest
      (SerializeAsString (pb_ClientRegistrationRequest wire_protobuf)
        \<lparr>crq_listening_port = v, crq_version = 1\<rparr>))" for v
    using length_enc_word [of v]
    by (simp add: fits_def kMaxTransportMessageSize_def length_wire_wrap enumerators_def wire_fields wire_def
        wire_ClientRegistrationRequest_def enc_pair_def enc_int_def enc_via_def)
  then show ?thesis by (simp add: silent_def)
qed

theorem registration_diverges_witness: "new_ClientController demo_env demo_world = None"
proof -
  have "StartControllerListeningPort demo_env new_LocalTcpTransport demo_world =
    Inr (40000, new_LocalTcpTransport\<lparr>acceptor := Some 40000, accepting := True\<rparr>, demo_world)"
    by (simp add: StartControllerListeningPort_def StartListening_def DoStartListening_def
        new_LocalTcpTransport_def listening_port_def eval_nat_numeral)
  with demo_silent show ?thesis by (rule registration_diverges)
qed

text \<open>
  C36: a client whose registration is answered at the first port is connected to that port, listens on the
  port it announced and knows the contacts of the response; the slot for new versions is called exactly
  if the response names an installer that exists.  (A response that names the empty path counts as one
  without an installer.)
\<close>

theorem new_ClientController_registered:
  assumes "protobuf_ok (pb env)"
    and "StartControllerListeningPort env new_LocalTcpTransport w = Inr (p, T, w0)"
    and "request = WrapMessage (pb env) kClientRegistrationRequest
      (SerializeAsString (pb_ClientRegistrationRequest (pb env)) \<lparr>crq_listening_port = ucast p,
        crq_version = VersionToInt env (kApplicationVersion env)\<rparr>)"
    and "fits request" and "tcp_connect env (kDefaultPort env) w0 = (False, w1)"
    and "await_reply env (kDefaultPort env) request w1 =
      (Reply (WrapMessage (pb env) kClientRegistrationResponse
        (SerializeAsString (pb_ClientRegistrationResponse (pb env)) r)), w2)"
  shows "new_ClientController env w = Some (Inr
    \<lparr>cc_client_manager_port = kDefaultPort env, cc_local_port = p, slot_connected = True,
     raised = (case crs_path_to_new_installer r of None \<Rightarrow> []
       | Some file \<Rightarrow> if file \<noteq> [] \<and> fs_exists env file w2 = (True, False) then [file] else []),
     bootstrap_nodes = push_endpoints env (crs_bootstrap_endpoint_ip r) (crs_bootstrap_endpoint_port r) [],
     joining_vaults = [], receiving_transport = T, cc_outside = w2\<rparr>)"
proof -
  obtain T1 where c: "Connect env (kDefaultPort env) new_LocalTcpTransport w0 = (kSuccess, T1, w1)"
    using Connect_result [OF assms(5), of new_LocalTcpTransport] by auto
  have "FindNextAcceptingPort env new_LocalTcpTransport s = Some (True, T1, s\<lparr>cc_outside := w1\<rparr>)"
    if "cc_client_manager_port s = kDefaultPort env" "cc_outside s = w0" for s :: "('a, 'b) ClientController"
    using c that by (simp add: FindNextAcceptingPort_def accepting_loop.simps Let_def)
  moreover have "SendAndWait env request (kDefaultPort env) T1 w1 =
      await_reply env (kDefaultPort env) request w1"
    using SendAndWait_connected [OF c assms(4)] .
  ultimately show ?thesis
    using assms(1,2,6-)
    by (auto simp: new_ClientController_def ConnectToClientManager_def register_loop.simps
        registration_request_def assms(3) HandleRegisterResponse_def on_new_version_available_def
        Let_def split: prod.splits option.splits)
qed

definition demo_registration :: ClientRegistrationResponse where
  "demo_registration = \<lparr>crs_bootstrap_endpoint_ip = [''10.0.0.1'', ''10.0.0.2''],
     crs_bootstrap_endpoint_port = [5483], crs_path_to_new_installer = Some ''/opt/vault''\<rparr>"

theorem new_ClientController_registered_witness:
  "\<exists>s. new_ClientController (answering (\<lambda>_. WrapMessage wire_protobuf kClientRegistrationResponse
      (SerializeAsString (pb_ClientRegistrationResponse wire_protobuf) demo_registration))) demo_world =
      Some (Inr s) \<and>
    bootstrap_nodes s = [(''10.0.0.1'', 5483)] \<and> raised s = [''/opt/vault'']"
proof -
  let ?request = "WrapMessage wire_protobuf kClientRegistrationRequest
    (SerializeAsString (pb_ClientRegistrationRequest wire_protobuf)
      \<lparr>crq_listening_port = ucast (40000 :: port), crq_version = 1\<rparr>)"
  have "fits ?request"
    by (simp add: fits_def kMaxTransportMessageSize_def wire_length wire_ClientRegistrationRequest_def)
  moreover have "fs_exists (answering m) ''/opt/vault'' w = (True, False)" for m w
    by (simp add: answering_def)
  ultimately show ?thesis
    using new_ClientController_registered [OF _ answering_listens, where request = ?request
        and r = demo_registration]
    by (simp add: demo_registration_def GetEndpoint_def)
qed

text \<open>
  C37: once the client manager has agreed to start a vault, \<open>StartVault\<close> succeeds exactly if a join
  confirmation for that vault arrives while it waits for one; a confirmation that arrived earlier does
  not count.  The entry of the vault is removed on success and left behind otherwise.
\<close>

theorem StartVault_joined:
  assumes "protobuf_ok (pb env)" and "RandomString env 16 (cc_outside s) = (token, w0)"
    and "request = WrapMessage (pb env) kStartVaultRequest (SerializeAsString (pb_StartVaultRequest (pb env))
      (start_request env key account chunkstore token s))"
    and "fits request" and "tcp_connect env (cc_client_manager_port s) w0 = (False, w1)"
    and "await_reply env (cc_client_manager_port s) request w1 =
      (Reply (WrapMessage (pb env) kStartVaultResponse
        (SerializeAsString (pb_StartVaultResponse (pb env)) \<lparr>svs_result = True\<rparr>)), w2)"
    and "receive_all env early (s\<lparr>cc_outside := w2\<rparr>) = Inr s1"
    and "receive_all env late
      (s1\<lparr>joining_vaults := map_assign (pmid_name env key) False (joining_vaults s1)\<rparr>) = Inr s2"
    and "joined = (\<exists>m \<in> set late. confirms env (pmid_name env key) (fst m))"
  shows "\<exists>s'. StartVault env early late key account chunkstore s = Inr (joined, s') \<and>
    map_find (pmid_name env key) (joining_vaults s') = (if joined then None else Some False)"
proof -
  have "map_find (pmid_name env key) (joining_vaults s2) = Some joined"
    using receive_all_joining [OF assms(8), of "pmid_name env key" False] assms(9) by simp
  moreover have "StartVault env early late key account chunkstore s = await_join env late (pmid_name env key) s1"
    using assms(1,2,7) request_manager_answered [OF assms(5,4,6)]
    by (simp add: StartVault_def assms(3) HandleStartStopVaultResponse_def)
  ultimately show ?thesis using assms(8) by (auto simp: await_join_def)
qed

definition demo_confirmation :: "bytes \<times> port" where
  "demo_confirmation = (WrapMessage wire_protobuf kVaultJoinConfirmation
     (SerializeAsString (pb_VaultJoinConfirmation wire_protobuf)
       \<lparr>vjc_identity = ''nkey'', vjc_joined = False\<rparr>), 40001)"

text \<open>The confirmation in this instance says that the vault did not join.\<close>

theorem StartVault_joined_witness:
  "\<exists>s'. StartVault (answering (\<lambda>_. WrapMessage wire_protobuf kStartVaultResponse
      (SerializeAsString (pb_StartVaultResponse wire_protobuf) \<lparr>svs_result = True\<rparr>)))
      [] [demo_confirmation] ''key'' ''account'' ''/chunks'' demo_client = Inr (True, s') \<and>
    map_find ''nkey'' (joining_vaults s') = None"
proof -
  let ?env = "answering (\<lambda>_. WrapMessage wire_protobuf kStartVaultResponse
    (SerializeAsString (pb_StartVaultResponse wire_protobuf) \<lparr>svs_result = True\<rparr>))"
  obtain token w0 where token: "RandomString ?env 16 (cc_outside demo_client) = (token, w0)"
    "length token = 16"
    by (simp add: answering_def demo_random_def)
  let ?request = "WrapMessage wire_protobuf kStartVaultRequest
    (SerializeAsString (pb_StartVaultRequest wire_protobuf)
      (start_request ?env ''key'' ''account'' ''/chunks'' token demo_client))"
  have fits: "fits ?request"
    using token(2)
    by (simp add: fits_def kMaxTransportMessageSize_def wire_length wire_StartVaultRequest_def
        start_request_def demo_client_def answering_def)
  have conf: "confirms ?env ''nkey'' (fst demo_confirmation)"
    by (simp add: confirms_def demo_confirmation_def)
  have env: "pmid_name ?env ''key'' = ''nkey''" "valid_Identity ?env ''nkey''"
    by (simp_all add: answering_def)
  obtain s2 where "receive_all ?env [demo_confirmation]
      (demo_client\<lparr>cc_outside := w0, joining_vaults := map_assign ''nkey'' False []\<rparr>) = Inr s2"
    using env by (simp add: demo_confirmation_def ClientController_HandleReceivedRequest_def
        HandleVaultJoinConfirmation_def)
  with StartVault_joined [of ?env demo_client token w0 ?request "''key''" "''account''" "''/chunks''" w0 w0
      "[]" "demo_client\<lparr>cc_outside := w0\<rparr>" "[demo_confirmation]" s2 True] token fits conf env
  show ?thesis by (simp add: demo_client_def)
qed

text \<open>
  An announcement of a new version is passed to the slot whether or not the file exists, and is
  acknowledged with the path if it does and with an empty path if it does not.
\<close>

theorem HandleNewVersionAvailable_signals:
  assumes "protobuf_ok (pb env)" and "slot_connected s"
  shows "HandleNewVersionAvailable env (SerializeAsString (pb_NewVersionAvailable (pb env))
      \<lparr>nva_new_version_filepath = file\<rparr>) s =
    (WrapMessage (pb env) kNewVersionAvailableAck (SerializeAsString (pb_NewVersionAvailableAck (pb env))
       \<lparr>nvk_new_version_filepath = (if fs_exists env file (cc_outside s) = (True, False) then file else [])\<rparr>),
     s\<lparr>raised := raised s @ [file]\<rparr>)"
  using assms
  by (auto simp: HandleNewVersionAvailable_def on_new_version_available_def split: prod.split)

theorem HandleNewVersionAvailable_signals_witness:
  "raised (snd (HandleNewVersionAvailable demo_env (SerializeAsString (pb_NewVersionAvailable (pb demo_env))
     \<lparr>nva_new_version_filepath = ''/missing''\<rparr>) demo_client)) = [''/missing'']"
  using HandleNewVersionAvailable_signals [of demo_env demo_client "''/missing''"]
  by (simp add: demo_client_def)

end
