(* ===== verification/Protocol.thy ===== *)
theory Protocol
  imports Client_Registration Client_Manager_Registry
begin

text \<open>
  The controllers and the client manager together.  \<open>respond\<close> is the part of
  \<open>ClientManager::HandleReceivedMessage\<close> before the response is sent; \<open>served\<close> says that a request of a
  controller reaches the client manager and that its response arrives in time.  The locale
  \<open>manager_service\<close> is the contract of one kind of request: what the client manager answers, what the
  controller makes of the answer, and what both together mean.
\<close>

section \<open>Responses\<close>

definition respond ::
  "('w, 'p) env \<Rightarrow> (ProcessManager \<Rightarrow> ProcessManager) \<Rightarrow> bytes \<Rightarrow> ('w, 'p) ClientManager \<Rightarrow>
     (fault + bytes option \<times> ('w, 'p) ClientManager) option" where
  "respond env sched message s =
     (let response = (\<lambda>(m, s). (Some m, s));
          checked = (\<lambda>r. and_then r (\<lambda>(m, s). Inr (Some m, s)))
      in case UnwrapMessage (pb env) message of
        (ok, type, payload) \<Rightarrow>
          if \<not> ok then Some (Inr (None, s))
          else case type of
            kClientRegistrationRequest \<Rightarrow>
              Some (Inr (response (HandleClientRegistrationRequest env payload s)))
          | kStartVaultRequest \<Rightarrow> map_option checked (HandleStartVaultRequest env payload s)
          | kVaultIdentityRequest \<Rightarrow> Some (checked (HandleVaultIdentityRequest env payload s))
          | kVaultJoinedNetwork \<Rightarrow> Some (checked (HandleVaultJoinedNetworkRequest env payload s))
          | kStopVaultRequest \<Rightarrow> Some (checked (HandleStopVaultRequest env sched payload s))
          | kUpdateIntervalRequest \<Rightarrow> Some (Inr (response (HandleUpdateIntervalRequest env payload s)))
          | kSendEndpointToClientManagerRequest \<Rightarrow>
              Some (Inr (response (HandleSendEndpointToClientManagerRequest env payload s)))
          | kBootstrapRequest \<Rightarrow> Some (Inr (response (HandleBootstrapRequest env payload s)))
          | _ \<Rightarrow> Some (Inr (None, s)))"

lemma HandleReceivedMessage_respond:
  "HandleReceivedMessage env sched message peer s =
     map_option (\<lambda>r. and_then r (\<lambda>(m, s).
       case m of None \<Rightarrow> Inr s | Some m \<Rightarrow> send_response peer (m, s))) (respond env sched message s)"
proof -
  obtain ok type payload where u: "UnwrapMessage (pb env) message = (ok, type, payload)"
    by (cases "UnwrapMessage (pb env) message") auto
  have and_then_assoc: "and_then (and_then r f) g = and_then r (\<lambda>x. and_then (f x) g)"
    for r :: "fault + 'x" and f :: "'x \<Rightarrow> fault + 'y" and g :: "'y \<Rightarrow> fault + 'z"
    by (cases r) simp_all
  show ?thesis
    by (cases type) (simp_all add: HandleReceivedMessage_def respond_def u Let_def case_prod_beta
        and_then_assoc option.map_comp o_def)
qed

definition served ::
  "('w, 'p) env \<Rightarrow> (ProcessManager \<Rightarrow> ProcessManager) \<Rightarrow> port \<Rightarrow> bytes \<Rightarrow>
     'w \<Rightarrow> ('w, 'p) ClientManager \<Rightarrow> 'w \<Rightarrow> ('w, 'p) ClientManager \<Rightarrow> bool" where
  "served env sched manager message w s w' s' \<longleftrightarrow>
     fits message \<and> (\<exists>w1 m. tcp_connect env manager w = (False, w1) \<and>
       respond env sched message s = Some (Inr (Some m, s')) \<and>
       await_reply env manager message w1 = (Reply m, w'))"

lemma served_request:
  assumes "served env sched manager message w s w' s'"
  shows "\<exists>m. respond env sched message s = Some (Inr (Some m, s')) \<and>
    request_manager env manager message w = (Some (Reply m), w')"
  using assms by (auto simp: served_def intro: request_manager_answered)

section \<open>The contract of a request\<close>

locale manager_service =
  fixes env :: "('w, 'p) env"
    and sched :: "ProcessManager \<Rightarrow> ProcessManager"
    and request :: "'q \<Rightarrow> bytes"
    and understand :: "bytes \<Rightarrow> 'r"
    and meaning :: "'q \<Rightarrow> ('w, 'p) ClientManager \<Rightarrow> 'r \<times> ('w, 'p) ClientManager"
    and valid :: "'q \<Rightarrow> ('w, 'p) ClientManager \<Rightarrow> bool"
    and ok :: "('w, 'p) ClientManager \<Rightarrow> bool"
  assumes respond_meaning: "ok s \<Longrightarrow> valid q s \<Longrightarrow>
      \<exists>m. respond env sched (request q) s = Some (Inr (Some m, snd (meaning q s))) \<and>
        understand m = fst (meaning q s)"
    and ok_meaning: "ok s \<Longrightarrow> valid q s \<Longrightarrow> ok (snd (meaning q s))"
begin

lemma exchange:
  assumes "ok s" and "valid q s" and "served env sched manager (request q) w s w' s'"
  shows "s' = snd (meaning q s) \<and>
    (\<exists>m. request_manager env manager (request q) w = (Some (Reply m), w') \<and>
      understand m = fst (meaning q s))"
  using respond_meaning [OF assms(1,2)] served_request [OF assms(3)] by auto

lemma ok_served: "ok s \<Longrightarrow> valid q s \<Longrightarrow> served env sched manager (request q) w s w' s' \<Longrightarrow> ok s'"
  using exchange ok_meaning by blast

lemma answered_again:
  assumes "ok s" and "valid q s" and "served env sched manager (request q) w s w' s'" and "valid q' s'"
  shows "\<exists>m s''. respond env sched (request q') s' = Some (Inr (Some m, s'')) \<and>
    understand m = fst (meaning q' s')"
  using respond_meaning [OF ok_served [OF assms(1-3)] assms(4)] by blast

end

section \<open>The update interval\<close>

definition interval_request :: "('w, 'p) env \<Rightarrow> 32 word option \<Rightarrow> bytes" where
  "interval_request env v = WrapMessage (pb env) kUpdateIntervalRequest
     (SerializeAsString (pb_UpdateIntervalRequest (pb env)) \<lparr>uiq_new_update_interval = v\<rparr>)"

definition interval_meaning ::
  "32 word option \<Rightarrow> ('w, 'p) ClientManager \<Rightarrow> time_duration \<times> ('w, 'p) ClientManager" where
  "interval_meaning q s =
     (case q of
        None \<Rightarrow> (seconds (update_interval s), s)
      | Some v \<Rightarrow>
          if 300 \<le> uint v \<and> uint v \<le> 604800 then (seconds (uint v), s\<lparr>update_interval := uint v\<rparr>)
          else (pos_infin, s))"

definition interval_ok :: "('w, 'p) env \<Rightarrow> ('w, 'p) ClientManager \<Rightarrow> bool" where
  "interval_ok env s \<longleftrightarrow> protobuf_ok (pb env) \<and> 300 \<le> update_interval s \<and> update_interval s \<le> 604800"

lemma uint_interval: "300 \<le> i \<Longrightarrow> i \<le> 604800 \<Longrightarrow> uint (word_of_int i :: 32 word) = i"
  by (simp add: uint_word_of_int)

lemma word_interval: "300 \<le> i \<Longrightarrow> i \<le> 604800 \<Longrightarrow> (word_of_int i :: 32 word) \<noteq> 0"
  using uint_interval by (metis uint_0_iff not_numeral_le_zero)

interpretation interval: manager_service env sched "interval_request env" "HandleUpdateIntervalResponse env"
  interval_meaning "\<lambda>_ _. True" "interval_ok env" for env :: "('w, 'p) env" and sched
proof
  fix s :: "('w, 'p) ClientManager" and q
  assume "interval_ok env s"
  then show "\<exists>m. respond env sched (interval_request env q) s =
      Some (Inr (Some m, snd (interval_meaning q s))) \<and>
      HandleUpdateIntervalResponse env m = fst (interval_meaning q s)"
    by (cases q) (auto simp: respond_def interval_request_def HandleUpdateIntervalRequest_def
        HandleUpdateIntervalResponse_def interval_meaning_def interval_ok_def GetUpdateInterval_def
        SetUpdateInterval_def kMinUpdateInterval_def kMaxUpdateInterval_def uint_interval word_interval
        Let_def)
  show "interval_ok env (snd (interval_meaning q s))"
    using \<open>interval_ok env s\<close> by (auto simp: interval_ok_def interval_meaning_def split: option.split)
qed

section \<open>Bootstrap contacts\<close>

text \<open>A vault offers a contact, and a client asks for the contacts.\<close>

definition contact_request :: "('w, 'p) env \<Rightarrow> EndPoint \<Rightarrow> bytes" where
  "contact_request env e = WrapMessage (pb env) kSendEndpointToClientManagerRequest
     (SerializeAsString (pb_SendEndpointRequest (pb env))
       \<lparr>seq_bootstrap_endpoint_ip = fst e, seq_bootstrap_endpoint_port = ucast (snd e)\<rparr>)"

interpretation contact: manager_service env sched "contact_request env"
  "HandleSendEndpointToClientManagerResponse env" "\<lambda>e. AddBootstrapEndPoint env (fst e) (snd e)"
  "\<lambda>_ _. True" "\<lambda>s. protobuf_ok (pb env)" for env :: "('w, 'p) env" and sched
  by unfold_locales
    (auto simp: respond_def contact_request_def HandleSendEndpointToClientManagerRequest_def
      HandleSendEndpointToClientManagerResponse_def Let_def split: prod.split)

definition bootstrap_request :: "('w, 'p) env \<Rightarrow> 32 word \<Rightarrow> bytes" where
  "bootstrap_request env i = WrapMessage (pb env) kBootstrapRequest
     (SerializeAsString (pb_BootstrapRequest (pb env)) \<lparr>btq_message_id = i\<rparr>)"

text \<open>The client manager has contacts, and their addresses are printed addresses.\<close>

definition contacts_ok :: "('w, 'p) env \<Rightarrow> ('w, 'p) ClientManager \<Rightarrow> bool" where
  "contacts_ok env s \<longleftrightarrow> protobuf_ok (pb env) \<and> endpoints s \<noteq> [] \<and>
     (\<forall>(ip, p) \<in> set (endpoints s). address_from_string env ip = Some ip)"

lemma push_contacts:
  "contacts_ok env s \<Longrightarrow>
     push_endpoints env (map fst (endpoints s)) (map (\<lambda>e. ucast (snd e)) (endpoints s)) eps =
       eps @ endpoints s"
  by (rule push_endpoints_printed) (auto simp: contacts_ok_def)

interpretation bootstrap: manager_service env sched "bootstrap_request env"
  "ClientController_HandleBootstrapResponse env"
  "\<lambda>i s. (\<lambda>eps c. (True, eps @ endpoints s, c\<lparr>bootstrap_nodes := eps @ endpoints s\<rparr>), s)"
  "\<lambda>_ _. True" "contacts_ok env" for env :: "('w, 'p) env" and sched
proof
  fix s :: "('w, 'p) ClientManager" and i
  assume ok: "contacts_ok env s"
  have pb: "protobuf_ok (pb env)" and ne: "endpoints s \<noteq> []" using ok by (simp_all add: contacts_ok_def)
  show "\<exists>m. respond env sched (bootstrap_request env i) s = Some (Inr (Some m, snd (\<lambda>eps c.
        (True, eps @ endpoints s, c\<lparr>bootstrap_nodes := eps @ endpoints s\<rparr>), s))) \<and>
      ClientController_HandleBootstrapResponse env m =
        fst (\<lambda>eps c. (True, eps @ endpoints s, c\<lparr>bootstrap_nodes := eps @ endpoints s\<rparr>), s)"
    using pb ne by (auto simp: respond_def bootstrap_request_def HandleBootstrapRequest_def
        ClientController_HandleBootstrapResponse_def push_contacts [OF ok] Let_def fun_eq_iff)
qed simp

section \<open>Identity of a vault\<close>

definition vault_request :: "('w, 'p) env \<Rightarrow> process_index \<times> port \<Rightarrow> bytes" where
  "vault_request env = (\<lambda>(i, p). WrapMessage (pb env) kVaultIdentityRequest
     (SerializeAsString (pb_VaultIdentityRequest (pb env))
       \<lparr>viq_process_index = i, viq_listening_port = ucast p,
        viq_version = VersionToInt env (kApplicationVersion env)\<rparr>))"

text \<open>The vault gets the pmid of its entry and all contacts, and its port and version are recorded.\<close>

definition vault_meaning :: "('w, 'p) env \<Rightarrow> process_index \<times> port \<Rightarrow> ('w, 'p) ClientManager \<Rightarrow>
    (('w, 'p) VaultController \<Rightarrow> fault + ('w, 'p) VaultController) \<times> ('w, 'p) ClientManager" where
  "vault_meaning env = (\<lambda>(i, p) s.
     let k = the (FindFromProcessIndex i s)
     in (\<lambda>v. Inr (v\<lparr>vc_pmid := pmid (vault_infos s ! k),
           vc_bootstrap_endpoints := vc_bootstrap_endpoints v @ endpoints s\<rparr>),
         modify_vault k (\<lambda>info. info\<lparr>vault_port := p,
           vault_version := VersionToInt env (kApplicationVersion env)\<rparr>) s))"

definition manager_ok :: "('w, 'p) env \<Rightarrow> ('w, 'p) ClientManager \<Rightarrow> bool" where
  "manager_ok env s \<longleftrightarrow> contacts_ok env s \<and> passport_ok env \<and> cm_inv s"

interpretation identity: manager_service env sched "vault_request env" "HandleVaultIdentityResponse env"
  "vault_meaning env" "\<lambda>(i, p) s. FindFromProcessIndex i s \<noteq> None" "manager_ok env"
  for env :: "('w, 'p) env" and sched
proof (unfold_locales, goal_cases)
  case (1 s q)
  obtain i p where q: "q = (i, p)" by fastforce
  have ok: "contacts_ok env s" "passport_ok env" "cm_inv s" "protobuf_ok (pb env)" "endpoints s \<noteq> []"
    using 1(1) by (simp_all add: manager_ok_def contacts_ok_def)
  obtain k where k: "FindFromProcessIndex i s = Some k" using 1(2) q by auto
  obtain key where "pmid (vault_infos s ! k) = Some key"
    using cm_inv_pmid [OF ok(3)] FindFromProcessIndex_Some [OF k] by blast
  with k ok(2,4,5) show ?case
    by (auto simp: q respond_def vault_request_def vault_meaning_def HandleVaultIdentityRequest_def
        HandleVaultIdentityResponse_def parse_pmid_def push_contacts [OF ok(1)] Let_def fun_eq_iff)
next
  case (2 s q)
  then show ?case
    by (auto simp: manager_ok_def contacts_ok_def vault_meaning_def Let_def modify_vault_def
        intro!: cm_inv_modify_vault [unfolded modify_vault_def] split: prod.splits)
qed

end
