(* ===== verification/Response_Types.thy ===== *)
theory Response_Types
  imports Protocol
begin

text \<open>
  The types of the responses of the client manager: which type the wrapper of a response has, and which
  message its payload is, for each type of request.
\<close>

text \<open>A response to a request of type \<open>t\<close> as the code builds it.\<close>

definition response_ok :: "protobuf \<Rightarrow> MessageType \<Rightarrow> bytes \<Rightarrow> bool" where
  "response_ok p t m =
     (case UnwrapMessage p m of (ok, u, payload) \<Rightarrow>
        ok \<and>
        (case t of
           kClientRegistrationRequest \<Rightarrow>
             u = kClientRegistrationResponse \<and> fst (ParseFromString (pb_ClientRegistrationResponse p) payload)
         | kStartVaultRequest \<Rightarrow>
             u = kStartVaultResponse \<and> fst (ParseFromString (pb_StartVaultResponse p) payload)
         | kVaultIdentityRequest \<Rightarrow>
             u = kVaultIdentityResponse \<and> fst (ParseFromString (pb_VaultIdentityResponse p) payload)
         | kVaultJoinedNetwork \<Rightarrow>
             u = kVaultIdentityResponse \<and> fst (ParseFromString (pb_VaultJoinedNetworkAck p) payload)
         | kStopVaultRequest \<Rightarrow>
             u = kStopVaultResponse \<and> fst (ParseFromString (pb_StopVaultResponse p) payload)
         | kUpdateIntervalRequest \<Rightarrow>
             u = kUpdateIntervalResponse \<and> fst (ParseFromString (pb_UpdateIntervalResponse p) payload)
         | kSendEndpointToClientManagerRequest \<Rightarrow>
             u = kSendEndpointToClientManagerResponse \<and> fst (ParseFromString (pb_SendEndpointResponse p) payload)
         | kBootstrapRequest \<Rightarrow>
             u = kBootstrapResponse \<and> fst (ParseFromString (pb_BootstrapResponse p) payload)
         | _ \<Rightarrow> False))"

section \<open>The handlers\<close>

named_theorems response_types \<open>what the handlers respond with\<close>

lemma start_vault_response_type [response_types]:
  "protobuf_ok (pb env) \<Longrightarrow> response_ok (pb env) kStartVaultRequest (start_vault_response env b)"
  by (simp add: response_ok_def start_vault_response_def)

lemma Registration_type [response_types]:
  "protobuf_ok (pb env) \<Longrightarrow> HandleClientRegistrationRequest env request s = (m, s') \<Longrightarrow> m \<noteq> [] \<Longrightarrow>
     response_ok (pb env) kClientRegistrationRequest m"
  by (auto simp: HandleClientRegistrationRequest_def response_ok_def Let_def split: prod.splits if_splits)

lemma UpdateInterval_type [response_types]:
  "protobuf_ok (pb env) \<Longrightarrow> HandleUpdateIntervalRequest env request s = (m, s') \<Longrightarrow> m \<noteq> [] \<Longrightarrow>
     response_ok (pb env) kUpdateIntervalRequest m"
  by (auto simp: HandleUpdateIntervalRequest_def response_ok_def Let_def split: prod.splits if_splits)

lemma SendEndpoint_type [response_types]:
  "protobuf_ok (pb env) \<Longrightarrow> HandleSendEndpointToClientManagerRequest env request s = (m, s') \<Longrightarrow> m \<noteq> [] \<Longrightarrow>
     response_ok (pb env) kSendEndpointToClientManagerRequest m"
  by (auto simp: HandleSendEndpointToClientManagerRequest_def response_ok_def Let_def split: prod.splits if_splits)

lemma Bootstrap_type [response_types]:
  "protobuf_ok (pb env) \<Longrightarrow> HandleBootstrapRequest env request s = (m, s') \<Longrightarrow> m \<noteq> [] \<Longrightarrow>
     response_ok (pb env) kBootstrapRequest m"
  by (auto simp: HandleBootstrapRequest_def response_ok_def Let_def split: prod.splits if_splits)

lemma Identity_type [response_types]:
  "protobuf_ok (pb env) \<Longrightarrow> HandleVaultIdentityRequest env request s = Inr (m, s') \<Longrightarrow> m \<noteq> [] \<Longrightarrow>
     response_ok (pb env) kVaultIdentityRequest m"
  by (auto simp: HandleVaultIdentityRequest_def response_ok_def Let_def split: prod.splits if_splits option.splits)

lemma Joined_type [response_types]:
  "protobuf_ok (pb env) \<Longrightarrow> HandleVaultJoinedNetworkRequest env request s = Inr (m, s') \<Longrightarrow> m \<noteq> [] \<Longrightarrow>
     response_ok (pb env) kVaultJoinedNetwork m"
  by (auto simp: HandleVaultJoinedNetworkRequest_def response_ok_def and_then_Inr Let_def
      split: prod.splits if_splits option.splits)

lemma Stop_shape:
  assumes "HandleStopVaultRequest env sched request s = Inr (m, s')" and "m \<noteq> []"
  shows "\<exists>b. m = WrapMessage (pb env) kStopVaultResponse
    (SerializeAsString (pb_StopVaultResponse (pb env)) \<lparr>sps_result = b\<rparr>)"
proof -
  obtain parsed r where r: "ParseFromString (pb_StopVaultRequest (pb env)) request = (parsed, r)"
    by fastforce
  show ?thesis
  proof (cases "FindFromPmidName env (spq_identity r) s")
    case (Inr itr)
    with assms r show ?thesis
      by (cases itr) (auto simp: HandleStopVaultRequest_def Let_def and_then_Inr split: if_splits option.splits)
  qed (use assms r in \<open>auto simp: HandleStopVaultRequest_def Let_def split: if_splits\<close>)
qed

lemma Stop_type [response_types]:
  "protobuf_ok (pb env) \<Longrightarrow> HandleStopVaultRequest env sched request s = Inr (m, s') \<Longrightarrow> m \<noteq> [] \<Longrightarrow>
     response_ok (pb env) kStopVaultRequest m"
  using Stop_shape [of env sched request s m s'] by (auto simp: response_ok_def)

lemma Start_existing_type:
  "start_existing_vault env request client k s = Inr (m, s') \<Longrightarrow> \<exists>b. m = start_vault_response env b"
  using Start_existing_faults [of env request client k s] by (auto split: if_splits)

lemma Start_new_type:
  "start_new_vault env request client p s = Some (Inr (m, s')) \<Longrightarrow> \<exists>b. m = start_vault_response env b"
  by (auto simp: start_new_vault_def and_then_Inr Let_def split: prod.splits if_splits option.splits)

lemma Start_type [response_types]:
  "protobuf_ok (pb env) \<Longrightarrow> HandleStartVaultRequest env request s = Some (Inr (m, s')) \<Longrightarrow> m \<noteq> [] \<Longrightarrow>
     response_ok (pb env) kStartVaultRequest m"
  by (auto simp: HandleStartVaultRequest_def start_vault_response_type Let_def
      dest!: Start_existing_type Start_new_type split: prod.splits if_splits option.splits sum.splits)

section \<open>Properties\<close>



end
