(* ===== verification/Process_Wait.thy ===== *)
theory Process_Wait
  imports Process_Threads "HOL-Library.Countable"
begin

text \<open>
  \<open>WaitForProcesses\<close> of \<open>process_manager.cc\<close>: the loop that joins the threads of all processes.  The
  threads run while it waits: a schedule says which thread makes the step at each moment.  The loop
  ends under every fair schedule if all processes are marked as done, and under no schedule otherwise.
\<close>

section \<open>The loop\<close>

type_synonym schedule = "nat \<Rightarrow> nat"

text \<open>
  \<open>boost::thread::join\<close> returns when the thread has ended; on a handle that stands for no thread it
  returns at once.  A fault of a running thread ends the program.
\<close>

partial_function (option) join_thread ::
  "schedule \<Rightarrow> nat \<Rightarrow> nat \<Rightarrow> ProcessManager \<Rightarrow> (fault + nat \<times> ProcessManager) option" where
  "join_thread \<sigma> k t pm =
     (if act_at t pm = None then Some (Inr (k, pm))
      else case RunProcess_step (\<sigma> k) pm of
             Inl e \<Rightarrow> Some (Inl e)
           | Inr pm' \<Rightarrow> join_thread \<sigma> (k + 1) t pm')"

text \<open>
  A round scans the table under the mutex, joins the handle that it took, if any, and sleeps, which
  gives a thread the time for a step.
\<close>

definition join_scanned ::
  "schedule \<Rightarrow> nat \<Rightarrow> scan \<Rightarrow> ProcessManager \<Rightarrow> (fault + nat \<times> ProcessManager) option" where
  "join_scanned \<sigma> k r pm = (case r of JoinThread t \<Rightarrow> join_thread \<sigma> k t pm | _ \<Rightarrow> Some (Inr (k, pm)))"

partial_function (option) WaitForProcesses ::
  "schedule \<Rightarrow> nat \<Rightarrow> ProcessManager \<Rightarrow> (fault + nat \<times> ProcessManager) option" where
  "WaitForProcesses \<sigma> k pm =
     (case WaitForProcesses_round pm of (r, pm1) \<Rightarrow>
        Option.bind (join_scanned \<sigma> k r pm1) (\<lambda>joined.
          case joined of
            Inl e \<Rightarrow> Some (Inl e)
          | Inr (k', pm2) \<Rightarrow>
              (case RunProcess_step (\<sigma> k') pm2 of
                 Inl e \<Rightarrow> Some (Inl e)
               | Inr pm3 \<Rightarrow>
                   if r = AllDone then Some (Inr (k' + 1, pm3))
                   else WaitForProcesses \<sigma> (k' + 1) pm3)))"

definition fair :: "schedule \<Rightarrow> bool" where
  "fair \<sigma> \<longleftrightarrow> (\<forall>k t. \<exists>d. \<sigma> (k + d) = t)"

definition all_done :: "ProcessManager \<Rightarrow> bool" where
  "all_done pm \<longleftrightarrow> (\<forall>info \<in> set (processes pm). is_done info)"

section \<open>What a step of a thread keeps\<close>

lemma map_at_process:
  "(\<And>x. g (f x) = g x) \<Longrightarrow> map g (processes (at_process i f pm)) = map g (processes pm)"
  by (simp add: at_process_def map_modify_at split: option.split)

lemma RunProcess_step_keeps:
  assumes "RunProcess_step t pm = Inr pm'"
  shows "map is_done (processes pm') = map is_done (processes pm)"
    and "map thread (processes pm') = map thread (processes pm)"
    and "map index (processes pm') = map index (processes pm)"
  using assms
  by (auto simp: RunProcess_step_def Let_def SetProcessStatus_def map_at_process
      split: option.splits run_pc.splits if_splits)

lemma all_done_map: "all_done pm \<longleftrightarrow> (\<forall>d \<in> set (map is_done (processes pm)). d)"
  by (simp add: all_done_def)

lemma all_done_step: "RunProcess_step t pm = Inr pm' \<Longrightarrow> all_done pm' \<longleftrightarrow> all_done pm"
  by (simp only: all_done_map RunProcess_step_keeps)

lemma known_map: "known pm = set (map index (processes pm))"
  by (simp add: known_def)

text \<open>The states in which \<open>WaitForProcesses\<close> ends.\<close>

definition winding_down :: "ProcessManager \<Rightarrow> bool" where
  "winding_down pm \<longleftrightarrow> pm_inv pm \<and> thread_inv pm \<and> all_done pm"

text \<open>How many steps a thread has left before it ends, once its process is done.\<close>

fun steps_left :: "run_pc \<Rightarrow> nat" where
  "steps_left (Entered _ _) = 6"
| "steps_left (Launching _ _ _) = 5"
| "steps_left (Executing _ _ _) = 4"
| "steps_left (Waiting _) = 3"
| "steps_left (Exited _) = 2"
| "steps_left (Deciding _) = 1"

definition left :: "nat \<Rightarrow> ProcessManager \<Rightarrow> nat" where
  "left t pm = (case act_at t pm of None \<Rightarrow> 0 | Some a \<Rightarrow> steps_left (act_pc a))"

lemma steps_left_pos [simp]: "0 < steps_left pc"
  by (cases pc) simp_all

lemma left_0 [simp]: "left t pm = 0 \<longleftrightarrow> act_at t pm = None"
  using steps_left_pos by (auto simp: left_def split: option.split)

lemma left_frame [simp]:
  "left u (at_process i f pm) = left u pm" "left u (pm\<lparr>executed := es\<rparr>) = left u pm"
  by (simp_all add: left_def act_at_def)

lemma left_set_pc:
  "left u (set_pc t pc pm) = (if u = t \<and> act_at t pm \<noteq> None then steps_left pc else left u pm)"
  by (auto simp: left_def act_at_set_pc split: option.split)

lemma left_finish: "left u (finish t pm) = (if u = t then 0 else left u pm)"
  by (simp add: left_def act_at_finish)

lemma left_step:
  assumes "winding_down pm"
  obtains pm' where "RunProcess_step t pm = Inr pm'" and "winding_down pm'"
    and "act_at t pm = None \<or> left t pm' < left t pm" and "\<And>u. u \<noteq> t \<Longrightarrow> left u pm' = left u pm"
proof (cases "act_at t pm")
  case None
  with assms that show ?thesis by (simp add: RunProcess_step_def)
next
  case (Some a)
  have "act_index a \<in> known pm"
    using assms act_at_SomeD [OF Some] by (auto simp: winding_down_def thread_inv_def)
  then obtain itr where itr: "FindProcess (act_index a) pm = Some itr"
    using FindProcess_None by blast
  then have "is_done (processes pm ! itr)"
    using assms FindProcess_SomeD [OF itr] by (simp add: winding_down_def all_done_def)
  with Some itr obtain pm' where step: "RunProcess_step t pm = Inr pm'"
    and less: "left t pm' < left t pm" and other: "\<And>u. u \<noteq> t \<Longrightarrow> left u pm' = left u pm"
    by (cases "act_pc a")
      (auto simp: RunProcess_step_def Let_def SetProcessStatus_def left_set_pc left_finish
        act_at_def [of _ "at_process _ _ _"] simp flip: act_at_def, simp_all add: left_def)
  moreover from step have "winding_down pm'"
    using assms Some pm_inv_RunProcess_step thread_inv_RunProcess_step all_done_step
    unfolding winding_down_def by blast
  ultimately show ?thesis using that by blast
qed

lemma left_step_le:
  assumes "winding_down pm" and "RunProcess_step t pm = Inr pm'"
  shows "winding_down pm'" and "left u pm' \<le> left u pm"
proof -
  from left_step [OF assms(1), of t] obtain pm'' where *: "RunProcess_step t pm = Inr pm''"
    "winding_down pm''" "act_at t pm = None \<or> left t pm'' < left t pm"
    "\<And>u. u \<noteq> t \<Longrightarrow> left u pm'' = left u pm"
    by blast
  with assms(2) have "pm'' = pm'" by simp
  with * show "winding_down pm'" by simp
  show "left u pm' \<le> left u pm"
  proof (cases "u = t")
    case True
    with * assms(2) show ?thesis
      by (cases "act_at t pm") (auto simp: RunProcess_step_def)
  qed (use * \<open>pm'' = pm'\<close> in simp)
qed

section \<open>Joining one thread\<close>

lemma join_returns_below:
  assumes "fair \<sigma>" and "winding_down pm" and "\<sigma> (k + d) = t"
    and IH: "\<And>k pm'. winding_down pm' \<Longrightarrow> left t pm' < left t pm \<Longrightarrow>
      \<exists>k' pm''. join_thread \<sigma> k t pm' = Some (Inr (k', pm''))"
  shows "\<exists>k' pm''. join_thread \<sigma> k t pm = Some (Inr (k', pm''))"
  using assms(2-4)
proof (induction d arbitrary: k pm)
  case 0
  obtain pm' where pm': "RunProcess_step t pm = Inr pm'" "winding_down pm'"
    "act_at t pm = None \<or> left t pm' < left t pm"
    using left_step [OF 0(1), of t] by blast
  show ?case
  proof (cases "act_at t pm = None")
    case False
    with pm' 0(3) obtain k' pm'' where "join_thread \<sigma> (k + 1) t pm' = Some (Inr (k', pm''))"
      by blast
    with False pm'(1) 0(2) join_thread.simps [of \<sigma> k t pm] show ?thesis by simp
  qed (simp add: join_thread.simps [of \<sigma> k t pm])
next
  case (Suc d)
  obtain pm' where pm': "RunProcess_step (\<sigma> k) pm = Inr pm'" "winding_down pm'"
    using left_step [OF Suc(2), of "\<sigma> k"] by blast
  have "left t pm' \<le> left t pm"
    using left_step_le [OF Suc(2) pm'(1)] by simp
  have "\<sigma> (k + 1 + d) = t"
    using Suc(3) by simp
  then have "\<exists>k' pm''. join_thread \<sigma> (k + 1) t pm' = Some (Inr (k', pm''))"
    using Suc(4) \<open>left t pm' \<le> left t pm\<close> by (intro Suc(1) [OF pm'(2)]) (auto intro: less_le_trans)
  with pm'(1) join_thread.simps [of \<sigma> k t pm] show ?case by simp
qed

lemma join_returns:
  assumes "fair \<sigma>" and "winding_down pm"
  shows "\<exists>k' pm'. join_thread \<sigma> k t pm = Some (Inr (k', pm'))"
  using assms(2)
proof (induction "left t pm" arbitrary: k pm rule: less_induct)
  case less
  from assms(1) obtain d where "\<sigma> (k + d) = t"
    unfolding fair_def by blast
  then show ?case
    by (rule join_returns_below [OF assms(1) less.prems]) (rule less.hyps)
qed

lemma join_result:
  assumes "join_thread \<sigma> k t pm = Some (Inr (k', pm'))"
  shows "act_at t pm' = None \<and> map is_done (processes pm') = map is_done (processes pm) \<and>
    map thread (processes pm') = map thread (processes pm) \<and>
    map index (processes pm') = map index (processes pm) \<and>
    (winding_down pm \<longrightarrow> winding_down pm' \<and> (\<forall>u. left u pm' \<le> left u pm))"
proof -
  let ?Q = "\<lambda>t pm (r :: fault + nat \<times> ProcessManager). \<forall>k' pm'. r = Inr (k', pm') \<longrightarrow> act_at t pm' = None \<and>
      map is_done (processes pm') = map is_done (processes pm) \<and>
      map thread (processes pm') = map thread (processes pm) \<and>
      map index (processes pm') = map index (processes pm) \<and>
      (winding_down pm \<longrightarrow> winding_down pm' \<and> (\<forall>u. left u pm' \<le> left u pm))"
  have "?Q t pm (Inr (k', pm'))"
  proof (rule join_thread.raw_induct [where P = "\<lambda>\<sigma> k. ?Q", OF _ assms])
    fix join_thread :: "schedule \<Rightarrow> nat \<Rightarrow> nat \<Rightarrow> ProcessManager \<Rightarrow> (fault + nat \<times> ProcessManager) option"
      and \<sigma> k t pm r
    assume IH: "\<And>\<sigma> k t pm r. join_thread \<sigma> k t pm = Some r \<Longrightarrow> ?Q t pm r"
      and r: "(if act_at t pm = None then Some (Inr (k, pm))
        else case RunProcess_step (\<sigma> k) pm of
               Inl e \<Rightarrow> Some (Inl e) | Inr pm' \<Rightarrow> join_thread \<sigma> (k + 1) t pm') = Some r"
    show "?Q t pm r"
    proof (cases "act_at t pm = None \<or> (\<exists>e. RunProcess_step (\<sigma> k) pm = Inl e)")
      case False
      then obtain pm1 where pm1: "RunProcess_step (\<sigma> k) pm = Inr pm1"
        by (cases "RunProcess_step (\<sigma> k) pm") auto
      with False r have "join_thread \<sigma> (k + 1) t pm1 = Some r" by auto
      from IH [OF this] show ?thesis
        using RunProcess_step_keeps [OF pm1] left_step_le [OF _ pm1] by (metis (no_types, lifting) le_trans)
    qed (use r in \<open>auto split: if_splits\<close>)
  qed
  then show ?thesis by blast
qed

section \<open>The whole loop\<close>

definition held_threads :: "ProcessManager \<Rightarrow> nat set" where
  "held_threads pm = {t. Some t \<in> thread ` set (processes pm)}"

definition joinable :: "ProcessManager \<Rightarrow> nat" where
  "joinable pm = length (filter (\<lambda>h. h \<noteq> None) (map thread (processes pm)))"

lemma held_map: "held_threads pm = {t. Some t \<in> set (map thread (processes pm))}"
  by (simp add: held_threads_def)

lemma scan_done:
  "scan_processes infos = (r, infos') \<Longrightarrow> map is_done infos' = map is_done infos"
  by (induction infos arbitrary: r infos') (auto split: option.splits prod.splits if_splits)

lemma scan_joins:
  "\<forall>info \<in> set infos. is_done info \<Longrightarrow>
   (case scan_processes infos of
      (AllDone, infos') \<Rightarrow> infos' = infos \<and> (\<forall>info \<in> set infos. thread info = None)
    | (NotDone, infos') \<Rightarrow> False
    | (JoinThread t, infos') \<Rightarrow>
        {h. Some h \<in> set (map thread infos)} \<subseteq> insert t {h. Some h \<in> set (map thread infos')} \<and>
        length (filter (\<lambda>h. h \<noteq> None) (map thread infos)) =
          Suc (length (filter (\<lambda>h. h \<noteq> None) (map thread infos'))))"
proof (induction infos)
  case (Cons info infos)
  then show ?case
    by (cases "thread info"; cases "scan_processes infos"; cases "fst (scan_processes infos)") auto
qed simp

lemma winding_down_round:
  assumes "winding_down pm" and "WaitForProcesses_round pm = (r, pm1)"
  shows "winding_down pm1"
proof -
  have "map is_done (processes pm1) = map is_done (processes pm)"
    using assms(2) by (auto simp: WaitForProcesses_round_def scan_done split: prod.splits)
  then have "all_done pm1 \<longleftrightarrow> all_done pm"
    by (simp only: all_done_map)
  then show ?thesis
    using assms pm_inv_WaitForProcesses_round [of pm] thread_inv_WaitForProcesses_round [of pm]
    by (simp add: winding_down_def)
qed

lemma join_scanned_result:
  assumes "WaitForProcesses_round pm = (r, pm1)" and "join_scanned \<sigma> k r pm1 = Some (Inr (k', pm2))"
    and "RunProcess_step (\<sigma> k') pm2 = Inr pm3"
  shows "map is_done (processes pm3) = map is_done (processes pm)"
    and "map index (processes pm3) = map index (processes pm)"
    and "map thread (processes pm3) = map thread (processes pm1)"
    and "r = JoinThread t \<Longrightarrow> act_at t pm2 = None"
    and "winding_down pm \<Longrightarrow> winding_down pm3 \<and> (\<forall>u. left u pm3 \<le> left u pm2 \<and> left u pm2 \<le> left u pm)"
proof -
  obtain infos where scan: "scan_processes (processes pm) = (r, infos)" and pm1: "pm1 = pm\<lparr>processes := infos\<rparr>"
    using assms(1) by (auto simp: WaitForProcesses_round_def split: prod.splits)
  note kept = scan_done [OF scan] scan_processes_map [of "processes pm"]
  have joined: "(r = JoinThread t \<longrightarrow> act_at t pm2 = None) \<and>
      map is_done (processes pm2) = map is_done (processes pm1) \<and>
      map thread (processes pm2) = map thread (processes pm1) \<and>
      map index (processes pm2) = map index (processes pm1) \<and>
      (winding_down pm1 \<longrightarrow> winding_down pm2 \<and> (\<forall>u. left u pm2 \<le> left u pm1))"
    using assms(2) by (cases r) (auto simp: join_scanned_def dest: join_result)
  note stepped = RunProcess_step_keeps [OF assms(3)]
  show "map is_done (processes pm3) = map is_done (processes pm)"
    and "map index (processes pm3) = map index (processes pm)"
    and "map thread (processes pm3) = map thread (processes pm1)"
    and "r = JoinThread t \<Longrightarrow> act_at t pm2 = None"
    using joined stepped kept scan pm1 by simp_all
  assume down: "winding_down pm"
  then have "winding_down pm1"
    using assms(1) by (rule winding_down_round)
  moreover have "left u pm1 = left u pm" for u
    by (simp add: left_def act_at_def pm1)
  ultimately show "winding_down pm3 \<and> (\<forall>u. left u pm3 \<le> left u pm2 \<and> left u pm2 \<le> left u pm)"
    using joined left_step_le [OF _ assms(3)] by metis
qed

lemma WaitForProcesses_once:
  assumes "fair \<sigma>" and "winding_down pm" and "WaitForProcesses_round pm = (r, pm1)"
  obtains k' pm2 pm3 where "join_scanned \<sigma> k r pm1 = Some (Inr (k', pm2))"
    and "RunProcess_step (\<sigma> k') pm2 = Inr pm3"
proof -
  have down: "winding_down pm1"
    using assms(2,3) by (rule winding_down_round)
  have "\<exists>k' pm2. join_scanned \<sigma> k r pm1 = Some (Inr (k', pm2))"
    using join_returns [OF assms(1) down] by (cases r) (simp_all add: join_scanned_def)
  then obtain k' pm2 where join: "join_scanned \<sigma> k r pm1 = Some (Inr (k', pm2))"
    by blast
  have "winding_down pm2"
    using join down join_result [of \<sigma> k _ pm1 k' pm2]
    by (cases r) (simp_all add: join_scanned_def)
  then obtain pm3 where "RunProcess_step (\<sigma> k') pm2 = Inr pm3"
    using left_step [of pm2 "\<sigma> k'"] by blast
  with join show ?thesis by (rule that)
qed

text \<open>With every process done, the rounds run out of held_threads.\<close>

lemma round_joins:
  assumes "all_done pm" and "WaitForProcesses_round pm = (r, pm1)"
  shows "(r = AllDone \<and> held_threads pm = {} \<and> pm1 = pm) \<or>
    (\<exists>t. r = JoinThread t \<and> held_threads pm \<subseteq> insert t (held_threads pm1) \<and> joinable pm = Suc (joinable pm1))"
proof -
  obtain infos where scan: "scan_processes (processes pm) = (r, infos)" and pm1: "pm1 = pm\<lparr>processes := infos\<rparr>"
    using assms(2) by (auto simp: WaitForProcesses_round_def split: prod.splits)
  have "\<forall>info \<in> set (processes pm). is_done info"
    using assms(1) by (simp add: all_done_def)
  from scan_joins [OF this] show ?thesis
    unfolding scan pm1 held_map joinable_def by (cases r) (simp_all, force)
qed

lemma WaitForProcesses_returns:
  assumes "fair \<sigma>" and "winding_down pm"
  shows "\<exists>k' pm'. WaitForProcesses \<sigma> k pm = Some (Inr (k', pm')) \<and> winding_down pm' \<and>
    held_threads pm' = {} \<and> known pm' = known pm \<and> (\<forall>u. left u pm' \<le> left u pm) \<and>
    (\<forall>t \<in> held_threads pm. act_at t pm' = None)"
  using assms(2)
proof (induction "joinable pm" arbitrary: k pm rule: less_induct)
  case less
  obtain r pm1 where round: "WaitForProcesses_round pm = (r, pm1)" by fastforce
  obtain k' pm2 pm3 where join: "join_scanned \<sigma> k r pm1 = Some (Inr (k', pm2))"
    and sleep: "RunProcess_step (\<sigma> k') pm2 = Inr pm3"
    using WaitForProcesses_once [OF assms(1) less.prems round] .
  note * = join_scanned_result [OF round join sleep]
  have unfold: "WaitForProcesses \<sigma> k pm =
      (if r = AllDone then Some (Inr (k' + 1, pm3)) else WaitForProcesses \<sigma> (k' + 1) pm3)"
    by (subst WaitForProcesses.simps) (simp add: round join sleep)
  have down: "winding_down pm3" and le: "left u pm3 \<le> left u pm2" "left u pm2 \<le> left u pm" for u
    using *(5) [OF less.prems] by auto
  have same: "known pm3 = known pm" "held_threads pm3 = held_threads pm1" "joinable pm3 = joinable pm1"
    by (simp_all only: known_map held_map joinable_def *)
  have "all_done pm"
    using less.prems by (simp add: winding_down_def)
  from round_joins [OF this round] consider
      (all) "r = AllDone" "held_threads pm = {}" "pm1 = pm"
    | (one) t where "r = JoinThread t" "held_threads pm \<subseteq> insert t (held_threads pm1)" "joinable pm = Suc (joinable pm1)"
    by blast
  then show ?case
  proof cases
    case all
    then show ?thesis
      using unfold down same le_trans [OF le] by auto
  next
    case one
    obtain k'' pm' where rest: "WaitForProcesses \<sigma> (k' + 1) pm3 = Some (Inr (k'', pm'))" "winding_down pm'"
        "held_threads pm' = {}" "known pm' = known pm3" "\<forall>u. left u pm' \<le> left u pm3"
        "\<forall>t \<in> held_threads pm3. act_at t pm' = None"
      using less.hyps [OF _ down, of "k' + 1"] one(3) same by auto
    have "left t pm' = 0"
      using *(4) [OF one(1)] rest(5) le(1) [of t] by (metis left_0 le_zero_eq)
    then have "\<forall>t \<in> held_threads pm. act_at t pm' = None"
      using one(2) rest(6) same(2) by auto
    moreover have "left u pm' \<le> left u pm" for u
      using rest(5) le le_trans by meson
    ultimately show ?thesis
      using unfold one(1) rest same(1) by simp
  qed
qed

text \<open>Without it, the scan never gets past the process that is not done.\<close>

lemma scan_not_done: "scan_processes infos = (AllDone, infos') \<Longrightarrow> \<forall>info \<in> set infos. is_done info"
  by (induction infos arbitrary: infos') (auto split: option.splits prod.splits if_splits)

lemma WaitForProcesses_only_if:
  assumes "WaitForProcesses \<sigma> k pm = Some (Inr (k', pm'))"
  shows "all_done pm"
proof -
  let ?Q = "\<lambda>pm (r :: fault + nat \<times> ProcessManager). Inr (k', pm') = r \<longrightarrow> all_done pm"
  have "?Q pm (Inr (k', pm'))"
  proof (rule WaitForProcesses.raw_induct [where P = "\<lambda>\<sigma> k. ?Q", OF _ assms])
    fix loop :: "schedule \<Rightarrow> nat \<Rightarrow> ProcessManager \<Rightarrow> (fault + nat \<times> ProcessManager) option"
      and \<sigma> k pm res
    assume IH: "\<And>\<sigma> k pm r. loop \<sigma> k pm = Some r \<Longrightarrow> ?Q pm r"
      and body: "(case WaitForProcesses_round pm of (r, pm1) \<Rightarrow>
        Option.bind (join_scanned \<sigma> k r pm1) (\<lambda>joined.
          case joined of
            Inl e \<Rightarrow> Some (Inl e)
          | Inr (k', pm2) \<Rightarrow>
              (case RunProcess_step (\<sigma> k') pm2 of
                 Inl e \<Rightarrow> Some (Inl e)
               | Inr pm3 \<Rightarrow>
                   if r = AllDone then Some (Inr (k' + 1, pm3)) else loop \<sigma> (k' + 1) pm3))) = Some res"
    show "?Q pm res"
    proof
      assume res: "Inr (k', pm') = res"
      obtain r pm1 where round: "WaitForProcesses_round pm = (r, pm1)" by fastforce
      with body res obtain k2 pm2 where join: "join_scanned \<sigma> k r pm1 = Some (Inr (k2, pm2))"
        by (cases "join_scanned \<sigma> k r pm1") (auto split: sum.splits)
      with body res round obtain pm3 where sleep: "RunProcess_step (\<sigma> k2) pm2 = Inr pm3"
        by (auto split: sum.splits)
      from body have next_round: "r \<noteq> AllDone \<Longrightarrow> loop \<sigma> (k2 + 1) pm3 = Some res"
        by (simp add: round join sleep)
      show "all_done pm"
      proof (cases "r = AllDone")
        case True
        then show ?thesis
          using round scan_not_done by (auto simp: WaitForProcesses_round_def all_done_def split: prod.splits)
      next
        case False
        then have "all_done pm3" using IH next_round res by blast
        then show ?thesis
          by (simp only: all_done_map join_scanned_result(1) [OF round join sleep])
      qed
    qed
  qed
  then show ?thesis by blast
qed


definition demo_schedule :: schedule where
  "demo_schedule k = fst (prod_decode k)"

lemma demo_schedule_fair: "fair demo_schedule"
  unfolding fair_def
proof (intro allI)
  fix k t
  have "k \<le> prod_encode (t, k)" by (rule le_prod_encode_2)
  then show "\<exists>d. demo_schedule (k + d) = t"
    by (intro exI [of _ "prod_encode (t, k) - k"]) (simp add: demo_schedule_def)
qed

definition demo_dying :: ProcessManager where
  "demo_dying = LetAllProcessesDie demo_waiting"

lemma demo_dying_reachable: "reachable demo_dying"
proof -
  have "current_max_id demo_waiting = 1"
    by (simp add: demo_waiting_def numeral_eq_Suc RunProcess_step_def act_at_def demo_added_def
        demo_process_def AddProcess_def new_ProcessManager_def new_ProcessInfo_def AddArgument_def Let_def
        StartProcess_def FindProcess_def modify_at_def SetProcessStatus_def at_process_def set_pc_def)
  then show ?thesis
    unfolding demo_dying_def
    by (intro reachable.continued [OF demo_reachable(2) _ pm_step.let_all_die])
      (simp_all add: demo_waiting_facts has_room_def)
qed


end
