(* ===== verification/Transport_Events.thy ===== *)
theory Transport_Events
  imports Local_Tcp_Transport
begin

text \<open>
  The life of a transport: calls of its functions and completions of asynchronous operations, in any
  order, as a step relation on the transport with its connections.  \<open>HandleWrite\<close> and the destructor
  are here too.  The invariant holds in every state that can be reached.
\<close>

section \<open>The remaining handlers\<close>

definition HandleWrite :: "bool \<Rightarrow> LocalTcpTransport \<Rightarrow> LocalTcpTransport" where
  "HandleWrite ec T = (if ec then T\<lparr>errors := errors T @ [kSendFailure]\<rparr> else T)"

text \<open>
  The destructor closes the connections; their pointer to the transport has expired, so they are not
  removed from the set.
\<close>

definition delete_LocalTcpTransport :: "LocalTcpTransport \<Rightarrow> (nat, TcpConnection) std_map" where
  "delete_LocalTcpTransport T = map (\<lambda>(a, c). (a, DoClose c)) (connections T)"

text \<open>A handler of a connection that may close it; \<open>DoClose\<close> removes it from the transport.\<close>

definition at_connection ::
  "nat \<Rightarrow> (TcpConnection \<Rightarrow> TcpConnection) \<Rightarrow> LocalTcpTransport \<Rightarrow> LocalTcpTransport" where
  "at_connection a h T =
     (case map_find a (connections T) of
        None \<Rightarrow> T
      | Some c \<Rightarrow>
          if is_open (h c) then T\<lparr>connections := map_assign a (h c) (connections T)\<rparr>
          else DoRemoveConnection a T)"

section \<open>Events\<close>

datatype transport_event =
    Listening port \<comment> \<open>\<open>StartListening\<close>\<close>
  | Stopping \<comment> \<open>\<open>StopListening\<close>\<close>
  | Accepted bool port \<comment> \<open>\<open>HandleAccept\<close>, with the error flag and the port of the peer\<close>
  | Connecting port \<comment> \<open>\<open>Connect\<close>\<close>
  | Sending string port \<comment> \<open>\<open>Send\<close>\<close>
  | Written bool \<comment> \<open>\<open>HandleWrite\<close>\<close>
  | Arriving nat "byte list" \<comment> \<open>bytes from the peer of a connection\<close>
  | Reading nat \<comment> \<open>the read of a connection completes\<close>
  | SizeFailed nat asio_error \<comment> \<open>\<open>HandleReadSize\<close> with an error\<close>
  | DataFailed nat asio_error \<comment> \<open>\<open>HandleReadData\<close> with an error\<close>
  | Closing nat \<comment> \<open>\<open>Close\<close> of a connection\<close>

fun transport_step ::
  "('w, 'p) env \<Rightarrow> transport_event \<Rightarrow> LocalTcpTransport \<times> 'w \<Rightarrow> LocalTcpTransport \<times> 'w" where
  "transport_step env (Listening prt) (T, w) = snd (snd (StartListening env prt T w))"
| "transport_step env Stopping (T, w) = (StopListening T, w)"
| "transport_step env (Accepted ec peer) (T, w) =
     (if accepting T then HandleAccept ec peer T else T, w)"
| "transport_step env (Connecting prt) (T, w) = snd (Connect env prt T w)"
| "transport_step env (Sending data prt) (T, w) = (Send data prt T, w)"
| "transport_step env (Written ec) (T, w) = (HandleWrite ec T, w)"
| "transport_step env (Arriving a bs) (T, w) =
     (at_connection a (\<lambda>c. c\<lparr>incoming := incoming c @ bs\<rparr>) T, w)"
| "transport_step env (Reading a) (T, w) = (at_connection a (\<lambda>c. snd (read_step c)) T, w)"
| "transport_step env (SizeFailed a ec) (T, w) =
     (at_connection a (\<lambda>c. if pending c = ReadSize \<and> ec \<noteq> no_error then HandleReadSize ec c else c) T, w)"
| "transport_step env (DataFailed a ec) (T, w) =
     (at_connection a
        (\<lambda>c. case pending c of
               ReadData n \<Rightarrow> if ec \<noteq> no_error then snd (HandleReadData ec 0 c) else c
             | _ \<Rightarrow> c) T, w)"
| "transport_step env (Closing a) (T, w) = (Close a T, w)"

inductive transport_reachable :: "('w, 'p) env \<Rightarrow> LocalTcpTransport \<times> 'w \<Rightarrow> bool" for env where
  constructed: "transport_reachable env (new_LocalTcpTransport, w)"
| stepped: "transport_reachable env s \<Longrightarrow> transport_reachable env (transport_step env e s)"

section \<open>The invariant of a connection\<close>

text \<open>
  An open connection is reading, or its read has just been dispatched; a read of data asks for at most
  one chunk and for no more than is left of the message.
\<close>

definition connection_ok :: "TcpConnection \<Rightarrow> bool" where
  "connection_ok c \<longleftrightarrow> is_open c \<and>
     (\<forall>n. pending c = ReadData n \<longrightarrow>
        data_received c \<le> data_size c \<and> n = min 65536 (data_size c - data_received c))"

lemma chunk_within:
  fixes r s :: "64 word"
  assumes "r \<le> s"
  shows "r + min k (s - r) \<le> s"
proof -
  have "unat (s - r) = unat s - unat r"
    using assms by (simp add: unat_sub)
  moreover have "unat (min k (s - r)) \<le> unat (s - r)"
    by (simp add: min_def word_le_nat_alt)
  moreover have "unat r \<le> unat s" "unat s < 2 ^ 64"
    using assms unsigned_less [of s, where ?'a = nat] by (simp_all add: word_le_nat_alt)
  ultimately show ?thesis
    by (simp add: word_le_nat_alt unat_word_ariths)
qed

lemma StartReadData_ok:
  "data_received c \<le> data_size c \<Longrightarrow> is_open c \<Longrightarrow> connection_ok (StartReadData c)"
  by (simp add: connection_ok_def StartReadData_def Let_def kMaxTransportChunkSize_def)

lemma HandleReadSize_ok:
  "connection_ok c \<Longrightarrow> is_open (HandleReadSize ec c) \<Longrightarrow> connection_ok (HandleReadSize ec c)"
  by (auto simp: HandleReadSize_def DoClose_def StartReadData_ok)
    (auto simp: connection_ok_def StartReadSize_def StartReadData_ok)

lemma HandleReadData_ok:
  assumes "is_open c" and "ec = no_error \<Longrightarrow> data_received c \<le> data_size c"
    and "ec = no_error \<Longrightarrow> n = min 65536 (data_size c - data_received c)"
  shows "connection_ok (snd (HandleReadData ec n c))"
proof (cases "ec = no_error")
  case True
  then have "data_received c + n \<le> data_size c"
    using assms(2,3) chunk_within by simp
  with True assms(1) show ?thesis
    by (auto simp: HandleReadData_def Let_def StartReadData_ok DispatchMessage_def)
      (simp add: connection_ok_def StartReadSize_def)
qed (use assms(1) in \<open>simp add: HandleReadData_def connection_ok_def StartReadSize_def\<close>)

lemma read_step_ok:
  assumes "connection_ok c"
  shows "connection_ok (snd (read_step c))"
proof (cases "pending c")
  case ReadSize
  then show ?thesis
    using assms
    by (simp add: read_step_def HandleReadSize_def connection_ok_def [of c] StartReadData_ok)
next
  case (ReadData n)
  then show ?thesis
    using assms
    by (cases "length (incoming c) < unat n")
      (simp add: read_step_def, simp add: read_step_def HandleReadData_ok connection_ok_def [of c])
qed (use assms in \<open>simp add: read_step_def\<close>)

lemma StartSending_ok: "connection_ok c \<Longrightarrow> connection_ok (StartSending data c)"
  by (simp add: connection_ok_def StartSending_def StartWrite_def EncodeData_def Let_def)

section \<open>The invariant of the transport\<close>

definition transport_inv :: "LocalTcpTransport \<Rightarrow> bool" where
  "transport_inv T \<longleftrightarrow>
     map_ok (connections T) \<and>
     (\<forall>a c. map_find a (connections T) = Some c \<longrightarrow> a < next_address T \<and> connection_ok c) \<and>
     (acceptor T \<noteq> None \<longrightarrow> accepting T) \<and>
     set (errors T) \<subseteq> {kInvalidAddress, kMessageSizeTooLarge, kSendFailure}"

lemma transport_inv_at:
  assumes "transport_inv T" and "\<And>c. connection_ok c \<Longrightarrow> is_open (h c) \<Longrightarrow> connection_ok (h c)"
  shows "transport_inv (at_connection a h T)"
  using assms
  by (auto simp: transport_inv_def at_connection_def DoRemoveConnection_def map_ok_assign map_ok_erase
      split: option.splits if_splits)

lemma transport_inv_insert:
  assumes "transport_inv T" and "connection_ok c"
  shows "transport_inv ((DoInsertConnection (next_address T) c T)\<lparr>next_address := next_address T + 1\<rparr>)"
  using assms
  by (auto simp: transport_inv_def DoInsertConnection_def map_ok_assign less_Suc_eq split: if_splits)

lemma transport_inv_next: "transport_inv T \<Longrightarrow> transport_inv (T\<lparr>next_address := next_address T + 1\<rparr>)"
  by (auto simp: transport_inv_def less_Suc_eq)

lemma transport_inv_StartListening:
  assumes "transport_inv T"
  shows "transport_inv (fst (snd (snd (StartListening env prt T w))))"
proof -
  obtain result T' w' where do: "DoStartListening env prt T w = (result, T', w')"
    using prod_cases3 by blast
  from DoStartListening_cases [OF do] assms show ?thesis
    by (auto simp: StartListening_def do transport_inv_def split: if_splits)
qed

lemma transport_inv_HandleAccept:
  assumes "transport_inv T"
  shows "transport_inv (HandleAccept ec peer T)"
proof (cases "acceptor T = None \<or> ec")
  case True
  then show ?thesis
    using assms transport_inv_next [OF assms] by (auto simp: HandleAccept_def transport_inv_def)
next
  case False
  let ?c = "StartReceiving (new_TcpConnection\<lparr>is_open := True, remote_port := peer\<rparr>)"
  have "transport_inv ((DoInsertConnection (next_address T) ?c T)\<lparr>next_address := next_address T + 1\<rparr>)"
    by (rule transport_inv_insert [OF assms]) (simp add: connection_ok_def StartReceiving_def StartReadSize_def)
  with False show ?thesis
    by (auto simp: HandleAccept_def Let_def transport_inv_def DoInsertConnection_def)
qed

lemma transport_inv_Connect:
  assumes "transport_inv T"
  shows "transport_inv (fst (snd (Connect env prt T w)))"
proof (cases "fst (tcp_connect env prt w)")
  case True
  then show ?thesis
    using transport_inv_next [OF assms]
    by (cases "tcp_connect env prt w") (simp add: Connect_def TcpConnection_Connect_def Let_def)
next
  case False
  let ?c = "StartReceiving (new_TcpConnection\<lparr>is_open := True, remote_port := prt\<rparr>)"
  have "transport_inv ((DoInsertConnection (next_address T) ?c T)\<lparr>next_address := next_address T + 1\<rparr>)"
    by (rule transport_inv_insert [OF assms]) (simp add: connection_ok_def StartReceiving_def StartReadSize_def)
  with False show ?thesis
    by (cases "tcp_connect env prt w")
      (simp add: Connect_def TcpConnection_Connect_def Let_def DoInsertConnection_def transport_inv_def)
qed

lemma map_ok_modify: "map fst (modify_at i (\<lambda>(a, c). (a, f c)) m) = map fst m"
  by (simp add: case_prod_beta)

lemma modify_at_Cons [simp]:
  "modify_at 0 f (x # xs) = f x # xs" "modify_at (Suc i) f (x # xs) = x # modify_at i f xs"
  by (simp_all add: modify_at_def)

lemma map_find_modify:
  assumes "map_find a (modify_at i (\<lambda>(a, c). (a, f c)) m) = Some c"
  shows "\<exists>c'. map_find a m = Some c' \<and> (c = c' \<or> c = f c')"
  using assms
proof (induction m arbitrary: i)
  case (Cons x m)
  then show ?case
    by (cases x; cases i) (auto split: if_splits)
qed (simp add: modify_at_def)

lemma transport_inv_Send: "transport_inv T \<Longrightarrow> transport_inv (Send data prt T)"
  unfolding Send_def DoSend_def Let_def transport_inv_def
  by (auto simp: map_ok_def map_ok_modify StartSending_ok split: option.splits
      dest!: map_find_modify)

lemma transport_inv_step:
  "transport_inv (fst s) \<Longrightarrow> transport_inv (fst (transport_step env e s))"
proof (induction env e s rule: transport_step.induct)
  case (8 env a T w)
  then show ?case by (auto intro!: transport_inv_at read_step_ok)
next
  case (9 env a ec T w)
  then show ?case by (auto intro!: transport_inv_at HandleReadSize_ok)
next
  case (10 env a ec T w)
  then show ?case
    by (auto intro!: transport_inv_at HandleReadData_ok split: pending_read.splits)
      (auto simp: connection_ok_def)
qed (auto simp: transport_inv_StartListening transport_inv_HandleAccept transport_inv_Connect
    transport_inv_Send intro!: transport_inv_at,
    auto simp: transport_inv_def StopListening_def HandleWrite_def Close_def DoRemoveConnection_def
      map_ok_erase connection_ok_def split: if_splits)

section \<open>Properties\<close>

lemma transport_reachable_inv: "transport_reachable env s \<Longrightarrow> transport_inv (fst s)"
proof (induction rule: transport_reachable.induct)
  case (constructed w)
  show ?case by (simp add: transport_inv_def new_LocalTcpTransport_def map_ok_def)
qed (rule transport_inv_step)

lemma chunk_unat:
  fixes r s :: "64 word"
  assumes "r \<le> s"
  shows "unat r + unat (min k (s - r)) \<le> unat s"
  using assms by (auto simp: min_def word_le_nat_alt unat_sub)


definition demo_events :: "transport_event list" where
  "demo_events = [Listening 5483, Accepted False 6000, Arriving 0 [0, 0, 0, 5], Reading 0]"

lemma transport_reachable_fold:
  "transport_reachable env s \<Longrightarrow> transport_reachable env (fold (transport_step env) es s)"
  by (induction es arbitrary: s) (simp_all add: transport_reachable.stepped)


end
