(* ===== verification/Ipc_Queue.thy ===== *)
theory Ipc_Queue
  imports Environment
begin

text \<open>
  \<open>queue_struct.h\<close>, \<open>queue_operations.h\<close> and the template \<open>SharedMemoryCommunication\<close> of
  \<open>shared_memory_communication.h\<close>: two mailboxes in shared memory, one for each direction between a parent
  process, which creates the memory, and a child process, which opens it.  An operation holds the mutex of
  its mailbox throughout, so it is one step here; \<open>Push\<close> is taken at the moment its wait ends, with the
  mailbox empty or, after the timeout, still full.  The two directions are two interpretations of the
  locale \<open>mailbox\<close>.
\<close>

section \<open>State\<close>

definition kMessageSize :: nat where
  "kMessageSize = 100000"

record IpcBidirectionalQueue =
  parent_message :: string
  child_message :: string
  message_from_parent :: bool
  message_from_child :: bool

datatype CreationTag = SharedMemoryCreateOnly | SharedMemoryOpenOnly

text \<open>
  \<open>CreateQueue\<close> of the owner: the constructor sets the flags and leaves the arrays as the fresh shared
  memory has them, filled with NUL.
\<close>

definition new_IpcBidirectionalQueue :: IpcBidirectionalQueue where
  "new_IpcBidirectionalQueue = \<lparr>parent_message = replicate kMessageSize (CHR 0x00),
     child_message = replicate kMessageSize (CHR 0x00), message_from_parent = False,
     message_from_child = False\<rparr>"

section \<open>Pushing\<close>

text \<open>\<open>memcpy\<close> copies the characters of the message and no terminator.\<close>

definition Push_parent :: "string \<Rightarrow> IpcBidirectionalQueue \<Rightarrow> bool \<times> IpcBidirectionalQueue" where
  "Push_parent message q =
     (if message_from_parent q then (False, q)
      else (True, q\<lparr>parent_message := mem_copy (parent_message q) message, message_from_parent := True\<rparr>))"

definition Push_child :: "string \<Rightarrow> IpcBidirectionalQueue \<Rightarrow> bool \<times> IpcBidirectionalQueue" where
  "Push_child message q =
     (if message_from_child q then (False, q)
      else (True, q\<lparr>child_message := mem_copy (child_message q) message, message_from_child := True\<rparr>))"

definition PushMessage ::
  "CreationTag \<Rightarrow> string \<Rightarrow> IpcBidirectionalQueue \<Rightarrow> bool \<times> IpcBidirectionalQueue" where
  "PushMessage tag message q =
     (if length message > kMessageSize then (False, q)
      else case tag of
        SharedMemoryCreateOnly \<Rightarrow> Push_parent message q
      | SharedMemoryOpenOnly \<Rightarrow> Push_child message q)"

section \<open>Receiving\<close>

text \<open>
  One turn of the receiving thread: nothing arrived within the timeout, the notifier was called with a
  string, or the array has no terminator and the read leaves it.
\<close>

datatype received = Nothing | Notified string | Unterminated

definition read_array :: "string \<Rightarrow> received" where
  "read_array a = (if CHR 0x00 \<in> set a then Notified (c_str a) else Unterminated)"

definition Receive_parent :: "IpcBidirectionalQueue \<Rightarrow> received \<times> IpcBidirectionalQueue" where
  "Receive_parent q =
     (if \<not> message_from_child q then (Nothing, q)
      else (read_array (child_message q), q\<lparr>message_from_child := False\<rparr>))"

definition Receive_child :: "IpcBidirectionalQueue \<Rightarrow> received \<times> IpcBidirectionalQueue" where
  "Receive_child q =
     (if \<not> message_from_parent q then (Nothing, q)
      else (read_array (parent_message q), q\<lparr>message_from_parent := False\<rparr>))"

definition Receive :: "CreationTag \<Rightarrow> IpcBidirectionalQueue \<Rightarrow> received \<times> IpcBidirectionalQueue" where
  "Receive tag q =
     (case tag of SharedMemoryCreateOnly \<Rightarrow> Receive_parent q | SharedMemoryOpenOnly \<Rightarrow> Receive_child q)"

definition other :: "CreationTag \<Rightarrow> CreationTag" where
  "other tag = (case tag of SharedMemoryCreateOnly \<Rightarrow> SharedMemoryOpenOnly
                | SharedMemoryOpenOnly \<Rightarrow> SharedMemoryCreateOnly)"

text \<open>One side pushes the messages one after the other, and the other side receives each of them.\<close>

fun exchange_messages ::
  "CreationTag \<Rightarrow> string list \<Rightarrow> IpcBidirectionalQueue \<Rightarrow> received list \<times> IpcBidirectionalQueue" where
  "exchange_messages tag [] q = ([], q)"
| "exchange_messages tag (m # ms) q =
     (let (r, q) = Receive (other tag) (snd (PushMessage tag m q));
          (rs, q) = exchange_messages tag ms q
      in (r # rs, q))"

section \<open>A mailbox\<close>

lemma read_array_copy:
  assumes "CHR 0x00 \<notin> set m"
  shows "read_array (mem_copy a m) =
    (if CHR 0x00 \<in> set (drop (length m) a) then Notified (m @ c_str (drop (length m) a)) else Unterminated)"
  using assms by (auto simp: read_array_def mem_copy_def c_str_append)

locale mailbox =
  fixes put :: "string \<Rightarrow> 'q \<Rightarrow> bool \<times> 'q"
    and get :: "'q \<Rightarrow> received \<times> 'q"
    and full :: "'q \<Rightarrow> bool"
    and buffer :: "'q \<Rightarrow> string"
  assumes put_full: "full q \<Longrightarrow> put m q = (False, q)"
    and put_oversize: "length m > kMessageSize \<Longrightarrow> put m q = (False, q)"
    and put_empty: "\<not> full q \<Longrightarrow> length m \<le> kMessageSize \<Longrightarrow>
      fst (put m q) \<and> full (snd (put m q)) \<and> buffer (snd (put m q)) = mem_copy (buffer q) m"
    and get_empty: "\<not> full q \<Longrightarrow> get q = (Nothing, q)"
    and get_full: "full q \<Longrightarrow> fst (get q) = read_array (buffer q) \<and> \<not> full (snd (get q)) \<and>
      buffer (snd (get q)) = buffer q"
begin

text \<open>A pushed message is received once.\<close>

lemma put_put: "\<not> full q \<Longrightarrow> length m \<le> kMessageSize \<Longrightarrow> put m' (snd (put m q)) = (False, snd (put m q))"
  using put_empty put_full by blast

lemma get_get: "fst (get (snd (get q))) = Nothing"
  using get_empty get_full by (cases "full q") auto

lemma put_get:
  assumes "\<not> full q" and "length m \<le> kMessageSize" and "CHR 0x00 \<notin> set m"
  shows "fst (get (snd (put m q))) =
      (if CHR 0x00 \<in> set (drop (length m) (buffer q))
       then Notified (m @ c_str (drop (length m) (buffer q))) else Unterminated) \<and>
    \<not> full (snd (get (snd (put m q)))) \<and>
    buffer (snd (get (snd (put m q)))) = m @ drop (length m) (buffer q)"
  using put_empty [OF assms(1,2)] get_full [of "snd (put m q)"] read_array_copy [OF assms(3)]
  by (simp add: mem_copy_def)

text \<open>If the buffer is clear behind the message, exactly the message arrives.\<close>

lemma put_get_clear:
  assumes "\<not> full q" and "length m < kMessageSize" and "CHR 0x00 \<notin> set m"
    and "drop n (buffer q) = replicate (kMessageSize - n) (CHR 0x00)" and "n \<le> length m"
  shows "fst (get (snd (put m q))) = Notified m \<and> \<not> full (snd (get (snd (put m q)))) \<and>
    drop (length m) (buffer (snd (get (snd (put m q))))) = replicate (kMessageSize - length m) (CHR 0x00)"
proof -
  have "drop (length m) (buffer q) = drop (length m - n) (drop n (buffer q))" using assms(5) by simp
  then have clear: "drop (length m) (buffer q) = replicate (kMessageSize - length m) (CHR 0x00)"
    using assms(4,5) by simp
  moreover obtain k where "kMessageSize - length m = Suc k" using assms(2) by (metis Suc_diff_Suc)
  ultimately show ?thesis using put_get [OF assms(1) _ assms(3)] assms(2) by (simp add: c_str_def)
qed

end

lemma PushMessage_cases:
  "PushMessage SharedMemoryCreateOnly m q = (if length m > kMessageSize then (False, q) else Push_parent m q)"
  "PushMessage SharedMemoryOpenOnly m q = (if length m > kMessageSize then (False, q) else Push_child m q)"
  by (simp_all add: PushMessage_def)

interpretation to_child: mailbox "PushMessage SharedMemoryCreateOnly" Receive_child message_from_parent
  parent_message
  by unfold_locales (auto simp: PushMessage_cases Push_parent_def Receive_child_def)

interpretation to_parent: mailbox "PushMessage SharedMemoryOpenOnly" Receive_parent message_from_child
  child_message
  by unfold_locales (auto simp: PushMessage_cases Push_child_def Receive_parent_def)

text \<open>Both together, by the side that pushes.\<close>

definition pending :: "CreationTag \<Rightarrow> IpcBidirectionalQueue \<Rightarrow> bool" where
  "pending tag q = (case tag of SharedMemoryCreateOnly \<Rightarrow> message_from_parent q
                    | SharedMemoryOpenOnly \<Rightarrow> message_from_child q)"

definition outbox :: "CreationTag \<Rightarrow> IpcBidirectionalQueue \<Rightarrow> string" where
  "outbox tag q = (case tag of SharedMemoryCreateOnly \<Rightarrow> parent_message q
                   | SharedMemoryOpenOnly \<Rightarrow> child_message q)"

interpretation link: mailbox "PushMessage tag" "Receive (other tag)" "pending tag" "outbox tag" for tag
proof (cases tag)
  case SharedMemoryCreateOnly
  then have "Receive (other tag) = Receive_child" "pending tag = message_from_parent" "outbox tag = parent_message"
    by (auto simp: fun_eq_iff Receive_def other_def pending_def outbox_def)
  then show "mailbox (PushMessage tag) (Receive (other tag)) (pending tag) (outbox tag)"
    using to_child.mailbox_axioms SharedMemoryCreateOnly by simp
next
  case SharedMemoryOpenOnly
  then have "Receive (other tag) = Receive_parent" "pending tag = message_from_child" "outbox tag = child_message"
    by (auto simp: fun_eq_iff Receive_def other_def pending_def outbox_def)
  then show "mailbox (PushMessage tag) (Receive (other tag)) (pending tag) (outbox tag)"
    using to_parent.mailbox_axioms SharedMemoryOpenOnly by simp
qed

lemma exchange_clear:
  assumes "\<not> pending tag q" and "drop n (outbox tag q) = replicate (kMessageSize - n) (CHR 0x00)"
    and "sorted (n # map length ms)" and "\<And>m. m \<in> set ms \<Longrightarrow> length m < kMessageSize \<and> CHR 0x00 \<notin> set m"
  shows "fst (exchange_messages tag ms q) = map Notified ms"
  using assms
proof (induction ms arbitrary: n q)
  case (Cons m ms)
  let ?q = "snd (Receive (other tag) (snd (PushMessage tag m q)))"
  have m: "n \<le> length m" "length m < kMessageSize" "CHR 0x00 \<notin> set m"
    using Cons.prems(3,4) by auto
  note step = link.put_get_clear [OF Cons.prems(1) m(2,3) Cons.prems(2) m(1)]
  have "fst (exchange_messages tag ms ?q) = map Notified ms"
    using step Cons.prems(3,4) by (intro Cons.IH [of ?q "length m"]) auto
  with step show ?case by (simp add: case_prod_beta)
qed simp

section \<open>Properties\<close>

text \<open>
  On a fresh queue, in either direction, messages arrive exactly and in order as long as none is
  shorter than the one before it, each is shorter than the buffer, and none contains a NUL character.
\<close>

theorem exchange_delivers:
  assumes "sorted (map length ms)" and "\<And>m. m \<in> set ms \<Longrightarrow> length m < kMessageSize \<and> CHR 0x00 \<notin> set m"
  shows "fst (exchange_messages tag ms new_IpcBidirectionalQueue) = map Notified ms"
proof (rule exchange_clear [of _ _ 0])
  show "\<not> pending tag new_IpcBidirectionalQueue"
    by (cases tag) (simp_all add: pending_def new_IpcBidirectionalQueue_def)
  show "drop 0 (outbox tag new_IpcBidirectionalQueue) = replicate (kMessageSize - 0) (CHR 0x00)"
    by (cases tag) (simp_all add: outbox_def new_IpcBidirectionalQueue_def)
  show "sorted (0 # map length ms)" using assms(1) by simp
qed (use assms(2) in blast)

theorem exchange_delivers_witness:
  "fst (exchange_messages SharedMemoryOpenOnly [''stop'', ''start''] new_IpcBidirectionalQueue) =
     [Notified ''stop'', Notified ''start'']"
proof -
  have "length m < kMessageSize \<and> CHR 0x00 \<notin> set m" if "m \<in> set [''stop'', ''start'']" for m
    using that by (auto simp: kMessageSize_def)
  from exchange_delivers [of "[''stop'', ''start'']", OF _ this, where tag = SharedMemoryOpenOnly]
  show ?thesis by (simp del: exchange_messages.simps)
qed

text \<open>
  C39: a message that follows a longer one arrives with the end of the longer one attached: no terminator
  is copied behind it.
\<close>

theorem exchange_stale_tail:
  assumes "length m < kMessageSize" and "CHR 0x00 \<notin> set m" and "CHR 0x00 \<notin> set m'"
    and "length m' \<le> length m"
  shows "fst (exchange_messages tag [m, m'] new_IpcBidirectionalQueue) =
    [Notified m, Notified (m' @ drop (length m') m)]"
proof -
  let ?q = "snd (Receive (other tag) (snd (PushMessage tag m new_IpcBidirectionalQueue)))"
  have fresh: "\<not> pending tag new_IpcBidirectionalQueue"
    "outbox tag new_IpcBidirectionalQueue = replicate kMessageSize (CHR 0x00)"
    by (cases tag; simp add: pending_def outbox_def new_IpcBidirectionalQueue_def)+
  have "fst (Receive (other tag) (snd (PushMessage tag m new_IpcBidirectionalQueue))) = Notified m"
    using link.put_get_clear [OF fresh(1) assms(1,2), of 0] fresh(2) by simp
  moreover have q: "\<not> pending tag ?q"
    "outbox tag ?q = m @ replicate (kMessageSize - length m) (CHR 0x00)"
    using link.put_get [OF fresh(1) _ assms(2)] assms(1) fresh(2) by simp_all
  moreover obtain k where k: "kMessageSize - length m = Suc k" using assms(1) by (metis Suc_diff_Suc)
  have "CHR 0x00 \<notin> set (drop (length m') m)" using assms(2) by (meson in_set_dropD)
  then have "fst (Receive (other tag) (snd (PushMessage tag m' ?q))) = Notified (m' @ drop (length m') m)"
    using link.put_get [OF q(1) _ assms(3)] assms(1,4) k by (simp add: q(2) c_str_append_nul)
  ultimately show ?thesis by (simp add: case_prod_beta)
qed

theorem exchange_stale_tail_witness:
  "fst (exchange_messages SharedMemoryCreateOnly [''restart'', ''stop''] new_IpcBidirectionalQueue) =
     [Notified ''restart'', Notified ''stopart'']"
  using exchange_stale_tail [of "''restart''" "''stop''" SharedMemoryCreateOnly]
  by (simp add: kMessageSize_def del: exchange_messages.simps)

end
