(* ===== verification/Interprocess.thy ===== *)
theory Interprocess
  imports CM_Prelude
begin

text \<open>
  The shared memory objects of boost.interprocess as a parameter: a directory of names, and for each name
  the segment it stands for.  A segment that is mapped stays usable after its name was removed.
\<close>

section \<open>Shared memory objects\<close>

record 'n interprocess =
  shm_remove :: "string \<Rightarrow> 'n \<Rightarrow> 'n"
  shm_create :: "string \<Rightarrow> 'n \<Rightarrow> nat option \<times> 'n" \<comment> \<open>\<open>create_only\<close>; \<open>None\<close>: it throws\<close>
  shm_open :: "string \<Rightarrow> 'n \<Rightarrow> nat option" \<comment> \<open>\<open>open_only\<close>; \<open>None\<close>: it throws\<close>

text \<open>
  The documented behaviour: removing a name makes it free; a free name can be created, as a segment that
  no name had before; and then the name stands for it, and the other names for what they stood for.
\<close>

definition interprocess_ok :: "'n interprocess \<Rightarrow> bool" where
  "interprocess_ok ip \<longleftrightarrow>
     (\<forall>a n. shm_open ip a (shm_remove ip a n) = None \<and>
        (\<forall>b. b \<noteq> a \<longrightarrow> shm_open ip b (shm_remove ip a n) = shm_open ip b n)) \<and>
     (\<forall>a n. shm_open ip a n = None \<longrightarrow>
        (\<exists>seg n'. shm_create ip a n = (Some seg, n') \<and> shm_open ip a n' = Some seg \<and>
          (\<forall>b. shm_open ip b n \<noteq> Some seg) \<and> (\<forall>b. b \<noteq> a \<longrightarrow> shm_open ip b n' = shm_open ip b n))) \<and>
     (\<forall>a n. shm_open ip a n \<noteq> None \<longrightarrow> shm_create ip a n = (None, n))"

section \<open>Lemmas\<close>

lemma interprocess_okD:
  assumes "interprocess_ok ip"
  shows "shm_open ip a (shm_remove ip a n) = None"
    and "b \<noteq> a \<Longrightarrow> shm_open ip b (shm_remove ip a n) = shm_open ip b n"
    and "shm_open ip a n = None \<Longrightarrow> \<exists>seg n'. shm_create ip a n = (Some seg, n') \<and> shm_open ip a n' = Some seg \<and>
      (\<forall>b. shm_open ip b n \<noteq> Some seg) \<and> (\<forall>b. b \<noteq> a \<longrightarrow> shm_open ip b n' = shm_open ip b n)"
    and "shm_open ip a n \<noteq> None \<Longrightarrow> shm_create ip a n = (None, n)"
  using assms unfolding interprocess_ok_def by blast+

section \<open>An instance\<close>

text \<open>A directory of names; a new segment has a number above all others.\<close>

definition demo_shm :: "(string \<times> nat) list interprocess" where
  "demo_shm = \<lparr>shm_remove = (\<lambda>a d. filter (\<lambda>e. fst e \<noteq> a) d),
     shm_create = (\<lambda>a d. case map_of d a of
         None \<Rightarrow> (Some (Suc (sum_list (map snd d))), (a, Suc (sum_list (map snd d))) # d)
       | Some _ \<Rightarrow> (None, d)),
     shm_open = (\<lambda>a d. map_of d a)\<rparr>"

lemma demo_shm_ok: "interprocess_ok demo_shm"
proof -
  have "map_of (filter (\<lambda>e. fst e \<noteq> a) d) b = (if b = a then None else map_of d b)" for a b and d :: "(string \<times> nat) list"
    by (induction d) auto
  moreover have "map_of d b \<noteq> Some (Suc (sum_list (map snd d)))" for b and d :: "(string \<times> nat) list"
    using member_le_sum_list [of _ "map snd d"] by (force dest: map_of_SomeD)
  ultimately show ?thesis by (simp add: interprocess_ok_def demo_shm_def split: option.split)
qed

end
