(* ===== verification/Shared_Memory.thy ===== *)
theory Shared_Memory
  imports Ipc_Queue Interprocess
begin

text \<open>
  The template \<open>SharedMemoryCommunication\<close> of \<open>shared_memory_communication.h\<close> with its helpers
  \<open>DecideDeletion\<close>, \<open>DecideTruncate\<close> and \<open>CreateQueue\<close> of \<open>queue_operations.h\<close>: how an owner and a user come
  to share a queue, and what arrives in every interleaving of their pushes and their receiving threads.
\<close>

section \<open>Construction and destruction\<close>

text \<open>\<open>segments\<close> is the content of the shared memory, which all processes see.\<close>

record 'n machine =
  names :: 'n
  segments :: "nat \<Rightarrow> IpcBidirectionalQueue"

record SharedMemoryCommunication =
  shared_memory_name :: string
  creation_tag :: CreationTag
  message_queue :: nat \<comment> \<open>the segment it is mapped to\<close>
  receive_flag :: bool

definition DecideDeletion :: "'n interprocess \<Rightarrow> CreationTag \<Rightarrow> string \<Rightarrow> 'n machine \<Rightarrow> 'n machine" where
  "DecideDeletion ip tag nm M =
     (case tag of
        SharedMemoryCreateOnly \<Rightarrow> M\<lparr>names := shm_remove ip nm (names M)\<rparr>
      | SharedMemoryOpenOnly \<Rightarrow> M)"

text \<open>
  \<open>DecideTruncate\<close> and \<open>CreateQueue\<close>: the owner gives the segment its size, which fills it with NUL, and
  constructs a queue there; the user takes what is there.
\<close>

definition CreateQueue :: "CreationTag \<Rightarrow> nat \<Rightarrow> 'n machine \<Rightarrow> 'n machine" where
  "CreateQueue tag seg M =
     (case tag of
        SharedMemoryCreateOnly \<Rightarrow> M\<lparr>segments := (segments M)(seg := new_IpcBidirectionalQueue)\<rparr>
      | SharedMemoryOpenOnly \<Rightarrow> M)"

text \<open>The constructor; \<open>None\<close>: the shared memory object throws.\<close>

definition new_SharedMemoryCommunication ::
  "'n interprocess \<Rightarrow> CreationTag \<Rightarrow> string \<Rightarrow> 'n machine \<Rightarrow> (SharedMemoryCommunication \<times> 'n machine) option"
where
  "new_SharedMemoryCommunication ip tag nm M =
     (let M = DecideDeletion ip tag nm M;
          (seg, M) = (case tag of
              SharedMemoryCreateOnly \<Rightarrow>
                (let (seg, n) = shm_create ip nm (names M) in (seg, M\<lparr>names := n\<rparr>))
            | SharedMemoryOpenOnly \<Rightarrow> (shm_open ip nm (names M), M))
      in map_option (\<lambda>seg. (\<lparr>shared_memory_name = nm, creation_tag = tag, message_queue = seg,
            receive_flag = True\<rparr>, CreateQueue tag seg M)) seg)"

definition delete_SharedMemoryCommunication ::
  "'n interprocess \<Rightarrow> SharedMemoryCommunication \<Rightarrow> 'n machine \<Rightarrow> SharedMemoryCommunication \<times> 'n machine" where
  "delete_SharedMemoryCommunication ip c M =
     (c\<lparr>receive_flag := False\<rparr>, DecideDeletion ip (creation_tag c) (shared_memory_name c) M)"

text \<open>A push, and a turn of the receiving thread, of one side.\<close>

definition at_segment :: "(IpcBidirectionalQueue \<Rightarrow> 'r \<times> IpcBidirectionalQueue) \<Rightarrow> nat \<Rightarrow> 'n machine \<Rightarrow> 'r \<times> 'n machine"
where
  "at_segment f seg M = (let (r, q) = f (segments M seg) in (r, M\<lparr>segments := (segments M)(seg := q)\<rparr>))"

definition comm_push :: "SharedMemoryCommunication \<Rightarrow> string \<Rightarrow> 'n machine \<Rightarrow> bool \<times> 'n machine" where
  "comm_push c message = at_segment (PushMessage (creation_tag c) message) (message_queue c)"

definition comm_turn :: "SharedMemoryCommunication \<Rightarrow> 'n machine \<Rightarrow> received \<times> 'n machine" where
  "comm_turn c M =
     (if receive_flag c then at_segment (Receive (creation_tag c)) (message_queue c) M else (Nothing, M))"

section \<open>Interleavings on one queue\<close>

text \<open>
  The queue with a record of the messages that each side has pushed successfully and of what the other
  side was notified of.
\<close>

datatype ipc_event = PushBy CreationTag string | TurnOf CreationTag

record traffic =
  queue :: IpcBidirectionalQueue
  accepted :: "CreationTag \<Rightarrow> string list"
  notified :: "CreationTag \<Rightarrow> received list" \<comment> \<open>by the side that pushed\<close>

definition fresh_traffic :: traffic where
  "fresh_traffic = \<lparr>queue = new_IpcBidirectionalQueue, accepted = (\<lambda>_. []), notified = (\<lambda>_. [])\<rparr>"

fun ipc_step :: "ipc_event \<Rightarrow> traffic \<Rightarrow> traffic" where
  "ipc_step (PushBy tag m) t =
     (let (ok, q) = PushMessage tag m (queue t)
      in t\<lparr>queue := q, accepted := (if ok then (accepted t)(tag := accepted t tag @ [m]) else accepted t)\<rparr>)"
| "ipc_step (TurnOf tag) t =
     (let (r, q) = Receive tag (queue t)
      in t\<lparr>queue := q, notified := (if r = Nothing then notified t
             else (notified t)(other tag := notified t (other tag) @ [r]))\<rparr>)"

section \<open>Lemmas\<close>

lemma other_other [simp]: "other (other tag) = tag"
  by (cases tag) (simp_all add: other_def)

lemma other_neq [simp]: "other tag \<noteq> tag" "tag \<noteq> other tag"
  by (cases tag; simp add: other_def)+

lemma eq_other: "b \<noteq> tag \<longleftrightarrow> b = other tag"
  by (cases tag; cases b; simp add: other_def)

text \<open>An operation on one direction leaves the other direction alone.\<close>

lemma direction_frame [cm_frame]:
  "pending (other tag) (snd (PushMessage tag m q)) = pending (other tag) q"
  "outbox (other tag) (snd (PushMessage tag m q)) = outbox (other tag) q"
  "pending tag (snd (Receive tag q)) = pending tag q"
  "outbox tag (snd (Receive tag q)) = outbox tag q"
  by (cases tag; simp add: other_def pending_def outbox_def PushMessage_def Push_parent_def Push_child_def
      Receive_def Receive_parent_def Receive_child_def)+

lemma read_array_not_Nothing [simp]: "read_array a \<noteq> Nothing"
  by (simp add: read_array_def)

subsection \<open>The contract of one direction\<close>

text \<open>Messages that arrive as they were pushed: none is shorter than the one before it.\<close>

definition deliverable :: "string list \<Rightarrow> bool" where
  "deliverable ms \<longleftrightarrow> sorted (map length ms) \<and> (\<forall>m \<in> set ms. length m < kMessageSize \<and> CHR 0x00 \<notin> set m)"

definition latest :: "string list \<Rightarrow> string" where
  "latest ms = (if ms = [] then [] else last ms)"

text \<open>The buffer holds the latest message and is clear behind it; only that message can be outstanding.\<close>

definition fifo :: "CreationTag \<Rightarrow> traffic \<Rightarrow> bool" where
  "fifo tag t \<longleftrightarrow>
     outbox tag (queue t) = latest (accepted t tag) @
       replicate (kMessageSize - length (latest (accepted t tag))) (CHR 0x00) \<and>
     (if pending tag (queue t)
      then accepted t tag \<noteq> [] \<and> notified t tag = map Notified (butlast (accepted t tag))
      else notified t tag = map Notified (accepted t tag))"

lemma deliverable_snoc:
  "deliverable (ms @ [m]) \<Longrightarrow> deliverable ms \<and> length m < kMessageSize \<and> CHR 0x00 \<notin> set m \<and>
     length (latest ms) \<le> length m"
  by (auto simp: deliverable_def latest_def sorted_append)

lemma read_padded:
  assumes "length m < kMessageSize" and "CHR 0x00 \<notin> set m"
  shows "read_array (m @ replicate (kMessageSize - length m) (CHR 0x00)) = Notified m"
proof -
  obtain k where "kMessageSize - length m = Suc k" using assms(1) by (metis Suc_diff_Suc)
  then show ?thesis using assms(2) by (simp add: read_array_def c_str_append_nul)
qed

lemma fifo_push:
  assumes "fifo tag t" and "deliverable (accepted (ipc_step (PushBy tag m) t) tag)"
  shows "fifo tag (ipc_step (PushBy tag m) t)"
proof (cases "pending tag (queue t) \<or> kMessageSize < length m")
  case True
  then have "PushMessage tag m (queue t) = (False, queue t)" using link.put_full link.put_oversize by blast
  then have "ipc_step (PushBy tag m) t = t" by simp
  then show ?thesis using assms(1) by simp
next
  case False
  then obtain q where q: "PushMessage tag m (queue t) = (True, q)" "pending tag q"
    "outbox tag q = mem_copy (outbox tag (queue t)) m"
    using link.put_empty [of tag "queue t" m] by (cases "PushMessage tag m (queue t)") auto
  let ?l = "latest (accepted t tag)"
  have d: "length m < kMessageSize" "length ?l \<le> length m"
    using assms(2) q(1) deliverable_snoc [of "accepted t tag" m] by auto
  have "outbox tag q = m @ replicate (kMessageSize - length m) (CHR 0x00)"
    using assms(1) d by (simp add: q(3) fifo_def mem_copy_def)
  with q assms(1) False show ?thesis by (simp add: fifo_def latest_def)
qed

lemma fifo_turn:
  assumes "fifo tag t" and "deliverable (accepted t tag)"
  shows "fifo tag (ipc_step (TurnOf (other tag)) t)"
proof (cases "pending tag (queue t)")
  case False
  then have "Receive (other tag) (queue t) = (Nothing, queue t)" by (rule link.get_empty)
  then show ?thesis using assms(1) by simp
next
  case True
  obtain r q where r: "Receive (other tag) (queue t) = (r, q)" by fastforce
  have q: "r = read_array (outbox tag (queue t))" "\<not> pending tag q" "outbox tag q = outbox tag (queue t)"
    using link.get_full [OF True] r by auto
  from True assms(1) obtain ms m where acc: "accepted t tag = ms @ [m]" "notified t tag = map Notified ms"
    by (cases "accepted t tag" rule: rev_cases) (auto simp: fifo_def)
  with assms have "r = Notified m"
    using deliverable_snoc [of ms m] by (simp add: q(1) fifo_def latest_def read_padded)
  with q r assms(1) acc show ?thesis by (simp add: fifo_def latest_def)
qed

lemma fifo_other_direction:
  assumes "fifo tag t" and "e = PushBy (other tag) m \<or> e = TurnOf tag"
  shows "fifo tag (ipc_step e t)"
proof -
  have "accepted (ipc_step e t) tag = accepted t tag" "notified (ipc_step e t) tag = notified t tag"
    using assms(2) by (auto simp: case_prod_beta)
  moreover have "pending tag (queue (ipc_step e t)) = pending tag (queue t)"
    "outbox tag (queue (ipc_step e t)) = outbox tag (queue t)"
    using assms(2) direction_frame(1,2) [of "other tag" m "queue t"] direction_frame(3,4) [of tag "queue t"]
    by (auto simp: case_prod_beta)
  ultimately show ?thesis using assms(1) by (simp add: fifo_def)
qed

lemma accepted_grows: "\<exists>ms. accepted (ipc_step e t) tag = accepted t tag @ ms"
  by (cases e) (auto simp: case_prod_beta)

lemma fifo_run:
  "deliverable (accepted (fold ipc_step es fresh_traffic) tag) \<Longrightarrow> fifo tag (fold ipc_step es fresh_traffic)"
proof (induction es rule: rev_induct)
  case Nil
  show ?case
    by (cases tag) (simp_all add: fresh_traffic_def fifo_def latest_def pending_def outbox_def
        new_IpcBidirectionalQueue_def)
next
  case (snoc e es)
  let ?t = "fold ipc_step es fresh_traffic"
  obtain ms where "accepted (ipc_step e ?t) tag = accepted ?t tag @ ms" using accepted_grows by blast
  with snoc.prems have "deliverable (accepted ?t tag)" by (auto simp: deliverable_def sorted_append)
  then have ih: "fifo tag ?t" by (rule snoc.IH)
  consider m where "e = PushBy tag m" | "e = TurnOf (other tag)" | m where "e = PushBy (other tag) m" | "e = TurnOf tag"
    using eq_other by (cases e) metis+
  then have "fifo tag (ipc_step e ?t)"
  proof cases
    case 1
    with fifo_push [OF ih] snoc.prems show ?thesis by simp
  next
    case 2
    with fifo_turn [OF ih \<open>deliverable (accepted ?t tag)\<close>] show ?thesis by simp
  qed (use fifo_other_direction [OF ih] in blast)+
  then show ?case by simp
qed

subsection \<open>Sharing a queue\<close>

lemma owner_constructs:
  assumes "interprocess_ok ip"
  obtains seg n where
    "new_SharedMemoryCommunication ip SharedMemoryCreateOnly nm M =
       Some (\<lparr>shared_memory_name = nm, creation_tag = SharedMemoryCreateOnly, message_queue = seg,
         receive_flag = True\<rparr>, M\<lparr>names := n, segments := (segments M)(seg := new_IpcBidirectionalQueue)\<rparr>)"
    "shm_open ip nm n = Some seg" "\<And>b. b \<noteq> nm \<Longrightarrow> shm_open ip b (names M) \<noteq> Some seg"
    "\<And>b. b \<noteq> nm \<Longrightarrow> shm_open ip b n = shm_open ip b (names M)"
proof -
  let ?n = "shm_remove ip nm (names M)"
  from interprocess_okD(3) [OF assms interprocess_okD(1) [OF assms], of nm "names M"] obtain seg n where
    c: "shm_create ip nm ?n = (Some seg, n)" "shm_open ip nm n = Some seg"
      "\<And>b. shm_open ip b ?n \<noteq> Some seg" "\<And>b. b \<noteq> nm \<Longrightarrow> shm_open ip b n = shm_open ip b ?n" by blast
  show thesis
  proof (rule that)
    show "new_SharedMemoryCommunication ip SharedMemoryCreateOnly nm M =
       Some (\<lparr>shared_memory_name = nm, creation_tag = SharedMemoryCreateOnly, message_queue = seg,
         receive_flag = True\<rparr>, M\<lparr>names := n, segments := (segments M)(seg := new_IpcBidirectionalQueue)\<rparr>)"
      using c(1) by (simp add: new_SharedMemoryCommunication_def DecideDeletion_def CreateQueue_def)
    show "shm_open ip nm n = Some seg" by (rule c(2))
    show "shm_open ip b (names M) \<noteq> Some seg" if "b \<noteq> nm" for b
      using c(3) [of b] interprocess_okD(2) [OF assms that] by simp
    show "shm_open ip b n = shm_open ip b (names M)" if "b \<noteq> nm" for b
      using c(4) [OF that] interprocess_okD(2) [OF assms that] by simp
  qed
qed

section \<open>Properties\<close>

text \<open>
  C16: in every interleaving of pushes and receiving threads, in both directions at once, a message is
  received at most once and in the order of the pushes, at most one message per direction is outstanding,
  and, as long as no accepted message is shorter than the one before it, what arrives is what was
  pushed.
\<close>

theorem ipc_fifo:
  assumes "t = fold ipc_step es fresh_traffic" and "deliverable (accepted t tag)"
  shows "if pending tag (queue t)
         then accepted t tag \<noteq> [] \<and> notified t tag = map Notified (butlast (accepted t tag))
         else notified t tag = map Notified (accepted t tag)"
  using fifo_run [of es tag] assms by (simp add: fifo_def)

theorem ipc_fifo_witness:
  "\<exists>t. t = fold ipc_step [PushBy SharedMemoryCreateOnly ''go'', PushBy SharedMemoryCreateOnly ''lost'',
       PushBy SharedMemoryOpenOnly ''hi'', TurnOf SharedMemoryOpenOnly, PushBy SharedMemoryCreateOnly ''stop'']
     fresh_traffic \<and> accepted t SharedMemoryCreateOnly = [''go'', ''stop''] \<and>
     notified t SharedMemoryCreateOnly = [Notified ''go'']"
proof -
  define t where "t = fold ipc_step [PushBy SharedMemoryCreateOnly ''go'', PushBy SharedMemoryCreateOnly ''lost'',
    PushBy SharedMemoryOpenOnly ''hi'', TurnOf SharedMemoryOpenOnly, PushBy SharedMemoryCreateOnly ''stop'']
    fresh_traffic"
  have acc: "accepted t SharedMemoryCreateOnly = [''go'', ''stop'']" "pending SharedMemoryCreateOnly (queue t)"
    by (simp_all add: t_def fresh_traffic_def new_IpcBidirectionalQueue_def PushMessage_def Push_parent_def
        Push_child_def Receive_def Receive_child_def other_def pending_def kMessageSize_def)
  moreover have "deliverable [''go'', ''stop'']" by (simp add: deliverable_def kMessageSize_def)
  ultimately have "notified t SharedMemoryCreateOnly = [Notified ''go'']"
    using ipc_fifo [OF t_def, of SharedMemoryCreateOnly] by simp
  with acc t_def show ?thesis by blast
qed



end
