(* ===== verification/Shared_Address.thy ===== *)
theory Shared_Address
  imports Demo_Environment Interprocess
begin

text \<open>
  \<open>SafeAddress\<close> of \<open>queue_struct.h\<close>, and the classes \<open>SafeReadOnlySharedMemory\<close> and
  \<open>ClientManagerAddressGetter\<close> of \<open>shared_memory_communication.h\<close>, in a build with \<open>NDEBUG\<close>: the address
  of the client manager in shared memory, with a signature.  The signature scheme of the maid is the
  parameter \<open>check\<close> (\<open>asymm::CheckSignature\<close> with the public key of the maid).
\<close>

section \<open>State\<close>

definition DIGESTSIZE :: nat where
  "DIGESTSIZE = 64"

record SafeAddress =
  address :: string
  signature :: string

text \<open>
  The result of an operation: \<open>None\<close> when it reads or writes beyond the object, otherwise a fault or a value.
\<close>

type_synonym 'a access = "(fault + 'a) option"

text \<open>\<open>memcpy\<close> of a whole string into an array; \<open>None\<close> when it does not fit.\<close>

definition copy_into :: "string \<Rightarrow> string \<Rightarrow> string option" where
  "copy_into dst src = (if length src \<le> length dst then Some (mem_copy dst src) else None)"

text \<open>
  \<open>Identity(safe_address_->address)\<close>: the array becomes a \<open>const char*\<close>, and the string goes on until the
  first NUL.  The array \<open>signature\<close> lies directly behind the array \<open>address\<close>.
\<close>

definition read_identity :: "('w, 'p) env \<Rightarrow> SafeAddress \<Rightarrow> bytes access" where
  "read_identity env m =
     (if CHR 0x00 \<notin> set (address m @ signature m) then None
      else
        let s = c_str (address m @ signature m)
        in if valid_Identity env s then Some (Inr s) else Some (Inl (Exception invalid_string_size)))"

section \<open>Operations\<close>

text \<open>\<open>n\<close> is \<open>asymm::Keys::kSignatureByteSize\<close>; the memory is fresh and filled with NUL.\<close>

definition new_SafeReadOnlySharedMemory :: "nat \<Rightarrow> bytes \<Rightarrow> bytes \<Rightarrow> SafeAddress option" where
  "new_SafeReadOnlySharedMemory n nm initial_signature =
     (case copy_into (replicate DIGESTSIZE (CHR 0x00)) nm of
        None \<Rightarrow> None
      | Some a \<Rightarrow>
          (case copy_into (replicate n (CHR 0x00)) initial_signature of
             None \<Rightarrow> None
           | Some g \<Rightarrow> Some \<lparr>address = a, signature = g\<rparr>))"

text \<open>
  The shared memory object: it is created under a fixed name, which must be free (unlike the owner of a
  queue, the constructor does not remove a name that was left behind), and removed by the destructor.
  \<open>None\<close>: the object throws.
\<close>

record 'n address_memory =
  directory :: 'n
  blocks :: "nat \<Rightarrow> SafeAddress"

definition address_name :: string where
  "address_name = ''client_manager''"

definition publish_address ::
  "'n interprocess \<Rightarrow> nat \<Rightarrow> bytes \<Rightarrow> bytes \<Rightarrow> 'n address_memory \<Rightarrow> (nat \<times> 'n address_memory) option" where
  "publish_address ip n nm initial_signature A =
     (case shm_create ip address_name (directory A) of
        (None, _) \<Rightarrow> None
      | (Some seg, d) \<Rightarrow>
          map_option (\<lambda>m. (seg, A\<lparr>directory := d, blocks := (blocks A)(seg := m)\<rparr>))
            (new_SafeReadOnlySharedMemory n nm initial_signature))"

definition withdraw_address :: "'n interprocess \<Rightarrow> 'n address_memory \<Rightarrow> 'n address_memory" where
  "withdraw_address ip A = A\<lparr>directory := shm_remove ip address_name (directory A)\<rparr>"

text \<open>\<open>ClientManagerAddressGetter\<close>: the block that the name stands for; \<open>None\<close>: the object throws.\<close>

definition new_ClientManagerAddressGetter :: "'n interprocess \<Rightarrow> 'n address_memory \<Rightarrow> nat option" where
  "new_ClientManagerAddressGetter ip A = shm_open ip address_name (directory A)"

definition GetAddress :: "('w, 'p) env \<Rightarrow> SafeAddress \<Rightarrow> bytes access" where
  "GetAddress env m = read_identity env m"

definition ChangeAddress ::
  "('w, 'p) env \<Rightarrow> (bytes \<Rightarrow> bytes \<Rightarrow> bool) \<Rightarrow> bytes \<Rightarrow> bytes \<Rightarrow> SafeAddress \<Rightarrow> SafeAddress access" where
  "ChangeAddress env check new_address new_signature m =
     (case read_identity env m of
        None \<Rightarrow> None
      | Some (Inl e) \<Rightarrow> Some (Inl e)
      | Some (Inr current_address) \<Rightarrow>
          if current_address = new_address then Some (Inr m)
          else if check new_address new_signature then
            (case copy_into (address m) new_address of
               None \<Rightarrow> None
             | Some a \<Rightarrow>
                 (case copy_into (signature m) new_signature of
                    None \<Rightarrow> None
                  | Some g \<Rightarrow> Some (Inr (m\<lparr>address := a, signature := g\<rparr>))))
          else Some (Inl (Exception invalid_signature)))"

section \<open>Lemmas\<close>

lemma c_str_stops: "CHR 0x00 \<in> set a \<Longrightarrow> length (c_str (a @ b)) < length a"
  by (induction a) (auto simp: c_str_def)

lemma read_identity_length:
  assumes "\<And>s. valid_Identity env s \<Longrightarrow> length s = DIGESTSIZE"
    and "length (address m) = DIGESTSIZE" and "read_identity env m = Some (Inr s)"
  shows "s = address m \<and> CHR 0x00 \<notin> set (address m) \<and> signature m \<noteq> [] \<and> hd (signature m) = CHR 0x00"
proof -
  have s: "s = c_str (address m @ signature m)" and len: "length s = DIGESTSIZE"
    using assms(1,3) by (auto simp: read_identity_def Let_def split: if_splits)
  have "CHR 0x00 \<notin> set (address m)"
  proof
    assume "CHR 0x00 \<in> set (address m)"
    then have "length (c_str (address m @ signature m)) < length (address m)" by (rule c_str_stops)
    with s len assms(2) show False by simp
  qed
  moreover from this have "s = address m @ c_str (signature m)" using s by (simp add: c_str_append)
  moreover from this have "c_str (signature m) = []" using len assms(2) by simp
  moreover have "CHR 0x00 \<in> set (address m @ signature m)"
    using assms(3) by (auto simp: read_identity_def split: if_splits)
  ultimately show ?thesis by (cases "signature m") (auto simp: c_str_def split: if_splits)
qed

section \<open>Properties\<close>

text \<open>
  C40: \<open>GetAddress\<close> returns an address only if the first byte of the signature behind it happens to be NUL;
  for every other signature the read runs on into the signature, and the call throws or leaves the
  object.
\<close>

theorem GetAddress_needs_NUL:
  assumes "\<And>s. valid_Identity env s \<Longrightarrow> length s = DIGESTSIZE"
    and "new_SafeReadOnlySharedMemory n nm sig = Some m" and "length nm = DIGESTSIZE"
    and "length sig = n" and "GetAddress env m = Some (Inr a)"
  shows "a = nm \<and> sig \<noteq> [] \<and> hd sig = CHR 0x00"
proof -
  have "address m = nm" "signature m = sig"
    using assms(2-4) by (auto simp: new_SafeReadOnlySharedMemory_def copy_into_def mem_copy_def
        split: option.splits if_splits)
  with read_identity_length [of env m a, OF assms(1)] assms(3,5) show ?thesis by (simp add: GetAddress_def)
qed

definition identity_env :: "(world, string) env" where
  "identity_env = demo_env\<lparr>valid_Identity := \<lambda>s. length s = 64\<rparr>"

theorem GetAddress_needs_NUL_witness:
  "\<exists>m. new_SafeReadOnlySharedMemory 2 (replicate 64 (CHR ''a'')) [CHR 0x00, CHR ''g''] = Some m \<and>
     GetAddress identity_env m = Some (Inr (replicate 64 (CHR ''a''))) \<and> hd [CHR 0x00, CHR ''g''] = CHR 0x00"
proof -
  let ?a = "replicate 64 (CHR ''a'')" and ?g = "[CHR 0x00, CHR ''g'']"
  have m: "new_SafeReadOnlySharedMemory 2 ?a ?g = Some \<lparr>address = ?a, signature = ?g\<rparr>"
    by (simp add: new_SafeReadOnlySharedMemory_def copy_into_def mem_copy_def DIGESTSIZE_def)
  have g: "GetAddress identity_env \<lparr>address = ?a, signature = ?g\<rparr> = Some (Inr ?a)"
    using c_str_append_nul [of ?a "''g''"]
    by (simp add: GetAddress_def read_identity_def identity_env_def)
  have "length s = DIGESTSIZE" if "valid_Identity identity_env s" for s
    using that by (simp add: identity_env_def DIGESTSIZE_def)
  from GetAddress_needs_NUL [OF this m _ _ g] m g show ?thesis by (simp add: DIGESTSIZE_def)
qed

text \<open>The address changes only to one that the key of the maid has signed.\<close>

lemma ChangeAddress_authorised:
  "ChangeAddress env check a g m = Some (Inr m') \<Longrightarrow> m' = m \<or> (check a g \<and> take (length a) (address m') = a)"
  by (auto simp: ChangeAddress_def copy_into_def mem_copy_def split: option.splits sum.splits if_splits)

text \<open>
  C20: if a client manager ends without its destructor, no other one can be constructed: the name of the
  published address is still there.  After a regular end the next one can publish its address, and the
  getter finds it.
\<close>

theorem address_left_behind:
  assumes "interprocess_ok ip" and "publish_address ip n nm sig A = Some (seg, A')"
  shows "publish_address ip n' nm' sig' A' = None \<and>
    (\<forall>m. new_SafeReadOnlySharedMemory n' nm' sig' = Some m \<longrightarrow>
      (\<exists>seg' A''. publish_address ip n' nm' sig' (withdraw_address ip A') = Some (seg', A'') \<and>
        new_ClientManagerAddressGetter ip A'' = Some seg' \<and> blocks A'' seg' = m))"
proof (intro conjI allI impI)
  have "shm_create ip address_name (directory A) \<noteq> (None, directory A)"
    using assms(2) by (auto simp: publish_address_def)
  then have free: "shm_open ip address_name (directory A) = None"
    using interprocess_okD(4) [OF assms(1)] by blast
  from interprocess_okD(3) [OF assms(1) free] assms(2)
  have "shm_open ip address_name (directory A') = Some seg"
    by (auto simp: publish_address_def split: option.splits)
  then show "publish_address ip n' nm' sig' A' = None"
    using interprocess_okD(4) [OF assms(1), of address_name "directory A'"] by (simp add: publish_address_def)
  fix m
  assume "new_SafeReadOnlySharedMemory n' nm' sig' = Some m"
  with interprocess_okD(3) [OF assms(1) interprocess_okD(1) [OF assms(1)], of address_name "directory A'"]
  show "\<exists>seg' A''. publish_address ip n' nm' sig' (withdraw_address ip A') = Some (seg', A'') \<and>
      new_ClientManagerAddressGetter ip A'' = Some seg' \<and> blocks A'' seg' = m"
    by (auto simp: publish_address_def withdraw_address_def new_ClientManagerAddressGetter_def)
qed

theorem address_left_behind_witness:
  "\<exists>seg A'. publish_address demo_shm 2 ''n'' ''g'' \<lparr>directory = [], blocks = \<lambda>_. \<lparr>address = [], signature = []\<rparr>\<rparr> = Some (seg, A') \<and>
     publish_address demo_shm 2 ''m'' ''h'' A' = None"
proof -
  obtain seg A' where
    p: "publish_address demo_shm 2 ''n'' ''g'' \<lparr>directory = [], blocks = \<lambda>_. \<lparr>address = [], signature = []\<rparr>\<rparr> = Some (seg, A')"
    by (simp add: publish_address_def new_SafeReadOnlySharedMemory_def copy_into_def demo_shm_def DIGESTSIZE_def)
  from address_left_behind [OF demo_shm_ok p] p show ?thesis by blast
qed

end
