(* ===== verification/Process_Supervision.thy ===== *)
theory Process_Supervision
  imports Process_Threads
begin

text \<open>
  What the process manager promises, without threads, handles and positions in a vector: a partial map
  from process indices to slots.  A slot says whether the process is wanted, whether it is up, and how
  often it was tried again since it was started.  \<open>supervise\<close> is the specification of every event as a
  step of this map; the process manager with its threads, under any interleaving, refines it.
\<close>

section \<open>Specification\<close>

record slot =
  wanted :: bool
  up :: bool
  tries :: int

type_synonym supervision = "process_index \<rightharpoonup> slot"

definition change :: "process_index \<Rightarrow> (slot \<Rightarrow> slot) \<Rightarrow> supervision \<Rightarrow> supervision" where
  "change i f m = m(i := map_option f (m i))"

inductive supervise :: "supervision \<Rightarrow> pm_event \<Rightarrow> supervision \<Rightarrow> bool" where
  refused: "name p = [] \<Longrightarrow> supervise m (Add p prt) m"
| added: "name p \<noteq> [] \<Longrightarrow> i \<notin> dom m \<Longrightarrow>
     supervise m (Add p prt) (m(i \<mapsto> \<lparr>wanted = True, up = False, tries = 0\<rparr>))"
| started: "supervise m (Start i) (change i (\<lambda>s. s\<lparr>wanted := True, tries := 0\<rparr>) m)"
| let_go: "supervise m (LetDie i) (change i (\<lambda>s. s\<lparr>wanted := False\<rparr>) m)"
| all_let_go: "supervise m LetAllDie (\<lambda>i. map_option (\<lambda>s. s\<lparr>wanted := False\<rparr>) (m i))"
| killed: "supervise m (Kill i) (change i (\<lambda>s. s\<lparr>wanted := False\<rparr>) m)"
| stopped: "supervise m (Stop i) (change i (\<lambda>s. s\<lparr>wanted := False\<rparr>) m)"
| restarted: "supervise m (Restart i) (change i (\<lambda>s. s\<lparr>wanted := True\<rparr>) m)"
| waited: "supervise m WaitRound m"
| internal: "supervise m (Run t) m"
| comes_up: "supervise m (Run t) (change i (\<lambda>s. s\<lparr>up := True\<rparr>) m)"
| goes_down: "supervise m (Run t) (change i (\<lambda>s. s\<lparr>up := False\<rparr>) m)"
| tried_again: "m i = Some s \<Longrightarrow> wanted s \<Longrightarrow> tries s \<le> 4 \<Longrightarrow>
     supervise m (Run t) (change i (\<lambda>s. s\<lparr>tries := tries s + 1\<rparr>) m)"
| joined: "supervise m TerminateStep m"

inductive supervised :: "supervision \<Rightarrow> pm_event list \<Rightarrow> supervision \<Rightarrow> bool" where
  nothing: "supervised m [] m"
| further: "supervised m es m' \<Longrightarrow> supervise m' e m'' \<Longrightarrow> supervised m (es @ [e]) m''"

inductive_cases supervise_RunE: "supervise m (Run t) m'"

subsection \<open>What follows from the specification\<close>

lemma change_Some: "change i f m j = Some s \<longleftrightarrow> (\<exists>s0. m j = Some s0 \<and> s = (if j = i then f s0 else s0))"
  by (auto simp: change_def)

lemma supervise_tries:
  "supervise m e m' \<Longrightarrow> \<forall>s \<in> ran m. 0 \<le> tries s \<and> tries s \<le> 5 \<Longrightarrow>
     \<forall>s \<in> ran m'. 0 \<le> tries s \<and> tries s \<le> 5"
  by (induction rule: supervise.induct) (auto simp: ran_def change_Some split: if_splits)

lemma supervised_tries:
  "supervised m es m' \<Longrightarrow> \<forall>s \<in> ran m. 0 \<le> tries s \<and> tries s \<le> 5 \<Longrightarrow>
     \<forall>s \<in> ran m'. 0 \<le> tries s \<and> tries s \<le> 5"
  by (induction rule: supervised.induct) (auto dest: supervise_tries)

text \<open>A process that is not wanted is not tried again until someone wants it.\<close>

lemma supervise_unwanted:
  assumes "supervise m e m'" and "m i = Some s" and "\<not> wanted s" and "e \<noteq> Start i" and "e \<noteq> Restart i"
  shows "\<exists>s'. m' i = Some s' \<and> \<not> wanted s' \<and> tries s' = tries s"
  using assms by (induction rule: supervise.induct) (auto simp: change_def)

lemma supervised_unwanted:
  assumes "supervised m es m'" and "m i = Some s" and "\<not> wanted s"
    and "Start i \<notin> set es" and "Restart i \<notin> set es"
  shows "\<exists>s'. m' i = Some s' \<and> \<not> wanted s' \<and> tries s' = tries s"
  using assms
proof (induction rule: supervised.induct)
  case (further m es m' e m'')
  then obtain s' where s': "m' i = Some s'" "\<not> wanted s'" "tries s' = tries s" by auto
  have "e \<noteq> Start i" "e \<noteq> Restart i" using further.prems by auto
  from supervise_unwanted [OF further.hyps(2) s'(1,2) this] s'(3) show ?case by simp
qed simp

section \<open>Abstraction\<close>

definition slot_of :: "ProcessInfo \<Rightarrow> slot" where
  "slot_of info = \<lparr>wanted = \<not> is_done info, up = (status info = kRunning), tries = restart_count info\<rparr>"

definition supervision_of :: "ProcessManager \<Rightarrow> supervision" where
  "supervision_of pm i = map_option slot_of (info_of pm i)"

lemma supervision_of_cong: "info_of pm' = info_of pm \<Longrightarrow> supervision_of pm' = supervision_of pm"
  by (simp add: supervision_of_def fun_eq_iff)

lemma supervision_of_change:
  assumes "info_of pm' = (info_of pm)(i := map_option f (info_of pm i))"
    and "\<And>info. slot_of (f info) = g (slot_of info)"
  shows "supervision_of pm' = change i g (supervision_of pm)"
  using assms by (auto simp: supervision_of_def change_def fun_eq_iff option.map_comp comp_def)

lemma supervision_of_pointwise:
  assumes "list_all2 (\<lambda>x y. index y = index x \<and> slot_of y = slot_of x) (processes pm) (processes pm')"
  shows "supervision_of pm' = supervision_of pm"
proof
  fix i
  have "rel_option (\<lambda>x y. index y = index x \<and> slot_of y = slot_of x) (info_of pm i) (info_of pm' i)"
    by (rule info_of_list_all2 [OF assms]) simp
  then show "supervision_of pm' i = supervision_of pm i"
    by (cases "info_of pm i"; cases "info_of pm' i") (simp_all add: supervision_of_def)
qed

lemma supervision_of_thread:
  assumes "processes pm' = modify_at k (\<lambda>info. info\<lparr>thread := None\<rparr>) (processes pm)"
  shows "supervision_of pm' = supervision_of pm"
  by (rule supervision_of_pointwise)
    (simp add: assms list_all2_conv_all_nth nth_modify_at slot_of_def)

lemma scan_processes_slots:
  "list_all2 (\<lambda>x y. index y = index x \<and> slot_of y = slot_of x) infos (snd (scan_processes infos))"
  by (induction infos) (auto split: option.split prod.split simp: list_all2_same slot_of_def)

section \<open>Simulation\<close>

lemma AddProcess_supervised:
  assumes "pm_inv pm" and "has_room pm"
  shows "supervise (supervision_of pm) (Add p prt) (supervision_of (snd (AddProcess p prt pm)))"
proof (cases "name p = []")
  case True
  then show ?thesis by (simp add: AddProcess_def supervise.refused)
next
  case False
  obtain i pm' where add: "AddProcess p prt pm = (i, pm')" by fastforce
  then obtain info where info: "processes pm' = processes pm @ [info]" "index info = i"
      "slot_of info = \<lparr>wanted = True, up = False, tries = 0\<rparr>"
    using False by (auto simp: AddProcess_def Let_def new_ProcessInfo_def slot_of_def)
  have fresh: "i \<notin> known pm" using AddProcess_index(4) [OF assms False add] .
  with info have "supervision_of pm' = (supervision_of pm)(i \<mapsto> \<lparr>wanted = True, up = False, tries = 0\<rparr>)"
    using info_of_append [of pm' pm info] by (auto simp: supervision_of_def fun_eq_iff)
  moreover have "i \<notin> dom (supervision_of pm)"
    using fresh by (simp add: supervision_of_def info_of_None dom_def)
  ultimately show ?thesis using add False by (simp add: supervise.added)
qed

lemma RunProcess_step_supervised:
  assumes "RunProcess_step t pm = Inr pm'"
  shows "supervise (supervision_of pm) (Run t) (supervision_of pm')"
proof -
  have same: "supervise (supervision_of pm) (Run t) (supervision_of pm')" if "info_of pm' = info_of pm"
    using supervision_of_cong [OF that] by (simp add: supervise.internal)
  show ?thesis
  proof (cases "act_at t pm")
    case None
    with assms same show ?thesis by (simp add: RunProcess_step_def)
  next
    case (Some a)
    let ?i = "act_index a"
    show ?thesis
    proof (cases "act_pc a")
      case (Launching n as logging)
      then have "info_of pm' = (info_of pm)(?i := map_option (\<lambda>info. info\<lparr>status := kRunning\<rparr>) (info_of pm ?i))"
        using assms Some by (auto simp: RunProcess_step_info_of Let_def info_of_SetProcessStatus)
      then have "supervision_of pm' = change ?i (\<lambda>s. s\<lparr>up := True\<rparr>) (supervision_of pm)"
        by (rule supervision_of_change) (simp add: slot_of_def)
      then show ?thesis by (simp add: supervise.comes_up)
    next
      case (Exited logging)
      then have "info_of pm' = (info_of pm)(?i := map_option (\<lambda>info. info\<lparr>status := kStopped\<rparr>) (info_of pm ?i))"
        using assms Some by (auto simp: RunProcess_step_info_of Let_def info_of_SetProcessStatus)
      then have "supervision_of pm' = change ?i (\<lambda>s. s\<lparr>up := False\<rparr>) (supervision_of pm)"
        by (rule supervision_of_change) (simp add: slot_of_def)
      then show ?thesis by (simp add: supervise.goes_down)
    next
      case (Deciding logging)
      then obtain info where info: "info_of pm ?i = Some info"
        using assms Some by (auto simp: RunProcess_step_info_of Let_def split: option.splits)
      show ?thesis
      proof (cases "is_done info \<or> restart_count info > 4")
        case True
        with info Deciding assms Some same show ?thesis by (auto simp: RunProcess_step_info_of Let_def)
      next
        case False
        with info Deciding assms Some have "info_of pm' = (info_of pm)(?i :=
            map_option (\<lambda>info. info\<lparr>restart_count := restart_count info + 1\<rparr>) (info_of pm ?i))"
          by (auto simp: RunProcess_step_info_of Let_def info_of_at_process)
        then have "supervision_of pm' = change ?i (\<lambda>s. s\<lparr>tries := tries s + 1\<rparr>) (supervision_of pm)"
          by (rule supervision_of_change) (simp add: slot_of_def)
        moreover have "supervision_of pm ?i = Some (slot_of info)" "wanted (slot_of info)" "tries (slot_of info) \<le> 4"
          using info False by (simp_all add: supervision_of_def slot_of_def)
        ultimately show ?thesis by (simp add: supervise.tried_again)
      qed
    qed (use assms Some same in \<open>auto simp: RunProcess_step_info_of Let_def split: option.splits\<close>)
  qed
qed

lemma pm_step_supervised:
  assumes "pm_step pm e pm'" and "pm_inv pm" and "has_room pm" and "e \<noteq> TerminateDone"
  shows "supervise (supervision_of pm) e (supervision_of pm')"
  using assms
proof (induction rule: pm_step.induct)
  case (add pm p prt)
  then show ?case by (simp add: AddProcess_supervised)
next
  case (start pm i)
  have "supervision_of (StartProcess i pm) = change i (\<lambda>s. s\<lparr>wanted := True, tries := 0\<rparr>) (supervision_of pm)"
    by (rule supervision_of_change [OF info_of_StartProcess]) (simp add: slot_of_def)
  then show ?case by (simp add: supervise.started)
next
  case (let_die pm i)
  have "supervision_of (LetProcessDie i pm) = change i (\<lambda>s. s\<lparr>wanted := False\<rparr>) (supervision_of pm)"
    by (rule supervision_of_change [OF info_of_LetProcessDie]) (simp add: slot_of_def)
  then show ?case by (simp add: supervise.let_go)
next
  case (let_all_die pm)
  have "supervision_of (LetAllProcessesDie pm) i =
      map_option (\<lambda>s. s\<lparr>wanted := False\<rparr>) (supervision_of pm i)" for i
  proof -
    have "rel_option (\<lambda>x y. index y = index x \<and> slot_of y = slot_of x\<lparr>wanted := False\<rparr>)
        (info_of pm i) (info_of (LetAllProcessesDie pm) i)"
      by (rule info_of_list_all2)
        (simp_all add: LetAllProcessesDie_def list_all2_conv_all_nth slot_of_def)
    then show ?thesis
      by (cases "info_of pm i"; cases "info_of (LetAllProcessesDie pm) i") (simp_all add: supervision_of_def)
  qed
  then show ?case using supervise.all_let_go [of "supervision_of pm"] by (simp add: fun_eq_iff)
next
  case (kill pm i)
  have "supervision_of (KillProcess i pm) = change i (\<lambda>s. s\<lparr>wanted := False\<rparr>) (supervision_of pm)"
    by (rule supervision_of_change [OF info_of_KillProcess]) (simp add: slot_of_def)
  then show ?case by (simp add: supervise.killed)
next
  case (stop pm i)
  have "supervision_of (StopProcess i pm) = change i (\<lambda>s. s\<lparr>wanted := False\<rparr>) (supervision_of pm)"
    unfolding StopProcess_def by (rule supervision_of_change [OF info_of_at_process]) (simp_all add: slot_of_def)
  then show ?case by (simp add: supervise.stopped)
next
  case (restart pm i)
  have "supervision_of (RestartProcess i pm) = change i (\<lambda>s. s\<lparr>wanted := True\<rparr>) (supervision_of pm)"
    unfolding RestartProcess_def by (rule supervision_of_change [OF info_of_at_process]) (simp_all add: slot_of_def)
  then show ?case by (simp add: supervise.restarted)
next
  case (wait_round pm)
  have "supervision_of (snd (WaitForProcesses_round pm)) = supervision_of pm"
    using scan_processes_slots [of "processes pm"]
    by (intro supervision_of_pointwise) (simp add: WaitForProcesses_round_def case_prod_beta)
  then show ?case by (simp add: supervise.waited)
next
  case (run t pm a pm')
  then show ?case by (simp add: RunProcess_step_supervised)
next
  case (join pm k t)
  have "supervision_of (pm\<lparr>processes := modify_at k (\<lambda>info. info\<lparr>thread := None\<rparr>) (processes pm),
      terminating := Some (k + 1)\<rparr>) = supervision_of pm"
    by (rule supervision_of_thread [of _ k]) simp
  then show ?case by (simp add: supervise.joined)
next
  case (terminate pm)
  have "supervision_of (pm\<lparr>terminating := Some 0\<rparr>) = supervision_of pm"
    by (rule supervision_of_cong) simp
  then show ?case by (simp add: supervise.joined)
next
  case (skip pm k)
  have "supervision_of (pm\<lparr>terminating := Some (k + 1)\<rparr>) = supervision_of pm"
    by (rule supervision_of_cong) simp
  then show ?case by (simp add: supervise.joined)
qed simp

lemma trace_reachable:
  assumes "pm_trace pm es pm'" and "reachable pm" and "TerminateDone \<notin> set es"
    and "unat (current_max_id pm) + length es + 2 < 2 ^ 32"
  shows "reachable pm' \<and> unat (current_max_id pm') \<le> unat (current_max_id pm) + length es \<and>
    supervised (supervision_of pm) es (supervision_of pm')"
  using assms
proof (induction rule: pm_trace.induct)
  case (snoc pm es pm' e pm'')
  then have IH: "reachable pm'" "unat (current_max_id pm') \<le> unat (current_max_id pm) + length es"
      "supervised (supervision_of pm) es (supervision_of pm')"
    by auto
  then have room: "has_room pm'" using snoc.prems by (simp add: has_room_def)
  have inv: "pm_inv pm'" using reachable_inv [OF IH(1)] by simp
  have e: "e \<noteq> TerminateDone" using snoc.prems by auto
  have "reachable pm''" using IH(1) room snoc.hyps(2) e by (rule reachable.continued)
  moreover have "unat (current_max_id pm'') \<le> unat (current_max_id pm') + 1"
    using pm_step_known [OF snoc.hyps(2) inv room e] by simp
  moreover have "supervised (supervision_of pm) (es @ [e]) (supervision_of pm'')"
    using IH(3) pm_step_supervised [OF snoc.hyps(2) inv room e] by (rule supervised.further)
  ultimately show ?case using IH(2) by simp
qed (simp add: supervised.nothing)

section \<open>Properties\<close>





end
