(* ===== verification/Manager_Exchange.thy ===== *)
theory Manager_Exchange
  imports Protocol Transport_Events
begin

text \<open>
  Controllers and client manager over the TCP transport: the bytes that one side writes arrive at the
  other side, are split into messages again, handled, and answered on the same connection.  The handlers
  neither read nor write the transport of the client manager; therefore what is answered over TCP is what
  \<open>respond\<close> answers.
\<close>

section \<open>The handlers do not depend on the transport\<close>

named_theorems independent

abbreviation via :: "LocalTcpTransport option \<Rightarrow> ('w, 'p) ClientManager \<Rightarrow> ('w, 'p) ClientManager" where
  "via T s \<equiv> s\<lparr>transport := T\<rparr>"

lemma and_then_via:
  "and_then (map_sum id g r) f = and_then r (\<lambda>x. f (g x))"
  by (cases r) simp_all

lemma map_sum_and_then:
  "map_sum id g (and_then r f) = and_then r (\<lambda>x. map_sum id g (f x))"
  by (cases r) simp_all

lemma via_fields [independent]:
  "(via T s)\<lparr>outside := w\<rparr> = via T (s\<lparr>outside := w\<rparr>)"
  "(via T s)\<lparr>endpoints := eps\<rparr> = via T (s\<lparr>endpoints := eps\<rparr>)"
  "(via T s)\<lparr>sent := ms\<rparr> = via T (s\<lparr>sent := ms\<rparr>)"
  "(via T s)\<lparr>process_manager := pm\<rparr> = via T (s\<lparr>process_manager := pm\<rparr>)"
  "(via T s)\<lparr>vault_infos := vs\<rparr> = via T (s\<lparr>vault_infos := vs\<rparr>)"
  "(via T s)\<lparr>client_ports_and_versions := m\<rparr> = via T (s\<lparr>client_ports_and_versions := m\<rparr>)"
  by simp_all

lemma via_read [independent]:
  "ReadFileToClientManagerConfig env f c (via T s) = ReadFileToClientManagerConfig env f c s"
  "FindFromPmidName env nm (via T s) = FindFromPmidName env nm s"
  "FindFromProcessIndex i (via T s) = FindFromProcessIndex i s"
  by (simp_all add: ReadFileToClientManagerConfig_def FindFromPmidName_def FindFromProcessIndex_def)

lemma via_write [independent]:
  "write_file env f c (via T s) = apsnd (via T) (write_file env f c s)"
  "modify_vault k g (via T s) = via T (modify_vault k g s)"
  "LoadBootstrapEndpoints b (via T s) = via T (LoadBootstrapEndpoints b s)"
  by (simp_all add: write_file_eq modify_vault_def LoadBootstrapEndpoints_def)

lemma via_Obtain [independent]:
  "ObtainBootstrapInformation env config (via T s) =
     apsnd (apsnd (via T)) (ObtainBootstrapInformation env config s)"
  by (simp add: ObtainBootstrapInformation_def Let_def case_prod_beta LoadBootstrapEndpoints_def)

lemma via_refresh [independent]:
  "refresh_bootstrap env (via T s) = apsnd (via T) (refresh_bootstrap env s)"
  by (simp add: refresh_bootstrap_def Let_def case_prod_beta independent)

lemma via_AddBootstrap [independent]:
  "AddBootstrapEndPoint env ip prt (via T s) = apsnd (via T) (AddBootstrapEndPoint env ip prt s)"
  by (simp add: AddBootstrapEndPoint_def Let_def case_prod_beta write_file_eq ReadFileToClientManagerConfig_def
      split: option.split)

lemma via_Amend [independent]:
  "AmendVaultDetailsInConfigFile env info existing (via T s) =
     map_sum id (apsnd (via T)) (AmendVaultDetailsInConfigFile env info existing s)"
  by (simp add: AmendVaultDetailsInConfigFile_def Let_def case_prod_beta write_file_eq
      independent map_sum_and_then split: option.split)

lemma via_StartVaultProcess [independent]:
  "StartVaultProcess env info (via T s) = apsnd (apsnd (via T)) (StartVaultProcess env info s)"
  by (simp add: StartVaultProcess_def Let_def case_prod_beta)

lemma via_shutdown [independent]:
  "shutdown_vault env sched k data signature (via T s) =
     apsnd (via T) (shutdown_vault env sched k data signature s)"
  by (simp add: shutdown_vault_def Let_def case_prod_beta)

lemma via_StopVault [independent]:
  "StopVault env sched nm data signature permanent (via T s) =
     map_sum id (apsnd (via T)) (StopVault env sched nm data signature permanent s)"
  by (cases "FindFromPmidName env nm s")
    (simp_all add: StopVault_def independent split: option.split)

lemma via_request_client [independent]:
  "request_client env ack client message (via T s) = apsnd (via T) (request_client env ack client message s)"
  by (simp add: request_client_def Let_def case_prod_beta)

lemma via_Confirmation [independent]:
  "SendVaultJoinConfirmation env nm r (via T s) = map_sum id (via T) (SendVaultJoinConfirmation env nm r s)"
  by (cases "FindFromPmidName env nm s")
    (simp_all add: SendVaultJoinConfirmation_def independent split: option.split)

subsection \<open>Handlers\<close>

lemma via_pure [independent]:
  "HandleUpdateIntervalRequest env q (via T s) = apsnd (via T) (HandleUpdateIntervalRequest env q s)"
  "HandleClientRegistrationRequest env q (via T s) = apsnd (via T) (HandleClientRegistrationRequest env q s)"
  "HandleSendEndpointToClientManagerRequest env q (via T s) =
     apsnd (via T) (HandleSendEndpointToClientManagerRequest env q s)"
  "HandleBootstrapRequest env q (via T s) = apsnd (via T) (HandleBootstrapRequest env q s)"
proof -
  show "HandleUpdateIntervalRequest env q (via T s) = apsnd (via T) (HandleUpdateIntervalRequest env q s)"
    by (simp add: HandleUpdateIntervalRequest_def SetUpdateInterval_def GetUpdateInterval_def Let_def
        case_prod_beta split: option.split)
  show "HandleClientRegistrationRequest env q (via T s) = apsnd (via T) (HandleClientRegistrationRequest env q s)"
    unfolding HandleClientRegistrationRequest_def Let_def case_prod_beta by (simp add: independent)
  show "HandleSendEndpointToClientManagerRequest env q (via T s) =
      apsnd (via T) (HandleSendEndpointToClientManagerRequest env q s)"
    by (simp add: HandleSendEndpointToClientManagerRequest_def Let_def case_prod_beta independent)
  show "HandleBootstrapRequest env q (via T s) = apsnd (via T) (HandleBootstrapRequest env q s)"
    by (simp add: HandleBootstrapRequest_def Let_def case_prod_beta independent)
qed

lemma via_Start [independent]:
  "HandleStartVaultRequest env q (via T s) =
     map_option (map_sum id (apsnd (via T))) (HandleStartVaultRequest env q s)"
proof -
  have "start_existing_vault env r client k (via T s) =
      map_sum id (apsnd (via T)) (start_existing_vault env r client k s)" for r client k
    by (simp add: Start_existing_faults)
  moreover have "start_new_vault env r client p (via T s) =
      map_option (map_sum id (apsnd (via T))) (start_new_vault env r client p s)" for r client p
    by (simp add: start_new_vault_def Let_def case_prod_beta independent and_then_via map_sum_and_then
        split: option.split)
  ultimately show ?thesis
    by (simp add: HandleStartVaultRequest_def Let_def case_prod_beta independent split: sum.split option.split)
qed

lemma via_Identity [independent]:
  "HandleVaultIdentityRequest env q (via T s) =
     map_sum id (apsnd (via T)) (HandleVaultIdentityRequest env q s)"
  by (simp add: HandleVaultIdentityRequest_def Let_def case_prod_beta independent split: option.split)

lemma via_Joined [independent]:
  "HandleVaultJoinedNetworkRequest env q (via T s) =
     map_sum id (apsnd (via T)) (HandleVaultJoinedNetworkRequest env q s)"
  by (simp add: HandleVaultJoinedNetworkRequest_def Let_def case_prod_beta independent and_then_via
      map_sum_and_then split: option.split)

lemma via_Stop [independent]:
  "HandleStopVaultRequest env sched q (via T s) =
     map_sum id (apsnd (via T)) (HandleStopVaultRequest env sched q s)"
  by (cases "FindFromPmidName env (spq_identity (snd (ParseFromString (pb_StopVaultRequest (pb env)) q))) s")
    (simp_all add: HandleStopVaultRequest_def Let_def case_prod_beta independent and_then_via
      map_sum_and_then split: option.split)

lemma respond_via:
  "respond env sched message (via T s) =
     map_option (map_sum id (apsnd (via T))) (respond env sched message s)"
proof -
  obtain ok type payload where "UnwrapMessage (pb env) message = (ok, type, payload)"
    using prod_cases3 by blast
  then show ?thesis
    by (cases type)
      (simp_all add: respond_def Let_def case_prod_beta independent and_then_via map_sum_and_then
        option.map_comp comp_def)
qed

section \<open>Bytes that arrive at the client manager\<close>

text \<open>
  Completions of reads on one connection of the client manager: when a message is complete it is handed to
  \<open>HandleReceivedMessage\<close> before the next read.
\<close>

definition put_connection :: "nat \<Rightarrow> TcpConnection \<Rightarrow> LocalTcpTransport \<Rightarrow> LocalTcpTransport" where
  "put_connection a c T = T\<lparr>connections := map_assign a c (connections T)\<rparr>"

fun manager_reads ::
  "('w, 'p) env \<Rightarrow> (ProcessManager \<Rightarrow> ProcessManager) \<Rightarrow> nat \<Rightarrow> nat \<Rightarrow> ('w, 'p) ClientManager \<Rightarrow>
     (fault + ('w, 'p) ClientManager) option" where
  "manager_reads env sched 0 a s = Some (Inr s)"
| "manager_reads env sched (Suc n) a s =
     (case transport s of
        None \<Rightarrow> Some (Inr s)
      | Some T \<Rightarrow>
          (case map_find a (connections T) of
             None \<Rightarrow> Some (Inr s)
           | Some c \<Rightarrow>
               let (m, c') = read_step c;
                   s' = via (Some (put_connection a c' T)) s
               in case m of
                    None \<Rightarrow> manager_reads env sched n a s'
                  | Some message \<Rightarrow>
                      (case HandleReceivedMessage env sched message (peer_port c') s' of
                         None \<Rightarrow> None
                       | Some (Inl e) \<Rightarrow> Some (Inl e)
                       | Some (Inr s'') \<Rightarrow> manager_reads env sched n a s'')))"

text \<open>The responses to a sequence of requests, without a transport.\<close>

fun respond_all ::
  "('w, 'p) env \<Rightarrow> (ProcessManager \<Rightarrow> ProcessManager) \<Rightarrow> bytes list \<Rightarrow> ('w, 'p) ClientManager \<Rightarrow>
     (fault + bytes list \<times> ('w, 'p) ClientManager) option" where
  "respond_all env sched [] s = Some (Inr ([], s))"
| "respond_all env sched (m # ms) s =
     (case respond env sched m s of
        None \<Rightarrow> None
      | Some (Inl e) \<Rightarrow> Some (Inl e)
      | Some (Inr (r, s')) \<Rightarrow>
          (case respond_all env sched ms s' of
             None \<Rightarrow> None
           | Some (Inl e) \<Rightarrow> Some (Inl e)
           | Some (Inr (rs, s'')) \<Rightarrow> Some (Inr ((case r of None \<Rightarrow> rs | Some x \<Rightarrow> x # rs), s''))))"

subsection \<open>Connections of a transport\<close>

lemma map_assign_again [simp]: "map_assign a c (map_assign a d m) = map_assign a c m"
  by (induction m rule: map_assign.induct) auto

lemma map_assign_same: "map_ok m \<Longrightarrow> map_find a m = Some c \<Longrightarrow> map_assign a c m = m"
proof (induction m)
  case (Cons x m)
  obtain b d where x: "x = (b, d)" by fastforce
  have "b < a" if "a \<noteq> b"
    using Cons.prems that map_find_iff [of m a c] by (auto simp: x map_ok_def)
  with Cons show ?case by (auto simp: x map_ok_def split: if_splits)
qed simp

lemma put_connection_simps [simp]:
  "put_connection a c (put_connection a d T) = put_connection a c T"
  "map_find b (connections (put_connection a c T)) = (if b = a then Some c else map_find b (connections T))"
  "errors (put_connection a c T) = errors T"
  by (simp_all add: put_connection_def)

text \<open>One connection of the transport belongs to the peer, and no other.\<close>

definition serves :: "nat \<Rightarrow> port \<Rightarrow> TcpConnection \<Rightarrow> LocalTcpTransport \<Rightarrow> bool" where
  "serves a peer c T \<longleftrightarrow>
     map_ok (connections T) \<and> map_find a (connections T) = Some c \<and> peer_port c = peer \<and>
     (\<forall>b d. map_find b (connections T) = Some d \<longrightarrow> peer_port d = peer \<longrightarrow> b = a)"

lemma serves_put:
  "serves a peer c T \<Longrightarrow> peer_port c' = peer \<Longrightarrow> serves a peer c' (put_connection a c' T)"
  by (auto simp: serves_def put_connection_def map_ok_assign)

lemma modify_found:
  assumes "map_ok m" and "map_find a m = Some c" and "peer_port c = peer"
    and "\<And>b d. map_find b m = Some d \<Longrightarrow> peer_port d = peer \<Longrightarrow> b = a"
  shows "\<exists>i. find_if (\<lambda>(a, c). peer_port c = peer) m = Some i \<and>
    modify_at i (\<lambda>(a, c). (a, f c)) m = map_assign a (f c) m"
  using assms
proof (induction m)
  case (Cons x m)
  obtain b d where x: "x = (b, d)" by fastforce
  show ?case
  proof (cases "a = b")
    case True
    moreover have "d = c" using True Cons.prems(2) by (simp add: x)
    ultimately show ?thesis
      using Cons.prems(3) by (intro exI [of _ 0]) (simp add: x)
  next
    case False
    with Cons.prems(2) x have tail: "map_find a m = Some c" by simp
    then have "b < a"
      using Cons.prems(1) map_find_iff [of m a c] by (auto simp: x map_ok_def)
    have "peer_port d \<noteq> peer"
      using Cons.prems(4) [of b d] False by (auto simp: x)
    have ok: "map_ok m" using Cons.prems(1) by (simp add: map_ok_def)
    have only: "k = a" if "map_find k m = Some e" "peer_port e = peer" for k e
    proof -
      have "k \<noteq> b"
        using Cons.prems(1) that(1) map_find_iff [of m k e] by (auto simp: x map_ok_def)
      with Cons.prems(4) [of k e] that show ?thesis by (simp add: x)
    qed
    have "\<exists>i. find_if (\<lambda>(a, c). peer_port c = peer) m = Some i \<and>
        modify_at i (\<lambda>(a, c). (a, f c)) m = map_assign a (f c) m"
      by (rule Cons.IH [OF ok tail Cons.prems(3)]) (rule only)
    then obtain i where "find_if (\<lambda>(a, c). peer_port c = peer) m = Some i"
      "modify_at i (\<lambda>(a, c). (a, f c)) m = map_assign a (f c) m"
      by (elim exE conjE)
    with \<open>peer_port d \<noteq> peer\<close> \<open>b < a\<close> show ?thesis
      by (intro exI [of _ "Suc i"]) (auto simp: x)
  qed
qed simp

lemma Send_serves:
  assumes "serves a peer c T" and "fits m"
  shows "Send m peer T = put_connection a (StartSending m c) T"
proof -
  have "sint (word_of_nat (length m) :: 32 word) = int (length m)"
    using assms(2) signed_take_bit_int_eq_self [of 31 "int (length m)"]
    by (simp add: signed_of_nat fits_def kMaxTransportMessageSize_def)
  moreover obtain i where "find_if (\<lambda>(a, c). peer_port c = peer) (connections T) = Some i"
    "modify_at i (\<lambda>(a, c). (a, StartSending m c)) (connections T) = map_assign a (StartSending m c) (connections T)"
    using modify_found [of "connections T" a c peer] assms(1) unfolding serves_def by blast
  ultimately show ?thesis
    using assms(2) by (simp add: Send_def DoSend_def fits_def put_connection_def)
qed

lemma StartSending_frame_fields [simp]:
  "is_open (StartSending m c) = is_open c" "pending (StartSending m c) = pending c"
  "incoming (StartSending m c) = incoming c" "remote_port (StartSending m c) = remote_port c"
  by (simp_all add: StartSending_def StartWrite_def EncodeData_def Let_def)

lemma peer_port_StartSending [simp]: "peer_port (StartSending m c) = peer_port c"
  by (simp add: peer_port_def)

lemma read_step_fields:
  "written (snd (read_step c)) = written c \<and> remote_port (snd (read_step c)) = remote_port c"
  by (auto simp: read_step_def HandleReadSize_def HandleReadData_def StartReadSize_def StartReadData_def
      DispatchMessage_def Let_def split: pending_read.split)

lemma read_step_open: "is_open (snd (read_step c)) = is_open c"
  by (auto simp: read_step_def HandleReadSize_def HandleReadData_def StartReadSize_def StartReadData_def
      DispatchMessage_def Let_def split: pending_read.split)

lemma peer_port_read_step [simp]: "peer_port (snd (read_step c)) = peer_port c"
  using read_step_fields [of c] read_step_open [of c] by (simp add: peer_port_def)

lemma read_steps_fields:
  "read_steps n c = (ms, c') \<Longrightarrow> written c' = written c \<and> peer_port c' = peer_port c"
proof (induction n arbitrary: c ms)
  case (Suc n)
  then obtain ms' where "read_steps n (snd (read_step c)) = (ms', c')"
    by (auto split: prod.splits)
  from Suc.IH [OF this] read_step_fields [of c] show ?case by simp
qed simp

subsection \<open>Reads of the client manager\<close>

lemma manager_reads_silent:
  assumes "read_steps j c = ([], c')" and "serves a peer c T" and "transport s = Some T"
  shows "manager_reads env sched (j + n) a s =
    manager_reads env sched n a (via (Some (put_connection a c' T)) s)"
  using assms
proof (induction j arbitrary: c T s)
  case 0
  then have "put_connection a c' T = T"
    using map_assign_same [of "connections T" a c] by (simp add: put_connection_def serves_def)
  moreover have "via (Some T) s = s" using "0.prems" by simp
  ultimately show ?case by simp
next
  case (Suc j)
  obtain m c1 where step: "read_step c = (m, c1)" by fastforce
  with Suc.prems(1) have "m = None" and rest: "read_steps j c1 = ([], c')"
    by (auto split: option.splits prod.splits)
  have "peer_port c1 = peer"
    using peer_port_read_step [of c] step Suc.prems(2) by (simp add: serves_def)
  then have "serves a peer c1 (put_connection a c1 T)"
    using Suc.prems(2) serves_put by blast
  from Suc.IH [OF rest this, of "via (Some (put_connection a c1 T)) s"]
  show ?case
    using Suc.prems(2,3) step \<open>m = None\<close> by (simp add: serves_def)
qed

lemma manager_reads_message:
  assumes "between_messages (frame m @ rest) c" and "fits m"
    and serves: "serves a peer c T" "transport s = Some T"
    and answer: "respond env sched m s = Some (Inr (r, s'))" "pred_option fits r"
  shows "\<exists>k c' T'. (\<forall>n. manager_reads env sched (k + n) a s = manager_reads env sched n a (via (Some T') s')) \<and>
    serves a peer c' T' \<and> between_messages rest c' \<and> errors T' = errors T \<and>
    written c' = written c @ (case r of None \<Rightarrow> [] | Some x \<Rightarrow> frame x)"
proof -
  have "length m < 2 ^ 31" using assms(2) by (simp add: fits_def kMaxTransportMessageSize_def)
  from read_frame_last [OF assms(1) this] obtain k c1 c2 where
    silent: "read_steps k c = ([], c1)" and last: "read_step c1 = (Some m, c2)"
    and between: "between_messages rest c2" by blast
  note fields = read_steps_fields [OF silent] read_step_fields [of c1] peer_port_read_step [of c1]
  let ?T1 = "put_connection a c1 T" and ?T2 = "put_connection a c2 T"
  have c2: "peer_port c2 = peer" "written c2 = written c"
    using fields last serves(1) unfolding serves_def by (metis snd_conv)+
  have serves2: "serves a peer c2 ?T2"
    by (rule serves_put [OF serves(1) c2(1)])
  define c3 where "c3 = (case r of None \<Rightarrow> c2 | Some x \<Rightarrow> StartSending x c2)"
  define T3 where "T3 = put_connection a c3 T"
  have "HandleReceivedMessage env sched m peer (via (Some ?T2) s) = Some (Inr (via (Some T3) s'))"
    using Send_serves [OF serves2] answer
    by (cases r) (simp_all add: HandleReceivedMessage_respond respond_via send_response_def T3_def c3_def)
  with c2(1) have "manager_reads env sched (Suc n) a (via (Some ?T1) s) =
      manager_reads env sched n a (via (Some T3) s')" for n
    using last by simp
  then have "manager_reads env sched (Suc k + n) a s = manager_reads env sched n a (via (Some T3) s')" for n
    using manager_reads_silent [OF silent serves, of env sched "Suc n"] by simp
  moreover have "serves a peer c3 T3"
    using serves_put [OF serves(1), of c3] c2(1) by (simp add: T3_def c3_def split: option.split)
  moreover have "between_messages rest c3"
    using between by (simp add: c3_def between_messages_def split: option.split)
  moreover have "written c3 = written c @ (case r of None \<Rightarrow> [] | Some x \<Rightarrow> frame x)"
    using c2(2) between by (simp add: c3_def between_messages_def StartSending_frame split: option.split)
  moreover have "errors T3 = errors T" by (simp add: T3_def)
  ultimately show ?thesis
    by (intro exI [of _ "Suc k"] exI [of _ c3] exI [of _ T3] conjI allI)
qed

lemma respond_all_via:
  "respond_all env sched ms (via T s) =
     map_option (map_sum id (apsnd (via T))) (respond_all env sched ms s)"
proof (induction ms arbitrary: s)
  case (Cons m ms)
  show ?case
  proof (cases "respond env sched m s")
    case (Some answer)
    then show ?thesis
    proof (cases answer)
      case (Inr x)
      with Some Cons.IH [of "snd x"] show ?thesis
        by (cases x) (simp add: respond_via case_prod_beta split: option.split sum.split)
    qed (simp add: respond_via)
  qed (simp add: respond_via)
qed simp

lemma manager_reads_messages:
  assumes "between_messages (concat (map frame ms) @ rest) c" and "list_all fits ms"
    and "serves a peer c T" and "transport s = Some T"
    and "respond_all env sched ms s = Some (Inr (rs, s'))" and "list_all fits rs"
  shows "\<exists>n d T'. manager_reads env sched n a s = Some (Inr (via (Some T') s')) \<and>
    serves a peer d T' \<and> between_messages rest d \<and> errors T' = errors T \<and>
    written d = written c @ concat (map frame rs)"
  using assms
proof (induction ms arbitrary: c T s rs s')
  case Nil
  have "rs = []" "s' = s" using Nil.prems(5) by simp_all
  moreover have "manager_reads env sched 0 a s = Some (Inr (via (Some T) s))"
    using Nil.prems(4) by simp
  moreover have "between_messages rest c" using Nil.prems(1) by simp
  ultimately show ?case
    using Nil.prems(3) by (intro exI [of _ 0] exI [of _ c] exI [of _ T] conjI) (simp_all only: list.map concat.simps append_Nil2)
next
  case (Cons m ms)
  from Cons.prems(5) obtain r s1 rs1 where
    one: "respond env sched m s = Some (Inr (r, s1))"
    and all: "respond_all env sched ms s1 = Some (Inr (rs1, s'))"
    and rs: "rs = (case r of None \<Rightarrow> rs1 | Some x \<Rightarrow> x # rs1)"
    by (auto split: option.splits sum.splits prod.splits)
  have fits: "list_all fits rs1" "pred_option fits r"
    using Cons.prems(6) by (auto simp: rs split: option.splits)
  have "between_messages (frame m @ concat (map frame ms) @ rest) c" "fits m"
    using Cons.prems(1,2) by simp_all
  from manager_reads_message [OF this Cons.prems(3,4) one fits(2)]
  obtain k c1 T1 where
    step: "\<forall>n. manager_reads env sched (k + n) a s = manager_reads env sched n a (via (Some T1) s1)"
    and next_c: "between_messages (concat (map frame ms) @ rest) c1"
    and next_T: "serves a peer c1 T1" and same: "errors T1 = errors T"
    and out: "written c1 = written c @ (case r of None \<Rightarrow> [] | Some x \<Rightarrow> frame x)"
    by (elim exE conjE) blast
  have "respond_all env sched ms (via (Some T1) s1) = Some (Inr (rs1, via (Some T1) s'))"
    using all by (simp add: respond_all_via)
  from Cons.IH [OF next_c _ next_T _ this fits(1)] Cons.prems(2)
  obtain n d T' where "manager_reads env sched n a (via (Some T1) s1) = Some (Inr (via (Some T') s'))"
    "serves a peer d T'" "between_messages rest d" "errors T' = errors T1"
    "written d = written c1 @ concat (map frame rs1)" by auto
  with step same out show ?case
    by (intro exI [of _ "k + n"] exI [of _ d] exI [of _ T'] conjI)
      (simp_all add: rs split: option.split)
qed

section \<open>An exchange over TCP\<close>

lemma Sends_serves:
  "serves a prt c C \<Longrightarrow> list_all fits ms \<Longrightarrow>
     fold (\<lambda>m. Send m prt) ms C = put_connection a (fold StartSending ms c) C"
proof (induction ms arbitrary: c C)
  case Nil
  then show ?case
    using map_assign_same [of "connections C" a c] by (simp add: put_connection_def serves_def)
next
  case (Cons m ms)
  have "Send m prt C = put_connection a (StartSending m c) C"
    using Cons.prems by (intro Send_serves) simp_all
  moreover have "peer_port (StartSending m c) = prt"
    using Cons.prems(1) by (simp add: serves_def)
  ultimately show ?case
    using Cons.IH [OF serves_put [OF Cons.prems(1)], of "StartSending m c"] Cons.prems(2) by simp
qed

lemma StartSendings_between:
  "between_messages rest c \<Longrightarrow> between_messages rest (fold StartSending ms c)"
  by (induction ms arbitrary: c) (simp_all add: between_messages_def)

text \<open>A connection that has just been made or accepted.\<close>

abbreviation opened :: "port \<Rightarrow> TcpConnection" where
  "opened prt \<equiv> StartReceiving (new_TcpConnection\<lparr>is_open := True, remote_port := prt\<rparr>)"

lemma opened_fields:
  "between_messages [] (opened prt)" "written (opened prt) = []" "peer_port (opened prt) = prt"
  by (simp_all add: between_messages_def StartReceiving_def StartReadSize_def new_TcpConnection_def
      peer_port_def)

lemma Connect_Sends:
  assumes "Connect env prt new_LocalTcpTransport w = (kSuccess, C, w')" and "list_all fits ms"
  shows "\<exists>c. connections (fold (\<lambda>m. Send m prt) ms C) = [(0, c)] \<and> between_messages [] c \<and>
    written c = concat (map frame ms) \<and> errors (fold (\<lambda>m. Send m prt) ms C) = []"
proof -
  have C: "connections C = [(0, opened prt)]" "errors C = []"
    using assms(1) by (auto simp: Connect_def TcpConnection_Connect_def Let_def DoInsertConnection_def
        new_LocalTcpTransport_def split: prod.splits if_splits)
  have "serves 0 prt (opened prt) C"
    by (simp add: serves_def C map_ok_def opened_fields)
  from Sends_serves [OF this assms(2)] C have
    "connections (fold (\<lambda>m. Send m prt) ms C) = [(0, fold StartSending ms (opened prt))]"
    "errors (fold (\<lambda>m. Send m prt) ms C) = []" by (simp_all add: put_connection_def)
  moreover have "written (fold StartSending ms (opened prt)) = concat (map frame ms)"
    using written_StartSendings [of "opened prt" ms] opened_fields [of prt]
    by (simp add: between_messages_def)
  ultimately show ?thesis using StartSendings_between [OF opened_fields(1)] by blast
qed

text \<open>The bytes of a client arrive on a connection that the client manager has just accepted.\<close>

definition arrived :: "byte list \<Rightarrow> port \<Rightarrow> LocalTcpTransport \<Rightarrow> LocalTcpTransport" where
  "arrived bs peer T =
     at_connection (next_address T) (\<lambda>c. c\<lparr>incoming := incoming c @ bs\<rparr>) (HandleAccept False peer T)"

lemma arrived_serves:
  assumes "transport_inv T" and "acceptor T \<noteq> None"
    and "\<forall>(b, d) \<in> set (connections T). peer_port d \<noteq> peer"
  shows "\<exists>c. serves (next_address T) peer c (arrived bs peer T) \<and> between_messages bs c \<and>
    written c = [] \<and> errors (arrived bs peer T) = errors T"
proof -
  let ?c = "(opened peer)\<lparr>incoming := bs\<rparr>"
  have old: "peer_port d \<noteq> peer" if "map_find b (connections T) = Some d" for b d
    using assms(1,3) that map_find_iff [of "connections T" b d] by (auto simp: transport_inv_def)
  have "incoming (opened peer) = []" "is_open (opened peer)"
    using opened_fields(1) [of peer] by (simp_all add: between_messages_def)
  then have "connections (arrived bs peer T) = map_assign (next_address T) ?c (connections T)"
    "errors (arrived bs peer T) = errors T"
    using assms(2) by (auto simp: arrived_def at_connection_def HandleAccept_def DoInsertConnection_def Let_def)
  moreover have "between_messages bs ?c" "written ?c = []" "peer_port ?c = peer"
    using opened_fields [of peer] by (simp_all add: between_messages_def peer_port_def)
  ultimately show ?thesis
    using assms(1) old
    by (intro exI [of _ ?c]) (auto simp: serves_def transport_inv_def map_ok_assign split: if_splits)
qed


definition demo_acceptor :: LocalTcpTransport where
  "demo_acceptor = new_LocalTcpTransport\<lparr>acceptor := Some 5483, accepting := True\<rparr>"

definition interval_reply :: "32 word \<Rightarrow> bytes" where
  "interval_reply i = WrapMessage wire_protobuf kUpdateIntervalResponse
     (SerializeAsString (pb_UpdateIntervalResponse wire_protobuf) \<lparr>uis_update_interval = i\<rparr>)"


end
