(* ===== verification/Executable.thy ===== *)
theory Executable
  imports Client_Manager
begin

text \<open>
  \<open>client_manager_main.cc\<close> and the part of \<open>utils.cc\<close> that only exists in a build with \<open>TESTING\<close>: the program
  options, the test environment, the shutdown flag with the signal handlers, the Windows service, and the
  \<open>main\<close> of each build.

  What boost.program_options parsed is the record \<open>variables_map\<close>; \<open>tokens\<close> stands for the fields that the
  regular expression iterator yields.  The constructor of \<open>ClientManager\<close> is represented by its outcome.
\<close>

section \<open>Test environment\<close>

record test_environment =
  test_env_flag :: bool \<comment> \<open>the \<open>once_flag\<close> was used\<close>
  g_test_client_manager_port :: port
  g_test_env_root_dir :: path
  g_path_to_vault :: path
  g_using_default_environment :: bool
  g_bootstrap_ips :: "EndPoint list"
  g_identity_index :: int

definition initial_test_environment :: test_environment where
  "initial_test_environment = \<lparr>test_env_flag = False, g_test_client_manager_port = 0,
     g_test_env_root_dir = [], g_path_to_vault = [], g_using_default_environment = True,
     g_bootstrap_ips = [], g_identity_index = 0\<rparr>"

definition SetTestEnvironmentVariables ::
  "port \<Rightarrow> path \<Rightarrow> path \<Rightarrow> EndPoint list \<Rightarrow> test_environment \<Rightarrow> test_environment" where
  "SetTestEnvironmentVariables test_client_manager_port test_env_root_dir path_to_vault bootstrap_ips g =
     (if test_env_flag g then g
      else g\<lparr>test_env_flag := True, g_test_client_manager_port := test_client_manager_port,
             g_test_env_root_dir := test_env_root_dir, g_path_to_vault := path_to_vault,
             g_bootstrap_ips := bootstrap_ips, g_using_default_environment := False\<rparr>)"

definition GetTestClientManagerPort :: "test_environment \<Rightarrow> port" where
  "GetTestClientManagerPort g = g_test_client_manager_port g"

definition GetTestEnvironmentRootDir :: "test_environment \<Rightarrow> path" where
  "GetTestEnvironmentRootDir g = g_test_env_root_dir g"

definition GetPathToVault :: "test_environment \<Rightarrow> path" where
  "GetPathToVault g = g_path_to_vault g"

definition GetBootstrapIps :: "test_environment \<Rightarrow> EndPoint list" where
  "GetBootstrapIps g = g_bootstrap_ips g"

definition SetIdentityIndex :: "int \<Rightarrow> test_environment \<Rightarrow> test_environment" where
  "SetIdentityIndex i g = g\<lparr>g_identity_index := i\<rparr>"

definition IdentityIndex :: "test_environment \<Rightarrow> int" where
  "IdentityIndex g = g_identity_index g"

definition UsingDefaultEnvironment :: "test_environment \<Rightarrow> bool" where
  "UsingDefaultEnvironment g = g_using_default_environment g"

text \<open>
  The port of a client manager and of a client controller in a build with \<open>TESTING\<close>: both use the test
  port, or the default port plus 100 when none was set.
\<close>

definition test_manager_port :: "('w, 'p) env \<Rightarrow> test_environment \<Rightarrow> port" where
  "test_manager_port env g =
     (if GetTestClientManagerPort g = 0 then kDefaultPort env + 100 else GetTestClientManagerPort g)"

section \<open>Program options\<close>

record variables_map =
  opt_help :: bool
  opt_port :: "int option"
  opt_vault_path :: "string option"
  opt_root_dir :: "string option"
  opt_bootstrap_ips :: "string option"

text \<open>Addresses that do not parse are skipped.\<close>

fun ParseIps :: "('w, 'p) env \<Rightarrow> string list \<Rightarrow> EndPoint list" where
  "ParseIps env [] = []"
| "ParseIps env (token # tokens) =
     (case address_from_string env token of
        Some address \<Rightarrow> (address, kLivePort env) # ParseIps env tokens
      | None \<Rightarrow> ParseIps env tokens)"

text \<open>The release build knows one option.\<close>

definition HandleProgramOptions :: "variables_map \<Rightarrow> fault + unit" where
  "HandleProgramOptions vars = (if opt_help vars then Inl (Exception uninitialised) else Inr ())"

definition HandleProgramOptions_TESTING ::
  "('w, 'p) env \<Rightarrow> (string \<Rightarrow> string list) \<Rightarrow> variables_map \<Rightarrow> test_environment \<Rightarrow> fault + test_environment"
where
  "HandleProgramOptions_TESTING env tokens vars g =
     (if opt_help vars then Inl (Exception uninitialised)
      else
        and_then
          (case opt_port vars of
             None \<Rightarrow> Inr (kDefaultPort env + 100)
           | Some p \<Rightarrow>
               if p < 1025 \<or> p > 65535 then Inl (Exception invalid_parameter) else Inr (word_of_int p))
          (\<lambda>prt.
            let root_dir = (case opt_root_dir vars of Some d \<Rightarrow> d | None \<Rightarrow> []);
                path_to_vault = (case opt_vault_path vars of Some d \<Rightarrow> d | None \<Rightarrow> []);
                bootstrap_ips = (case opt_bootstrap_ips vars of Some ips \<Rightarrow> ParseIps env (tokens ips) | None \<Rightarrow> [])
            in Inr (SetTestEnvironmentVariables prt root_dir path_to_vault bootstrap_ips g)))"

section \<open>Shutdown\<close>

text \<open>What arrives while \<open>main\<close> waits, as far as the program handles it.\<close>

datatype signal = SIGINT | SIGTERM | other_signal

definition ShutDownClientManager :: "bool \<Rightarrow> bool" where
  "ShutDownClientManager g_shutdown_service = True"

definition handle_signal :: "signal \<Rightarrow> bool \<Rightarrow> bool" where
  "handle_signal sig g = (if sig = SIGINT \<or> sig = SIGTERM then ShutDownClientManager g else g)"

text \<open>
  How \<open>main\<close> ends: an exception leaves it, it still waits for the flag, or it returns an exit code.
\<close>

datatype outcome = Uncaught fault | StillWaiting | Returned int

text \<open>
  \<open>options\<close> is the result of \<open>HandleProgramOptions\<close>, \<open>constructed\<close> the exception of the constructor, if any;
  there is no handler for exceptions.
\<close>

definition main_Linux :: "fault + 'o \<Rightarrow> common_error option \<Rightarrow> signal list \<Rightarrow> outcome" where
  "main_Linux options constructed signals =
     (case options of
        Inl e \<Rightarrow> Uncaught e
      | Inr _ \<Rightarrow>
          (case constructed of
             Some e \<Rightarrow> Uncaught (Exception e)
           | None \<Rightarrow> if fold handle_signal signals False then Returned 0 else StillWaiting))"

section \<open>The Windows service\<close>

datatype service_state = SERVICE_START_PENDING | SERVICE_RUNNING | SERVICE_STOPPED

datatype control = SERVICE_CONTROL_STOP | SERVICE_CONTROL_SHUTDOWN | other_control

record SERVICE_STATUS =
  dwCurrentState :: service_state
  dwWin32ExitCode :: int
  dwServiceSpecificExitCode :: int

definition kMaidSafeClientManagerStdException :: int where
  "kMaidSafeClientManagerStdException = 1"

definition kMaidSafeVaultServiceUnknownException :: int where
  "kMaidSafeVaultServiceUnknownException = 2"

text \<open>\<open>reports\<close> holds the states that \<open>SetServiceStatus\<close> was called with.\<close>

record service =
  g_service_status :: SERVICE_STATUS
  g_shutdown :: bool
  reports :: "SERVICE_STATUS list"

definition SetServiceStatus :: "service \<Rightarrow> service" where
  "SetServiceStatus v = v\<lparr>reports := reports v @ [g_service_status v]\<rparr>"

definition StopService :: "int \<Rightarrow> int \<Rightarrow> service \<Rightarrow> service" where
  "StopService exit_code error_code v =
     SetServiceStatus (v\<lparr>g_service_status := \<lparr>dwCurrentState = SERVICE_STOPPED,
       dwWin32ExitCode = exit_code, dwServiceSpecificExitCode = error_code\<rparr>\<rparr>)"

definition ControlHandler :: "control \<Rightarrow> service \<Rightarrow> service" where
  "ControlHandler request v =
     (if request = SERVICE_CONTROL_STOP \<or> request = SERVICE_CONTROL_SHUTDOWN
      then SetServiceStatus (v\<lparr>g_service_status := (g_service_status v)
             \<lparr>dwWin32ExitCode := 0, dwCurrentState := SERVICE_STOPPED\<rparr>,
             g_shutdown := ShutDownClientManager (g_shutdown v)\<rparr>)
      else SetServiceStatus v)"

text \<open>
  \<open>ServiceMain\<close>: \<open>constructed\<close> is the exception of the constructor, if any (\<open>True\<close>: derived from
  \<open>std::exception\<close>); \<open>controls\<close> are the requests that arrive during the wait of one minute, whose result
  is not looked at; \<open>specific_error\<close> is \<open>ERROR_SERVICE_SPECIFIC_ERROR\<close>.
\<close>

definition ServiceMain :: "int \<Rightarrow> bool option \<Rightarrow> control list \<Rightarrow> service \<Rightarrow> service" where
  "ServiceMain specific_error constructed controls v =
     (let v = v\<lparr>g_service_status := \<lparr>dwCurrentState = SERVICE_START_PENDING, dwWin32ExitCode = 0,
            dwServiceSpecificExitCode = 0\<rparr>\<rparr>
      in case constructed of
           None \<Rightarrow>
             let v = SetServiceStatus (v\<lparr>g_service_status := (g_service_status v)
                       \<lparr>dwCurrentState := SERVICE_RUNNING\<rparr>\<rparr>);
                 v = fold ControlHandler controls v
             in StopService 0 0 v
         | Some True \<Rightarrow> StopService specific_error kMaidSafeClientManagerStdException v
         | Some False \<Rightarrow> StopService specific_error kMaidSafeVaultServiceUnknownException v)"

datatype control_type = CTRL_C_EVENT | CTRL_CLOSE_EVENT | CTRL_SHUTDOWN_EVENT | other_event

definition CtrlHandler :: "control_type \<Rightarrow> bool \<Rightarrow> bool \<times> bool" where
  "CtrlHandler ct g = (if ct = other_event then (False, g) else (True, ShutDownClientManager g))"

text \<open>The console program of a Windows build with \<open>TESTING\<close>; \<open>handler_set\<close> is the result of
  \<open>SetConsoleCtrlHandler\<close>.  Every exception of the libraries derives from \<open>std::exception\<close>.\<close>

definition main_Windows_TESTING ::
  "('w, 'p) env \<Rightarrow> (string \<Rightarrow> string list) \<Rightarrow> variables_map \<Rightarrow> bool \<Rightarrow> common_error option \<Rightarrow> control_type list \<Rightarrow> outcome"
where
  "main_Windows_TESTING env tokens vars handler_set constructed events =
     (case HandleProgramOptions_TESTING env tokens vars initial_test_environment of
        Inl e \<Rightarrow> Returned (- 4)
      | Inr _ \<Rightarrow>
          if \<not> handler_set then Returned (- 3)
          else case constructed of
            Some e \<Rightarrow> Returned (- 4)
          | None \<Rightarrow> if fold (\<lambda>ct g. snd (CtrlHandler ct g)) events False then Returned 0 else StillWaiting)"

text \<open>
  The release build for Windows: \<open>dispatched\<close> says whether \<open>StartServiceCtrlDispatcher\<close> ran the service; its
  result is not looked at.
\<close>

definition main_Windows ::
  "bool \<Rightarrow> int \<Rightarrow> bool option \<Rightarrow> control list \<Rightarrow> service \<Rightarrow> outcome \<times> service" where
  "main_Windows dispatched specific_error constructed controls v =
     (Returned 0, if dispatched then ServiceMain specific_error constructed controls v else v)"

section \<open>Lemmas\<close>

lemma SetTestEnvironmentVariables_once:
  "SetTestEnvironmentVariables p' d' v' ips' (SetTestEnvironmentVariables p d v ips g) =
     SetTestEnvironmentVariables p d v ips g"
  by (simp add: SetTestEnvironmentVariables_def)

lemma ParseIps_filter:
  "ParseIps env ts = map (\<lambda>a. (a, kLivePort env)) (List.map_filter (address_from_string env) ts)"
  by (induction ts) (simp_all add: map_filter_simps split: option.split)

lemma signals_flag:
  "fold handle_signal signals g \<longleftrightarrow> g \<or> SIGINT \<in> set signals \<or> SIGTERM \<in> set signals"
  by (induction signals arbitrary: g) (auto simp: handle_signal_def ShutDownClientManager_def)

section \<open>Properties\<close>

text \<open>
  The options of a test build set the environment once and for all: the client manager then uses
  exactly the port that was asked for, which is between 1025 and 65535, or the default port plus 100; the
  bootstrap contacts are the addresses that parse, in order, with the live port; a later call changes
  nothing.
\<close>

theorem test_options:
  assumes "HandleProgramOptions_TESTING env tokens vars initial_test_environment = Inr g"
    and "kDefaultPort env + 100 \<noteq> 0"
  shows "(case opt_port vars of
            Some p \<Rightarrow> 1025 \<le> p \<and> p \<le> 65535 \<and> uint (test_manager_port env g) = p
          | None \<Rightarrow> test_manager_port env g = kDefaultPort env + 100) \<and>
    GetBootstrapIps g = (case opt_bootstrap_ips vars of
        None \<Rightarrow> []
      | Some ips \<Rightarrow> map (\<lambda>a. (a, kLivePort env)) (List.map_filter (address_from_string env) (tokens ips))) \<and>
    \<not> UsingDefaultEnvironment g \<and> SetTestEnvironmentVariables p' d' v' ips' g = g"
proof -
  obtain prt d v where port: "(case opt_port vars of None \<Rightarrow> Inr (kDefaultPort env + 100)
      | Some p \<Rightarrow> if p < 1025 \<or> p > 65535 then Inl (Exception invalid_parameter) else Inr (word_of_int p)) = Inr prt"
    and g: "g = SetTestEnvironmentVariables prt d v (case opt_bootstrap_ips vars of
        Some ips \<Rightarrow> ParseIps env (tokens ips) | None \<Rightarrow> []) initial_test_environment"
    using assms(1) by (auto simp: HandleProgramOptions_TESTING_def and_then_Inr Let_def split: if_splits)
  have "uint (word_of_int p :: port) = p" if "1025 \<le> p" "p \<le> 65535" for p
    using that by (simp add: uint_word_of_int)
  then have word: "(word_of_int p :: port) \<noteq> 0" if "1025 \<le> p" "p \<le> 65535" for p
    using that by (metis uint_0_iff not_numeral_le_zero)
  show ?thesis
    using port assms(2) word
    by (auto simp: g SetTestEnvironmentVariables_def initial_test_environment_def test_manager_port_def
        GetTestClientManagerPort_def GetBootstrapIps_def UsingDefaultEnvironment_def ParseIps_filter
        uint_word_of_int split: option.splits if_splits)
qed

definition demo_options :: variables_map where
  "demo_options = \<lparr>opt_help = False, opt_port = Some 6000, opt_vault_path = None, opt_root_dir = Some ''/tmp'',
     opt_bootstrap_ips = Some ''10.0.0.1''\<rparr>"

theorem test_options_witness:
  "\<exists>g. HandleProgramOptions_TESTING demo_env (\<lambda>ips. [ips]) demo_options initial_test_environment = Inr g \<and>
     uint (test_manager_port demo_env g) = 6000 \<and> GetBootstrapIps g = [(''10.0.0.1'', 5483)]"
proof -
  obtain g where g: "HandleProgramOptions_TESTING demo_env (\<lambda>ips. [ips]) demo_options initial_test_environment = Inr g"
    by (simp add: HandleProgramOptions_TESTING_def demo_options_def)
  from test_options [OF g] g show ?thesis
    by (simp add: demo_options_def kDefaultPort_def map_filter_simps)
qed


definition demo_service :: service where
  "demo_service = \<lparr>g_service_status = \<lparr>dwCurrentState = SERVICE_STOPPED, dwWin32ExitCode = 0,
     dwServiceSpecificExitCode = 0\<rparr>, g_shutdown = False, reports = []\<rparr>"


text \<open>
  On Linux \<open>main\<close> returns only after \<open>SIGINT\<close> or \<open>SIGTERM\<close>, and then 0; the request for help ends in an
  exception that is not caught.
\<close>

lemma main_Linux_returns:
  "main_Linux (HandleProgramOptions vars) constructed signals = Returned c \<longleftrightarrow>
     \<not> opt_help vars \<and> constructed = None \<and> c = 0 \<and> (SIGINT \<in> set signals \<or> SIGTERM \<in> set signals)"
  by (auto simp: main_Linux_def HandleProgramOptions_def signals_flag split: option.splits)

end
