(* ===== verification/Test_Build.thy ===== *)
theory Test_Build
  imports Executable Client_Registration Client_Manager_Requests
begin

text \<open>
  What a build with \<open>TESTING\<close> does differently from the release build, on Linux: the port and the
  configuration file of the client manager, the bootstrap contacts, the command line of a vault and the
  identity index that a client sends with its request.  The test environment is the record of the theory
  \<open>Executable\<close>; client and client manager are two programs and have one each.  The function
  \<open>GetUserAppDir\<close> and the address that \<open>GetLocalIp\<close> prints are parameters.
\<close>

section \<open>Constructor\<close>

definition new_ClientManager_TESTING ::
  "('w, 'p) env \<Rightarrow> path \<Rightarrow> test_environment \<Rightarrow> 'w \<Rightarrow> ('w, 'p) ClientManager" where
  "new_ClientManager_TESTING env user_app_dir g w =
     (new_ClientManager env w)\<lparr>local_port := test_manager_port env g,
       config_file_path := path_join env
         (if GetTestEnvironmentRootDir g = [] then user_app_dir else GetTestEnvironmentRootDir g)
         kGlobalConfigFilename\<rparr>"

definition ClientController_SetTestEnvironmentVariables ::
  "port \<Rightarrow> path \<Rightarrow> path \<Rightarrow> EndPoint list \<Rightarrow> test_environment \<Rightarrow> test_environment" where
  "ClientController_SetTestEnvironmentVariables test_client_manager_port test_env_root_dir path_to_vault
       bootstrap_ips g =
     SetTestEnvironmentVariables test_client_manager_port test_env_root_dir path_to_vault bootstrap_ips g"

section \<open>Bootstrap contacts\<close>

text \<open>Outside the default environment the message starts empty, so the contacts are always added.\<close>

definition ObtainBootstrapInformation_TESTING ::
  "('w, 'p) env \<Rightarrow> string \<Rightarrow> test_environment \<Rightarrow> ClientManagerConfig \<Rightarrow> ('w, 'p) ClientManager \<Rightarrow>
     bool \<times> ClientManagerConfig \<times> ('w, 'p) ClientManager" where
  "ObtainBootstrapInformation_TESTING env local_ip g config s =
     (if UsingDefaultEnvironment g then ObtainBootstrapInformation env config s
      else
        let config = mutable_bootstrap_endpoints config;
            end_points = empty_bootstrap;
            end_points =
              (if bootstrap_contacts end_points = [] then
                 if GetBootstrapIps g = []
                 then end_points\<lparr>bootstrap_contacts := bootstrap_contacts end_points @
                        [\<lparr>ep_ip = local_ip, ep_port = uint (kLivePort env)\<rparr>]\<rparr>
                 else end_points\<lparr>bootstrap_contacts := bootstrap_contacts end_points @
                        map (\<lambda>ep. \<lparr>ep_ip = fst ep, ep_port = uint (snd ep)\<rparr>) (GetBootstrapIps g)\<rparr>
               else end_points)
        in (True, config\<lparr>cfg_bootstrap_endpoints := Some end_points\<rparr>,
            LoadBootstrapEndpoints end_points s))"

section \<open>Vault processes\<close>

text \<open>\<open>std::to_string(int)\<close>\<close>

definition int_to_string :: "int \<Rightarrow> string" where
  "int_to_string i = (if i < 0 then CHR ''-'' # to_string (nat (- i)) else to_string (nat i))"

definition vault_directory :: "test_environment \<Rightarrow> path" where
  "vault_directory g = (if GetPathToVault g = [] then ''.'' else GetPathToVault g)"

text \<open>
  The member \<open>identity_index\<close> of the \<open>VaultInfo\<close> is an argument here: nothing reads it after the process
  was added.
\<close>

definition StartVaultProcess_TESTING ::
  "('w, 'p) env \<Rightarrow> test_environment \<Rightarrow> int \<Rightarrow> 'p VaultInfo \<Rightarrow> ('w, 'p) ClientManager \<Rightarrow>
     bool \<times> 'p VaultInfo \<times> ('w, 'p) ClientManager" where
  "StartVaultProcess_TESTING env g identity_index info s =
     (let (set_path, p) = SetExecutablePath env (path_join env (vault_directory g) kVaultName)
            (outside s) new_Process
      in if \<not> set_path then (False, info, s)
         else
           let p = AddArgument (''--chunk_path '' @ chunkstore_path info) (AddArgument ''--start'' p);
               p = AddArgument (''--identity_index '' @ int_to_string identity_index) p;
               (i, pm) = AddProcess p (local_port s) (process_manager s);
               info = info\<lparr>process_index := i\<rparr>;
               s = s\<lparr>process_manager := pm\<rparr>
           in if i = kInvalidIndex then (False, info, s)
              else (True, info, s\<lparr>process_manager := StartProcess i pm,
                     vault_infos := vault_infos s @ [info]\<rparr>))"

text \<open>Vaults of the configuration are started with the index \<open>-1\<close> of a new \<open>VaultInfo\<close>.\<close>

fun start_vaults_TESTING ::
  "('w, 'p) env \<Rightarrow> test_environment \<Rightarrow> VaultInfoPb list \<Rightarrow> ('w, 'p) ClientManager \<Rightarrow>
     fault + ('w, 'p) ClientManager" where
  "start_vaults_TESTING env g [] s = Inr s"
| "start_vaults_TESTING env g (v # vs) s =
     and_then (FromProtobuf env v (new_VaultInfo env)) (\<lambda>info.
       if requested_to_run info
       then let (_, _, s') = StartVaultProcess_TESTING env g (- 1) info s in start_vaults_TESTING env g vs s'
       else start_vaults_TESTING env g vs s)"

definition start_new_vault_TESTING ::
  "('w, 'p) env \<Rightarrow> test_environment \<Rightarrow> StartVaultRequest \<Rightarrow> port \<Rightarrow> 'p \<Rightarrow> ('w, 'p) ClientManager \<Rightarrow>
     (fault + bytes \<times> ('w, 'p) ClientManager) option" where
  "start_new_vault_TESTING env g request client request_pmid s =
     (let directory = (case svq_chunkstore_path request of
                         Some directory \<Rightarrow> directory
                       | None \<Rightarrow> parent_path env (config_file_path s));
          identity_index = (case svq_identity_index request of Some i \<Rightarrow> i | None \<Rightarrow> 0)
      in case choose_chunkstore env directory (outside s) of
           None \<Rightarrow> None
         | Some (chunkstore, w) \<Rightarrow>
             let info = (new_VaultInfo env)\<lparr>pmid := Some request_pmid,
                   account_name := svq_account_name request, chunkstore_path := chunkstore,
                   client_port := client\<rparr>;
                 (started, info, s) = StartVaultProcess_TESTING env g identity_index info (s\<lparr>outside := w\<rparr>)
             in if \<not> started then Some (Inr (start_vault_response env False, s))
                else Some (and_then (AmendVaultDetailsInConfigFile env info False s) (\<lambda>(amended, s).
                  Inr (start_vault_response env amended, s))))"

definition HandleStartVaultRequest_TESTING ::
  "('w, 'p) env \<Rightarrow> test_environment \<Rightarrow> bytes \<Rightarrow> ('w, 'p) ClientManager \<Rightarrow>
     (fault + bytes \<times> ('w, 'p) ClientManager) option" where
  "HandleStartVaultRequest_TESTING env g request s =
     (let (parsed, start_vault_request) = ParseFromString (pb_StartVaultRequest (pb env)) request
      in if \<not> parsed then Some (Inr ([], s))
         else
           let client = ucast (svq_client_port start_vault_request) :: port
           in if map_find client (client_ports_and_versions s) = None
              then Some (Inr (start_vault_response env False, s))
              else case parse_pmid env (svq_pmid start_vault_request) of
                Inl e \<Rightarrow> Some (Inl e)
              | Inr request_pmid \<Rightarrow>
                  (case FindFromPmidName env (pmid_name env request_pmid) s of
                     Inl e \<Rightarrow> Some (Inl e)
                   | Inr (Some k) \<Rightarrow> Some (start_existing_vault env start_vault_request client k s)
                   | Inr None \<Rightarrow> start_new_vault_TESTING env g start_vault_request client request_pmid s))"

text \<open>The request that \<open>ClientController::StartVault\<close> sends.\<close>

definition start_request_TESTING ::
  "('w, 'p) env \<Rightarrow> test_environment \<Rightarrow> 'p \<Rightarrow> bytes \<Rightarrow> path \<Rightarrow> bytes \<Rightarrow> ('w, 'p) ClientController \<Rightarrow>
     StartVaultRequest" where
  "start_request_TESTING env g key account chunkstore token s =
     (start_request env key account chunkstore token s)\<lparr>svq_identity_index := Some (IdentityIndex g)\<rparr>"

section \<open>Lemmas\<close>

lemma StartVaultProcess_TESTING_success:
  assumes "SetExecutablePath env (path_join env (vault_directory g) kVaultName) (outside s)
      new_Process = (True, p)"
    and "cm_inv s" and "has_room (process_manager s)" and "name p \<noteq> []"
  shows "\<exists>i pm entry. StartVaultProcess_TESTING env g n info s =
      (True, info\<lparr>process_index := i\<rparr>,
       s\<lparr>process_manager := pm, vault_infos := vault_infos s @ [info\<lparr>process_index := i\<rparr>]\<rparr>) \<and>
      i \<notin> known (process_manager s) \<and>
      info_of pm i = Some entry \<and> thread entry \<noteq> None \<and>
      args (process entry) = args p @ [''--start'', ''--chunk_path '' @ chunkstore_path info,
        ''--identity_index '' @ int_to_string n, ''--vmid'', GenerateVmidParameter i (local_port s)]"
proof -
  define p' where "p' = AddArgument (''--identity_index '' @ int_to_string n)
    (AddArgument (''--chunk_path '' @ chunkstore_path info) (AddArgument ''--start'' p))"
  obtain i pm where add: "AddProcess p' (local_port s) (process_manager s) = (i, pm)" by fastforce
  have nm: "name p' \<noteq> []" using assms(4) by (simp add: p'_def AddArgument_def)
  note idx = AddProcess_index [OF cm_inv_pm_inv [OF assms(2)] assms(3) nm add]
  have "StartVaultProcess_TESTING env g n info s = (True, info\<lparr>process_index := i\<rparr>,
      s\<lparr>process_manager := StartProcess i pm, vault_infos := vault_infos s @ [info\<lparr>process_index := i\<rparr>]\<rparr>)"
    using assms(1) add idx(3) by (simp add: StartVaultProcess_TESTING_def Let_def p'_def)
  with AddProcess_started [OF cm_inv_pm_inv [OF assms(2)] assms(3) nm add] idx(4) show ?thesis
    by (fastforce simp: p'_def AddArgument_def)
qed

lemma Amend_new_result:
  assumes "pmid info \<noteq> None"
  shows "\<exists>ok s'. AmendVaultDetailsInConfigFile env info False s = Inr (ok, s') \<and> only_config s s'"
proof (cases "AmendVaultDetailsInConfigFile env info False s")
  case (Inl e)
  then show ?thesis using Amend_fault [OF Inl assms] by simp
next
  case (Inr r)
  then show ?thesis using Amend_frame [of env info False s "fst r" "snd r"] by (cases r) simp
qed

section \<open>Properties\<close>

text \<open>
  In a test environment the contacts come from the environment: a test build behaves as a release build
  whose download server gives the contacts of the test environment, or the local address with the live
  port when there are none; they become the contacts of the client manager.  In the default environment
  it is the release build.
\<close>

theorem test_contacts:
  fixes env :: "('w, 'p) env"
  defines "contacts \<equiv> \<lambda>ip g. if GetBootstrapIps g = [] then [(ip, kLivePort env)] else GetBootstrapIps g"
  assumes "protobuf_ok (pb env)"
  shows "ObtainBootstrapInformation_TESTING env ip g config s =
      ObtainBootstrapInformation
        (if UsingDefaultEnvironment g then env
         else env\<lparr>GetBootstrapInfo := \<lambda>w. (SerializeAsString (pb_Bootstrap (pb env))
           \<lparr>bootstrap_contacts = map endpoint_pb (contacts ip g)\<rparr>, w)\<rparr>) config s \<and>
    (\<not> UsingDefaultEnvironment g \<longrightarrow>
      endpoints (snd (snd (ObtainBootstrapInformation_TESTING env ip g config s))) = contacts ip g)"
  using assms(2)
  by (auto simp: contacts_def ObtainBootstrapInformation_TESTING_def ObtainBootstrapInformation_def
      LoadBootstrapEndpoints_def endpoint_pb_def empty_bootstrap_def Let_def comp_def)

text \<open>
  C22: in a test build the identity index that a client program has set reaches the command line of its
  vault: when a registered client asks for a vault that is not registered yet, the client manager adds one
  vault under a free process index, and its process runs the executable of the test environment with the
  chunk store, the identity index of the client and the parameter that identifies the vault.
\<close>

theorem test_identity_reaches_vault:
  assumes "protobuf_ok (pb env)" and "passport_ok env" and "cm_inv s" and "has_room (process_manager s)"
    and "map_find (cc_local_port c) (client_ports_and_versions s) \<noteq> None"
    and "FindFromPmidName env (pmid_name env key) s = Inr None" and "directory \<noteq> []"
    and "choose_chunkstore env directory (outside s) = Some (chunkstore, w)"
    and "SetExecutablePath env (path_join env (vault_directory g) kVaultName) w new_Process = (True, exe)"
    and "name exe \<noteq> []"
  shows "\<exists>ok s' i entry. HandleStartVaultRequest_TESTING env g
        (SerializeAsString (pb_StartVaultRequest (pb env))
          (start_request_TESTING env (SetIdentityIndex n h) key account directory token c)) s =
        Some (Inr (start_vault_response env ok, s')) \<and>
      map process_index (vault_infos s') = map process_index (vault_infos s) @ [i] \<and>
      i \<notin> known (process_manager s) \<and> info_of (process_manager s') i = Some entry \<and>
      args (process entry) = args exe @ [''--start'', ''--chunk_path '' @ chunkstore,
        ''--identity_index '' @ int_to_string n, ''--vmid'', GenerateVmidParameter i (local_port s)]"
proof -
  let ?r = "start_request_TESTING env (SetIdentityIndex n h) key account directory token c"
  have r: "svq_pmid ?r = SerialisePmid env key" "svq_chunkstore_path ?r = Some directory"
    "svq_identity_index ?r = Some n" "(ucast (svq_client_port ?r) :: port) = cc_local_port c"
    using assms(7) by (simp_all add: start_request_TESTING_def start_request_def SetIdentityIndex_def
        IdentityIndex_def)
  define info where "info = (new_VaultInfo env)\<lparr>pmid := Some key, account_name := svq_account_name ?r,
    chunkstore_path := chunkstore, client_port := cc_local_port c\<rparr>"
  define s1 where "s1 = s\<lparr>outside := w\<rparr>"
  obtain i pm entry where start: "StartVaultProcess_TESTING env g n info s1 = (True, info\<lparr>process_index := i\<rparr>,
        s1\<lparr>process_manager := pm, vault_infos := vault_infos s1 @ [info\<lparr>process_index := i\<rparr>]\<rparr>)"
      and entry: "i \<notin> known (process_manager s1)" "info_of pm i = Some entry"
        "args (process entry) = args exe @ [''--start'', ''--chunk_path '' @ chunkstore_path info,
          ''--identity_index '' @ int_to_string n, ''--vmid'', GenerateVmidParameter i (local_port s1)]"
    using StartVaultProcess_TESTING_success [of env g s1 exe n info] assms(3,4,9,10) by (auto simp: s1_def)
  define s2 where "s2 = s1\<lparr>process_manager := pm, vault_infos := vault_infos s1 @ [info\<lparr>process_index := i\<rparr>]\<rparr>"
  obtain ok s' where amend: "AmendVaultDetailsInConfigFile env (info\<lparr>process_index := i\<rparr>) False s2 =
      Inr (ok, s')" "only_config s2 s'"
    using Amend_new_result [of "info\<lparr>process_index := i\<rparr>" env s2] by (auto simp: info_def)
  have "parse_pmid env (svq_pmid ?r) = Inr key" using assms(2) r(1) by (simp add: parse_pmid_def)
  moreover have "start_new_vault_TESTING env g ?r (cc_local_port c) key s =
      Some (Inr (start_vault_response env ok, s'))"
    using assms(8) start amend(1)
    by (simp add: start_new_vault_TESTING_def r Let_def info_def s1_def s2_def)
  ultimately have "HandleStartVaultRequest_TESTING env g (SerializeAsString (pb_StartVaultRequest (pb env)) ?r) s =
      Some (Inr (start_vault_response env ok, s'))"
    using assms(1,5,6) r(4) by (auto simp: HandleStartVaultRequest_TESTING_def Let_def)
  with only_config_frame [OF amend(2)] entry show ?thesis
    by (intro exI [of _ ok] exI [of _ s'] exI [of _ i] exI [of _ entry])
      (simp add: s2_def s1_def info_def)
qed

definition demo_test_environment :: test_environment where
  "demo_test_environment = SetTestEnvironmentVariables 6000 ''/tmp'' ''/opt'' [] initial_test_environment"

definition demo_tester :: "(world, string) ClientController" where
  "demo_tester = demo_client\<lparr>cc_local_port := 5000\<rparr>"

theorem test_identity_reaches_vault_witness:
  "\<exists>ok s' i entry. HandleStartVaultRequest_TESTING demo_env demo_test_environment
       (SerializeAsString (pb_StartVaultRequest wire_protobuf)
         (start_request_TESTING demo_env (SetIdentityIndex 3 initial_test_environment) ''key'' ''account''
           ''/data'' ''token'' demo_tester)) demo_cm = Some (Inr (start_vault_response demo_env ok, s')) \<and>
     map process_index (vault_infos s') = [i] \<and> info_of (process_manager s') i = Some entry \<and>
     hd (args (process entry)) = ''/opt/vault'' \<and> ''--identity_index 3'' \<in> set (args (process entry))"
proof -
  let ?w = "outside demo_cm\<lparr>seed := 1\<rparr>" and ?chunkstore = "''/data/rrrrrrrrrrrrrrrA''"
  have cm: "vault_infos demo_cm = []" "client_ports_and_versions demo_cm = [(5000, 1)]"
    "outside demo_cm = demo_world"
    by (simp_all add: demo_cm_def new_ClientManager_def)
  have letters: "replicate 15 (CHR ''r'') = ''rrrrrrrrrrrrrrr''" by (simp add: numeral_eq_Suc)
  have letter: "char_of (65 :: nat) = CHR ''A''" by code_simp
  have chosen: "choose_chunkstore demo_env ''/data'' (outside demo_cm) = Some (?chunkstore, ?w)"
    by (simp add: choose_chunkstore.simps demo_random_def letters letter cm demo_world_def)
  have exe: "SetExecutablePath demo_env (path_join demo_env (vault_directory demo_test_environment) kVaultName)
      ?w new_Process = (True, \<lparr>args = [''/opt/vault''], name = ''/opt/vault''\<rparr>)"
    by (simp add: SetExecutablePath_def kVaultName_def AddArgument_def new_Process_def vault_directory_def
        GetPathToVault_def demo_test_environment_def SetTestEnvironmentVariables_def initial_test_environment_def)
  have "int_to_string 3 = ''3''"
    by (simp add: int_to_string_def to_string.simps digit_char_def) code_simp
  with test_identity_reaches_vault [OF _ demo_passport_ok demo_cm_inv(1,2) _ _ _ chosen exe,
      of demo_tester "''key''" 3 initial_test_environment "''account''" "''token''"]
  show ?thesis
    by (auto simp: cm demo_tester_def FindFromPmidName_def)
qed

end
