(* ===== verification/Spec2Isabelle.thy ===== *)
theory Spec2Isabelle
  imports Client_Manager_Config Client_Manager_Stop Client_Manager_Registry Client_Manager_Life
    Protocol Response_Types Process_Wait Transport_Events Shared_Memory Shared_Address
    Process_Supervision Manager_Exchange Test_Build
begin

text \<open>
  \<^bold>\<open>A verification development for the MaidSafe client manager\<close>

  The program runs vaults, the storage processes of the MaidSafe network, on behalf of clients.  One
  process, the client manager, keeps a table of child processes, a registry of vaults and clients and a
  configuration file; it listens on a port of the loopback interface.  A client talks to it through a
  client controller, a vault through a vault controller.  All messages are protocol buffers inside a
  wrapper with a message type, sent over TCP with a size prefix.  A second channel, two mailboxes in shared
  memory, is declared in headers.

  \<^bold>\<open>Theories and sources\<close> (paths below \<open>src/src/maidsafe\<close>, headers of the controllers below
  \<open>src/include/maidsafe/client_manager\<close>)

  \<^item> \<open>CM_Prelude\<close>: integer types, faults, \<open>std::find_if\<close>, C strings, \<open>memcpy\<close>, and lemmas on them.
  \<^item> \<open>Vmid\<close> (\<open>utils.cc\<close>): the \<open>--vmid\<close> argument, with \<open>std::to_string\<close>, \<open>std::stoul\<close> and \<open>std::stoi\<close>.
  \<^item> \<open>Messages\<close> (\<open>controller_messages.proto\<close>, \<open>vault_info.proto\<close>, \<open>MessageType\<close> of \<open>client_manager.h\<close>,
    \<open>WrapMessage\<close> and \<open>UnwrapMessage\<close> of \<open>utils.cc\<close>): messages as records; the generated classes are a
    parameter.  \<open>Wire_Format\<close> is one computable instance of that parameter, for witnesses.
  \<^item> \<open>Environment\<close>: everything the program calls that the repository does not contain, as one record of
    parameters, and the laws that theorems may assume.  \<open>Demo_Environment\<close> is a concrete instance.
  \<^item> \<open>Std_Map\<close>: \<open>std::map\<close> as a sorted association list; \<open>Return_Codes\<close>: \<open>return_codes.h\<close>, \<open>config.h\<close>.
  \<^item> \<open>Process_Manager\<close>, \<open>Process_Threads\<close>, \<open>Process_Wait\<close> (\<open>process_manager.cc\<close>, \<open>.h\<close>): the table and its
    operations; the threads that launch children, as a step relation over all interleavings; the loop of
    \<open>WaitForProcesses\<close> under a schedule of the threads.  \<open>Process_Supervision\<close>: the specification of the
    process manager as a map of slots, and the simulation.
  \<^item> \<open>Tcp_Connection\<close> (\<open>tcp_connection.cc\<close>), \<open>Local_Tcp_Transport\<close> (\<open>local_tcp_transport.cc\<close>,
    \<open>StartControllerListeningPort\<close> of \<open>utils.cc\<close>): framing, connections, listening.  \<open>Transport_Events\<close>: all
    calls and completions of a transport in any order.
  \<^item> \<open>Client_Manager\<close>, \<open>Client_Manager_Handlers\<close> (\<open>client_manager.cc\<close>, \<open>.h\<close>): the model; theorems in
    \<open>Client_Manager_Invariant\<close> (invariant, faults), \<open>Client_Manager_Config\<close> (configuration file),
    \<open>Client_Manager_Requests\<close> and \<open>Client_Manager_Stop\<close> (start, stop, update interval),
    \<open>Client_Manager_Registry\<close> (refinement of an abstract registry), \<open>Client_Manager_Updates\<close> (loops,
    restarts, notifications), \<open>Client_Manager_Life\<close> (all operations in any order; start-up in full),
    \<open>Response_Types\<close> (the types of the responses).
  \<^item> \<open>Controller_Requests\<close>, \<open>Vault_Controller\<close>, \<open>Client_Controller\<close>, \<open>Client_Registration\<close>
    (\<open>vault_controller.cc\<close>, \<open>client_controller.cc\<close>): the two controllers.
  \<^item> \<open>Ipc_Queue\<close>, \<open>Shared_Memory\<close>, \<open>Shared_Address\<close> (\<open>queue_struct.h\<close>, \<open>queue_operations.h\<close>,
    \<open>shared_memory_communication.h\<close>): the mailboxes, the owners and users of a queue, the published
    address.  \<open>Interprocess\<close>: the named objects of \<open>boost.interprocess\<close>, as a parameter with its laws.
  \<^item> \<open>Executable\<close> (\<open>client_manager_main.cc\<close>, the \<open>TESTING\<close> part of \<open>utils.cc\<close>): program options, the
    environment of a test build, signals, \<open>main\<close> in every build and the Windows service.  \<open>Test_Build\<close>: the
    \<open>TESTING\<close> branches of \<open>client_manager.cc\<close> and \<open>client_controller.cc\<close>.
  \<^item> \<open>Protocol\<close>: controllers and client manager together; \<open>Manager_Exchange\<close>: the same over connections, from
    the bytes that a client writes to the bytes that it reads; this theory: the properties of the whole.

  \<^bold>\<open>Interfaces.\<close>  The locale \<open>key_value_store\<close> is what the code relies on in \<open>std::map\<close>; \<open>mailbox\<close> is one
  direction of the shared-memory queue and is interpreted for both; \<open>manager_service\<close> is the contract of a
  request to the client manager (what it answers, what the controller makes of it) and is interpreted for
  the update interval, for offering and asking for contacts, and for the identity of a vault.

  \<^bold>\<open>What is shown.\<close>  The invariant of the client manager holds after every sequence of start-ups, messages,
  updates, stops, restarts and thread steps, and the only invalid pointers a message can make it follow are
  the two that are named.  The handlers refine an abstract registry; their responses have the types that
  belong to the requests.  Starting and stopping
  vaults has exactly the stated effects on the table, the registry and the file, and needs the vault's
  signature.  A child is launched at most six times, under every interleaving; the process table and the
  transport keep their invariants; \<open>WaitForProcesses\<close> ends exactly if all processes are done.  The process manager refines a table of slots
  (wanted, up, tries) under every interleaving, and a process that was dismissed is not tried again.  The
  queues in shared memory are first in, first out.  Requests that a client sends over TCP are answered in
  order, and nothing that the handlers do depends on the transport.  In a test build the identity index of
  a client reaches the command line of its vault, and the contacts come from the test environment.  Messages survive framing, the \<open>--vmid\<close> argument and the configuration file survive their round
  trips.  A client and the client manager agree on the update interval, contacts reach clients, vaults get
  their own identities.  Where the code does not do what it means to do, a theorem states what it does: the
  shutdown request that always stops, the deadlock of the destructor, the registration that does not end,
  the file that cannot be read back, the message with a stale end, the vaults that are started twice, the
  address that stays behind after a crash, the service that stops after a minute.

  \<^bold>\<open>Modelling decisions.\<close>  The release build for Linux (\<open>TESTING\<close> undefined, \<open>NDEBUG\<close> defined), except in
  \<open>Executable\<close> and \<open>Test_Build\<close>, where definitions of other builds are named so.  A statement that
  dereferences an invalid pointer or throws out of its operation is the value \<open>Inl\<close>; the state is then not
  used any more.  An operation of the client manager is one step; what other threads do to the process
  manager while it waits for a child is the function \<open>sched\<close>.  A request of a controller and the wait for
  its answer are one step, whose outcome (\<open>peer_reply\<close>) the environment decides; requests that reach a
  client meanwhile are an explicit list.  Loops that may not end are partial functions with values in
  \<open>option\<close>, and their termination is a theorem where it holds; no definition that models a loop of the code has fuel
  (the number of completed reads in \<open>read_steps\<close> and \<open>manager_reads\<close> is an argument, and theorems state that
  some number is enough).  Port numbers are 16-bit
  words and wrap, process indices are 32-bit words, message sizes are converted to 32 bits as the code does.
  The time of a timeout, the order of callbacks within the \<open>asio\<close> service, and logging are abstracted.

  \<^bold>\<open>Not modelled.\<close>  The classes that the protocol buffer compiler generates, \<open>DownloadManager\<close>, the passport
  and common libraries, boost and the Windows service dispatcher (parameters of the model); the executable
  path of a test build on Windows; the public key in \<open>config.h\<close>, which no code here uses; the bodies that are
  commented out; the tests, which exercise the same functions.
\<close>

section \<open>Properties that span components\<close>

lemma vmid_not_test: "GenerateVmidParameter i manager \<noteq> ''test''"
proof -
  have "isdigit (hd (GenerateVmidParameter i manager))"
    using isdigit_to_string [of "hd (to_string (unat i))" "unat i"]
    by (simp add: GenerateVmidParameter_def hd_append)
  moreover have "\<not> isdigit (hd ''test'')" by (simp add: isdigit_def)
  ultimately show ?thesis by metis
qed

lemma contact_kept: "e \<in> set (drop (length (es @ [e]) - 1000) (es @ [e]))"
  by (simp add: set_drop_subset)

text \<open>
  C12: when a client sets the update interval and the client manager is reached, both agree on it: the call
  succeeds, and every client that asks afterwards reads that interval.
\<close>

theorem interval_end_to_end:
  assumes "interval_ok env s" and "300 \<le> i" and "i \<le> 604800"
    and "served env sched (cc_client_manager_port c) (interval_request env (Some (word_of_int i)))
      (cc_outside c) s w s'"
    and "served env sched (cc_client_manager_port d) (interval_request env None) (cc_outside d) s' w' s''"
  shows "ClientController_SetUpdateInterval env i c = (True, c\<lparr>cc_outside := w\<rparr>) \<and>
    ClientController_GetUpdateInterval env d = (seconds i, d\<lparr>cc_outside := w'\<rparr>) \<and> update_interval s'' = i"
proof -
  note i = uint_interval [OF assms(2,3)]
  from interval.exchange [OF assms(1) TrueI assms(4)] obtain m where
    s': "s' = s\<lparr>update_interval := i\<rparr>" and
    set: "request_manager env (cc_client_manager_port c) (interval_request env (Some (word_of_int i)))
      (cc_outside c) = (Some (Reply m), w)" "HandleUpdateIntervalResponse env m = seconds i"
    using assms(2,3) i by (auto simp: interval_meaning_def)
  have "interval_ok env s'" by (rule interval.ok_served [OF assms(1) TrueI assms(4)])
  from interval.exchange [OF this TrueI assms(5)] obtain m' where
    "s'' = s'" and
    get: "request_manager env (cc_client_manager_port d) (interval_request env None)
      (cc_outside d) = (Some (Reply m'), w')" "HandleUpdateIntervalResponse env m' = seconds i"
    using s' by (auto simp: interval_meaning_def)
  with s' set assms(2,3) show ?thesis
    by (simp add: ClientController_SetUpdateInterval_def ClientController_GetUpdateInterval_def
        SetOrGetUpdateInterval_def interval_request_def kMinUpdateInterval_def kMaxUpdateInterval_def)
qed

lemma served_demo:
  "fits message \<Longrightarrow> respond (answering f) sched message s = Some (Inr (Some (f message), s')) \<Longrightarrow>
     served (answering f) sched manager message w s w s'"
  by (simp add: served_def)

theorem interval_end_to_end_witness:
  "\<exists>f. ClientController_SetUpdateInterval (answering f) 600 demo_client = (True, demo_client) \<and>
     ClientController_GetUpdateInterval (answering f) demo_client = (seconds 600, demo_client)"
proof -
  let ?env = "answering (\<lambda>_. WrapMessage wire_protobuf kUpdateIntervalResponse
    (SerializeAsString (pb_UpdateIntervalResponse wire_protobuf) \<lparr>uis_update_interval = 600\<rparr>))"
  have fits: "fits (interval_request ?env (Some (word_of_int 600)))" "fits (interval_request ?env None)"
    by (simp_all add: fits_def kMaxTransportMessageSize_def interval_request_def wire_length
        wire_UpdateIntervalRequest_def)
  have ok: "interval_ok ?env demo_cm"
    by (simp add: interval_ok_def demo_cm_def new_ClientManager_def kMinUpdateInterval_def)
  have "served ?env id 5483 (interval_request ?env (Some (word_of_int 600))) demo_world demo_cm demo_world
      (demo_cm\<lparr>update_interval := 600\<rparr>)"
    using fits(1) by (intro served_demo) (simp_all add: respond_def interval_request_def
        HandleUpdateIntervalRequest_def SetUpdateInterval_def GetUpdateInterval_def
        kMinUpdateInterval_def kMaxUpdateInterval_def)
  moreover have "served ?env id 5483 (interval_request ?env None) demo_world
      (demo_cm\<lparr>update_interval := 600\<rparr>) demo_world (demo_cm\<lparr>update_interval := 600\<rparr>)"
    using fits(2) by (intro served_demo) (simp_all add: respond_def interval_request_def
        HandleUpdateIntervalRequest_def GetUpdateInterval_def)
  ultimately show ?thesis
    using interval_end_to_end [OF ok, of 600 id demo_client demo_world _ demo_client demo_world]
    by (intro exI [of _ "\<lambda>_. WrapMessage wire_protobuf kUpdateIntervalResponse
        (SerializeAsString (pb_UpdateIntervalResponse wire_protobuf) \<lparr>uis_update_interval = 600\<rparr>)"])
      (simp add: demo_client_def)
qed

text \<open>
  C13: a contact that a vault reports to the client manager is among the contacts that a client is given
  afterwards, and the vault is told whether the contact was saved.
\<close>

theorem contact_reaches_client:
  assumes "protobuf_ok (pb env)"
    and "served env sched (vc_client_manager_port v) (contact_request env e) (vc_outside v) s w s'"
    and "contacts_ok env s'" and "RandomUint32 env (cc_outside c) = (i, w0)"
    and "served env sched (cc_client_manager_port c) (bootstrap_request env i) w0 s' w' s''"
  shows "fst (SendEndpointToClientManager env e v) = fst (AddBootstrapEndPoint env (fst e) (snd e) s) \<and>
    ClientController_GetBootstrapNodes env [] c =
      (True, endpoints s', c\<lparr>cc_outside := w', bootstrap_nodes := endpoints s'\<rparr>) \<and>
    e \<in> set (endpoints s')"
proof -
  from contact.exchange [OF assms(1) TrueI assms(2)] obtain m where
    s': "s' = snd (AddBootstrapEndPoint env (fst e) (snd e) s)" and
    send: "request_manager env (vc_client_manager_port v) (contact_request env e) (vc_outside v) =
      (Some (Reply m), w)" "HandleSendEndpointToClientManagerResponse env m =
      fst (AddBootstrapEndPoint env (fst e) (snd e) s)" by auto
  from bootstrap.exchange [OF assms(3) TrueI assms(5)] obtain m' where
    ask: "request_manager env (cc_client_manager_port c) (bootstrap_request env i) w0 = (Some (Reply m'), w')"
      "\<And>eps d. ClientController_HandleBootstrapResponse env m' eps d =
        (True, eps @ endpoints s', d\<lparr>bootstrap_nodes := eps @ endpoints s'\<rparr>)" by auto
  have "e \<in> set (endpoints s')"
    using contact_kept [of e "endpoints s"]
    by (cases e) (auto simp: s' AddBootstrapEndPoint_contacts)
  with send ask assms(4) show ?thesis
    by (simp add: SendEndpointToClientManager_def ClientController_GetBootstrapNodes_def
        contact_request_def bootstrap_request_def)
qed

theorem contact_reaches_client_witness:
  "\<exists>f eps c. ClientController_GetBootstrapNodes (answering f) [] demo_client = (True, eps, c) \<and>
     (''10.0.0.2'', 1) \<in> set eps"
proof -
  let ?e = "(''10.0.0.2'', 1) :: EndPoint"
  define s where "s = demo_cm\<lparr>endpoints := [(''10.0.0.1'', 5483)]\<rparr>"
  define s' where "s' = s\<lparr>endpoints := [(''10.0.0.1'', 5483), (''10.0.0.2'', 1)]\<rparr>"
  let ?m = "WrapMessage wire_protobuf kSendEndpointToClientManagerResponse
    (SerializeAsString (pb_SendEndpointResponse wire_protobuf) \<lparr>ses_result = False\<rparr>)"
  let ?m' = "WrapMessage wire_protobuf kBootstrapResponse
    (SerializeAsString (pb_BootstrapResponse wire_protobuf)
      \<lparr>bts_bootstrap_endpoint_ip = [''10.0.0.1'', ''10.0.0.2''], bts_bootstrap_endpoint_port = [5483, 1]\<rparr>)"
  let ?f = "\<lambda>q. if q = contact_request demo_env ?e then ?m else ?m'"
  let ?env = "answering ?f"
  obtain w0 where w0: "RandomUint32 ?env (cc_outside demo_client) = (0, w0)"
    by (simp add: answering_def demo_client_def demo_world_def)
  have fits: "fits (contact_request ?env ?e)" "fits (bootstrap_request ?env 0)"
    by (simp_all add: fits_def kMaxTransportMessageSize_def contact_request_def bootstrap_request_def
        wire_length wire_SendEndpointRequest_def wire_BootstrapRequest_def)
  have same: "contact_request ?env ?e = contact_request demo_env ?e" by (simp add: contact_request_def)
  have "UnwrapMessage wire_protobuf (bootstrap_request ?env 0) \<noteq>
      UnwrapMessage wire_protobuf (contact_request demo_env ?e)"
    by (simp add: bootstrap_request_def contact_request_def)
  then have other: "bootstrap_request ?env 0 \<noteq> contact_request demo_env ?e" by metis
  have "AddBootstrapEndPoint ?env (fst ?e) (snd ?e) s = (False, s')"
    by (simp add: AddBootstrapEndPoint_def ReadFileToClientManagerConfig_def s_def s'_def demo_cm_def
        new_ClientManager_def answering_def demo_world_def)
  then have first: "served ?env id 5483 (contact_request ?env ?e) demo_world s demo_world s'"
    using fits(1) same by (intro served_demo) (simp_all add: respond_def
        HandleSendEndpointToClientManagerRequest_def contact_request_def)
  have second: "served ?env id 5483 (bootstrap_request ?env 0) w0 s' w0 s'"
    using fits(2) other by (intro served_demo) (simp_all add: respond_def HandleBootstrapRequest_def
        bootstrap_request_def s'_def)
  have ok: "contacts_ok ?env s'" by (simp add: contacts_ok_def s'_def)
  obtain v :: "(world, string) VaultController" where v: "vc_client_manager_port v = 5483" "vc_outside v = demo_world"
    by (metis VaultController.select_convs(2,8))
  have pbok: "protobuf_ok (pb ?env)" and prt: "cc_client_manager_port demo_client = 5483"
    by (simp_all add: demo_client_def)
  from contact_reaches_client [OF pbok first [folded v] ok w0 second [folded prt]] show ?thesis by blast
qed

text \<open>
  C8: a vault process that is started with the parameter of its entry and reaches the client manager gets
  the identity of exactly that entry and all contacts of the client manager; the client manager has then
  recorded the port on which the vault listens.
\<close>

theorem vault_gets_identity:
  assumes "manager_ok env s" and "i \<noteq> 0" and "manager \<noteq> 0" and "FindFromProcessIndex i s = Some k"
    and "pmid (vault_infos s ! k) = Some key"
    and "StartControllerListeningPort env new_LocalTcpTransport w = Inr (p, T, w0)"
    and "served env sched manager (vault_request env (i, p)) w0 s w' s'"
  shows "\<exists>v. new_VaultController env (GenerateVmidParameter i manager) True w = Inr v \<and>
    GetIdentity v = Inr (Some (key, endpoints s)) \<and>
    acceptor (vc_receiving_transport v) = Some p \<and> vault_port (vault_infos s' ! k) = p"
proof -
  have "FindFromProcessIndex i s \<noteq> None" using assms(4) by simp
  with identity.exchange [OF assms(1) _ assms(7)] obtain m where
    s': "s' = snd (vault_meaning env (i, p) s)" and
    ask: "request_manager env manager (vault_request env (i, p)) w0 = (Some (Reply m), w')"
      "HandleVaultIdentityResponse env m = fst (vault_meaning env (i, p) s)" by auto
  have "vault_port (vault_infos s' ! k) = p"
    using FindFromProcessIndex_Some [OF assms(4)] assms(4)
    by (simp add: s' vault_meaning_def Let_def modify_vault_def nth_modify_at)
  moreover have "acceptor T = Some p" using assms(6) by (rule StartControllerListeningPort_listens)
  ultimately show ?thesis
    using assms(2-6) ask vmid_roundtrip [OF assms(2), of manager]
    by (simp add: new_VaultController_def vmid_not_test RequestVaultIdentity_def identity_request_def
        vault_request_def vault_meaning_def GetIdentity_def Let_def)
qed

theorem vault_gets_identity_witness:
  "\<exists>f v. new_VaultController (answering f) (GenerateVmidParameter 1 5483) True demo_world = Inr v \<and>
     GetIdentity v = Inr (Some (''key'', [(''10.0.0.1'', 5483)]))"
proof -
  let ?env = "answering (\<lambda>_. WrapMessage wire_protobuf kVaultIdentityResponse
    (SerializeAsString (pb_VaultIdentityResponse wire_protobuf) \<lparr>vis_pmid = ''pkey'',
      vis_chunkstore_path = ''/data/c'', vis_bootstrap_endpoint_ip = [''10.0.0.1''],
      vis_bootstrap_endpoint_port = [5483]\<rparr>))"
  define s where "s = demo_running\<lparr>endpoints := [(''10.0.0.1'', 5483)]\<rparr>"
  have inv: "cm_inv s" unfolding s_def by (rule cm_inv_cong [THEN iffD1, OF _ _ _ demo_running_inv]) simp_all
  have ok: "manager_ok ?env s" using inv by (simp add: manager_ok_def contacts_ok_def s_def)
  have find: "FindFromProcessIndex 1 s = Some 0" "pmid (vault_infos s ! 0) = Some ''key''"
    "chunkstore_path (vault_infos s ! 0) = ''/data/c''"
    by (simp_all add: FindFromProcessIndex_def s_def demo_running_facts demo_vault_def)
  have "fits (vault_request ?env (1, 40000))"
    by (simp add: fits_def kMaxTransportMessageSize_def vault_request_def wire_length
        wire_VaultIdentityRequest_def)
  then obtain s' where "served ?env id 5483 (vault_request ?env (1, 40000)) demo_world s demo_world s'"
    using find served_demo by (simp add: respond_def vault_request_def HandleVaultIdentityRequest_def s_def
        served_def)
  from vault_gets_identity [OF ok _ _ find(1,2) answering_listens this] obtain v where
    "new_VaultController ?env (GenerateVmidParameter 1 5483) True demo_world = Inr v"
    "GetIdentity v = Inr (Some (''key'', endpoints s))" by auto
  moreover have "endpoints s = [(''10.0.0.1'', 5483)]" by (simp add: s_def)
  ultimately show ?thesis by (intro exI conjI) simp_all
qed

end
